(* ===== verification/Commons_Prelude.thy ===== *)
theory Commons_Prelude
  imports
    Main
    "HOL-Library.Char_ord"
    "HOL-Library.List_Lexorder"
    "HOL-Library.AList"
begin

text \<open>
  The prelude of the development: the values the program works on and the part of Python
  that every component uses.

  The program exchanges JSON documents. A document is a value of type \<open>json\<close>; an object is an
  association list, because a Python \<open>dict\<close> keeps the order in which its keys were first
  inserted (\<open>AList.update\<close> replaces a value in place and appends a new key, as assignment to
  a dictionary entry does). A text is a list of characters; a character stands for one code
  point, and the model covers the code points below 256. A floating-point number is held by
  the text Python's \<open>repr\<close> gives it, which determines it.

  A call that may raise returns a value of \<open>'a res\<close>, \<open>Inl\<close> carrying the exception. The
  collections \<open>res_simps\<close> and \<open>dict_simps\<close> gather the facts the component proofs rewrite with.
\<close>

named_theorems res_simps "sequencing of computations that may raise"
named_theorems dict_simps "lookups in and updates of dictionaries"

section \<open>Documents\<close>

datatype json =
    JNull
  | JBool bool
  | JInt int
  | JFloat string
  | JStr string
  | JArr "json list"
  | JObj "(string \<times> json) list"

type_synonym dict = "(string \<times> json) list"

section \<open>Exceptions\<close>

datatype exn =
    TypeError
  | ValueError string
  | KeyError string
  | AttributeError
  | OverflowError
  | OSError
  | IndexError
  | StoreError string
  | WorkProtocolError string string
  | FamilyRecordError string
  | MeshError string string
  | ExchangeError string string
  | FamilyGraphError string
  | FamilyChangeError string
  | VerificationPlanError string string string
  | ObligationPlanError string string string
  | PressureError string
  | BundleError string
  | CommonsServiceError string string

type_synonym 'a res = "exn + 'a"

definition rbind :: "'a res \<Rightarrow> ('a \<Rightarrow> 'b res) \<Rightarrow> 'b res" where
  "rbind m f = (case m of Inl e \<Rightarrow> Inl e | Inr x \<Rightarrow> f x)"

definition guard :: "bool \<Rightarrow> exn \<Rightarrow> unit res" where
  "guard b e = (if b then Inr () else Inl e)"

fun rmapM :: "('a \<Rightarrow> 'b res) \<Rightarrow> 'a list \<Rightarrow> 'b list res" where
  "rmapM f [] = Inr []"
| "rmapM f (x # xs) = rbind (f x) (\<lambda>y. rbind (rmapM f xs) (\<lambda>ys. Inr (y # ys)))"

text \<open>A left fold whose step may raise: a Python loop that updates an accumulator.\<close>

fun rfoldM :: "('s \<Rightarrow> 'a \<Rightarrow> 's res) \<Rightarrow> 's \<Rightarrow> 'a list \<Rightarrow> 's res" where
  "rfoldM f s [] = Inr s"
| "rfoldM f s (x # xs) = rbind (f s x) (\<lambda>s'. rfoldM f s' xs)"

text \<open>Statements that each append to one list, run in order: the first exception wins.\<close>

fun rconcat :: "'a list res list \<Rightarrow> 'a list res" where
  "rconcat [] = Inr []"
| "rconcat (m # ms) = rbind m (\<lambda>xs. rbind (rconcat ms) (\<lambda>ys. Inr (xs @ ys)))"

lemma rbind_Inl [simp, res_simps]: "rbind (Inl e) f = Inl e"
  by (simp add: rbind_def)

lemma rbind_Inr [simp, res_simps]: "rbind (Inr x) f = f x"
  by (simp add: rbind_def)

lemma rbind_eq_Inr: "rbind m f = Inr y \<longleftrightarrow> (\<exists>x. m = Inr x \<and> f x = Inr y)"
  by (cases m) auto

lemma rbind_eq_Inl: "rbind m f = Inl e \<longleftrightarrow> m = Inl e \<or> (\<exists>x. m = Inr x \<and> f x = Inl e)"
  by (cases m) auto

lemma rbind_assoc [res_simps]: "rbind (rbind m f) g = rbind m (\<lambda>x. rbind (f x) g)"
  by (cases m) auto

lemma guard_eq_Inr [simp, res_simps]: "guard b e = Inr u \<longleftrightarrow> b"
  by (cases u) (simp add: guard_def)

lemma guard_eq_Inl [simp, res_simps]: "guard b e = Inl e' \<longleftrightarrow> \<not> b \<and> e' = e"
  by (auto simp: guard_def)

lemma rmapM_total: "(\<And>x. x \<in> set xs \<Longrightarrow> f x = Inr (g x)) \<Longrightarrow> rmapM f xs = Inr (map g xs)"
  by (induction xs) auto

lemma rmapM_length: "rmapM f xs = Inr ys \<Longrightarrow> length ys = length xs"
  by (induction xs arbitrary: ys) (auto simp: rbind_eq_Inr)

lemma rmapM_snoc: "rmapM f (xs @ [y]) = rbind (rmapM f xs) (\<lambda>us. rbind (f y) (\<lambda>v. Inr (us @ [v])))"
proof (induction xs)
  case (Cons x xs)
  show ?case by (cases "f x"; cases "rmapM f xs"; cases "f y") (simp_all add: Cons)
qed simp

lemma rmapM_Inr_set: "rmapM f xs = Inr ys \<Longrightarrow> y \<in> set ys \<Longrightarrow> \<exists>x \<in> set xs. f x = Inr y"
  by (induction xs arbitrary: ys) (auto simp: rbind_eq_Inr)

lemma rfoldM_append:
  "rfoldM f s (xs @ ys) = rbind (rfoldM f s xs) (\<lambda>s'. rfoldM f s' ys)"
  by (induction xs arbitrary: s) (auto simp: rbind_assoc)

lemma rfoldM_total:
  "(\<And>s x. x \<in> set xs \<Longrightarrow> f s x = Inr (g s x)) \<Longrightarrow> rfoldM f s xs = Inr (foldl g s xs)"
  by (induction xs arbitrary: s) auto

lemma rfoldM_invariant:
  assumes "rfoldM f s xs = Inr t" and "I s"
    and "\<And>s x s'. x \<in> set xs \<Longrightarrow> I s \<Longrightarrow> f s x = Inr s' \<Longrightarrow> I s'"
  shows "I t"
  using assms
proof (induction xs arbitrary: s)
  case Nil
  then show ?case by simp
next
  case (Cons x xs)
  from Cons.prems(1) obtain s' where s': "f s x = Inr s'" "rfoldM f s' xs = Inr t"
    by (auto simp: rbind_eq_Inr)
  have "I s'" using Cons.prems(2) Cons.prems(3) [of x s s'] s'(1) by simp
  then show ?case
    by (rule Cons.IH [OF s'(2)]) (metis Cons.prems(3) list.set_intros(2))
qed

lemma rconcat_eq_Nil: "rconcat ms = Inr [] \<longleftrightarrow> (\<forall>m \<in> set ms. m = Inr [])"
  by (induction ms) (auto simp: rbind_eq_Inr)

lemma rconcat_map_Inr: "rconcat (map (\<lambda>x. Inr (f x)) xs) = Inr (concat (map f xs))"
  by (induction xs) auto

section \<open>Dictionaries\<close>

text \<open>\<open>d.get(k)\<close>, \<open>d.get(k, default)\<close> and \<open>k in d\<close>.\<close>

definition dget :: "dict \<Rightarrow> string \<Rightarrow> json" where
  "dget d k = (case map_of d k of None \<Rightarrow> JNull | Some v \<Rightarrow> v)"

definition dget_default :: "dict \<Rightarrow> string \<Rightarrow> json \<Rightarrow> json" where
  "dget_default d k v0 = (case map_of d k of None \<Rightarrow> v0 | Some v \<Rightarrow> v)"

definition has_key :: "dict \<Rightarrow> string \<Rightarrow> bool" where
  "has_key d k = (map_of d k \<noteq> None)"

abbreviation dset :: "string \<Rightarrow> json \<Rightarrow> dict \<Rightarrow> dict" where
  "dset k v d \<equiv> AList.update k v d"

text \<open>Two association lists for one dictionary: Python compares dictionaries by their entries.\<close>

definition dict_wf :: "('k \<times> 'v) list \<Rightarrow> bool" where
  "dict_wf d = distinct (map fst d)"

fun is_obj :: "json \<Rightarrow> bool" where
  "is_obj (JObj d) = True"
| "is_obj _ = False"

fun is_str :: "json \<Rightarrow> bool" where
  "is_str (JStr s) = True"
| "is_str _ = False"

fun is_arr :: "json \<Rightarrow> bool" where
  "is_arr (JArr xs) = True"
| "is_arr _ = False"

fun is_bool :: "json \<Rightarrow> bool" where
  "is_bool (JBool b) = True"
| "is_bool _ = False"

text \<open>\<open>isinstance(v, int)\<close> holds of the two truth values as well.\<close>

fun is_int :: "json \<Rightarrow> bool" where
  "is_int (JInt n) = True"
| "is_int (JBool b) = True"
| "is_int _ = False"

fun obj_of :: "json \<Rightarrow> dict" where
  "obj_of (JObj d) = d"
| "obj_of _ = []"

fun arr_of :: "json \<Rightarrow> json list" where
  "arr_of (JArr xs) = xs"
| "arr_of _ = []"

fun str_of :: "json \<Rightarrow> string" where
  "str_of (JStr s) = s"
| "str_of _ = []"

fun int_of :: "json \<Rightarrow> int" where
  "int_of (JInt n) = n"
| "int_of (JBool b) = (if b then 1 else 0)"
| "int_of _ = 0"

text \<open>\<open>v.get(k, default)\<close> where \<open>v\<close> may be any value: only an object has the method.\<close>

fun attr_get :: "json \<Rightarrow> string \<Rightarrow> json \<Rightarrow> json res" where
  "attr_get (JObj d) k v0 = Inr (dget_default d k v0)"
| "attr_get _ k v0 = Inl AttributeError"

text \<open>Iteration over a value: a list, the characters of a text, the keys of an object.\<close>

fun py_iter :: "json \<Rightarrow> json list res" where
  "py_iter (JArr xs) = Inr xs"
| "py_iter (JStr s) = Inr (map (\<lambda>c. JStr [c]) s)"
| "py_iter (JObj d) = Inr (map (\<lambda>kv. JStr (fst kv)) d)"
| "py_iter _ = Inl TypeError"

lemma dget_dset [simp, dict_simps]: "dget (dset k v d) k' = (if k' = k then v else dget d k')"
  by (simp add: dget_def update_conv)

lemma dget_default_dset [simp, dict_simps]:
  "dget_default (dset k v d) k' v0 = (if k' = k then v else dget_default d k' v0)"
  by (simp add: dget_default_def update_conv)

lemma has_key_dset [simp, dict_simps]: "has_key (dset k v d) k' \<longleftrightarrow> k' = k \<or> has_key d k'"
  by (auto simp: has_key_def update_conv)

lemma dget_delete [simp, dict_simps]:
  "dget (AList.delete k d) k' = (if k' = k then JNull else dget d k')"
  by (simp add: dget_def delete_conv)

lemma dget_Nil [simp, dict_simps]: "dget [] k = JNull"
  by (simp add: dget_def)

lemma dget_Cons [simp, dict_simps]: "dget ((k', v) # d) k = (if k = k' then v else dget d k)"
  by (simp add: dget_def)

lemma dget_default_Nil [simp, dict_simps]: "dget_default [] k v0 = v0"
  by (simp add: dget_default_def)

lemma dget_default_Cons [simp, dict_simps]:
  "dget_default ((k', v) # d) k v0 = (if k = k' then v else dget_default d k v0)"
  by (simp add: dget_default_def)

lemma has_key_Nil [simp, dict_simps]: "\<not> has_key [] k"
  by (simp add: has_key_def)

lemma has_key_Cons [simp, dict_simps]: "has_key ((k', v) # d) k \<longleftrightarrow> k = k' \<or> has_key d k"
  by (simp add: has_key_def)

lemma dget_append: "dget (xs @ ys) k = (if has_key xs k then dget xs k else dget ys k)"
  by (simp add: dget_def has_key_def map_add_def split: option.splits)

lemma has_key_append: "has_key (xs @ ys) k \<longleftrightarrow> has_key xs k \<or> has_key ys k"
  by (auto simp: has_key_def map_add_def split: option.splits)

lemma has_key_iff: "has_key d k \<longleftrightarrow> k \<in> fst ` set d"
  by (auto simp: has_key_def map_of_eq_None_iff)

lemma dict_wf_dset [simp]: "dict_wf d \<Longrightarrow> dict_wf (dset k v d)"
  by (simp add: dict_wf_def distinct_update)

lemma dict_wf_delete [simp]: "dict_wf d \<Longrightarrow> dict_wf (AList.delete k d)"
  by (simp add: dict_wf_def distinct_delete)

section \<open>Texts\<close>

text \<open>The white space of \<open>str.strip\<close> below code point 256.\<close>

definition is_space :: "char \<Rightarrow> bool" where
  "is_space c =
     (let n = (of_char c :: nat)
      in (9 \<le> n \<and> n \<le> 13) \<or> (28 \<le> n \<and> n \<le> 32) \<or> n = 133 \<or> n = 160)"

definition py_strip :: "string \<Rightarrow> string" where
  "py_strip s = rev (dropWhile is_space (rev (dropWhile is_space s)))"

definition strip_char :: "char \<Rightarrow> string \<Rightarrow> string" where
  "strip_char c s = rev (dropWhile (\<lambda>x. x = c) (rev (dropWhile (\<lambda>x. x = c) s)))"

definition starts_with :: "string \<Rightarrow> string \<Rightarrow> bool" where
  "starts_with s p = (take (length p) s = p)"

definition remove_prefix :: "string \<Rightarrow> string \<Rightarrow> string" where
  "remove_prefix s p = (if starts_with s p then drop (length p) s else s)"

text \<open>\<open>sep.join(parts)\<close>.\<close>

fun join :: "string \<Rightarrow> string list \<Rightarrow> string" where
  "join sep [] = []"
| "join sep [x] = x"
| "join sep (x # y # xs) = x @ sep @ join sep (y # xs)"

text \<open>\<open>sorted(set(xs))\<close>.\<close>

definition sorted_set :: "'a::linorder list \<Rightarrow> 'a list" where
  "sorted_set xs = sort (remdups xs)"

lemma insort_key_snoc: "f x \<le> f y \<Longrightarrow> insort_key f x (zs @ [y]) = insort_key f x zs @ [y]"
  by (induction zs) auto

lemma sort_key_snoc: "(\<And>x. x \<in> set xs \<Longrightarrow> f x \<le> f y) \<Longrightarrow> sort_key f (xs @ [y]) = sort_key f xs @ [y]"
  by (induction xs) (simp_all add: insort_key_snoc)

lemma set_sorted_set [simp]: "set (sorted_set xs) = set xs"
  by (simp add: sorted_set_def)

lemma distinct_sorted_set [simp]: "distinct (sorted_set xs)"
  by (simp add: sorted_set_def)

lemma sorted_sorted_set [simp]: "sorted (sorted_set xs)"
  by (simp add: sorted_set_def)

lemma sorted_set_cong: "set xs = set ys \<Longrightarrow> sorted_set xs = sorted_set ys"
  by (rule sorted_distinct_set_unique) simp_all

lemma starts_with_append [simp]: "starts_with (p @ s) p"
  by (simp add: starts_with_def)

lemma remove_prefix_append [simp]: "remove_prefix (p @ s) p = s"
  by (simp add: remove_prefix_def)

section \<open>Numbers as texts\<close>

definition digit_char :: "nat \<Rightarrow> char" where
  "digit_char d = char_of (48 + d)"

fun nat_str :: "nat \<Rightarrow> string" where
  "nat_str n = (if n < 10 then [digit_char n] else nat_str (n div 10) @ [digit_char (n mod 10)])"

declare nat_str.simps [simp del]

definition is_digit :: "char \<Rightarrow> bool" where
  "is_digit c = (let n = (of_char c :: nat) in 48 \<le> n \<and> n \<le> 57)"

definition digit_val :: "char \<Rightarrow> nat" where
  "digit_val c = of_char c - 48"

lemma is_digit_of_char: "is_digit c \<longleftrightarrow> 48 \<le> (of_char c :: nat) \<and> of_char c \<le> (57::nat)"
  by (simp add: is_digit_def Let_def)

lemma is_digit_digit_char [simp]: "d < 10 \<Longrightarrow> is_digit (digit_char d)"
  by (simp add: is_digit_of_char digit_char_def)

lemma digit_val_digit_char [simp]: "d < 10 \<Longrightarrow> digit_val (digit_char d) = d"
  by (simp add: digit_val_def digit_char_def)

lemma nat_str_digits: "list_all is_digit (nat_str n)"
proof (induction n rule: nat_str.induct)
  case (1 n)
  then show ?case by (cases "n < 10") (simp_all add: nat_str.simps [of n])
qed

lemma nat_str_nonempty [simp]: "nat_str n \<noteq> []"
  by (subst nat_str.simps) simp

definition int_str :: "int \<Rightarrow> string" where
  "int_str i = (if i < 0 then CHR ''-'' # nat_str (nat (- i)) else nat_str (nat i))"

section \<open>Truth, equality and printing of values\<close>

fun truthy :: "json \<Rightarrow> bool" where
  "truthy JNull = False"
| "truthy (JBool b) = b"
| "truthy (JInt n) = (n \<noteq> 0)"
| "truthy (JFloat t) = (t \<noteq> ''0.0'' \<and> t \<noteq> ''-0.0'')"
| "truthy (JStr s) = (s \<noteq> [])"
| "truthy (JArr xs) = (xs \<noteq> [])"
| "truthy (JObj d) = (d \<noteq> [])"

text \<open>
  \<open>==\<close> on documents: truth values equal the integers 0 and 1, an integral float equals the
  integer whose digits it shows (exact below ten to the sixteenth), objects are compared as
  maps. Membership of a key is by the text of the key.
\<close>

definition num_float_eq :: "int \<Rightarrow> string \<Rightarrow> bool" where
  "num_float_eq n t = (t = int_str n @ ''.0'' \<or> (n = 0 \<and> t = ''-0.0''))"

fun scalar_eq :: "json \<Rightarrow> json \<Rightarrow> bool" where
  "scalar_eq JNull JNull = True"
| "scalar_eq (JBool a) (JBool b) = (a = b)"
| "scalar_eq (JBool a) (JInt n) = (n = (if a then 1 else 0))"
| "scalar_eq (JInt n) (JBool a) = (n = (if a then 1 else 0))"
| "scalar_eq (JBool a) (JFloat t) = num_float_eq (if a then 1 else 0) t"
| "scalar_eq (JFloat t) (JBool a) = num_float_eq (if a then 1 else 0) t"
| "scalar_eq (JInt m) (JInt n) = (m = n)"
| "scalar_eq (JInt n) (JFloat t) = num_float_eq n t"
| "scalar_eq (JFloat t) (JInt n) = num_float_eq n t"
| "scalar_eq (JFloat s) (JFloat t) = (s = t \<or> (num_float_eq 0 s \<and> num_float_eq 0 t))"
| "scalar_eq (JStr s) (JStr t) = (s = t)"
| "scalar_eq _ _ = False"

fun py_eq :: "json \<Rightarrow> json \<Rightarrow> bool" where
  "py_eq (JArr xs) w =
     (case w of JArr ys \<Rightarrow> list_all2 py_eq xs ys | _ \<Rightarrow> False)"
| "py_eq (JObj d) w =
     (case w of
        JObj e \<Rightarrow>
          length d = length e \<and>
          list_all (\<lambda>kv. case map_of e (fst kv) of None \<Rightarrow> False | Some v \<Rightarrow> py_eq (snd kv) v) d
      | _ \<Rightarrow> False)"
| "py_eq v w = scalar_eq v w"

text \<open>\<open>v == "literal"\<close> and membership in a set of texts; a list or an object is not hashable.\<close>

definition eq_str :: "json \<Rightarrow> string \<Rightarrow> bool" where
  "eq_str v s = (v = JStr s)"

fun hashable :: "json \<Rightarrow> bool" where
  "hashable (JArr xs) = False"
| "hashable (JObj d) = False"
| "hashable _ = True"

definition in_set :: "json \<Rightarrow> string list \<Rightarrow> bool res" where
  "in_set v ss = (if hashable v then Inr (is_str v \<and> str_of v \<in> set ss) else Inl TypeError)"

lemma py_eq_str [simp]: "py_eq v (JStr s) \<longleftrightarrow> v = JStr s"
  by (cases v) auto

lemma py_eq_null [simp]: "py_eq v JNull \<longleftrightarrow> v = JNull"
  by (cases v) auto

lemma in_set_str [simp]: "in_set (JStr s) ss = Inr (s \<in> set ss)"
  by (simp add: in_set_def)

lemma in_set_True: "in_set v ss = Inr True \<longleftrightarrow> (\<exists>s \<in> set ss. v = JStr s)"
  by (cases v) (auto simp: in_set_def)

text \<open>\<open>repr\<close> and \<open>str\<close>.\<close>

definition hex_digit :: "nat \<Rightarrow> char" where
  "hex_digit d = (if d < 10 then char_of (48 + d) else char_of (87 + d))"

definition repr_char :: "char \<Rightarrow> char \<Rightarrow> string" where
  "repr_char q c =
     (let n = (of_char c :: nat)
      in if c = q \<or> c = CHR 0x5C then [CHR 0x5C, c]
         else if n = 9 then [CHR 0x5C, CHR ''t'']
         else if n = 10 then [CHR 0x5C, CHR ''n'']
         else if n = 13 then [CHR 0x5C, CHR ''r'']
         else if n < 32 \<or> (127 \<le> n \<and> n \<le> 160) \<or> n = 173
           then [CHR 0x5C, CHR ''x'', hex_digit (n div 16), hex_digit (n mod 16)]
         else [c])"

definition repr_str :: "string \<Rightarrow> string" where
  "repr_str s =
     (let q = (if CHR 0x27 \<in> set s \<and> CHR 0x22 \<notin> set s then CHR 0x22 else CHR 0x27)
      in [q] @ concat (map (repr_char q) s) @ [q])"

fun py_repr :: "json \<Rightarrow> string" where
  "py_repr JNull = ''None''"
| "py_repr (JBool b) = (if b then ''True'' else ''False'')"
| "py_repr (JInt n) = int_str n"
| "py_repr (JFloat t) = t"
| "py_repr (JStr s) = repr_str s"
| "py_repr (JArr xs) = ''['' @ join '', '' (map py_repr xs) @ '']''"
| "py_repr (JObj d) =
     ''{'' @ join '', '' (map (\<lambda>kv. repr_str (fst kv) @ '': '' @ py_repr (snd kv)) d) @ ''}''"

fun py_str :: "json \<Rightarrow> string" where
  "py_str (JStr s) = s"
| "py_str v = py_repr v"

section \<open>Diagnostics\<close>

text \<open>\<open>Diagnostic\<close> of models.py and \<open>ValidationReport.valid\<close> of diagnostics.py.\<close>

record diagnostic =
  code :: string
  dpath :: string
  message :: string
  severity :: string

definition Diagnostic :: "string \<Rightarrow> string \<Rightarrow> string \<Rightarrow> diagnostic" where
  "Diagnostic c p m = \<lparr>code = c, dpath = p, message = m, severity = ''error''\<rparr>"

definition report_valid :: "diagnostic list \<Rightarrow> bool" where
  "report_valid ds = (\<not> (\<exists>d \<in> set ds. severity d = ''error''))"

lemma severity_Diagnostic [simp]: "severity (Diagnostic c p m) = ''error''"
  by (simp add: Diagnostic_def)

lemma report_valid_Nil [simp]: "report_valid []"
  by (simp add: report_valid_def)

lemma report_valid_Cons [simp]:
  "report_valid (Diagnostic c p m # ds) \<longleftrightarrow> False"
  by (simp add: report_valid_def)

lemma report_valid_append [simp]:
  "report_valid (ds @ es) \<longleftrightarrow> report_valid ds \<and> report_valid es"
  by (auto simp: report_valid_def)

end
