(* ===== verification/Json_Text.thy ===== *)
theory Json_Text
  imports Commons_Prelude
begin

text \<open>
  The text of a document: \<open>json.dumps\<close> as canonical.py calls it (sorted keys, no spaces, no
  escaping of non-ASCII code points) and \<open>json.loads\<close>. A number with a fraction or an exponent
  is kept by its text; the texts \<open>NaN\<close> and \<open>Infinity\<close> are outside the model. The main result
  is the round trip: reading a printed document gives the document with its keys in order.
\<close>

section \<open>Printing\<close>

definition esc_char :: "char \<Rightarrow> string" where
  "esc_char c =
     (if c = CHR 0x22 then [CHR 0x5C, CHR 0x22]
      else if c = CHR 0x5C then [CHR 0x5C, CHR 0x5C]
      else if c = CHR 0x0A then [CHR 0x5C, CHR ''n'']
      else if c = CHR 0x0D then [CHR 0x5C, CHR ''r'']
      else if c = CHR 0x09 then [CHR 0x5C, CHR ''t'']
      else if c = CHR 0x0C then [CHR 0x5C, CHR ''f'']
      else if c = CHR 0x08 then [CHR 0x5C, CHR ''b'']
      else if (of_char c :: nat) < 32 then
        [CHR 0x5C, CHR ''u'', CHR ''0'', CHR ''0'',
         hex_digit (of_char c div 16), hex_digit (of_char c mod 16)]
      else [c])"

definition quote :: "string \<Rightarrow> string" where
  "quote s = CHR 0x22 # concat (map esc_char s) @ [CHR 0x22]"

fun dumps :: "json \<Rightarrow> string" where
  "dumps JNull = ''null''"
| "dumps (JBool b) = (if b then ''true'' else ''false'')"
| "dumps (JInt n) = int_str n"
| "dumps (JFloat t) = t"
| "dumps (JStr s) = quote s"
| "dumps (JArr xs) = ''['' @ join '','' (map dumps xs) @ '']''"
| "dumps (JObj d) =
     ''{'' @ join '',''
       (map snd (sort_key fst
          (map (\<lambda>kv. (fst kv, quote (fst kv) @ '':'' @ dumps (snd kv))) d))) @ ''}''"

section \<open>Reading\<close>

definition is_ws :: "char \<Rightarrow> bool" where
  "is_ws c = (c \<in> {CHR '' '', CHR 0x09, CHR 0x0A, CHR 0x0D})"

definition skip_ws :: "string \<Rightarrow> string" where
  "skip_ws s = dropWhile is_ws s"


definition digits_val :: "string \<Rightarrow> nat" where
  "digits_val ds = foldl (\<lambda>n c. 10 * n + digit_val c) 0 ds"

definition hex_val :: "char \<Rightarrow> nat option" where
  "hex_val c =
     (let n = (of_char c :: nat)
      in if 48 \<le> n \<and> n \<le> 57 then Some (n - 48)
         else if 97 \<le> n \<and> n \<le> 102 then Some (n - 87)
         else if 65 \<le> n \<and> n \<le> 70 then Some (n - 55)
         else None)"

definition unescape :: "char \<Rightarrow> char option" where
  "unescape e =
     (if e \<in> {CHR 0x22, CHR 0x5C, CHR ''/''} then Some e
      else if e = CHR ''b'' then Some (CHR 0x08)
      else if e = CHR ''f'' then Some (CHR 0x0C)
      else if e = CHR ''n'' then Some (CHR 0x0A)
      else if e = CHR ''r'' then Some (CHR 0x0D)
      else if e = CHR ''t'' then Some (CHR 0x09)
      else None)"

definition hex4 :: "string \<Rightarrow> (char \<times> string) option" where
  "hex4 s =
     (case s of
        a # b # c # d # r \<Rightarrow>
          (case (hex_val a, hex_val b, hex_val c, hex_val d) of
             (Some w, Some x, Some y, Some z) \<Rightarrow>
               (let n = ((w * 16 + x) * 16 + y) * 16 + z
                in if n < 256 then Some (char_of n, r) else None)
           | _ \<Rightarrow> None)
      | _ \<Rightarrow> None)"

lemma hex4_shorter: "hex4 s = Some (c, r) \<Longrightarrow> length r < length s"
  by (auto simp: hex4_def Let_def split: list.splits option.splits if_splits)

text \<open>The body of a text literal, after its opening quote.\<close>

function read_str :: "string \<Rightarrow> (string \<times> string) option" where
  "read_str [] = None"
| "read_str (c # cs) =
     (if c = CHR 0x22 then Some ([], cs)
      else if c = CHR 0x5C then
        (case cs of
           [] \<Rightarrow> None
         | e # es \<Rightarrow>
             (if e = CHR ''u'' then
                (case hex4 es of
                   None \<Rightarrow> None
                 | Some (u, r) \<Rightarrow> map_option (\<lambda>(t, r'). (u # t, r')) (read_str r))
              else
                (case unescape e of
                   None \<Rightarrow> None
                 | Some u \<Rightarrow> map_option (\<lambda>(t, r'). (u # t, r')) (read_str es))))
      else if (of_char c :: nat) < 32 then None
      else map_option (\<lambda>(t, r'). (c # t, r')) (read_str cs))"
  by pat_completeness auto
termination
  by (relation "measure length") (auto dest: hex4_shorter)

text \<open>
  A number: an integer part without leading zeros, then an optional fraction, then an optional
  exponent. Each stage splits its input into what it takes and the rest.
\<close>

definition take_int :: "string \<Rightarrow> string \<times> string" where
  "take_int s =
     (if starts_with s ''0'' then (''0'', tl s)
      else (takeWhile is_digit s, dropWhile is_digit s))"

definition take_frac :: "string \<Rightarrow> string \<times> string" where
  "take_frac s =
     (if starts_with s ''.'' \<and> takeWhile is_digit (tl s) \<noteq> []
      then (CHR ''.'' # takeWhile is_digit (tl s), dropWhile is_digit (tl s)) else ([], s))"

definition exp_sign :: "string \<Rightarrow> string" where
  "exp_sign s = (if starts_with s ''+'' \<or> starts_with s ''-'' then take 1 s else [])"

fun take_exp :: "string \<Rightarrow> string \<times> string" where
  "take_exp (c # cs) =
     (if c \<in> {CHR ''e'', CHR ''E''} then
        (let sg = exp_sign cs; ds = drop (length sg) cs
         in if takeWhile is_digit ds \<noteq> []
            then (c # sg @ takeWhile is_digit ds, dropWhile is_digit ds) else ([], c # cs))
      else ([], c # cs))"
| "take_exp [] = ([], [])"

definition read_number :: "string \<Rightarrow> (json \<times> string) option" where
  "read_number s =
     (let neg = starts_with s ''-'';
          (ip, r1) = take_int (if neg then tl s else s);
          (fp, r2) = take_frac r1;
          (ep, r3) = take_exp r2
      in if ip = [] then None
         else if fp = [] \<and> ep = []
           then Some (JInt ((if neg then -1 else 1) * int (digits_val ip)), r3)
         else Some (JFloat ((if neg then ''-'' else []) @ ip @ fp @ ep), r3))"

text \<open>\<open>dict(pairs)\<close>: a key read twice keeps its first place and its last value.\<close>

definition dict_of_pairs :: "(string \<times> json) list \<Rightarrow> dict" where
  "dict_of_pairs ps = foldl (\<lambda>d kv. AList.update (fst kv) (snd kv) d) [] ps"

text \<open>
  The nesting of values is read with a bound on the depth of the calls; \<open>loads\<close> starts with
  one more than the length of the text, and \<open>loads_dumps_sorted\<close> shows that this is enough.
\<close>

fun read_value :: "nat \<Rightarrow> string \<Rightarrow> (json \<times> string) option"
  and read_items :: "nat \<Rightarrow> string \<Rightarrow> (json list \<times> string) option"
  and read_members :: "nat \<Rightarrow> string \<Rightarrow> ((string \<times> json) list \<times> string) option" where
  "read_value 0 s = None"
| "read_value (Suc n) s =
     (case skip_ws s of
        [] \<Rightarrow> None
      | c # cs \<Rightarrow>
          if c = CHR 0x22 then map_option (\<lambda>(t, r). (JStr t, r)) (read_str cs)
          else if c = CHR ''{'' then
            (if starts_with (skip_ws cs) ''}'' then Some (JObj [], tl (skip_ws cs))
             else map_option (\<lambda>(ps, r). (JObj (dict_of_pairs ps), r)) (read_members n cs))
          else if c = CHR ''['' then
            (if starts_with (skip_ws cs) '']'' then Some (JArr [], tl (skip_ws cs))
             else map_option (\<lambda>(xs, r). (JArr xs, r)) (read_items n cs))
          else if starts_with (c # cs) ''null'' then Some (JNull, drop 4 (c # cs))
          else if starts_with (c # cs) ''true'' then Some (JBool True, drop 4 (c # cs))
          else if starts_with (c # cs) ''false'' then Some (JBool False, drop 5 (c # cs))
          else read_number (c # cs))"
| "read_items 0 s = None"
| "read_items (Suc n) s =
     (case read_value n s of
        None \<Rightarrow> None
      | Some (v, r) \<Rightarrow>
          (case skip_ws r of
             [] \<Rightarrow> None
           | c # cs \<Rightarrow>
               if c = CHR '']'' then Some ([v], cs)
               else if c = CHR '','' then map_option (\<lambda>(vs, r'). (v # vs, r')) (read_items n cs)
               else None))"
| "read_members 0 s = None"
| "read_members (Suc n) s =
     (case skip_ws s of
        [] \<Rightarrow> None
      | q # qs \<Rightarrow>
          if q \<noteq> CHR 0x22 then None
          else
            (case read_str qs of
               None \<Rightarrow> None
             | Some (k, r1) \<Rightarrow>
                 (case skip_ws r1 of
                    [] \<Rightarrow> None
                  | c1 # cs1 \<Rightarrow>
                      if c1 \<noteq> CHR '':'' then None
                      else
                        (case read_value n cs1 of
                           None \<Rightarrow> None
                         | Some (v, r2) \<Rightarrow>
                             (case skip_ws r2 of
                                [] \<Rightarrow> None
                              | c # cs \<Rightarrow>
                                  if c = CHR ''}'' then Some ([(k, v)], cs)
                                  else if c = CHR '','' then
                                    map_option (\<lambda>(ps, r'). ((k, v) # ps, r')) (read_members n cs)
                                  else None)))))"

definition loads :: "string \<Rightarrow> json option" where
  "loads s =
     (case read_value (Suc (length s)) s of
        None \<Rightarrow> None
      | Some (v, r) \<Rightarrow> if skip_ws r = [] then Some v else None)"

section \<open>What a printed document reads back as\<close>

text \<open>A float text that the reader takes whole; the keys of every object are distinct.\<close>

fun json_wf :: "json \<Rightarrow> bool" where
  "json_wf (JFloat t) = (read_number t = Some (JFloat t, []))"
| "json_wf (JArr xs) = list_all json_wf xs"
| "json_wf (JObj d) = (dict_wf d \<and> list_all (\<lambda>kv. json_wf (snd kv)) d)"
| "json_wf _ = True"

fun key_sorted :: "json \<Rightarrow> json" where
  "key_sorted (JArr xs) = JArr (map key_sorted xs)"
| "key_sorted (JObj d) = JObj (sort_key fst (map (\<lambda>kv. (fst kv, key_sorted (snd kv))) d))"
| "key_sorted v = v"

section \<open>The round trip\<close>

lemma hex4_control:
  assumes "n < 32"
  shows "hex4 (CHR ''0'' # CHR ''0'' # hex_digit (n div 16) # hex_digit (n mod 16) # r)
         = Some (char_of n, r)"
proof -
  have "hex_val (hex_digit d) = Some d" if "d < 16" for d
    using that by (auto simp: hex_val_def hex_digit_def Let_def)
  moreover have "n div 16 < 16" "n mod 16 < 16" using assms by auto
  ultimately show ?thesis using assms
    by (simp add: hex4_def hex_val_def [of "CHR ''0''"])
qed

lemma read_str_esc:
  "read_str (esc_char c @ r) = map_option (\<lambda>(t, r'). (c # t, r')) (read_str r)"
proof (cases "c \<in> {CHR 0x22, CHR 0x5C, CHR 0x0A, CHR 0x0D, CHR 0x09, CHR 0x0C, CHR 0x08}")
  case True
  then show ?thesis by (auto simp: esc_char_def unescape_def)
next
  case False
  show ?thesis
  proof (cases "(of_char c :: nat) < 32")
    case True
    with False show ?thesis using hex4_control [OF True, of r] by (simp add: esc_char_def)
  next
    case False': False
    with False show ?thesis by (simp add: esc_char_def)
  qed
qed

lemma read_str_quote:
  "read_str (concat (map esc_char s) @ CHR 0x22 # r) = Some (s, r)"
  by (induction s) (simp_all add: read_str_esc)

lemma digits_val_snoc: "digits_val (ds @ [c]) = 10 * digits_val ds + digit_val c"
  by (simp add: digits_val_def)

lemma digits_val_nat_str [simp]: "digits_val (nat_str n) = n"
proof (induction n rule: nat_str.induct)
  case (1 n)
  show ?case
  proof (cases "n < 10")
    case True
    then show ?thesis by (simp add: nat_str.simps [of n] digits_val_def)
  next
    case False
    with 1 show ?thesis by (simp add: nat_str.simps [of n] digits_val_snoc)
  qed
qed

lemma digit_char_0: "digit_char 0 = CHR ''0''"
  by code_simp

lemma digit_char_zero_iff:
  assumes "d < 10"
  shows "digit_char d = CHR ''0'' \<longleftrightarrow> d = 0"
proof
  assume "digit_char d = CHR ''0''"
  then have "digit_val (digit_char d) = digit_val (CHR ''0'')" by simp
  with assms show "d = 0" by (simp add: digit_val_def [of "CHR ''0''"])
qed (simp add: digit_char_0)

lemma hd_nat_str: "0 < n \<Longrightarrow> hd (nat_str n) \<noteq> CHR ''0''"
proof (induction n rule: nat_str.induct)
  case (1 n)
  then show ?case
    by (cases "n < 10") (auto simp: nat_str.simps [of n] digit_char_zero_iff hd_append)
qed
definition num_end :: "string \<Rightarrow> bool" where
  "num_end r = (r = [] \<or> hd r \<in> {CHR '','', CHR '']'', CHR ''}''})"

lemma num_end_hd:
  "num_end (c # r) \<Longrightarrow>
   \<not> is_digit c \<and> c \<notin> {CHR ''.'', CHR ''e'', CHR ''E'', CHR ''+'', CHR ''-''}"
  by (auto simp: num_end_def is_digit_of_char)

lemma takeWhile_digits_append:
  "num_end r \<Longrightarrow> takeWhile is_digit (s @ r) = takeWhile is_digit s"
  by (cases r) (auto simp: takeWhile_append takeWhile_eq_all_conv [THEN iffD2] dest: num_end_hd)

lemma dropWhile_digits_append:
  "num_end r \<Longrightarrow> dropWhile is_digit (s @ r) = dropWhile is_digit s @ r"
  by (cases r) (auto simp: dropWhile_append dropWhile_eq_Nil_conv [THEN iffD2] dest: num_end_hd)

lemma starts_with_char [simp]:
  "starts_with (x # s) [c] \<longleftrightarrow> x = c"
  "\<not> starts_with [] [c]"
  by (auto simp: starts_with_def)

lemma take_int_append:
  assumes "num_end r" and "take_int s = (p, q)" and "p \<noteq> []"
  shows "take_int (s @ r) = (p, q @ r)"
  using assms
  by (cases s) (auto simp: take_int_def  takeWhile_digits_append
      dropWhile_digits_append split: if_splits)

lemma take_frac_append:
  assumes "num_end r"
  shows "take_frac (s @ r) = (fst (take_frac s), snd (take_frac s) @ r)"
proof (cases s)
  case Nil
  then show ?thesis using assms
    by (cases r) (auto simp: take_frac_def  dest: num_end_hd)
next
  case (Cons c cs)
  then show ?thesis using assms
    by (auto simp: take_frac_def  takeWhile_digits_append dropWhile_digits_append)
qed

lemma exp_sign_append: "num_end r \<Longrightarrow> exp_sign (s @ r) = exp_sign s"
  by (cases s; cases r) (auto simp: exp_sign_def dest: num_end_hd)

lemma length_exp_sign: "length (exp_sign s) \<le> length s"
  by (simp add: exp_sign_def)

lemma take_exp_append:
  assumes "num_end r"
  shows "take_exp (s @ r) = (fst (take_exp s), snd (take_exp s) @ r)"
proof (cases s)
  case Nil
  then show ?thesis using assms by (cases r) (auto dest: num_end_hd)
next
  case (Cons c cs)
  have "drop (length (exp_sign cs)) (cs @ r) = drop (length (exp_sign cs)) cs @ r"
    using length_exp_sign [of cs] by simp
  then show ?thesis using assms Cons
    by (simp add: Let_def takeWhile_digits_append dropWhile_digits_append exp_sign_append
        del: drop_append)
qed

lemma read_number_append:
  assumes "read_number s = Some (v, [])" and "num_end r"
  shows "read_number (s @ r) = Some (v, r)"
proof -
  have ne: "s \<noteq> []" using assms(1)
    by (auto simp: read_number_def take_int_def starts_with_def split: if_splits prod.splits)
  have neg: "starts_with (s @ r) ''-'' = starts_with s ''-''"
    using ne by (cases s) (auto simp: )
  have tl: "(if starts_with s ''-'' then tl (s @ r) else s @ r)
      = (if starts_with s ''-'' then tl s else s) @ r"
    using ne by simp
  obtain ip r1 where ti: "take_int (if starts_with s ''-'' then tl s else s) = (ip, r1)"
    by (cases "take_int (if starts_with s ''-'' then tl s else s)")
  from assms(1) ti have "ip \<noteq> []"
    by (auto simp: read_number_def split: if_splits prod.splits)
  from take_int_append [OF assms(2) ti this] show ?thesis
    using assms ti unfolding read_number_def Let_def neg tl
    by (auto simp: take_frac_append take_exp_append split: prod.splits if_splits)
qed
lemma read_number_int: "read_number (int_str n) = Some (JInt n, [])"
proof -
  have take: "take_int (nat_str m) = (nat_str m, [])" for m
  proof (cases m)
    case 0
    then show ?thesis
      by (simp add: take_int_def nat_str.simps [of 0] digit_char_0)
  next
    case (Suc k)
    then have "\<not> starts_with (nat_str m) ''0''"
      using hd_nat_str [of m] by (cases "nat_str m") auto
    then show ?thesis using nat_str_digits [of m]
      by (auto simp: take_int_def list_all_iff dropWhile_eq_Nil_conv takeWhile_eq_all_conv)
  qed
  have pos: "\<not> starts_with (nat_str m) ''-''" for m
    using nat_str_digits [of m] by (cases "nat_str m") (auto simp: is_digit_of_char)
  show ?thesis
    by (auto simp: read_number_def int_str_def take pos take_frac_def)
qed

lemma read_value_number:
  assumes "read_number s = Some (v, [])" and "num_end r"
  shows "read_value (Suc n) (s @ r) = Some (v, r)"
  using assms(1)
proof (cases s)
  case Nil
  then show ?thesis using assms(1) by (simp add: read_number_def take_int_def take_frac_def)
next
  case (Cons c cs)
  have "is_digit c \<or> c = CHR ''-''"
    using assms(1) Cons by (auto simp: read_number_def take_int_def is_digit_of_char split: if_splits prod.splits)
  then have "\<not> is_ws c" "c \<notin> {CHR 0x22, CHR ''{'', CHR ''['', CHR ''n'', CHR ''t'', CHR ''f''}"
    by (auto simp: is_ws_def is_digit_of_char)
  then show ?thesis
    using read_number_append [OF assms] Cons
    by (simp add: skip_ws_def starts_with_def)
qed

lemma read_number_hd:
  "read_number (c # cs) = Some (v, r) \<Longrightarrow> is_digit c \<or> c = CHR ''-''"
  by (auto simp: read_number_def take_int_def is_digit_of_char split: if_splits prod.splits)

definition plain_hd :: "string \<Rightarrow> bool" where
  "plain_hd s = (s \<noteq> [] \<and> \<not> is_ws (hd s) \<and> hd s \<notin> {CHR '']'', CHR ''}''})"

lemma plain_hd_number: "read_number s = Some (v, []) \<Longrightarrow> plain_hd s"
  by (cases s)
    (auto simp: plain_hd_def is_ws_def is_digit_of_char read_number_def take_int_def take_frac_def
        dest: read_number_hd)

lemma plain_hd_dumps: "json_wf v \<Longrightarrow> plain_hd (dumps v)"
proof (cases v)
  case (JInt n)
  then show ?thesis using plain_hd_number [OF read_number_int] by simp
next
  case (JFloat t)
  then show ?thesis if "json_wf v" using that by (simp add: plain_hd_number)
qed (auto simp: plain_hd_def is_ws_def quote_def)

lemma plain_hd_skip: "plain_hd s \<Longrightarrow> skip_ws (s @ r) = s @ r"
  by (cases s) (auto simp: plain_hd_def skip_ws_def)

lemma plain_hd_starts:
  "plain_hd s \<Longrightarrow> \<not> starts_with (s @ r) '']''" "plain_hd s \<Longrightarrow> \<not> starts_with (s @ r) ''}''"
  by (cases s; auto simp: plain_hd_def)+

lemma skip_ws_punct [simp]:
  "c \<in> {CHR '','', CHR '']'', CHR ''}'', CHR '':'', CHR 0x22} \<Longrightarrow> skip_ws (c # r) = c # r"
  by (auto simp: skip_ws_def is_ws_def)

definition reads_back :: "json \<Rightarrow> bool" where
  "reads_back v =
     (\<forall>n r. length (dumps v) \<le> n \<longrightarrow> num_end r \<longrightarrow>
        read_value n (dumps v @ r) = Some (key_sorted v, r))"

lemma reads_backD:
  "reads_back v \<Longrightarrow> length (dumps v) \<le> n \<Longrightarrow> num_end r \<Longrightarrow>
   read_value n (dumps v @ r) = Some (key_sorted v, r)"
  by (simp add: reads_back_def)

lemma num_end_punct [simp]:
  "num_end (CHR '','' # r)" "num_end (CHR '']'' # r)" "num_end (CHR ''}'' # r)" "num_end []"
  by (auto simp: num_end_def)

lemma read_items_join:
  assumes "xs \<noteq> []" and "\<And>x. x \<in> set xs \<Longrightarrow> reads_back x"
    and "length (join '','' (map dumps xs)) < n"
  shows "read_items n (join '','' (map dumps xs) @ CHR '']'' # r) = Some (map key_sorted xs, r)"
  using assms
proof (induction xs arbitrary: n rule: list_nonempty_induct)
  case (single x)
  then obtain m where "n = Suc m" by (cases n) auto
  with single show ?case by (simp add: reads_backD)
next
  case (cons x xs)
  then obtain m where m: "n = Suc m" by (cases n) auto
  obtain y ys where xs: "xs = y # ys" using cons.hyps by (cases xs) auto
  have "read_items m (join '','' (map dumps xs) @ CHR '']'' # r) = Some (map key_sorted xs, r)"
    using cons.prems m xs by (intro cons.IH) auto
  moreover have "read_value m (dumps x @ CHR '','' # join '','' (map dumps xs) @ CHR '']'' # r)
      = Some (key_sorted x, CHR '','' # join '','' (map dumps xs) @ CHR '']'' # r)"
    using cons.prems m xs by (intro reads_backD) auto
  ultimately show ?case using m xs by simp
qed

definition member_text :: "string \<times> json \<Rightarrow> string" where
  "member_text kv = quote (fst kv) @ '':'' @ dumps (snd kv)"

lemma read_members_step:
  assumes "reads_back (snd kv)" and "num_end r" and "length (member_text kv) \<le> n"
  shows "read_members (Suc n) (member_text kv @ r) =
     (case skip_ws r of
        [] \<Rightarrow> None
      | c # cs \<Rightarrow>
          if c = CHR ''}'' then Some ([(fst kv, key_sorted (snd kv))], cs)
          else if c = CHR '','' then
            map_option (\<lambda>(ps, r'). ((fst kv, key_sorted (snd kv)) # ps, r')) (read_members n cs)
          else None)"
proof -
  have "read_value n (dumps (snd kv) @ r) = Some (key_sorted (snd kv), r)"
    using assms by (intro reads_backD) (auto simp: member_text_def)
  moreover have "read_str (concat (map esc_char (fst kv)) @ CHR 0x22 # CHR '':'' # dumps (snd kv) @ r)
      = Some (fst kv, CHR '':'' # dumps (snd kv) @ r)"
    by (rule read_str_quote)
  ultimately show ?thesis
    by (simp add: member_text_def quote_def)
qed

lemma read_members_join:
  assumes "d \<noteq> []" and "\<And>kv. kv \<in> set d \<Longrightarrow> reads_back (snd kv)"
    and "length (join '','' (map member_text d)) < n"
  shows "read_members n (join '','' (map member_text d) @ CHR ''}'' # r)
         = Some (map (\<lambda>kv. (fst kv, key_sorted (snd kv))) d, r)"
  using assms
proof (induction d arbitrary: n rule: list_nonempty_induct)
  case (single kv)
  then obtain m where m: "n = Suc m" by (cases n) auto
  with single have "length (member_text kv) \<le> m" "reads_back (snd kv)" by auto
  then show ?case using m by (simp add: read_members_step del: read_members.simps)
next
  case (cons kv d)
  then obtain m where m: "n = Suc m" by (cases n) auto
  obtain y ys where d: "d = y # ys" using cons.hyps by (cases d) auto
  have "read_members m (join '','' (map member_text d) @ CHR ''}'' # r)
      = Some (map (\<lambda>kv. (fst kv, key_sorted (snd kv))) d, r)"
    using cons.prems m d by (intro cons.IH) auto
  moreover have "length (member_text kv) \<le> m" "reads_back (snd kv)" using cons.prems m d by auto
  ultimately show ?case using m d by (simp add: read_members_step del: read_members.simps)
qed

lemma sort_key_map_fst:
  "sort_key fst (map (\<lambda>kv. (fst kv, g kv)) d) = map (\<lambda>kv. (fst kv, g kv)) (sort_key fst d)"
proof -
  have ins: "insort_key fst (fst kv, g kv) (map (\<lambda>kv. (fst kv, g kv)) xs)
      = map (\<lambda>kv. (fst kv, g kv)) (insort_key fst kv xs)" for kv xs
    by (induction xs) auto
  show ?thesis by (induction d) (simp_all add: ins)
qed

lemma sort_key_map_snd:
  "map snd (sort_key fst (map (\<lambda>kv. (fst kv, g kv)) d)) = map g (sort_key fst d)"
  by (simp add: sort_key_map_fst comp_def)

lemma dict_of_pairs_id:
  assumes "distinct (map fst ps)"
  shows "dict_of_pairs ps = ps"
proof -
  have upd: "AList.update k v d = d @ [(k, v)]" if "k \<notin> fst ` set d" for k v d
    using that by (induction d) auto
  have "foldl (\<lambda>d kv. AList.update (fst kv) (snd kv) d) d ps = d @ ps"
    if "distinct (map fst (d @ ps))" for d
    using that by (induction ps arbitrary: d) (auto simp: upd)
  from this [of "[]"] assms show ?thesis by (simp add: dict_of_pairs_def)
qed

lemma dumps_obj: "dumps (JObj d) = ''{'' @ join '','' (map member_text (sort_key fst d)) @ ''}''"
  by (simp add: sort_key_map_snd member_text_def [abs_def])

lemma plain_hd_join:
  "xs \<noteq> [] \<Longrightarrow> (\<And>x. x \<in> set xs \<Longrightarrow> plain_hd x) \<Longrightarrow> plain_hd (join '','' xs)"
  by (cases xs rule: remdups_adj.cases) (auto simp: plain_hd_def)

text \<open>An object is read back whatever follows it.\<close>

lemma read_obj:
  assumes "dict_wf d" and rb: "\<And>kv. kv \<in> set d \<Longrightarrow> reads_back (snd kv)"
    and "length (dumps (JObj d)) \<le> n"
  shows "read_value n (dumps (JObj d) @ r) = Some (key_sorted (JObj d), r)"
proof -
  let ?t = "join '','' (map member_text (sort_key fst d))"
  obtain m where m: "n = Suc m" "length ?t < m" using assms(3)
    by (cases n) (auto simp: dumps_obj simp del: dumps.simps)
  show ?thesis
  proof (cases "d = []")
    case True
    with m show ?thesis by (simp add: skip_ws_def is_ws_def)
  next
    case False
    then have ne: "sort_key fst d \<noteq> []" by (metis set_empty set_sort)
    have "plain_hd ?t"
      using ne by (intro plain_hd_join) (auto simp: plain_hd_def member_text_def quote_def is_ws_def)
    then have "skip_ws (?t @ CHR ''}'' # r) = ?t @ CHR ''}'' # r"
      and "\<not> starts_with (?t @ CHR ''}'' # r) ''}''"
      by (simp_all add: plain_hd_skip plain_hd_starts)
    moreover have "read_members m (?t @ CHR ''}'' # r)
        = Some (map (\<lambda>kv. (fst kv, key_sorted (snd kv))) (sort_key fst d), r)"
      using ne rb m(2) by (intro read_members_join) auto
    moreover have "distinct (map fst (map (\<lambda>kv. (fst kv, key_sorted (snd kv))) (sort_key fst d)))"
      using assms(1) by (simp add: dict_wf_def comp_def distinct_map inj_on_def)
    ultimately show ?thesis using m
      by (simp add: dumps_obj dict_of_pairs_id sort_key_map_fst skip_ws_def is_ws_def
          del: dumps.simps)
  qed
qed

lemma reads_back_obj:
  assumes "dict_wf d" and "\<And>kv. kv \<in> set d \<Longrightarrow> reads_back (snd kv)"
  shows "reads_back (JObj d)"
  unfolding reads_back_def using assms by (intro allI impI read_obj)

lemma reads_back_arr:
  assumes "\<And>x. x \<in> set xs \<Longrightarrow> reads_back x \<and> json_wf x"
  shows "reads_back (JArr xs)"
  unfolding reads_back_def
proof (intro allI impI)
  fix n r assume n: "length (dumps (JArr xs)) \<le> n" and r: "num_end r"
  let ?t = "join '','' (map dumps xs)"
  obtain m where m: "n = Suc m" "length ?t < m" using n by (cases n) auto
  show "read_value n (dumps (JArr xs) @ r) = Some (key_sorted (JArr xs), r)"
  proof (cases "xs = []")
    case True
    with m show ?thesis by (simp add: skip_ws_def is_ws_def)
  next
    case False
    then have "plain_hd ?t" using assms by (intro plain_hd_join) (auto simp: plain_hd_dumps)
    then have "skip_ws (?t @ CHR '']'' # r) = ?t @ CHR '']'' # r"
      and "\<not> starts_with (?t @ CHR '']'' # r) '']''"
      by (simp_all add: plain_hd_skip plain_hd_starts)
    moreover have "read_items m (?t @ CHR '']'' # r) = Some (map key_sorted xs, r)"
      using False assms m(2) by (intro read_items_join) auto
    ultimately show ?thesis using m by (simp add: skip_ws_def is_ws_def)
  qed
qed

lemma reads_back_number:
  "read_number (dumps v) = Some (v, []) \<Longrightarrow> key_sorted v = v \<Longrightarrow> reads_back v"
  unfolding reads_back_def
proof (intro allI impI)
  fix n r
  assume v: "read_number (dumps v) = Some (v, [])" "key_sorted v = v"
    and n: "length (dumps v) \<le> n" and r: "num_end r"
  have "dumps v \<noteq> []" using plain_hd_number [OF v(1)] by (simp add: plain_hd_def)
  with n obtain m where "n = Suc m" by (cases n) auto
  with read_value_number [OF v(1) r] v(2) show "read_value n (dumps v @ r) = Some (key_sorted v, r)"
    by simp
qed

lemma json_wf_reads_back: "json_wf v \<Longrightarrow> reads_back v"
proof (induction v)
  case (JArr xs)
  then show ?case by (intro reads_back_arr) (auto simp: list_all_iff)
next
  case (JObj d)
  then show ?case by (intro reads_back_obj) (auto simp: list_all_iff snds.simps)
next
  case (JInt n)
  then show ?case by (intro reads_back_number) (simp_all add: read_number_int)
next
  case (JFloat t)
  then show ?case by (intro reads_back_number) simp_all
next
  case (JStr s)
  have "read_value n (dumps (JStr s) @ r) = Some (JStr s, r)" if "0 < n" for n r
    using that by (cases n) (auto simp: quote_def read_str_quote skip_ws_def is_ws_def)
  then show ?case by (auto simp: reads_back_def quote_def)
next
  case JNull
  have "read_value n (''null'' @ r) = Some (JNull, r)" if "0 < n" for n r
    using that by (cases n) (auto simp: skip_ws_def is_ws_def starts_with_def)
  then show ?case by (auto simp: reads_back_def)
next
  case (JBool b)
  have "read_value n (dumps (JBool b) @ r) = Some (JBool b, r)" if "0 < n" for n r
    using that by (cases n) (auto simp: skip_ws_def is_ws_def starts_with_def)
  then show ?case by (auto simp: reads_back_def)
qed

text \<open>The round trip of the whole text, and that it determines the document up to key order.\<close>

lemma loads_dumps_sorted: "json_wf v \<Longrightarrow> loads (dumps v) = Some (key_sorted v)"
  using reads_backD [OF json_wf_reads_back, of v "Suc (length (dumps v))" "[]"]
  by (simp add: loads_def skip_ws_def)

lemma dumps_inject:
  assumes "json_wf v" and "json_wf w" and "dumps v = dumps w"
  shows "key_sorted v = key_sorted w"
  using loads_dumps_sorted [OF assms(1)] loads_dumps_sorted [OF assms(2)] assms(3) by simp

section \<open>Documents on lines\<close>

text \<open>An object may be followed by spaces and line ends, and by nothing else.\<close>

lemma loads_obj:
  assumes "json_wf (JObj d)"
  shows "loads (dumps (JObj d) @ r) = (if skip_ws r = [] then Some (key_sorted (JObj d)) else None)"
proof -
  have "read_value (Suc (length (dumps (JObj d) @ r))) (dumps (JObj d) @ r) = Some (key_sorted (JObj d), r)"
    using assms json_wf_reads_back by (intro read_obj) (auto simp: list_all_iff)
  then show ?thesis by (simp add: loads_def del: dumps.simps key_sorted.simps)
qed

lemma hex_digit_line: "d < 16 \<Longrightarrow> hex_digit d \<noteq> CHR 0x0A"
proof
  assume "d < 16" and "hex_digit d = CHR 0x0A"
  then have "of_char (hex_digit d) = (10 :: nat)" "d < 16" by simp_all
  then show False by (simp add: hex_digit_def split: if_splits)
qed

lemma esc_char_line: "CHR 0x0A \<notin> set (esc_char c)"
proof -
  have "of_char c < (32 :: nat) \<Longrightarrow> of_char c div 16 < (16 :: nat)" by linarith
  then show ?thesis
    using hex_digit_line [of "of_char c div 16"] hex_digit_line [of "of_char c mod 16"]
    by (auto simp: esc_char_def eq_commute [of "CHR 0x0A"])
qed

lemma set_join: "set (join sep xs) \<subseteq> set sep \<union> (\<Union>x \<in> set xs. set x)"
  by (induction sep xs rule: join.induct) auto

lemma take_int_parts: "take_int s = (p, q) \<Longrightarrow> s = p @ q \<and> list_all is_digit p"
  by (cases s) (auto simp: take_int_def list_all_iff dest: set_takeWhileD split: if_splits, simp add: is_digit_of_char)

lemma take_frac_parts: "take_frac s = (p, q) \<Longrightarrow> s = p @ q \<and> list_all (\<lambda>c. is_digit c \<or> c = CHR ''.'') p"
  by (cases s) (auto simp: take_frac_def list_all_iff dest: set_takeWhileD split: if_splits)

lemma take_exp_parts:
  "take_exp s = (p, q) \<Longrightarrow> s = p @ q \<and> list_all (\<lambda>c. is_digit c \<or> c \<in> {CHR ''e'', CHR ''E'', CHR ''+'', CHR ''-''}) p"
proof (cases s)
  case (Cons c cs)
  have "exp_sign cs @ drop (length (exp_sign cs)) cs = cs" 
    by (cases cs) (auto simp: exp_sign_def)
  moreover have "set (exp_sign cs) \<subseteq> {CHR ''+'', CHR ''-''}"
    by (cases cs) (auto simp: exp_sign_def)
  moreover assume "take_exp s = (p, q)"
  ultimately show ?thesis using Cons
    by (auto simp: list_all_iff Let_def dest: set_takeWhileD split: if_splits)
qed simp

lemma read_number_line: 
  assumes "read_number s = Some (v, [])" shows "CHR 0x0A \<notin> set s"
proof -
  let ?s = "if starts_with s ''-'' then tl s else s"
  obtain ip r1 fp r2 ep r3 where p: "take_int ?s = (ip, r1)" "take_frac r1 = (fp, r2)" "take_exp r2 = (ep, r3)"
    by (metis surj_pair)
  with assms have "r3 = []" by (auto simp: read_number_def Let_def split: if_splits)
  then have "?s = ip @ fp @ ep" using p take_int_parts take_frac_parts take_exp_parts by fastforce
  moreover have "CHR 0x0A \<notin> set ip \<union> set fp \<union> set ep"
    using take_int_parts [OF p(1)] take_frac_parts [OF p(2)] take_exp_parts [OF p(3)]
    by (auto simp: list_all_iff is_digit_of_char)
  ultimately have "CHR 0x0A \<notin> set ?s" by simp
  then show ?thesis by (cases s) (auto split: if_splits)
qed

text \<open>A printed document takes one line.\<close>

lemma quote_line: "CHR 0x0A \<notin> set (quote s)"
  using esc_char_line by (auto simp: quote_def)

lemma dumps_line: "json_wf v \<Longrightarrow> CHR 0x0A \<notin> set (dumps v)"
proof (induction v)
  case (JInt n)
  show ?case using read_number_line [OF read_number_int] by simp
next
  case (JFloat t)
  then show ?case using read_number_line by simp
next
  case (JStr s)
  then show ?case by (simp add: quote_line)
next
  case (JArr xs)
  then show ?case using set_join [of "'',''" "map dumps xs"] by (auto simp: list_all_iff)
next
  case (JObj d)
  have "CHR 0x0A \<notin> set (member_text kv)" if "kv \<in> set d" for kv
    using JObj.IH [of kv "snd kv"] JObj.prems that
    by (auto simp: member_text_def quote_line list_all_iff snds.simps)
  then show ?case using set_join [of "'',''" "map member_text (sort_key fst d)"]
    by (auto simp: dumps_obj simp del: dumps.simps)
qed auto

end
