(* ===== verification/Canonical.thy ===== *)
theory Canonical
  imports Json_Text Sha256 "HOL-Library.Multiset"
begin

text \<open>
  Canonical JSON and content-derived identities (canonical.py): the arrays at a fixed set of
  paths are unordered and are sorted by their encoding, the result is printed with sorted keys
  as UTF-8, and the identity of an object is the SHA-256 of that encoding with the object's own
  digest fields left out.
\<close>

section \<open>Definitions\<close>

definition unordered_array_paths :: "string list list" where
  "unordered_array_paths =
     [[''evidence''], [''relationships''], [''dependencies''], [''affectedContracts''],
      [''scope'', ''reviewWhen''], [''provenance'', ''sourceRecords''],
      [''provenance'', ''ancestry'']]"

definition utf8_char :: "char \<Rightarrow> nat list" where
  "utf8_char c =
     (let n = of_char c in if n < 128 then [n] else [192 + n div 64, 128 + n mod 64])"

definition utf8 :: "string \<Rightarrow> nat list" where
  "utf8 s = concat (map utf8_char s)"

fun utf8_decode :: "nat list \<Rightarrow> string" where
  "utf8_decode [] = []"
| "utf8_decode [n] = [char_of n]"
| "utf8_decode (n # m # r) =
     (if n < 128 then char_of n # utf8_decode (m # r)
      else char_of ((n - 192) * 64 + (m - 128)) # utf8_decode r)"

definition encode :: "json \<Rightarrow> nat list" where
  "encode v = utf8 (dumps v)"

fun canonicalize :: "string list \<Rightarrow> json \<Rightarrow> json" where
  "canonicalize p (JObj d) =
     JObj (map (\<lambda>kv. (fst kv, canonicalize (p @ [fst kv]) (snd kv))) d)"
| "canonicalize p (JArr xs) =
     JArr (if p \<in> set unordered_array_paths then sort_key encode (map (canonicalize p) xs)
           else map (canonicalize p) xs)"
| "canonicalize p v = v"

definition canonical_json :: "json \<Rightarrow> nat list" where
  "canonical_json v = encode (canonicalize [] v)"

definition identity_projection :: "dict \<Rightarrow> dict" where
  "identity_projection value =
     (let projection = obj_of (canonicalize [] (JObj value));
          stripped = (case map_of projection ''metadata'' of
                        Some (JObj m) \<Rightarrow>
                          dset ''metadata'' (JObj (AList.delete ''contentDigest'' m)) projection
                      | _ \<Rightarrow> projection)
      in AList.delete ''contentDigest'' stripped)"

definition digest_of_bytes :: "nat list \<Rightarrow> string" where
  "digest_of_bytes b = ''sha256:'' @ sha256_hexdigest b"

definition canonical_digest :: "dict \<Rightarrow> string" where
  "canonical_digest value = digest_of_bytes (encode (JObj (identity_projection value)))"

definition canonical_digest_unprojected :: "dict \<Rightarrow> string" where
  "canonical_digest_unprojected value = digest_of_bytes (encode (canonicalize [] (JObj value)))"

text \<open>\<open>json.loads(data.decode("utf-8"))\<close>.\<close>

definition loads_bytes :: "nat list \<Rightarrow> json option" where
  "loads_bytes b = loads (utf8_decode b)"

section \<open>Encoding\<close>

lemma utf8_decode_char: "utf8_decode (utf8_char c @ b) = c # utf8_decode b"
proof (cases "(of_char c :: nat) < 128")
  case True
  then show ?thesis by (cases b) (simp_all add: utf8_char_def)
next
  case False
  have "(of_char c :: nat) < 256" by (metis of_char_of of_char_mod_256 char_of_char mod_less_divisor zero_less_numeral)
  then have "(of_char c div 64 * 64 + of_char c mod 64 :: nat) = of_char c" by simp
  with False show ?thesis by (simp add: utf8_char_def Let_def)
qed

lemma utf8_decode_utf8 [simp]: "utf8_decode (utf8 s) = s"
  by (induction s) (simp_all add: utf8_def utf8_decode_char)

lemma utf8_inject [simp]: "utf8 s = utf8 t \<longleftrightarrow> s = t"
  by (metis utf8_decode_utf8)

lemma encode_inject: "encode v = encode w \<longleftrightarrow> dumps v = dumps w"
  by (simp add: encode_def)

section \<open>Stable sorting\<close>

lemma sort_key_sorted_id: "sorted (map f xs) \<Longrightarrow> sort_key f xs = xs"
  by (induction xs) (simp_all add: insort_is_Cons)

lemma sort_key_idem [simp]: "sort_key f (sort_key f xs) = sort_key f xs"
  by (rule sort_key_sorted_id) simp

lemma map_sort_key: "map f (sort_key f xs) = sort (map f xs)"
proof -
  have ins: "map f (insort_key f x xs) = insort (f x) (map f xs)" for x xs
    by (induction xs) auto
  show ?thesis by (induction xs) (simp_all add: ins)
qed

section \<open>Canonical forms\<close>

lemma dumps_key_sorted [simp]: "dumps (key_sorted v) = dumps v"
proof (induction v)
  case (JArr xs)
  then have "map dumps (map key_sorted xs) = map dumps xs" by simp
  then show ?case by (simp only: key_sorted.simps dumps.simps)
next
  case (JObj d)
  let ?g = "\<lambda>kv. quote (fst kv) @ '':'' @ dumps (snd kv)"
  have "map ?g (map (\<lambda>kv. (fst kv, key_sorted (snd kv))) (sort_key fst d)) = map ?g (sort_key fst d)"
    using JObj by (auto simp: snds.simps)
  then show ?case
    by (simp only: key_sorted.simps dumps_obj member_text_def [abs_def] sort_key_map_fst sort_key_idem
        map_map comp_def fst_conv snd_conv)
qed simp_all

text \<open>The text of an array or an object depends only on the texts of its parts.\<close>

lemma dumps_arr_cong: "map dumps xs = map dumps ys \<Longrightarrow> dumps (JArr xs) = dumps (JArr ys)"
  by simp

lemma dumps_sorted_items: "map dumps (sort_key encode xs) = map utf8_decode (sort (map encode xs))"
  by (simp add: encode_def flip: map_sort_key)

lemma map_of_map_text:
  "map_of (map (\<lambda>kv. (fst kv, g (fst kv) (snd kv))) d) k = map_option (g k) (map_of d k)"
  by (induction d) auto

lemma sorted_key_unique:
  assumes "distinct (map fst xs)" and "distinct (map fst ys)" and "map_of xs = map_of ys"
  shows "sort_key fst xs = sort_key fst (ys :: ('a::linorder \<times> 'b) list)"
proof (rule map_sorted_distinct_set_unique [where f = fst])
  have "set xs = set ys" using assms by (simp add: map_of_inject_set)
  then show "set (sort_key fst xs) = set (sort_key fst ys)" by simp
  have "inj_on fst (set xs)" using assms(1) by (simp add: distinct_map)
  then show "inj_on fst (set (sort_key fst xs) \<union> set (sort_key fst ys))"
    using \<open>set xs = set ys\<close> by simp
qed (use assms in \<open>simp_all add: distinct_map\<close>)

lemma dumps_obj_cong:
  assumes "dict_wf d" and "dict_wf e"
    and "\<And>k. map_option dumps (map_of d k) = map_option dumps (map_of e k)"
  shows "dumps (JObj d) = dumps (JObj e)"
proof -
  let ?g = "\<lambda>kv. (fst kv, quote (fst kv) @ '':'' @ dumps (snd kv))"
  have "map_of (map ?g d) = map_of (map ?g e)"
  proof
    fix k
    have "map_of (map ?g d) k = map_option (\<lambda>t. quote k @ '':'' @ t) (map_option dumps (map_of d k))"
      for d :: dict
      using map_of_map_text [of "\<lambda>k v. quote k @ '':'' @ dumps v" d k]
      by (simp add: option.map_comp comp_def)
    then show "map_of (map ?g d) k = map_of (map ?g e) k" using assms(3) by simp
  qed
  then have "sort_key fst (map ?g d) = sort_key fst (map ?g e)"
    using assms(1,2) by (intro sorted_key_unique) (simp_all add: dict_wf_def comp_def)
  then show ?thesis by simp
qed

lemma canonicalize_idem [simp]: "canonicalize p (canonicalize p v) = canonicalize p v"
proof (induction p v rule: canonicalize.induct)
  case (1 p d)
  then show ?case by auto
next
  case (2 p xs)
  have items: "map (canonicalize p) (map (canonicalize p) xs) = map (canonicalize p) xs"
    using "2.IH" by auto
  have "map (canonicalize p) (sort_key encode (map (canonicalize p) xs))
      = sort_key encode (map (canonicalize p) xs)"
    using "2.IH" by (intro map_idI) auto
  with items show ?case by simp
qed simp_all

lemma dumps_canonicalize_key_sorted [simp]:
  "dumps (canonicalize p (key_sorted v)) = dumps (canonicalize p v)"
proof (induction p v rule: canonicalize.induct)
  case (1 p d)
  let ?f = "\<lambda>kv. (fst kv, canonicalize (p @ [fst kv]) (snd kv))"
  have "map member_text (map (\<lambda>kv. (fst kv, canonicalize (p @ [fst kv]) (key_sorted (snd kv)))) (sort_key fst d))
      = map member_text (map ?f (sort_key fst d))"
    using 1 by (auto simp: member_text_def)
  then show ?case
    by (simp only: key_sorted.simps canonicalize.simps dumps_obj sort_key_map_fst sort_key_idem
        map_map comp_def fst_conv snd_conv)
next
  case (2 p xs)
  have items: "map dumps (map (canonicalize p) (map key_sorted xs)) = map dumps (map (canonicalize p) xs)"
    using "2.IH" by auto
  then have "map encode (map (canonicalize p) (map key_sorted xs)) = map encode (map (canonicalize p) xs)"
    by (simp add: encode_def)
  then have "map dumps (sort_key encode (map (canonicalize p) (map key_sorted xs)))
      = map dumps (sort_key encode (map (canonicalize p) xs))"
    by (simp only: dumps_sorted_items)
  with items show ?case
    by (simp only: key_sorted.simps canonicalize.simps) (auto intro!: dumps_arr_cong simp del: dumps.simps)
qed simp_all

lemma json_wf_canonicalize: "json_wf v \<Longrightarrow> json_wf (canonicalize p v)"
  by (induction p v rule: canonicalize.induct)
    (auto simp: list_all_iff dict_wf_def comp_def)

lemma json_wf_key_sorted: "json_wf v \<Longrightarrow> json_wf (key_sorted v)"
  by (induction v) (auto simp: list_all_iff dict_wf_def comp_def snds.simps distinct_map inj_on_def
      sort_key_map_fst)

text \<open>Reading canonical JSON back gives the canonical form with its keys in order.\<close>

lemma loads_canonical_json:
  "json_wf v \<Longrightarrow> loads_bytes (canonical_json v) = Some (key_sorted (canonicalize [] v))"
  by (simp add: loads_bytes_def canonical_json_def encode_def loads_dumps_sorted json_wf_canonicalize)

lemma canonicalize_unordered:
  assumes "p \<in> set unordered_array_paths" and "mset xs = mset ys"
  shows "dumps (canonicalize p (JArr xs)) = dumps (canonicalize p (JArr ys))"
proof -
  have "mset (map encode (map (canonicalize p) xs)) = mset (map encode (map (canonicalize p) ys))"
    using assms(2) by simp
  then have "sort (map encode (map (canonicalize p) xs)) = sort (map encode (map (canonicalize p) ys))"
    by (intro properties_for_sort) simp_all
  then show ?thesis using assms(1)
    by (simp only: canonicalize.simps if_True) (rule dumps_arr_cong, simp only: dumps_sorted_items)
qed

section \<open>Identities\<close>

text \<open>What identity projection keeps of each field.\<close>

definition projected_field :: "string \<Rightarrow> json \<Rightarrow> json" where
  "projected_field k v =
     (let w = canonicalize [k] v
      in if k = ''metadata'' \<and> is_obj v then JObj (AList.delete ''contentDigest'' (obj_of w)) else w)"

lemma canonicalize_JObjD: "canonicalize p v = JObj e \<Longrightarrow> \<exists>m. v = JObj m"
  by (cases v) auto

lemma projected_field_other: "k \<noteq> ''metadata'' \<Longrightarrow> projected_field k = canonicalize [k]"
  by (auto simp: projected_field_def)

lemma identity_projection_unfold:
  "identity_projection d =
     (let projection = map (\<lambda>kv. (fst kv, canonicalize [fst kv] (snd kv))) d
      in AList.delete ''contentDigest''
           (case map_of projection ''metadata'' of
              Some (JObj m) \<Rightarrow> dset ''metadata'' (JObj (AList.delete ''contentDigest'' m)) projection
            | _ \<Rightarrow> projection))"
  by (simp add: identity_projection_def)

lemma map_of_canonical_fields:
  "map_of (map (\<lambda>kv. (fst kv, canonicalize [fst kv] (snd kv))) d) k
     = map_option (canonicalize [k]) (map_of d k)"
  using map_of_map_text [of "\<lambda>k v. canonicalize [k] v" d k] by simp

lemma map_of_identity_projection:
  "map_of (identity_projection d) k =
     (if k = ''contentDigest'' then None else map_option (projected_field k) (map_of d k))"
proof (cases "\<exists>m. map_of d ''metadata'' = Some (JObj m)")
  case True
  then show ?thesis unfolding identity_projection_unfold Let_def
    by (cases "k = ''metadata''")
      (auto simp: map_of_canonical_fields delete_conv' update_conv' projected_field_other,
       auto simp: projected_field_def)
next
  case False
  have "(case map_option (canonicalize [''metadata'']) (map_of d ''metadata'') of
           Some (JObj m) \<Rightarrow> f m | _ \<Rightarrow> x) = x" for f :: "dict \<Rightarrow> dict" and x
    using False by (cases "map_of d ''metadata''") (auto dest: canonicalize_JObjD split: json.splits)
  moreover have "map_option (projected_field k) (map_of d k) = map_option (canonicalize [k]) (map_of d k)"
    using False by (cases "map_of d k") (auto simp: projected_field_def Let_def elim!: is_obj.elims)
  ultimately show ?thesis unfolding identity_projection_unfold Let_def
    by (simp add: map_of_canonical_fields delete_conv')
qed

lemma dict_wf_identity_projection: "dict_wf d \<Longrightarrow> dict_wf (identity_projection d)"
  unfolding identity_projection_unfold Let_def
  by (auto simp: dict_wf_def comp_def intro!: distinct_delete distinct_update
      split: option.splits json.splits)

text \<open>
  The identity of an object depends only on the projected texts of its fields other than
  \<open>contentDigest\<close>; the order of its keys plays no part.
\<close>

lemma canonical_digest_cong:
  assumes "dict_wf d" and "dict_wf e"
    and "\<And>k. k \<noteq> ''contentDigest'' \<Longrightarrow>
           map_option (dumps \<circ> projected_field k) (map_of d k)
           = map_option (dumps \<circ> projected_field k) (map_of e k)"
  shows "canonical_digest d = canonical_digest e"
proof -
  have "dumps (JObj (identity_projection d)) = dumps (JObj (identity_projection e))"
    using assms
    by (intro dumps_obj_cong)
      (auto simp: dict_wf_identity_projection map_of_identity_projection option.map_comp
        simp del: dumps.simps)
  then show ?thesis by (simp add: canonical_digest_def encode_def)
qed

lemma canonical_digest_set_contentDigest:
  assumes "dict_wf d"
  shows "canonical_digest (dset ''contentDigest'' v d) = canonical_digest d"
  using assms by (intro canonical_digest_cong) (simp_all add: update_conv')

lemma canonical_digest_canonicalize:
  "canonical_digest (obj_of (canonicalize [] (JObj d))) = canonical_digest d"
proof -
  have "JObj (obj_of (canonicalize [] (JObj d))) = canonicalize [] (JObj d)" by simp
  then have "identity_projection (obj_of (canonicalize [] (JObj d))) = identity_projection d"
    unfolding identity_projection_def by (simp only: canonicalize_idem)
  then show ?thesis by (simp only: canonical_digest_def)
qed

lemma map_of_key_sorted:
  assumes "dict_wf d"
  shows "map_of (obj_of (key_sorted (JObj d))) k = map_option key_sorted (map_of d k)"
proof -
  let ?e = "map (\<lambda>kv. (fst kv, key_sorted (snd kv))) d"
  have "distinct (map fst (sort_key fst ?e))" "distinct (map fst ?e)"
    using assms by (simp_all add: dict_wf_def comp_def distinct_map inj_on_def sort_key_map_fst)
  then have "map_of (sort_key fst ?e) = map_of ?e" by (simp add: map_of_inject_set)
  then show ?thesis
    using map_of_map_text [of "\<lambda>_. key_sorted" d k] by simp
qed

lemma dict_wf_key_sorted: "dict_wf d \<Longrightarrow> dict_wf (obj_of (key_sorted (JObj d)))"
  by (simp add: dict_wf_def comp_def distinct_map inj_on_def sort_key_map_fst)

lemma dumps_projected_key_sorted:
  assumes "json_wf v"
  shows "dumps (projected_field k (key_sorted v)) = dumps (projected_field k v)"
proof (cases "k = ''metadata'' \<and> is_obj v")
  case False
  then have "projected_field k v = canonicalize [k] v"
    and "projected_field k (key_sorted v) = canonicalize [k] (key_sorted v)"
    by (cases v; auto simp: projected_field_def)+
  then show ?thesis by simp
next
  case True
  then obtain m where v: "v = JObj m" by (cases v) auto
  let ?c = "\<lambda>m. map (\<lambda>kv. (fst kv, canonicalize [k, fst kv] (snd kv))) m"
  let ?m = "obj_of (key_sorted (JObj m))"
  have wf: "dict_wf m" using assms v by simp
  have map: "map_of (?c m) j = map_option (canonicalize [k, j]) (map_of m j)" for m :: dict and j
    using map_of_map_text [of "\<lambda>j v. canonicalize [k, j] v" m j] by simp
  have "dumps (JObj (AList.delete ''contentDigest'' (?c ?m)))
      = dumps (JObj (AList.delete ''contentDigest'' (?c m)))"
  proof (rule dumps_obj_cong)
    show "dict_wf (AList.delete ''contentDigest'' (?c ?m))"
      using dict_wf_key_sorted [OF wf] by (intro dict_wf_delete) (simp add: dict_wf_def comp_def)
    show "dict_wf (AList.delete ''contentDigest'' (?c m))"
      using wf by (intro dict_wf_delete) (simp add: dict_wf_def comp_def)
    show "map_option dumps (map_of (AList.delete ''contentDigest'' (?c ?m)) j)
        = map_option dumps (map_of (AList.delete ''contentDigest'' (?c m)) j)" for j
      by (simp only: delete_conv' fun_upd_apply map map_of_key_sorted [OF wf] option.map_comp)
         (simp add: comp_def option.map_comp)
  qed
  with True v show ?thesis by (simp add: projected_field_def del: dumps.simps)
qed

lemma canonical_digest_key_sorted:
  assumes "json_wf (JObj d)"
  shows "canonical_digest (obj_of (key_sorted (JObj d))) = canonical_digest d"
proof (rule canonical_digest_cong)
  show "dict_wf (obj_of (key_sorted (JObj d)))" "dict_wf d"
    using assms by (simp_all add: dict_wf_key_sorted del: key_sorted.simps)
next
  fix k
  have "map_option (dumps \<circ> projected_field k \<circ> key_sorted) (map_of d k)
      = map_option (dumps \<circ> projected_field k) (map_of d k)"
  proof (cases "map_of d k")
    case (Some v)
    then have "json_wf v" using assms by (auto simp: list_all_iff dest!: map_of_SomeD)
    with Some show ?thesis by (simp add: dumps_projected_key_sorted)
  qed simp
  then show "map_option (dumps \<circ> projected_field k) (map_of (obj_of (key_sorted (JObj d))) k)
      = map_option (dumps \<circ> projected_field k) (map_of d k)"
    using assms by (simp add: map_of_key_sorted option.map_comp comp_assoc del: key_sorted.simps)
qed

lemma canonical_digest_unordered_field:
  assumes "dict_wf d" and "[k] \<in> set unordered_array_paths" and "mset xs = mset ys"
  shows "canonical_digest (dset k (JArr xs) d) = canonical_digest (dset k (JArr ys) d)"
proof -
  have k: "k \<noteq> ''metadata''" using assms(2) by (auto simp: unordered_array_paths_def)
  show ?thesis
    using assms canonicalize_unordered [OF assms(2,3)]
    by (intro canonical_digest_cong)
      (auto simp: update_conv' projected_field_other [OF k] simp del: dumps.simps canonicalize.simps)
qed

lemma json_wf_delete: "json_wf (JObj d) \<Longrightarrow> json_wf (JObj (AList.delete k d))"
  by (auto simp: list_all_iff AList.delete_eq dict_wf_def distinct_map_filter)

lemma json_wf_field: "json_wf (JObj d) \<Longrightarrow> map_of d k = Some v \<Longrightarrow> json_wf v"
  by (auto simp: list_all_iff dest!: map_of_SomeD)

lemma json_wf_dset: "json_wf (JObj d) \<Longrightarrow> json_wf v \<Longrightarrow> json_wf (JObj (dset k v d))"
  by (induction d) (auto simp: dict_wf_def update_keys)

lemma json_wf_identity_projection:
  assumes "json_wf (JObj d)"
  shows "json_wf (JObj (identity_projection d))"
proof -
  let ?p = "obj_of (canonicalize [] (JObj d))"
  have p: "json_wf (JObj ?p)" using json_wf_canonicalize [OF assms, of "[]"] by simp
  have "json_wf (JObj (dset ''metadata'' (JObj (AList.delete ''contentDigest'' m)) ?p))"
    if "map_of ?p ''metadata'' = Some (JObj m)" for m
  proof -
    have "json_wf (JObj m)" by (rule json_wf_field [OF p that])
    with p show ?thesis by (intro json_wf_dset json_wf_delete)
  qed
  with p show ?thesis unfolding identity_projection_def Let_def
    by (auto intro!: json_wf_delete split: option.splits json.splits simp del: json_wf.simps canonicalize.simps)
qed

section \<open>Properties\<close>

text \<open>
  C9. Canonical JSON is a normal form that survives its own text: reading the bytes back gives
  the canonical document with its keys in order, and encoding that document again gives the
  same bytes.
\<close>

theorem canonical_json_roundtrip:
  assumes "json_wf v"
  shows "\<exists>w. loads_bytes (canonical_json v) = Some w \<and> w = key_sorted (canonicalize [] v) \<and>
             canonical_json w = canonical_json v"
  using loads_canonical_json [OF assms] by (simp add: canonical_json_def encode_def)


text \<open>
  C8. The identity determines the content: two objects with the same identity have the same
  projected content up to key order, unless SHA-256 collides on their two encodings.
\<close>

theorem identity_determines_content:
  assumes "json_wf (JObj d)" and "json_wf (JObj e)"
    and no_collision: "sha256_hexdigest (encode (JObj (identity_projection d)))
           = sha256_hexdigest (encode (JObj (identity_projection e))) \<Longrightarrow>
         encode (JObj (identity_projection d)) = encode (JObj (identity_projection e))"
    and "canonical_digest d = canonical_digest e"
  shows "key_sorted (JObj (identity_projection d)) = key_sorted (JObj (identity_projection e))"
proof (rule dumps_inject)
  show "json_wf (JObj (identity_projection d))" "json_wf (JObj (identity_projection e))"
    using assms by (simp_all only: json_wf_identity_projection)
  have "encode (JObj (identity_projection d)) = encode (JObj (identity_projection e))"
    using assms(4) by (intro no_collision) (simp add: canonical_digest_def digest_of_bytes_def)
  then show "dumps (JObj (identity_projection d)) = dumps (JObj (identity_projection e))"
    by (simp only: encode_inject)
qed

section \<open>Witnesses\<close>

definition sample_doc :: dict where
  "sample_doc =
     [(''kind'', JStr ''Claim''), (''evidence'', JArr [JStr ''b'', JStr ''a'']),
      (''contentDigest'', JStr ''sha256:0'')]"

lemma sample_doc_wf: "json_wf (JObj sample_doc)"
  by (simp add: sample_doc_def dict_wf_def)

theorem canonical_json_roundtrip_witness:
  "\<exists>w. loads_bytes (canonical_json (JObj sample_doc)) = Some w \<and>
       canonical_json w = canonical_json (JObj sample_doc)"
  using canonical_json_roundtrip [OF sample_doc_wf] by blast


theorem identity_determines_content_witness:
  "key_sorted (JObj (identity_projection (dset ''contentDigest'' (JStr ''x'') sample_doc)))
   = key_sorted (JObj (identity_projection sample_doc))"
proof (rule identity_determines_content)
  show "json_wf (JObj (dset ''contentDigest'' (JStr ''x'') sample_doc))"
    using sample_doc_wf by (intro json_wf_dset) simp_all
  show "canonical_digest (dset ''contentDigest'' (JStr ''x'') sample_doc) = canonical_digest sample_doc"
    using sample_doc_wf by (intro canonical_digest_set_contentDigest) simp
  have "identity_projection (dset ''contentDigest'' (JStr ''x'') sample_doc)
      = identity_projection sample_doc"
    by (simp add: sample_doc_def identity_projection_def)
  then show "encode (JObj (identity_projection (dset ''contentDigest'' (JStr ''x'') sample_doc)))
      = encode (JObj (identity_projection sample_doc))" by simp
qed (rule sample_doc_wf)

end
