(* ===== verification/Machines.thy ===== *)
theory Machines
  imports Commons_Prelude
begin

text \<open>
  The interface of the transition tables. Records, work items and coordination leases each
  carry a state whose changes a table allows; each component replays a history against its
  table. The locale \<open>transition_machine\<close> states what such a table promises, the locale
  \<open>guarded_replay\<close> what a replay loop over it promises; both are interpreted on the program's
  own tables and loops in the theories that define them.
\<close>

text \<open>A walk: the states entered, in order, from a start to an end.\<close>

inductive walk :: "('s \<Rightarrow> 's \<Rightarrow> bool) \<Rightarrow> 's \<Rightarrow> 's list \<Rightarrow> 's \<Rightarrow> bool" for step where
  here: "walk step s [] s"
| onward: "walk step s ps t \<Longrightarrow> step t u \<Longrightarrow> walk step s (ps @ [u]) u"

inductive_cases walk_NilE [elim!]: "walk step s [] t"
inductive_cases walk_snocE: "walk step s (ps @ [u]) t"

lemma walk_snoc: "walk step s (ps @ [u]) t \<longleftrightarrow> u = t \<and> (\<exists>v. walk step s ps v \<and> step v t)"
  by (auto intro: walk.onward elim!: walk_snocE)

lemma walk_trans: "walk step s ps t \<Longrightarrow> walk step t qs u \<Longrightarrow> walk step s (ps @ qs) u"
  by (induction qs arbitrary: u rule: rev_induct) (auto simp: walk_snoc simp flip: append_assoc)

text \<open>A table as a relation: the state is a key and the target one of its entries.\<close>

definition table_next :: "(string \<times> string list) list \<Rightarrow> string \<Rightarrow> string list" where
  "table_next table state = (case map_of table state of None \<Rightarrow> [] | Some ts \<Rightarrow> ts)"

definition table_pairs :: "(string \<times> string list) list \<Rightarrow> (string \<times> string) list" where
  "table_pairs table = concat (map (\<lambda>(s, ts). map (Pair s) ts) table)"

lemma table_next_pair: "t \<in> set (table_next table s) \<Longrightarrow> (s, t) \<in> set (table_pairs table)"
proof -
  assume t: "t \<in> set (table_next table s)"
  then obtain ts where "map_of table s = Some ts" "t \<in> set ts"
    by (cases "map_of table s") (auto simp: table_next_def)
  then have "(s, ts) \<in> set table" "t \<in> set ts" by (auto dest: map_of_SomeD)
  then show ?thesis by (force simp: table_pairs_def)
qed

locale transition_machine =
  fixes step :: "'s \<Rightarrow> 's \<Rightarrow> bool"
    and states :: "'s set"
    and final :: "'s set"
  assumes step_source: "step s t \<Longrightarrow> s \<in> states"
    and step_target: "step s t \<Longrightarrow> t \<in> states"
    and final_state: "s \<in> final \<Longrightarrow> s \<in> states"
    and final_stuck: "s \<in> final \<Longrightarrow> \<not> step s t"
    and progress: "s \<in> states \<Longrightarrow> s \<notin> final \<Longrightarrow> \<exists>t. step s t"
begin

lemma stuck_iff_final: "s \<in> states \<Longrightarrow> (\<forall>t. \<not> step s t) \<longleftrightarrow> s \<in> final"
  using final_stuck progress by blast

lemma walk_states: "walk step s ps t \<Longrightarrow> s \<in> states \<Longrightarrow> set ps \<subseteq> states \<and> t \<in> states"
  by (induction rule: walk.induct) (auto dest: step_target)

lemma walk_from_final: "walk step s ps t \<Longrightarrow> s \<in> final \<Longrightarrow> ps = [] \<and> t = s"
  by (induction rule: walk.induct) (auto dest: final_stuck)

lemma walk_target: "walk step s ps t \<Longrightarrow> ps \<noteq> [] \<Longrightarrow> t \<in> states"
  by (erule walk.cases) (auto dest: step_target)

end

text \<open>
  A loop that replays a history: \<open>cur\<close> is the state it has reached, \<open>cnt\<close> how many entries it
  has applied; an entry is applied by one step of the table or leaves both alone.
\<close>

locale guarded_replay = transition_machine +
  fixes cur :: "'x \<Rightarrow> 'a"
    and cnt :: "'x \<Rightarrow> nat"
    and apply_entry :: "'x \<Rightarrow> 'e \<Rightarrow> 'x"
  assumes moves:
    "cur (apply_entry x e) = cur x \<and> cnt (apply_entry x e) = cnt x \<or>
     step (cur x) (cur (apply_entry x e)) \<and> cnt (apply_entry x e) = Suc (cnt x)"
begin

lemma replay_walk:
  "\<exists>ps. walk step (cur x) ps (cur (foldl apply_entry x es)) \<and>
        cnt (foldl apply_entry x es) = cnt x + length ps"
proof (induction es rule: rev_induct)
  case Nil
  show ?case by (auto intro: walk.here)
next
  case (snoc e es)
  then obtain ps where ps: "walk step (cur x) ps (cur (foldl apply_entry x es))"
    "cnt (foldl apply_entry x es) = cnt x + length ps" by blast
  let ?y = "foldl apply_entry x es"
  show ?case
  proof (cases "cur (apply_entry ?y e) = cur ?y \<and> cnt (apply_entry ?y e) = cnt ?y")
    case True
    with ps show ?thesis by (auto intro!: exI [of _ ps])
  next
    case False
    with moves have m: "step (cur ?y) (cur (apply_entry ?y e))" "cnt (apply_entry ?y e) = Suc (cnt ?y)"
      by blast+
    have "walk step (cur x) (ps @ [cur (apply_entry ?y e)]) (cur (apply_entry ?y e))"
      using ps(1) m(1) by (rule walk.onward)
    with ps(2) m(2) show ?thesis
      by (intro exI [of _ "ps @ [cur (apply_entry ?y e)]"]) simp
  qed
qed

lemma replay_from_final:
  "cur x \<in> final \<Longrightarrow>
   cur (foldl apply_entry x es) = cur x \<and> cnt (foldl apply_entry x es) = cnt x"
  using replay_walk [of x es] walk_from_final by fastforce

end

end
