(* ===== verification/Lifecycle.thy ===== *)
theory Lifecycle
  imports Canonical Machines
begin

text \<open>
  The append-only lifecycle of records (lifecycle.py, the states of models.py): the table of
  allowed transitions, the checks of one transition, and the projection of an event history
  into the disposition of a record within one trust domain or across all of them. The step
  relation \<open>lifecycle_step\<close> is the table read as a state machine; every projection walks it.
\<close>

section \<open>The transition table\<close>

definition lifecycle_states :: "string list" where
  "lifecycle_states =
     [''proposed'', ''reproduced'', ''verified'', ''accepted'', ''disputed'', ''superseded'',
      ''expired'', ''rejected'', ''withdrawn'']"

definition allowed :: "(string \<times> string list) list" where
  "allowed =
     [(''proposed'', [''reproduced'', ''disputed'', ''expired'', ''rejected'', ''withdrawn'']),
      (''reproduced'', [''verified'', ''disputed'', ''expired'', ''rejected'', ''withdrawn'']),
      (''verified'', [''accepted'', ''disputed'', ''superseded'', ''expired'', ''withdrawn'']),
      (''accepted'', [''superseded'', ''expired'', ''withdrawn'']),
      (''disputed'',
        [''reproduced'', ''verified'', ''superseded'', ''expired'', ''rejected'', ''withdrawn'']),
      (''superseded'', []),
      (''expired'', []),
      (''rejected'', [''superseded'', ''withdrawn'']),
      (''withdrawn'', [])]"

definition allowed_transitions :: "string \<Rightarrow> string list" where
  "allowed_transitions state = (case map_of allowed state of None \<Rightarrow> [] | Some ts \<Rightarrow> ts)"

section \<open>One transition\<close>

definition transition_from_is :: "string \<Rightarrow> json \<Rightarrow> bool" where
  "transition_from_is current transition =
     (is_obj transition \<and> dget (obj_of transition) ''from'' = JStr current)"

definition authority_has_domain :: "json \<Rightarrow> bool" where
  "authority_has_domain authority =
     (is_obj authority \<and>
      py_strip (py_str (dget_default (obj_of authority) ''domain'' (JStr []))) \<noteq> [])"

definition validate_transition :: "string \<Rightarrow> string \<Rightarrow> dict \<Rightarrow> diagnostic list" where
  "validate_transition current target event =
     (if map_of allowed current = None
      then [Diagnostic ''UNKNOWN_CURRENT_STATE'' ''current'' ''current lifecycle state is unknown'']
      else []) @
     (if map_of allowed target = None
      then [Diagnostic ''UNKNOWN_TARGET_STATE'' ''transition.to'' ''target lifecycle state is unknown'']
      else []) @
     (if target \<notin> set (allowed_transitions current)
      then [Diagnostic ''FORBIDDEN_TRANSITION'' ''transition''
              (current @ '' -> '' @ target @ '' is not allowed'')]
      else []) @
     (if \<not> transition_from_is current (dget_default event ''transition'' (JObj []))
      then [Diagnostic ''STALE_TRANSITION'' ''transition.from''
              (''expected current state '' @ current)]
      else []) @
     (if \<not> authority_has_domain (dget_default event ''authority'' (JObj []))
      then [Diagnostic ''AUTHORITY_DOMAIN_REQUIRED'' ''authority.domain''
              ''every transition needs an explicit domain'']
      else [])"

section \<open>Projections\<close>

definition event_domain :: "dict \<Rightarrow> string option" where
  "event_domain event =
     (case dget event ''authority'' of
        JObj authority \<Rightarrow>
          (let d = py_strip (py_str (dget authority ''domain''))
           in if d = [] then None else Some d)
      | _ \<Rightarrow> None)"

definition target_digest :: "dict \<Rightarrow> string option" where
  "target_digest event =
     (case dget event ''target'' of
        JObj target \<Rightarrow>
          (let v = dget target ''contentDigest'' in if truthy v then Some (py_str v) else None)
      | _ \<Rightarrow> None)"

text \<open>\<open>str(value.get("contentDigest") or canonical_digest(value))\<close>.\<close>

definition own_digest :: "dict \<Rightarrow> string" where
  "own_digest value =
     (let v = dget value ''contentDigest'' in if truthy v then py_str v else canonical_digest value)"

record lifecycle_view =
  current_state :: string
  applied :: "string list"
  view_diagnostics :: "diagnostic list"
  view_domain :: "string option"
  domain_states :: "(string \<times> string) list"

definition view_valid :: "lifecycle_view \<Rightarrow> bool" where
  "view_valid v = report_valid (view_diagnostics v)"

definition transition_state :: "lifecycle_view \<Rightarrow> string" where
  "transition_state v = (if view_domain v \<noteq> None then current_state v else ''unreviewed'')"

text \<open>The variables of the loop in \<open>_derive_for_domain\<close>.\<close>

record derivation =
  st :: string
  taken :: "string list"
  diags :: "diagnostic list"
  seen :: "string list"

definition derive_step :: "string \<Rightarrow> string \<Rightarrow> derivation \<Rightarrow> dict \<Rightarrow> derivation" where
  "derive_step target domain s event =
     (let event_digest = own_digest event
      in if event_digest \<in> set (seen s) then s
         else
           (let s1 = s\<lparr>seen := event_digest # seen s\<rparr>
            in if target_digest event \<noteq> Some target \<or> event_domain event \<noteq> Some domain then s1
               else
                 (case dget_default event ''transition'' (JObj []) of
                    JObj transition \<Rightarrow>
                      (let next_state = py_str (dget_default transition ''to'' (JStr []));
                           report = validate_transition (st s) next_state event
                       in if \<not> report_valid report then s1\<lparr>diags := diags s @ report\<rparr>
                          else s1\<lparr>st := next_state, taken := taken s @ [event_digest]\<rparr>)
                  | _ \<Rightarrow>
                      s1\<lparr>diags := diags s @
                          [Diagnostic ''INVALID_TRANSITION'' ''transition''
                             ''transition must be an object'']\<rparr>)))"

definition initial_state :: "dict \<Rightarrow> string res" where
  "initial_state rec =
     rbind (attr_get (dget_default rec ''lifecycle'' (JObj [])) ''initialState'' (JStr ''proposed''))
       (\<lambda>v. Inr (py_str v))"

definition derive_run :: "string \<Rightarrow> string \<Rightarrow> string \<Rightarrow> dict list \<Rightarrow> derivation" where
  "derive_run target domain s0 events =
     foldl (derive_step target domain) \<lparr>st = s0, taken = [], diags = [], seen = []\<rparr> events"

definition derive_for_domain :: "dict \<Rightarrow> dict list \<Rightarrow> string \<Rightarrow> lifecycle_view res" where
  "derive_for_domain rec events domain =
     rbind (initial_state rec) (\<lambda>s0.
       let s = derive_run (own_digest rec) domain s0 events
       in Inr \<lparr>current_state = st s, applied = taken s, view_diagnostics = diags s,
               view_domain = Some domain, domain_states = []\<rparr>)"

definition history_domains :: "dict \<Rightarrow> dict list \<Rightarrow> string list" where
  "history_domains rec events =
     sorted_set (List.map_filter
       (\<lambda>e. if target_digest e = Some (own_digest rec) then event_domain e else None) events)"

definition derive_lifecycle :: "dict \<Rightarrow> dict list \<Rightarrow> string option \<Rightarrow> lifecycle_view res" where
  "derive_lifecycle rec events domain =
     (case domain of
        Some d \<Rightarrow> derive_for_domain rec events d
      | None \<Rightarrow>
          (let domains = history_domains rec events
           in rbind (rmapM (derive_for_domain rec events) domains) (\<lambda>views.
                Inr \<lparr>current_state = (if domains = [] then ''proposed'' else ''domain-scoped''),
                     applied = concat (map applied views),
                     view_diagnostics = concat (map view_diagnostics views),
                     view_domain = None,
                     domain_states =
                       map (\<lambda>v. (case view_domain v of None \<Rightarrow> [] | Some d \<Rightarrow> d, current_state v))
                         views\<rparr>)))"

definition domain_views :: "dict \<Rightarrow> dict list \<Rightarrow> (string \<times> lifecycle_view) list res" where
  "domain_views rec events =
     rmapM (\<lambda>d. rbind (derive_for_domain rec events d) (\<lambda>v. Inr (d, v))) (history_domains rec events)"

section \<open>The table as a state machine\<close>

inductive lifecycle_step :: "string \<Rightarrow> string \<Rightarrow> bool" where
  step: "t \<in> set (allowed_transitions s) \<Longrightarrow> lifecycle_step s t"

inductive_simps lifecycle_step_iff: "lifecycle_step s t"

definition terminal_states :: "string list" where
  "terminal_states = [''superseded'', ''expired'', ''withdrawn'']"

lemma lifecycle_step_pair: "lifecycle_step s t \<Longrightarrow> (s, t) \<in> set (table_pairs allowed)"
  using table_next_pair [of t allowed s]
  by (simp add: lifecycle_step_iff allowed_transitions_def table_next_def)

lemma allowed_transitions_nonempty:
  "s \<in> set lifecycle_states \<Longrightarrow> s \<notin> set terminal_states \<Longrightarrow> allowed_transitions s \<noteq> []"
  by (auto simp: lifecycle_states_def terminal_states_def allowed_transitions_def allowed_def)

interpretation lifecycle_table: transition_machine lifecycle_step "set lifecycle_states" "set terminal_states"
proof unfold_locales
  fix s t
  show "lifecycle_step s t \<Longrightarrow> s \<in> set lifecycle_states" "lifecycle_step s t \<Longrightarrow> t \<in> set lifecycle_states"
    by (auto dest!: lifecycle_step_pair simp: table_pairs_def allowed_def lifecycle_states_def)
  show "s \<in> set terminal_states \<Longrightarrow> s \<in> set lifecycle_states"
    by (auto simp: terminal_states_def lifecycle_states_def)
  show "s \<in> set terminal_states \<Longrightarrow> \<not> lifecycle_step s t"
    by (auto dest!: lifecycle_step_pair simp: table_pairs_def allowed_def terminal_states_def)
  show "s \<in> set lifecycle_states \<Longrightarrow> s \<notin> set terminal_states \<Longrightarrow> \<exists>t. lifecycle_step s t"
    using allowed_transitions_nonempty [of s] by (meson lifecycle_step.intros list.set_sel(1))
qed

lemma accepted_only_from_verified: "lifecycle_step s ''accepted'' \<Longrightarrow> s = ''verified''"
  by (auto dest!: lifecycle_step_pair simp: table_pairs_def allowed_def)

lemma path_to_accepted:
  assumes "walk lifecycle_step s ps ''accepted''"
  shows "s = ''accepted'' \<or> (\<exists>qs. ps = qs @ [''accepted''] \<and> walk lifecycle_step s qs ''verified'')"
  using assms
proof cases
  case (onward qs t)
  with accepted_only_from_verified [of t] show ?thesis by blast
qed simp

lemma verified_far:
  "walk lifecycle_step s ps t \<Longrightarrow> s = ''proposed'' \<Longrightarrow>
   (t \<noteq> ''proposed'' \<longrightarrow> 1 \<le> length ps) \<and> (t = ''verified'' \<longrightarrow> 2 \<le> length ps)"
proof (induction rule: walk.induct)
  case (onward s ps t u)
  have "\<not> lifecycle_step ''proposed'' ''verified''"
    by (simp add: lifecycle_step_iff allowed_transitions_def allowed_def)
  with onward show ?case by (auto simp: Suc_le_eq)
qed simp

lemma validate_transition_valid:
  "report_valid (validate_transition current target event) \<longleftrightarrow>
     lifecycle_step current target \<and>
     transition_from_is current (dget_default event ''transition'' (JObj [])) \<and>
     authority_has_domain (dget_default event ''authority'' (JObj []))"
proof -
  have known: "map_of allowed s \<noteq> None \<longleftrightarrow> s \<in> set lifecycle_states" for s
    by (auto simp: map_of_eq_None_iff allowed_def lifecycle_states_def)
  show ?thesis
    using lifecycle_table.step_target [of current target] lifecycle_table.step_source [of current target]
      known [of current] known [of target]
    by (auto simp: validate_transition_def lifecycle_step_iff)
qed

section \<open>Projections walk the state machine\<close>

definition relevant :: "string \<Rightarrow> string \<Rightarrow> dict \<Rightarrow> bool" where
  "relevant target domain event =
     (target_digest event = Some target \<and> event_domain event = Some domain)"

lemma derive_step_seen:
  "own_digest event \<in> set (seen s) \<Longrightarrow> derive_step target domain s event = s"
  by (simp add: derive_step_def)

lemma derive_step_irrelevant:
  "\<not> relevant target domain event \<Longrightarrow>
   derive_step target domain s event = s \<or>
   derive_step target domain s event = s\<lparr>seen := own_digest event # seen s\<rparr>"
  by (auto simp: derive_step_def relevant_def Let_def)

lemma seen_derive_step:
  "set (seen (derive_step target domain s event)) = insert (own_digest event) (set (seen s))"
  by (auto simp: derive_step_def Let_def split: json.splits)

lemma derive_step_moves:
  "st (derive_step target domain s event) = st s \<and> taken (derive_step target domain s event) = taken s
   \<or> lifecycle_step (st s) (st (derive_step target domain s event)) \<and>
     taken (derive_step target domain s event) = taken s @ [own_digest event]"
  by (auto simp: derive_step_def Let_def validate_transition_valid split: json.splits)

interpretation derivation: guarded_replay lifecycle_step "set lifecycle_states" "set terminal_states"
    st "\<lambda>s. length (taken s)" "derive_step target domain" for target domain
proof unfold_locales
  fix s e
  show "st (derive_step target domain s e) = st s \<and>
      length (taken (derive_step target domain s e)) = length (taken s) \<or>
    lifecycle_step (st s) (st (derive_step target domain s e)) \<and>
      length (taken (derive_step target domain s e)) = Suc (length (taken s))"
    using derive_step_moves [of target domain s e] by auto
qed

lemma derive_run_walk:
  "\<exists>ps. walk lifecycle_step s0 ps (st (derive_run target domain s0 events)) \<and>
        length ps = length (taken (derive_run target domain s0 events))"
  using derivation.replay_walk [of "\<lparr>st = s0, taken = [], diags = [], seen = []\<rparr>" target domain events]
  by (auto simp: derive_run_def)

lemma foldl_derive_seen:
  "(\<And>e. e \<in> set events \<Longrightarrow> own_digest e \<in> set (seen s)) \<Longrightarrow>
   foldl (derive_step target domain) s events = s"
  by (induction events) (simp_all add: derive_step_seen)

lemma seen_foldl_derive:
  "set (seen (foldl (derive_step target domain) s events)) = own_digest ` set events \<union> set (seen s)"
  by (induction events arbitrary: s) (auto simp: seen_derive_step)

lemma taken_prefix:
  "\<exists>more_taken. taken (foldl (derive_step target domain) s events) = taken s @ more_taken"
proof (induction events arbitrary: s)
  case (Cons e es)
  then show ?case using derive_step_moves [of target domain s e] by (metis append_assoc foldl_Cons)
qed simp

lemma foldl_derive_terminal:
  assumes "st s \<in> set terminal_states"
  shows "st (foldl (derive_step target domain) s events) = st s \<and>
         taken (foldl (derive_step target domain) s events) = taken s"
  using derivation.replay_from_final [OF assms, of target domain events]
    taken_prefix [of target domain s events] by auto

text \<open>Two loop states that agree but for digests outside the relevant events.\<close>

definition same_view :: "string set \<Rightarrow> derivation \<Rightarrow> derivation \<Rightarrow> bool" where
  "same_view D s t =
     (st s = st t \<and> taken s = taken t \<and> diags s = diags t \<and> set (seen s) \<inter> D = set (seen t) \<inter> D)"

lemma same_view_step:
  assumes "same_view D s t" and "own_digest e \<in> D"
  shows "same_view D (derive_step target domain s e) (derive_step target domain t e)"
proof (cases "own_digest e \<in> set (seen s)")
  case True
  with assms have "own_digest e \<in> set (seen t)" by (auto simp: same_view_def)
  with True assms show ?thesis by (simp add: derive_step_seen)
next
  case False
  with assms have "own_digest e \<notin> set (seen t)" by (auto simp: same_view_def)
  with False assms show ?thesis
    by (auto simp: same_view_def derive_step_def Let_def split: json.splits)
qed

lemma same_view_seen:
  "same_view D s t \<Longrightarrow> k \<notin> D \<Longrightarrow> same_view D (s\<lparr>seen := k # seen s\<rparr>) t"
  by (simp add: same_view_def)

lemma same_view_filter:
  assumes "same_view D s t"
    and "\<And>e. e \<in> set es \<Longrightarrow> own_digest e \<in> D \<longleftrightarrow> relevant target domain e"
  shows "same_view D (foldl (derive_step target domain) s es)
                     (foldl (derive_step target domain) t (filter (relevant target domain) es))"
  using assms
proof (induction es arbitrary: s t)
  case Nil
  then show ?case by simp
next
  case (Cons e es)
  show ?case
  proof (cases "relevant target domain e")
    case True
    then show ?thesis using Cons.prems by (auto intro!: Cons.IH same_view_step)
  next
    case False
    with Cons.prems have "own_digest e \<notin> D" by auto
    then have "same_view D (derive_step target domain s e) t"
      using derive_step_irrelevant [OF False, of s] Cons.prems(1) same_view_seen by metis
    with False show ?thesis using Cons.prems(2) by (auto intro!: Cons.IH)
  qed
qed

section \<open>Properties\<close>

text \<open>
  C10. Every projection of a history in a trust domain is a walk in the table of allowed
  transitions: the disposition it reports is reached from the record's initial state by exactly
  as many allowed steps as there are applied events.
\<close>

theorem projection_walks_table:
  assumes "derive_for_domain rec events domain = Inr view" and "initial_state rec = Inr s0"
  shows "\<exists>ps. walk lifecycle_step s0 ps (current_state view) \<and> length ps = length (applied view)"
  using assms derive_run_walk [of s0 "own_digest rec" domain events]
  by (auto simp: derive_for_domain_def Let_def)


text \<open>
  C12. Trust domains are isolated: when no event outside a domain carries the digest of an event
  of the domain, the events of other domains and other records do not change the projection.
\<close>

theorem domains_isolated:
  assumes "\<And>e f. e \<in> set events \<Longrightarrow> f \<in> set events \<Longrightarrow> own_digest e = own_digest f \<Longrightarrow>
             relevant (own_digest rec) domain e \<Longrightarrow> relevant (own_digest rec) domain f"
  shows "derive_for_domain rec (filter (relevant (own_digest rec) domain) events) domain
         = derive_for_domain rec events domain"
proof (cases "initial_state rec")
  case (Inl e)
  then show ?thesis by (simp add: derive_for_domain_def)
next
  case (Inr s0)
  let ?D = "own_digest ` set (filter (relevant (own_digest rec) domain) events)"
  have "own_digest e \<in> ?D \<longleftrightarrow> relevant (own_digest rec) domain e" if e: "e \<in> set events" for e
  proof
    assume "own_digest e \<in> ?D"
    then obtain f where "f \<in> set events" "relevant (own_digest rec) domain f"
      "own_digest f = own_digest e" by auto
    then show "relevant (own_digest rec) domain e" using assms [of f e] e by simp
  qed (use e in auto)
  then have "same_view ?D (derive_run (own_digest rec) domain s0 events)
      (derive_run (own_digest rec) domain s0 (filter (relevant (own_digest rec) domain) events))"
    unfolding derive_run_def by (intro same_view_filter) (auto simp: same_view_def)
  with Inr show ?thesis by (simp add: derive_for_domain_def same_view_def Let_def)
qed

text \<open>
  C11. Replaying a history changes nothing: events already seen are skipped, so delivering any
  of them again, in any order and any number of times, leaves the projection as it was.
\<close>

theorem replay_is_idempotent:
  assumes "own_digest ` set again \<subseteq> own_digest ` set events"
  shows "derive_for_domain rec (events @ again) domain = derive_for_domain rec events domain"
proof -
  have "derive_run target domain s0 (events @ again) = derive_run target domain s0 events" for target s0
    unfolding derive_run_def foldl_append
    using assms by (intro foldl_derive_seen) (auto simp: seen_foldl_derive)
  then show ?thesis by (simp add: derive_for_domain_def)
qed

text \<open>
  Superseded, expired and withdrawn are final: once a domain's history has reached one of
  them, no continuation of the history changes the disposition or the applied events.
\<close>

theorem terminal_states_final:
  assumes "derive_for_domain rec events domain = Inr view"
    and "current_state view \<in> set terminal_states"
  shows "\<exists>view'. derive_for_domain rec (events @ later) domain = Inr view' \<and>
           current_state view' = current_state view \<and> applied view' = applied view"
  using assms foldl_derive_terminal [of "derive_run (own_digest rec) domain s0 events" for s0]
  by (auto simp: derive_for_domain_def derive_run_def Let_def rbind_eq_Inr)

text \<open>
  A projection that names no trust domain never reads as a disposition: its state is
  proposed or domain-scoped, nothing can be appended to it as if it were one, and it keeps the
  disposition of every domain of the history, each the projection of that domain.
\<close>

theorem unscoped_view_keeps_domains:
  assumes "derive_lifecycle rec events None = Inr view"
  shows "current_state view = (if history_domains rec events = [] then ''proposed'' else ''domain-scoped'')
    \<and> transition_state view = ''unreviewed''
    \<and> map fst (domain_states view) = history_domains rec events
    \<and> (\<forall>(d, s) \<in> set (domain_states view). \<exists>w. derive_for_domain rec events d = Inr w \<and> current_state w = s)"
proof -
  from assms obtain views where v: "rmapM (derive_for_domain rec events) (history_domains rec events) = Inr views"
    and view: "domain_states view =
        map (\<lambda>v. (case view_domain v of None \<Rightarrow> [] | Some d \<Rightarrow> d, current_state v)) views"
      "current_state view = (if history_domains rec events = [] then ''proposed'' else ''domain-scoped'')"
      "view_domain view = None"
    by (auto simp: derive_lifecycle_def Let_def rbind_eq_Inr)
  have dom: "view_domain w = Some d" if "derive_for_domain rec events d = Inr w" for d w
    using that by (auto simp: derive_for_domain_def Let_def rbind_eq_Inr)
  have "map (\<lambda>v. (case view_domain v of None \<Rightarrow> [] | Some d \<Rightarrow> d)) ws = ds \<and>
        (\<forall>w \<in> set ws. \<exists>d. derive_for_domain rec events d = Inr w)"
    if "rmapM (derive_for_domain rec events) ds = Inr ws" for ds ws
    using that by (induction ds arbitrary: ws) (auto simp: rbind_eq_Inr dom)
  from this [OF v] view dom show ?thesis
    by (auto simp: transition_state_def comp_def)
qed

section \<open>A worked history\<close>

definition sample_record :: dict where
  "sample_record =
     [(''contentDigest'', JStr ''sha256:r1''), (''lifecycle'', JObj [(''initialState'', JStr ''proposed'')])]"

definition sample_event :: "string \<Rightarrow> string \<Rightarrow> string \<Rightarrow> string \<Rightarrow> dict" where
  "sample_event digest domain from_state to_state =
     [(''contentDigest'', JStr digest),
      (''target'', JObj [(''contentDigest'', JStr ''sha256:r1'')]),
      (''transition'', JObj [(''from'', JStr from_state), (''to'', JStr to_state)]),
      (''authority'', JObj [(''domain'', JStr domain)])]"

definition sample_history :: "dict list" where
  "sample_history =
     [sample_event ''e1'' ''local'' ''proposed'' ''reproduced'',
      sample_event ''e2'' ''other'' ''proposed'' ''rejected'',
      sample_event ''e3'' ''local'' ''reproduced'' ''verified'',
      sample_event ''e4'' ''local'' ''verified'' ''accepted'']"

lemma sample_strip: "py_strip ''local'' = ''local''" "py_strip ''other'' = ''other''"
  by (simp_all add: py_strip_def is_space_def)

lemma sample_event_fields:
  "d \<noteq> [] \<Longrightarrow> own_digest (sample_event d dm f t) = d"
  "target_digest (sample_event d dm f t) = Some ''sha256:r1''"
  "event_domain (sample_event d dm f t) = (if py_strip dm = [] then None else Some (py_strip dm))"
  by (simp_all add: own_digest_def target_digest_def event_domain_def sample_event_def dget_def)

lemma sample_step:
  assumes "d \<noteq> []" and "d \<notin> set (seen s)" and "py_strip dm = dm" and "dm \<noteq> []"
    and "f = st s" and "t \<in> set (allowed_transitions f)"
  shows "derive_step ''sha256:r1'' dm s (sample_event d dm f t)
         = s\<lparr>seen := d # seen s, st := t, taken := taken s @ [d]\<rparr>"
proof -
  have "report_valid (validate_transition (st s) t (sample_event d dm f t))"
    using assms by (simp add: validate_transition_valid lifecycle_step_iff sample_event_def
        dget_def dget_default_def transition_from_is_def authority_has_domain_def)
  moreover have "dget_default (sample_event d dm f t) ''transition'' (JObj [])
      = JObj [(''from'', JStr f), (''to'', JStr t)]"
    by (simp add: sample_event_def dget_default_def)
  ultimately show ?thesis using assms
    by (simp add: derive_step_def sample_event_fields Let_def dget_default_def)
qed

lemma sample_skip:
  assumes "d \<noteq> []" and "d \<notin> set (seen s)" and "py_strip dm \<noteq> domain"
  shows "derive_step ''sha256:r1'' domain s (sample_event d dm f t) = s\<lparr>seen := d # seen s\<rparr>"
  using assms by (simp add: derive_step_def sample_event_fields Let_def)

lemma sample_allowed:
  "''reproduced'' \<in> set (allowed_transitions ''proposed'')"
  "''verified'' \<in> set (allowed_transitions ''reproduced'')"
  "''accepted'' \<in> set (allowed_transitions ''verified'')"
  "''withdrawn'' \<in> set (allowed_transitions ''accepted'')"
  "''rejected'' \<in> set (allowed_transitions ''proposed'')"
  by (simp_all add: allowed_transitions_def allowed_def)

lemma sample_record_fields:
  "own_digest sample_record = ''sha256:r1''" "initial_state sample_record = Inr ''proposed''"
  by (simp_all add: sample_record_def own_digest_def initial_state_def dget_def dget_default_def)

lemma sample_view:
  "derive_for_domain sample_record sample_history ''local'' =
     Inr \<lparr>current_state = ''accepted'', applied = [''e1'', ''e3'', ''e4''], view_diagnostics = [],
          view_domain = Some ''local'', domain_states = []\<rparr>"
  by (simp add: derive_for_domain_def derive_run_def sample_record_fields sample_history_def
      sample_step sample_skip sample_strip sample_allowed)

lemma sample_withdrawn:
  "derive_for_domain sample_record
     (sample_history @ [sample_event ''e5'' ''local'' ''accepted'' ''withdrawn'']) ''local'' =
     Inr \<lparr>current_state = ''withdrawn'', applied = [''e1'', ''e3'', ''e4'', ''e5''],
          view_diagnostics = [], view_domain = Some ''local'', domain_states = []\<rparr>"
  by (simp add: derive_for_domain_def derive_run_def sample_record_fields sample_history_def
      sample_step sample_skip sample_strip sample_allowed)

lemma sample_other_view:
  "derive_for_domain sample_record sample_history ''other'' =
     Inr \<lparr>current_state = ''rejected'', applied = [''e2''], view_diagnostics = [],
          view_domain = Some ''other'', domain_states = []\<rparr>"
  by (simp add: derive_for_domain_def derive_run_def sample_record_fields sample_history_def
      sample_step sample_skip sample_strip sample_allowed)

lemma sample_relevant:
  "d \<noteq> [] \<Longrightarrow> relevant ''sha256:r1'' ''local'' (sample_event d dm f t) \<longleftrightarrow> py_strip dm = ''local''"
  by (auto simp: relevant_def sample_event_fields)

theorem projection_walks_table_witness:
  "\<exists>ps. walk lifecycle_step ''proposed'' ps ''accepted'' \<and> length ps = 3"
  using projection_walks_table [OF sample_view sample_record_fields(2)] by (simp add: numeral_eq_Suc)


theorem domains_isolated_witness:
  "derive_for_domain sample_record (filter (relevant ''sha256:r1'' ''local'') sample_history) ''local''
   = derive_for_domain sample_record sample_history ''local'' \<and>
   length (filter (relevant ''sha256:r1'' ''local'') sample_history) = 3"
proof -
  have "derive_for_domain sample_record
      (filter (relevant (own_digest sample_record) ''local'') sample_history) ''local''
      = derive_for_domain sample_record sample_history ''local''"
    by (rule domains_isolated)
      (auto simp: sample_history_def sample_record_fields sample_event_fields sample_relevant sample_strip)
  then show ?thesis
    by (simp add: sample_record_fields sample_history_def sample_relevant sample_strip)
qed

theorem replay_is_idempotent_witness:
  "derive_for_domain sample_record (sample_history @ rev sample_history) ''local''
   = derive_for_domain sample_record sample_history ''local''"
  by (rule replay_is_idempotent) simp

theorem terminal_states_final_witness:
  "\<exists>view'. derive_for_domain sample_record
     ((sample_history @ [sample_event ''e5'' ''local'' ''accepted'' ''withdrawn'']) @
      [sample_event ''e6'' ''local'' ''withdrawn'' ''accepted'']) ''local'' = Inr view' \<and>
     current_state view' = ''withdrawn''"
  using terminal_states_final [OF sample_withdrawn,
      where later = "[sample_event ''e6'' ''local'' ''withdrawn'' ''accepted'']"]
  by (auto simp: terminal_states_def)

theorem unscoped_view_keeps_domains_witness:
  "\<exists>view. derive_lifecycle sample_record sample_history None = Inr view \<and>
     current_state view = ''domain-scoped'' \<and> map fst (domain_states view) = [''local'', ''other'']"
proof -
  have domains: "history_domains sample_record sample_history = [''local'', ''other'']"
    by (simp add: history_domains_def sample_history_def sample_event_fields sample_record_fields
        sample_strip sorted_set_def List.map_filter_def)
  then obtain view where "derive_lifecycle sample_record sample_history None = Inr view"
    by (auto simp: derive_lifecycle_def sample_view sample_other_view)
  with unscoped_view_keeps_domains [OF this] domains show ?thesis by auto
qed
end
