(* ===== verification/Text_Tools.thy ===== *)
theory Text_Tools
  imports Commons_Prelude
begin

text \<open>
  The text functions of Python the components call: lower case, replacement, splitting, and
  the shell patterns of \<open>fnmatch.fnmatchcase\<close>. They follow the reference implementation of
  CPython 3.11, the oldest release the project supports.
\<close>

section \<open>Methods of texts\<close>

text \<open>\<open>str.lower\<close> on code points below 256.\<close>

definition lower_char :: "char \<Rightarrow> char" where
  "lower_char c =
     (let n = (of_char c :: nat)
      in if (65 \<le> n \<and> n \<le> 90) \<or> (192 \<le> n \<and> n \<le> 222 \<and> n \<noteq> 215) then char_of (n + 32) else c)"

definition py_lower :: "string \<Rightarrow> string" where
  "py_lower s = map lower_char s"

text \<open>
  \<open>str.upper\<close>: the sharp s becomes two letters; the micro sign and the y with diaeresis have
  their upper case beyond code point 255 and stand for it here.
\<close>

definition upper_char :: "char \<Rightarrow> string" where
  "upper_char c =
     (let n = (of_char c :: nat)
      in if (97 \<le> n \<and> n \<le> 122) \<or> (224 \<le> n \<and> n \<le> 254 \<and> n \<noteq> 247) then [char_of (n - 32)]
         else if n = 223 then ''SS'' else [c])"

definition py_upper :: "string \<Rightarrow> string" where
  "py_upper s = concat (map upper_char s)"

definition ends_with :: "string \<Rightarrow> string \<Rightarrow> bool" where
  "ends_with s p = (drop (length s - length p) s = p)"

definition remove_suffix :: "string \<Rightarrow> string \<Rightarrow> string" where
  "remove_suffix s p = (if p \<noteq> [] \<and> ends_with s p then take (length s - length p) s else s)"

text \<open>\<open>s.replace(old, new)\<close> for a non-empty \<open>old\<close>: from the left, without overlap.\<close>

function py_replace :: "string \<Rightarrow> string \<Rightarrow> string \<Rightarrow> string" where
  "py_replace old new [] = []"
| "py_replace old new (c # s) =
     (if old \<noteq> [] \<and> starts_with (c # s) old then new @ py_replace old new (drop (length old) (c # s))
      else c # py_replace old new s)"
  by pat_completeness auto
termination
proof (relation "measure (\<lambda>(old, new, s). length s)")
  fix old new :: string and c :: char and s :: string
  assume "old \<noteq> [] \<and> starts_with (c # s) old"
  then have "0 < length old" by simp
  then have "length (drop (length old) (c # s)) < length (c # s)"
    unfolding length_drop by (metis diff_less length_Cons zero_less_Suc)
  then show "((old, new, drop (length old) (c # s)), old, new, c # s)
      \<in> measure (\<lambda>(old, new, s). length s)"
    by simp
qed simp_all

text \<open>\<open>s.split(sep)\<close> for a separator of one character; \<open>re.split\<close> at runs of a class.\<close>

fun split_char :: "char \<Rightarrow> string \<Rightarrow> string list" where
  "split_char c [] = [[]]"
| "split_char c (x # s) =
     (if x = c then [] # split_char c s
      else (case split_char c s of [] \<Rightarrow> [[x]] | p # ps \<Rightarrow> (x # p) # ps))"

definition words_by :: "(char \<Rightarrow> bool) \<Rightarrow> string \<Rightarrow> string list" where
  "words_by sep s =
     filter (\<lambda>p. p \<noteq> []) (split_char (CHR 0x20) (map (\<lambda>c. if sep c then CHR 0x20 else c) s))"

text \<open>\<open>s.partition(c)\<close> and \<open>s.rpartition(c)[2]\<close>; \<open>s.rsplit(c, 1)[-1]\<close> is the latter.\<close>

definition before_char :: "char \<Rightarrow> string \<Rightarrow> string" where
  "before_char c s = takeWhile (\<lambda>x. x \<noteq> c) s"

definition after_char :: "char \<Rightarrow> string \<Rightarrow> string" where
  "after_char c s = drop 1 (dropWhile (\<lambda>x. x \<noteq> c) s)"

definition after_last :: "char \<Rightarrow> string \<Rightarrow> string" where
  "after_last c s = rev (takeWhile (\<lambda>x. x \<noteq> c) (rev s))"

definition count_char :: "char \<Rightarrow> string \<Rightarrow> nat" where
  "count_char c s = length (filter (\<lambda>x. x = c) s)"

text \<open>The characters of identifiers in lower case, for evaluation.\<close>

lemma lower_char_simps [simp]:
  "lower_char CHR ''A'' = CHR ''a''" "lower_char CHR ''B'' = CHR ''b''"
  "lower_char CHR ''C'' = CHR ''c''" "lower_char CHR ''D'' = CHR ''d''"
  "lower_char CHR ''E'' = CHR ''e''" "lower_char CHR ''F'' = CHR ''f''"
  "lower_char CHR ''G'' = CHR ''g''" "lower_char CHR ''H'' = CHR ''h''"
  "lower_char CHR ''I'' = CHR ''i''" "lower_char CHR ''J'' = CHR ''j''"
  "lower_char CHR ''K'' = CHR ''k''" "lower_char CHR ''L'' = CHR ''l''"
  "lower_char CHR ''M'' = CHR ''m''" "lower_char CHR ''N'' = CHR ''n''"
  "lower_char CHR ''O'' = CHR ''o''" "lower_char CHR ''P'' = CHR ''p''"
  "lower_char CHR ''Q'' = CHR ''q''" "lower_char CHR ''R'' = CHR ''r''"
  "lower_char CHR ''S'' = CHR ''s''" "lower_char CHR ''T'' = CHR ''t''"
  "lower_char CHR ''U'' = CHR ''u''" "lower_char CHR ''V'' = CHR ''v''"
  "lower_char CHR ''W'' = CHR ''w''" "lower_char CHR ''X'' = CHR ''x''"
  "lower_char CHR ''Y'' = CHR ''y''" "lower_char CHR ''Z'' = CHR ''z''"
  "lower_char CHR ''a'' = CHR ''a''" "lower_char CHR ''b'' = CHR ''b''"
  "lower_char CHR ''c'' = CHR ''c''" "lower_char CHR ''d'' = CHR ''d''"
  "lower_char CHR ''e'' = CHR ''e''" "lower_char CHR ''f'' = CHR ''f''"
  "lower_char CHR ''g'' = CHR ''g''" "lower_char CHR ''h'' = CHR ''h''"
  "lower_char CHR ''i'' = CHR ''i''" "lower_char CHR ''j'' = CHR ''j''"
  "lower_char CHR ''k'' = CHR ''k''" "lower_char CHR ''l'' = CHR ''l''"
  "lower_char CHR ''m'' = CHR ''m''" "lower_char CHR ''n'' = CHR ''n''"
  "lower_char CHR ''o'' = CHR ''o''" "lower_char CHR ''p'' = CHR ''p''"
  "lower_char CHR ''q'' = CHR ''q''" "lower_char CHR ''r'' = CHR ''r''"
  "lower_char CHR ''s'' = CHR ''s''" "lower_char CHR ''t'' = CHR ''t''"
  "lower_char CHR ''u'' = CHR ''u''" "lower_char CHR ''v'' = CHR ''v''"
  "lower_char CHR ''w'' = CHR ''w''" "lower_char CHR ''x'' = CHR ''x''"
  "lower_char CHR ''y'' = CHR ''y''" "lower_char CHR ''z'' = CHR ''z''"
  "lower_char CHR ''0'' = CHR ''0''" "lower_char CHR ''1'' = CHR ''1''"
  "lower_char CHR ''2'' = CHR ''2''" "lower_char CHR ''3'' = CHR ''3''"
  "lower_char CHR ''4'' = CHR ''4''" "lower_char CHR ''5'' = CHR ''5''"
  "lower_char CHR ''6'' = CHR ''6''" "lower_char CHR ''7'' = CHR ''7''"
  "lower_char CHR ''8'' = CHR ''8''" "lower_char CHR ''9'' = CHR ''9''"
  "lower_char CHR ''-'' = CHR ''-''" "lower_char CHR ''/'' = CHR ''/''"
  "lower_char CHR ''.'' = CHR ''.''" "lower_char CHR ''_'' = CHR ''_''"
  by (simp_all add: lower_char_def of_char_def char_of_def bit_0)

lemma split_char_not_Nil [simp]: "split_char c s \<noteq> []"
  by (induction s) (auto split: list.splits)

lemma split_char_parts: "p \<in> set (split_char c s) \<Longrightarrow> c \<notin> set p"
  by (induction s arbitrary: p) (auto split: if_splits list.splits)

text \<open>\<open>sep.join\<close> undoes \<open>split\<close>.\<close>

lemma join_split_char: "join [c] (split_char c s) = s"
proof (induction s)
  case (Cons x s)
  obtain p ps where ps: "split_char c s = p # ps" by (cases "split_char c s") simp_all
  with Cons show ?case by (cases ps) auto
qed simp

lemma py_replace_absent:
  assumes "\<And>u v. s \<noteq> u @ old @ v"
  shows "py_replace old new s = s"
  using assms
proof (induction old new s rule: py_replace.induct)
  case (2 old new c s)
  have "\<not> starts_with (c # s) old"
  proof
    assume "starts_with (c # s) old"
    then have "c # s = [] @ old @ drop (length old) (c # s)"
      unfolding starts_with_def by (metis append_Nil append_take_drop_id)
    with 2(3) show False by blast
  qed
  moreover have "s \<noteq> u @ old @ v" for u v using 2(3) [of "c # u" v] by auto
  ultimately show ?case using 2(2) by simp
qed simp

lemma py_replace_skip:
  "c \<notin> set u \<Longrightarrow> py_replace (c # old) new (u @ s) = u @ py_replace (c # old) new s"
  by (induction u) (auto simp: starts_with_def)

lemma py_strip_no_space: "(\<And>c. c \<in> set s \<Longrightarrow> \<not> is_space c) \<Longrightarrow> py_strip s = s"
  using dropWhile_eq_self_iff [of is_space s] dropWhile_eq_self_iff [of is_space "rev s"]
  by (cases "s = []") (simp_all add: py_strip_def hd_rev)

lemma dropWhile_hd: "dropWhile P s \<noteq> [] \<Longrightarrow> \<not> P (hd (dropWhile P s))"
  by (induction s) auto

lemma py_strip_idem [simp]: "py_strip (py_strip s) = py_strip s"
proof -
  define u where "u = dropWhile is_space s"
  define v where "v = rev (dropWhile is_space (rev u))"
  have v: "py_strip s = v" by (simp add: py_strip_def u_def v_def)
  show ?thesis
  proof (cases "v = []")
    case True
    then show ?thesis by (simp add: v) (simp add: py_strip_def)
  next
    case False
    have "\<not> is_space (hd (rev v))" using False dropWhile_hd [of is_space "rev u"] by (simp add: v_def)
    then have r: "dropWhile is_space (rev v) = rev v" by (simp add: dropWhile_eq_self_iff)
    have pre: "u = v @ rev (takeWhile is_space (rev u))"
      unfolding v_def by (metis rev_append rev_rev_ident takeWhile_dropWhile_id)
    have "hd u = hd v" "u \<noteq> []" using False by (subst pre, simp)+
    then have "\<not> is_space (hd v)" using dropWhile_hd [of is_space s] by (simp add: u_def)
    then have "dropWhile is_space v = v" by (simp add: dropWhile_eq_self_iff)
    then show ?thesis unfolding v using r by (simp add: py_strip_def)
  qed
qed

lemma length_py_strip: "length (py_strip s) \<le> length s"
  unfolding py_strip_def length_rev
  by (metis (no_types) le_trans length_dropWhile_le length_rev)

section \<open>Integers\<close>

text \<open>
  \<open>int(v)\<close>. A text may carry a sign, white space around it and single underscores between
  digits. A float is truncated; one of magnitude ten to the sixteenth or more is taken at the
  decimal value of its text.
\<close>

definition digits_value :: "string \<Rightarrow> int" where
  "digits_value s = foldl (\<lambda>n c. n * 10 + (of_char c - 48)) 0 s"

fun digit_groups :: "string \<Rightarrow> bool" where
  "digit_groups [] = False"
| "digit_groups [c] = is_digit c"
| "digit_groups (c # d # s) = (is_digit c \<and> (if d = CHR ''_'' then digit_groups s else digit_groups (d # s)))"

definition text_int :: "string \<Rightarrow> int option" where
  "text_int s =
     (let t = py_strip s;
          neg = starts_with t ''-'';
          body = (if neg \<or> starts_with t ''+'' then drop 1 t else t)
      in if digit_groups body
         then Some ((if neg then -1 else 1) * digits_value (filter is_digit body)) else None)"

definition float_int :: "string \<Rightarrow> int" where
  "float_int t =
     (let neg = starts_with t ''-'';
          body = (if neg then drop 1 t else t);
          mantissa = before_char (CHR ''e'') body;
          whole = before_char (CHR ''.'') mantissa;
          frac = after_char (CHR ''.'') mantissa;
          ex = (if CHR ''e'' \<in> set body then (case text_int (after_char (CHR ''e'') body) of Some k \<Rightarrow> k | None \<Rightarrow> 0) else 0);
          n = digits_value (whole @ frac);
          shift = ex - int (length frac)
      in (if neg then -1 else 1) *
         (if shift \<ge> 0 then n * 10 ^ nat shift else n div 10 ^ nat (- shift)))"

fun py_int :: "json \<Rightarrow> int res" where
  "py_int (JInt n) = Inr n"
| "py_int (JBool b) = Inr (if b then 1 else 0)"
| "py_int (JFloat t) = Inr (float_int t)"
| "py_int (JStr s) =
     (case text_int s of Some n \<Rightarrow> Inr n | None \<Rightarrow> Inl (ValueError ''invalid literal for int()''))"
| "py_int _ = Inl TypeError"

lemma digits_value_append: "digits_value (xs @ [c]) = digits_value xs * 10 + (of_char c - 48)"
  by (simp add: digits_value_def)

lemma of_digit_char: "d < 10 \<Longrightarrow> of_char (digit_char d) = 48 + int d"
proof -
  assume "d < 10"
  then have "(of_char (digit_char d) :: nat) = 48 + d" by (simp add: digit_char_def)
  then have "int (of_char (digit_char d)) = 48 + int d" by simp
  then show ?thesis by (simp add: of_nat_of_char)
qed

lemma digits_value_nat_str: "digits_value (nat_str n) = int n"
proof (induction n rule: nat_str.induct)
  case (1 n)
  show ?case
  proof (cases "n < 10")
    case True
    then show ?thesis using of_digit_char [of n] by (simp add: nat_str.simps [of n] digits_value_def)
  next
    case False
    then show ?thesis using 1 [OF False] of_digit_char [of "n mod 10"]
      by (simp add: nat_str.simps [of n] digits_value_append) presburger
  qed
qed

lemma digit_not: "is_digit c \<Longrightarrow> c \<noteq> CHR ''e'' \<and> c \<noteq> CHR ''.'' \<and> c \<noteq> CHR ''-''"
  by (auto simp: is_digit_def)

lemma before_after_char:
  "c \<notin> set xs \<Longrightarrow> before_char c (xs @ c # ys) = xs \<and> after_char c (xs @ c # ys) = ys"
  "c \<notin> set xs \<Longrightarrow> before_char c xs = xs"
  by (induction xs) (auto simp: before_char_def after_char_def)

lemma float_int_nat: "float_int (nat_str n @ ''.0'') = int n"
proof -
  have d: "c \<noteq> CHR ''e'' \<and> c \<noteq> CHR ''.'' \<and> c \<noteq> CHR ''-''" if "c \<in> set (nat_str n)" for c
    using that nat_str_digits [of n] digit_not by (auto simp: list_all_iff)
  then have e: "CHR ''e'' \<notin> set (nat_str n @ ''.0'')" and p: "CHR ''.'' \<notin> set (nat_str n)" by auto
  have "\<not> starts_with (nat_str n @ ''.0'') ''-''"
    using d [of "hd (nat_str n)"] nat_str_nonempty [of n] by (cases "nat_str n") (auto simp: starts_with_def)
  then show ?thesis
    using e p digits_value_append [of "nat_str n" "CHR ''0''"]
    by (simp add: float_int_def Let_def before_after_char digits_value_nat_str of_char_def)
qed

lemma py_eq_py_int: "py_eq v (JInt n) \<Longrightarrow> n \<ge> 1 \<Longrightarrow> py_int v = Inr n"
  using float_int_nat [of "nat n"] by (cases v) (auto simp: num_float_eq_def int_str_def)

section \<open>Shell patterns\<close>

text \<open>
  A pattern is a list of pieces. A class holds single characters and ranges; \<open>Never\<close> is a
  class from which every range was dropped as empty.
\<close>

datatype piece =
    Star
  | Any
  | Lit char
  | Cls bool "(char \<times> char) list"
  | Never

text \<open>
  The text between the brackets, up to the closing one: a \<open>!\<close> and then a \<open>]\<close> at the front
  belong to the class.
\<close>

definition class_text :: "string \<Rightarrow> (string \<times> string) option" where
  "class_text s =
     (let (a, s1) = (case s of c # s' \<Rightarrow> if c = CHR ''!'' then ([c], s') else ([], s) | [] \<Rightarrow> ([], s));
          (b, s2) = (case s1 of c # s' \<Rightarrow> if c = CHR '']'' then ([c], s') else ([], s1) | [] \<Rightarrow> ([], s1));
          body = takeWhile (\<lambda>c. c \<noteq> CHR '']'') s2
      in (case dropWhile (\<lambda>c. c \<noteq> CHR '']'') s2 of
            [] \<Rightarrow> None
          | _ # rest \<Rightarrow> Some (a @ b @ body, rest)))"

text \<open>
  The chunks between hyphens that stand for a range: the search for the next hyphen starts
  \<open>k\<close> characters on.
\<close>

fun class_chunks :: "nat \<Rightarrow> string \<Rightarrow> string \<Rightarrow> string list" where
  "class_chunks k acc [] = (if acc = [] then [''-''] else [acc])"
| "class_chunks k acc (c # s) =
     (if k = 0 \<and> c = CHR ''-''
      then (if s = [] then [acc @ ''-''] else acc # class_chunks 2 [] s)
      else class_chunks (k - 1) (acc @ [c]) s)"

text \<open>Ranges whose ends are out of order are dropped, from the last to the first.\<close>

fun drop_empty :: "string list \<Rightarrow> string list" where
  "drop_empty [] = []"
| "drop_empty (p # ps) =
     (case drop_empty ps of
        [] \<Rightarrow> [p]
      | q # qs \<Rightarrow>
          if p \<noteq> [] \<and> q \<noteq> [] \<and> (of_char (last p) :: nat) > of_char (hd q)
          then (butlast p @ tl q) # qs else p # q # qs)"

text \<open>The members of a class: adjacent chunks span a range, other characters stand alone.\<close>

fun class_ranges :: "string list \<Rightarrow> (char \<times> char) list" where
  "class_ranges [] = []"
| "class_ranges [p] = map (\<lambda>c. (c, c)) p"
| "class_ranges (p # q # ps) =
     map (\<lambda>c. (c, c)) p @ (if p = [] \<or> q = [] then [] else [(last p, hd q)]) @ class_ranges (q # ps)"

definition class_piece :: "string \<Rightarrow> piece" where
  "class_piece t =
     (let chunks = (if CHR ''-'' \<in> set t
                    then drop_empty (class_chunks (if hd t = CHR ''!'' then 2 else 1) [] t) else [t])
      in (case chunks of
            (CHR ''!'' # p) # ps \<Rightarrow> if p = [] \<and> ps = [] then Any else Cls True (class_ranges (p # ps))
          | [[]] \<Rightarrow> Never
          | _ \<Rightarrow> Cls False (class_ranges chunks)))"

fun pieces_fuel :: "nat \<Rightarrow> string \<Rightarrow> piece list" where
  "pieces_fuel 0 s = []"
| "pieces_fuel (Suc n) [] = []"
| "pieces_fuel (Suc n) (c # s) =
     (if c = CHR ''*'' then Star # pieces_fuel n s
      else if c = CHR ''?'' then Any # pieces_fuel n s
      else if c = CHR ''['' then
        (case class_text s of
           None \<Rightarrow> Lit c # pieces_fuel n s
         | Some (t, rest) \<Rightarrow> class_piece t # pieces_fuel n rest)
      else Lit c # pieces_fuel n s)"

text \<open>Every step consumes a character, so the length of the pattern is fuel enough.\<close>

definition pieces :: "string \<Rightarrow> piece list" where
  "pieces s = pieces_fuel (length s) s"

fun piece_char :: "piece \<Rightarrow> char \<Rightarrow> bool" where
  "piece_char Any c = True"
| "piece_char (Lit l) c = (c = l)"
| "piece_char (Cls neg rs) c =
     (neg \<noteq> (\<exists>r \<in> set rs. (of_char (fst r) :: nat) \<le> of_char c \<and> (of_char c :: nat) \<le> of_char (snd r)))"
| "piece_char _ c = False"

fun glob :: "piece list \<Rightarrow> string \<Rightarrow> bool" where
  "glob [] s = (s = [])"
| "glob (Star # ps) [] = glob ps []"
| "glob (Star # ps) (c # s) = (glob ps (c # s) \<or> glob (Star # ps) s)"
| "glob (p # ps) [] = False"
| "glob (p # ps) (c # s) = (piece_char p c \<and> glob ps s)"

definition fnmatchcase :: "string \<Rightarrow> string \<Rightarrow> bool" where
  "fnmatchcase name pat = glob (pieces pat) name"

definition plain_char :: "char \<Rightarrow> bool" where
  "plain_char c = (c \<noteq> CHR ''*'' \<and> c \<noteq> CHR ''?'' \<and> c \<noteq> CHR ''['')"

text \<open>What a star means: it matches any text.\<close>

lemma glob_Star_iff: "glob (Star # ps) s \<longleftrightarrow> (\<exists>u v. s = u @ v \<and> glob ps v)"
proof (induction s)
  case (Cons c s)
  have "(\<exists>u v. c # s = u @ v \<and> glob ps v) \<longleftrightarrow> glob ps (c # s) \<or> (\<exists>u v. s = u @ v \<and> glob ps v)"
    (is "?l \<longleftrightarrow> ?r")
  proof
    show "?l \<Longrightarrow> ?r" by (auto simp: Cons_eq_append_conv)
    show "?r \<Longrightarrow> ?l" by (metis append_Cons append_Nil)
  qed
  with Cons show ?case by simp
qed simp

lemma glob_last_Star [simp]: "glob [Star] s"
  by (auto simp: glob_Star_iff)

text \<open>A literal prefix of a pattern is a literal prefix of every match.\<close>

lemma pieces_plain: "list_all plain_char s \<Longrightarrow> pieces (s @ t) = map Lit s @ pieces t"
  unfolding pieces_def by (induction s) (auto simp: plain_char_def)

lemma glob_map_Lit: "glob (map Lit l @ ps) s \<longleftrightarrow> (\<exists>v. s = l @ v \<and> glob ps v)"
proof (induction l arbitrary: s)
  case (Cons c l)
  then show ?case by (cases s) auto
qed simp

lemma fnmatch_prefix:
  "list_all plain_char l \<Longrightarrow> fnmatchcase s (l @ p) \<longleftrightarrow> (\<exists>v. s = l @ v \<and> fnmatchcase v p)"
  by (simp add: fnmatchcase_def pieces_plain glob_map_Lit)

lemma fnmatch_plain: "list_all plain_char l \<Longrightarrow> fnmatchcase s l \<longleftrightarrow> s = l"
  using fnmatch_prefix [of l s "[]"] by (simp add: fnmatchcase_def pieces_def)

lemma fnmatch_star [simp]: "fnmatchcase s ''*''"
  by (simp add: fnmatchcase_def pieces_def glob_Star_iff)

lemma fnmatch_double_star [simp]: "fnmatchcase s ''**''"
  by (auto simp: fnmatchcase_def pieces_def glob_Star_iff)

end
