(* ===== verification/Iso_Time.thy ===== *)
theory Iso_Time
  imports Text_Tools
begin

text \<open>
  Timestamps: \<open>datetime.fromisoformat\<close> as CPython 3.11 reads a text, the conversion of an aware
  timestamp to UTC and \<open>datetime.isoformat\<close>. Timestamps of the program are read, normalised and
  compared with these (work.py, health.py, validation.py, family_registry.py).
\<close>

section \<open>The calendar\<close>

record datetime =
  dt_year :: nat
  dt_month :: nat
  dt_day :: nat
  dt_hour :: nat
  dt_minute :: nat
  dt_second :: nat
  dt_micro :: nat
  tz_offset :: "int option"

text \<open>The offset of the zone is held in microseconds; \<open>None\<close> is a naive timestamp.\<close>

definition is_leap :: "nat \<Rightarrow> bool" where
  "is_leap y = (y mod 4 = 0 \<and> (y mod 100 \<noteq> 0 \<or> y mod 400 = 0))"

definition month_lengths :: "nat list" where
  "month_lengths = [31, 28, 31, 30, 31, 30, 31, 31, 30, 31, 30, 31]"

definition days_in_month :: "nat \<Rightarrow> nat \<Rightarrow> nat" where
  "days_in_month y m = (if m = 2 \<and> is_leap y then 29 else month_lengths ! (m - 1))"

definition days_before_year :: "nat \<Rightarrow> nat" where
  "days_before_year y = (let z = y - 1 in z * 365 + z div 4 - z div 100 + z div 400)"

definition days_before_month :: "nat \<Rightarrow> nat \<Rightarrow> nat" where
  "days_before_month y m =
     sum_list (take (m - 1) month_lengths) + (if m > 2 \<and> is_leap y then 1 else 0)"

definition ymd2ord :: "nat \<Rightarrow> nat \<Rightarrow> nat \<Rightarrow> nat" where
  "ymd2ord y m d = days_before_year y + days_before_month y m + d"

text \<open>The month and day of the \<open>n\<close>-th day of a year, counted from 0.\<close>

definition month_day :: "nat \<Rightarrow> nat \<Rightarrow> nat \<times> nat" where
  "month_day y n =
     (let est = (n + 50) div 32;
          m = (if days_before_month y est > n then est - 1 else est)
      in (m, n - days_before_month y m + 1))"

definition ord2ymd :: "nat \<Rightarrow> nat \<times> nat \<times> nat" where
  "ord2ymd ordinal =
     (let n = ordinal - 1;
          n400 = n div 146097; r400 = n mod 146097;
          n100 = r400 div 36524; r100 = r400 mod 36524;
          n4 = r100 div 1461; r4 = r100 mod 1461;
          n1 = r4 div 365; r1 = r4 mod 365;
          y = n400 * 400 + 1 + n100 * 100 + n4 * 4 + n1
      in if n1 = 4 \<or> n100 = 4 then (y - 1, 12, 31)
         else (case month_day y r1 of (m, d) \<Rightarrow> (y, m, d)))"

definition valid_date :: "nat \<Rightarrow> nat \<Rightarrow> nat \<Rightarrow> bool" where
  "valid_date y m d =
     (1 \<le> y \<and> y \<le> 9999 \<and> 1 \<le> m \<and> m \<le> 12 \<and> 1 \<le> d \<and> d \<le> days_in_month y m)"

definition valid_datetime :: "datetime \<Rightarrow> bool" where
  "valid_datetime t =
     (valid_date (dt_year t) (dt_month t) (dt_day t) \<and>
      dt_hour t < 24 \<and> dt_minute t < 60 \<and> dt_second t < 60 \<and> dt_micro t < 1000000)"

text \<open>\<open>_isoweek_to_gregorian\<close>: the date of a week and a weekday.\<close>

definition isoweek_date :: "nat \<Rightarrow> nat \<Rightarrow> nat \<Rightarrow> (nat \<times> nat \<times> nat) option" where
  "isoweek_date year week day =
     (if year < 1 \<or> 9999 < year then None
      else
        let first_weekday = ymd2ord year 1 1 mod 7;
            week_ok = (0 < week \<and> week < 53 \<or>
                       week = 53 \<and> (first_weekday = 4 \<or> first_weekday = 3 \<and> is_leap year))
        in if \<not> week_ok \<or> day < 1 \<or> 7 < day then None
           else
             let firstday = ymd2ord year 1 1;
                 wd = (firstday + 6) mod 7;
                 monday = (int firstday - int wd) + (if wd > 3 then 7 else 0);
                 ordinal = monday + int ((week - 1) * 7 + (day - 1))
             in if ordinal < 1 then None else Some (ord2ymd (nat ordinal)))"

section \<open>Reading\<close>

text \<open>The text is read with a character 0 after its end, as the interpreter reads it.\<close>

definition peek :: "string \<Rightarrow> char" where
  "peek s = (case s of [] \<Rightarrow> CHR 0x00 | c # _ \<Rightarrow> c)"

text \<open>Exactly \<open>n\<close> decimal digits.\<close>

fun parse_digits :: "nat \<Rightarrow> nat \<Rightarrow> string \<Rightarrow> (nat \<times> string) option" where
  "parse_digits 0 acc s = Some (acc, s)"
| "parse_digits (Suc n) acc [] = None"
| "parse_digits (Suc n) acc (c # s) =
     (if is_digit c then parse_digits n (acc * 10 + digit_val c) s else None)"

definition find_separator :: "string \<Rightarrow> nat option" where
  "find_separator s =
     (let n = length s
      in if n = 7 then Some 7
         else if s ! 4 = CHR ''-'' then
           (if s ! 5 = CHR ''W'' then
              (if n > 8 \<and> s ! 8 = CHR ''-'' then
                 (if n = 9 then None
                  else if n > 10 \<and> is_digit (s ! 10) then Some 8 else Some 10)
               else Some 8)
            else Some 10)
         else if s ! 4 = CHR ''W'' then
           (let idx = 7 + length (takeWhile is_digit (drop 7 s))
            in if idx < 9 then Some idx else if idx mod 2 = 0 then Some 7 else Some 8)
         else Some 8)"

definition parse_date :: "nat \<Rightarrow> string \<Rightarrow> (nat \<times> nat \<times> nat) option" where
  "parse_date len s =
     Option.bind (parse_digits 4 0 s) (\<lambda>(year, s1).
       let sep = (peek s1 = CHR ''-''); s2 = (if sep then drop 1 s1 else s1)
       in if peek s2 = CHR ''W'' then
            Option.bind (parse_digits 2 0 (drop 1 s2)) (\<lambda>(week, s3).
              if length s - length s3 < len then
                (if sep \<and> peek s3 \<noteq> CHR ''-'' then None
                 else Option.bind (parse_digits 1 0 (if sep then drop 1 s3 else s3))
                        (\<lambda>(day, _). isoweek_date year week day))
              else isoweek_date year week 1)
          else
            Option.bind (parse_digits 2 0 s2) (\<lambda>(month, s3).
              if sep \<and> peek s3 \<noteq> CHR ''-'' then None
              else Option.bind (parse_digits 2 0 (if sep then drop 1 s3 else s3))
                     (\<lambda>(day, _). Some (year, month, day))))"

text \<open>
  \<open>HH[:?MM[:?SS[{.,}f+]]]\<close>: \<open>s\<close> is the rest of the text, \<open>e\<close> how many characters of it belong
  to this part. The result holds the fields and whether text is left over.
\<close>

definition parse_fraction :: "nat \<Rightarrow> string \<Rightarrow> (nat \<times> bool) option" where
  "parse_fraction e s =
     (let n = min e 6
      in map_option (\<lambda>(us, s'). (us * 10 ^ (6 - n), peek (dropWhile is_digit s') \<noteq> CHR 0x00))
           (parse_digits n 0 s))"

fun parse_hms :: "nat \<Rightarrow> bool \<Rightarrow> nat \<Rightarrow> string \<Rightarrow> (nat list \<times> nat \<times> bool) option" where
  "parse_hms 0 sep e s = map_option (\<lambda>(us, rest). ([], us, rest)) (parse_fraction e s)"
| "parse_hms (Suc k) sep e s =
     Option.bind (parse_digits 2 0 s) (\<lambda>(v, s1).
       let c = peek s1; sep' = (if k = 2 then c = CHR '':'' else sep)
       in if e \<le> 3 then Some ([v], 0, c \<noteq> CHR 0x00)
          else if sep' \<and> c = CHR '':'' then
            map_option (\<lambda>(vs, r). (v # vs, r)) (parse_hms k sep' (e - 3) (drop 1 s1))
          else if c = CHR ''.'' \<or> c = CHR '','' then
            map_option (\<lambda>(us, rest). ([v], us, rest)) (parse_fraction (e - 3) (drop 1 s1))
          else if \<not> sep' then
            map_option (\<lambda>(vs, r). (v # vs, r)) (parse_hms k sep' (e - 2) s1)
          else None)"

definition nth0 :: "nat list \<Rightarrow> nat \<Rightarrow> nat" where
  "nth0 xs i = (if i < length xs then xs ! i else 0)"

text \<open>The time and the offset of its zone; a text after the zone is an error.\<close>

definition parse_time :: "string \<Rightarrow> (nat list \<times> nat \<times> int option) option" where
  "parse_time s =
     (let zone = (\<lambda>c. c = CHR ''+'' \<or> c = CHR ''-'' \<or> c = CHR ''Z'');
          e = length (takeWhile (\<lambda>c. \<not> zone c) s)
      in Option.bind (parse_hms 3 True e s) (\<lambda>(vs, us, rest).
           case drop e s of
             [] \<Rightarrow> if rest then None else Some (vs, us, None)
           | z # tz \<Rightarrow>
               if z = CHR ''Z'' then (if peek tz \<noteq> CHR 0x00 then None else Some (vs, us, Some 0))
               else
                 Option.bind (parse_hms 3 True (length tz) tz) (\<lambda>(zs, zus, zrest).
                   if zrest then None
                   else
                     let secs = nth0 zs 0 * 3600 + nth0 zs 1 * 60 + nth0 zs 2;
                         off = (if secs = 0 then 0 else int (secs * 1000000 + zus))
                     in if \<bar>off\<bar> \<ge> 86400000000 then None
                        else Some (vs, us, Some (if z = CHR ''-'' then - off else off)))))"

definition fromisoformat :: "string \<Rightarrow> datetime option" where
  "fromisoformat s =
     (if length s < 7 then None
      else
        Option.bind (find_separator s) (\<lambda>loc.
          Option.bind (parse_date loc s) (\<lambda>(y, m, d).
            Option.bind (if length s > loc then parse_time (drop (loc + 1) s) else Some ([], 0, None))
              (\<lambda>(vs, us, tz).
                let t = \<lparr>dt_year = y, dt_month = m, dt_day = d, dt_hour = nth0 vs 0,
                         dt_minute = nth0 vs 1, dt_second = nth0 vs 2, dt_micro = us, tz_offset = tz\<rparr>
                in if valid_datetime t then Some t else None))))"

section \<open>Instants and printing\<close>

text \<open>Microseconds since the midnight before the first day of year 1, in UTC.\<close>

definition instant :: "datetime \<Rightarrow> int" where
  "instant t =
     int ((((ymd2ord (dt_year t) (dt_month t) (dt_day t) * 24 + dt_hour t) * 60 + dt_minute t) * 60
            + dt_second t) * 1000000 + dt_micro t)
     - (case tz_offset t of None \<Rightarrow> 0 | Some off \<Rightarrow> off)"

definition of_instant :: "int \<Rightarrow> datetime option" where
  "of_instant i =
     (let us = i mod 1000000; s = i div 1000000; secs = s mod 86400; day = s div 86400
      in if day < 1 \<or> 3652059 < day then None
         else
           (case ord2ymd (nat day) of
              (y, m, d) \<Rightarrow>
                Some \<lparr>dt_year = y, dt_month = m, dt_day = d, dt_hour = nat (secs div 3600),
                      dt_minute = nat (secs div 60 mod 60), dt_second = nat (secs mod 60),
                      dt_micro = nat us, tz_offset = Some 0\<rparr>))"

text \<open>\<open>t.astimezone(timezone.utc)\<close> for an aware timestamp; \<open>None\<close> is the \<open>OverflowError\<close>.\<close>

definition to_utc :: "datetime \<Rightarrow> datetime option" where
  "to_utc t = (if tz_offset t = Some 0 then Some t else of_instant (instant t))"

fun pad :: "nat \<Rightarrow> nat \<Rightarrow> string" where
  "pad 0 n = []"
| "pad (Suc k) n = pad k (n div 10) @ [digit_char (n mod 10)]"

text \<open>\<open>t.isoformat()\<close> of a timestamp in UTC: its date, then its time of day, then the zone.\<close>

definition time_text :: "datetime \<Rightarrow> string" where
  "time_text t = pad 2 (dt_hour t) @ '':'' @ pad 2 (dt_minute t) @ '':'' @ pad 2 (dt_second t) @
     (if dt_micro t = 0 then [] else ''.'' @ pad 6 (dt_micro t))"

definition isoformat_utc :: "datetime \<Rightarrow> string" where
  "isoformat_utc t =
     (pad 4 (dt_year t) @ ''-'' @ pad 2 (dt_month t) @ ''-'' @ pad 2 (dt_day t)) @ ''T'' @
     time_text t @ ''+00:00''"

definition z_to_offset :: "string \<Rightarrow> string" where
  "z_to_offset s = py_replace ''Z'' ''+00:00'' s"

definition offset_to_z :: "string \<Rightarrow> string" where
  "offset_to_z s = py_replace ''+00:00'' ''Z'' s"

section \<open>Lemmas\<close>

lemma parse_digits_append:
  "parse_digits (j + k) acc (u @ s) =
     Option.bind (parse_digits j acc u) (\<lambda>(v, u'). parse_digits k v (u' @ s))"
  if "length u = j"
  using that by (induction j arbitrary: acc u) (auto simp: length_Suc_conv)

lemma length_pad [simp]: "length (pad k n) = k"
  by (induction k arbitrary: n) simp_all

lemma pad_2: "pad 2 n = [digit_char (n div 10 mod 10), digit_char (n mod 10)]"
  by (simp add: numeral_2_eq_2)

lemma pad_4:
  "pad 4 n = [digit_char (n div 1000 mod 10), digit_char (n div 100 mod 10),
     digit_char (n div 10 mod 10), digit_char (n mod 10)]"
proof -
  have "(4 :: nat) = Suc (Suc (Suc (Suc 0)))" by simp
  then have "pad 4 n = pad (Suc (Suc (Suc (Suc 0)))) n" by (simp only:)
  then show ?thesis by (simp add: div_mult2_eq [symmetric])
qed

text \<open>A padded number is read back, and leaves the text after it.\<close>

lemma parse_pad [simp]:
  "n < 10 ^ k \<Longrightarrow> parse_digits k acc (pad k n @ s) = Some (acc * 10 ^ k + n, s)"
proof (induction k arbitrary: n acc s)
  case (Suc k)
  have "n div 10 < 10 ^ k" using Suc.prems by (simp add: less_mult_imp_div_less)
  then have "parse_digits k acc (pad k (n div 10) @ []) = Some (acc * 10 ^ k + n div 10, [])"
    by (rule Suc.IH)
  then have "parse_digits (k + Suc 0) acc (pad k (n div 10) @ digit_char (n mod 10) # s)
      = Some ((acc * 10 ^ k + n div 10) * 10 + n mod 10, s)"
    using parse_digits_append [of "pad k (n div 10)" k "Suc 0" acc "digit_char (n mod 10) # s"] by simp
  then show ?case by (simp add: algebra_simps)
qed simp

lemma set_pad: "c \<in> set (pad k n) \<Longrightarrow> is_digit c"
  by (induction k arbitrary: n) auto

lemma not_zone_pad: "takeWhile (\<lambda>c. \<not> (c = CHR ''+'' \<or> c = CHR ''-'' \<or> c = CHR ''Z'')) (pad k n @ s)
    = pad k n @ takeWhile (\<lambda>c. \<not> (c = CHR ''+'' \<or> c = CHR ''-'' \<or> c = CHR ''Z'')) s"
proof (rule takeWhile_append2)
  fix c
  assume "c \<in> set (pad k n)"
  then have "is_digit c" by (rule set_pad)
  then show "\<not> (c = CHR ''+'' \<or> c = CHR ''-'' \<or> c = CHR ''Z'')" by (auto simp: is_digit_def)
qed

lemma parse_hms_utc:
  "parse_hms 3 True (Suc (Suc (Suc (Suc (Suc 0))))) ''00:00'' = Some ([0, 0], 0, False)"
  by (simp add: numeral_eq_Suc peek_def is_digit_def digit_val_def)

lemma days_before_month_simps:
  "days_before_month y (Suc 0) = 0"
  "days_before_month y 2 = 31"
  "days_before_month y 3 = 59 + (if is_leap y then 1 else 0)"
  "days_before_month y 4 = 90 + (if is_leap y then 1 else 0)"
  "days_before_month y 5 = 120 + (if is_leap y then 1 else 0)"
  "days_before_month y 6 = 151 + (if is_leap y then 1 else 0)"
  "days_before_month y 7 = 181 + (if is_leap y then 1 else 0)"
  "days_before_month y 8 = 212 + (if is_leap y then 1 else 0)"
  "days_before_month y 9 = 243 + (if is_leap y then 1 else 0)"
  "days_before_month y 10 = 273 + (if is_leap y then 1 else 0)"
  "days_before_month y 11 = 304 + (if is_leap y then 1 else 0)"
  "days_before_month y 12 = 334 + (if is_leap y then 1 else 0)"
  by (simp_all add: days_before_month_def month_lengths_def)

lemma month_cases:
  assumes "1 \<le> m" "m \<le> (12::nat)"
  obtains "m = 1" | "m = 2" | "m = 3" | "m = 4" | "m = 5" | "m = 6" | "m = 7" | "m = 8" | "m = 9"
    | "m = 10" | "m = 11" | "m = 12"
proof -
  have "m = 1 \<or> m = 2 \<or> m = 3 \<or> m = 4 \<or> m = 5 \<or> m = 6 \<or> m = 7 \<or> m = 8 \<or> m = 9 \<or>
      m = 10 \<or> m = 11 \<or> m = 12"
    using assms by presburger
  then show thesis using that by blast
qed

lemma month_day_bounds:
  assumes "month_day y n = (m, d)" and "n < (if is_leap y then 366 else 365)"
  shows "1 \<le> m \<and> m \<le> 12 \<and> 1 \<le> d \<and> d \<le> days_in_month y m \<and> days_before_month y m + d = n + 1"
proof -
  define est where "est = (n + 50) div 32"
  have e: "32 * est \<le> n + 50" "n + 50 < 32 * est + 32" unfolding est_def by linarith+
  have "1 \<le> est" "est \<le> 12" using e assms(2) by (auto split: if_splits)
  then show ?thesis
    using assms e unfolding month_day_def est_def [symmetric] Let_def
    by (elim month_cases [of est])
      (auto simp: days_before_month_simps days_in_month_def month_lengths_def split: if_splits)
qed

lemma days_before_year_parts:
  assumes "b < 4" "c < 25" "e < 4"
  shows "days_before_year (400 * a + 100 * b + 4 * c + e + 1) =
    146097 * a + 36524 * b + 1461 * c + 365 * e"
proof -
  define z where "z = 400 * a + 100 * b + 4 * c + e"
  have "z div 4 = 100 * a + 25 * b + c" unfolding z_def by (rule div_nat_eqI) (use assms in simp_all)
  moreover have "z div 100 = 4 * a + b" unfolding z_def by (rule div_nat_eqI) (use assms in simp_all)
  moreover have "z div 400 = a" unfolding z_def by (rule div_nat_eqI) (use assms in simp_all)
  ultimately show ?thesis unfolding days_before_year_def Let_def z_def [symmetric] by (simp add: z_def)
qed

lemma ord2ymd_correct:
  assumes "1 \<le> n" and "ord2ymd n = (y, m, d)"
  shows "ymd2ord y m d = n \<and> 1 \<le> y \<and> 1 \<le> m \<and> m \<le> 12 \<and> 1 \<le> d \<and> d \<le> days_in_month y m"
proof -
  define a r where "a = (n - 1) div 146097" and "r = (n - 1) mod 146097"
  define b r' where "b = r div 36524" and "r' = r mod 36524"
  define c r'' where "c = r' div 1461" and "r'' = r' mod 1461"
  define e q where "e = r'' div 365" and "q = r'' mod 365"
  have r: "n - 1 = 146097 * a + r" "r < 146097" unfolding a_def r_def by simp_all
  have r': "r = 36524 * b + r'" "r' < 36524" unfolding b_def r'_def by simp_all
  have r'': "r' = 1461 * c + r''" "r'' < 1461" unfolding c_def r''_def by simp_all
  have q: "r'' = 365 * e + q" "q < 365" unfolding e_def q_def by simp_all
  have n: "n = 146097 * a + 36524 * b + 1461 * c + 365 * e + q + 1" using assms(1) r r' r'' q by linarith
  have bounds: "b \<le> 4" "c < 25" "e \<le> 4" using r r' r'' q by linarith+
  have o: "ord2ymd n =
      (let y = a * 400 + 1 + b * 100 + c * 4 + e
       in if e = 4 \<or> b = 4 then (y - 1, 12, 31) else (case month_day y q of (m, d) \<Rightarrow> (y, m, d)))"
    unfolding ord2ymd_def Let_def a_def [symmetric] r_def [symmetric] b_def [symmetric]
      r'_def [symmetric] c_def [symmetric] r''_def [symmetric] e_def [symmetric] q_def [symmetric] ..
  consider "b = 4" | "b < 4" "e = 4" | "b < 4" "e < 4" using bounds by linarith
  then show ?thesis
  proof cases
    case 1
    then have z: "c = 0" "e = 0" "q = 0" using r r' r'' q by linarith+
    have "is_leap (400 * a + 400)" unfolding is_leap_def by presburger
    moreover have "days_before_year (400 * a + 400) = 146097 * a + 145731"
      using days_before_year_parts [of 3 24 3 a] by (simp add: algebra_simps)
    ultimately show ?thesis
      using assms(2) o 1 z n
      by (auto simp: Let_def ymd2ord_def days_before_month_simps days_in_month_def month_lengths_def
          algebra_simps)
  next
    case 2
    then have z: "q = 0" "c < 24" using r r' r'' q by linarith+
    have "(4 * c + 4 + 100 * (4 * a + b)) mod 100 = 4 * c + 4"
      using z(2) by (subst mod_mult_self2) simp
    moreover have "4 * (100 * a + 25 * b + c + 1) mod 4 = 0" by simp
    ultimately have "is_leap (400 * a + 100 * b + 4 * c + 4)"
      unfolding is_leap_def by (simp add: algebra_simps)
    moreover have "days_before_year (400 * a + 100 * b + 4 * c + 4) =
        146097 * a + 36524 * b + 1461 * c + 1095"
      using days_before_year_parts [of b c 3 a] 2 z by (simp add: algebra_simps)
    ultimately show ?thesis
      using assms(2) o 2 z n
      by (auto simp: Let_def ymd2ord_def days_before_month_simps days_in_month_def month_lengths_def
          algebra_simps)
  next
    case 3
    let ?y = "400 * a + 100 * b + 4 * c + e + 1"
    have y: "y = ?y" and md: "month_day ?y q = (m, d)"
      using assms(2) o 3 by (auto simp: Let_def algebra_simps split: prod.splits)
    have "q < (if is_leap ?y then 366 else 365)" using q by simp
    from month_day_bounds [OF md this] days_before_year_parts [OF 3(1) bounds(2) 3(2), of a] show ?thesis
      unfolding y ymd2ord_def n by simp
  qed
qed

lemma days_before_year_large: "10000 \<le> y \<Longrightarrow> 3652059 \<le> days_before_year y"
proof -
  assume y: "10000 \<le> y"
  define z where "z = y - 1"
  have "9999 \<le> z" using y by (simp add: z_def)
  show ?thesis
  proof (cases "z = 9999")
    case True
    then show ?thesis unfolding days_before_year_def z_def [symmetric] Let_def by simp
  next
    case False
    with \<open>9999 \<le> z\<close> have z: "10000 \<le> z" by simp
    have "z < 4 * (z div 4) + 4" "100 * (z div 100) \<le> z" by linarith+
    with z show ?thesis unfolding days_before_year_def z_def [symmetric] Let_def by linarith
  qed
qed

lemma of_instant_correct:
  assumes "of_instant i = Some t"
  shows "instant t = i \<and> valid_datetime t \<and> tz_offset t = Some 0"
proof -
  define us s where "us = i mod 1000000" and "s = i div 1000000"
  define secs day where "secs = s mod 86400" and "day = s div 86400"
  have eq: "of_instant i = (if day < 1 \<or> 3652059 < day then None
      else case ord2ymd (nat day) of (y, m, d) \<Rightarrow>
        Some \<lparr>dt_year = y, dt_month = m, dt_day = d, dt_hour = nat (secs div 3600),
              dt_minute = nat (secs div 60 mod 60), dt_second = nat (secs mod 60),
              dt_micro = nat us, tz_offset = Some 0\<rparr>)"
    unfolding of_instant_def Let_def us_def s_def secs_def day_def ..
  have day: "1 \<le> day" "day \<le> 3652059"
    using assms unfolding eq by (simp_all split: if_splits)
  obtain y m d where ymd: "ord2ymd (nat day) = (y, m, d)" by (cases "ord2ymd (nat day)")
  have t: "t = \<lparr>dt_year = y, dt_month = m, dt_day = d, dt_hour = nat (secs div 3600),
                dt_minute = nat (secs div 60 mod 60), dt_second = nat (secs mod 60),
                dt_micro = nat us, tz_offset = Some 0\<rparr>"
    using assms day unfolding eq ymd by simp
  have cal: "ymd2ord y m d = nat day" "1 \<le> y" "1 \<le> m" "m \<le> 12" "1 \<le> d" "d \<le> days_in_month y m"
    using ord2ymd_correct [OF _ ymd] day by simp_all
  have "y \<le> 9999"
  proof (rule ccontr)
    assume "\<not> y \<le> 9999"
    then have "3652059 \<le> days_before_year y" by (intro days_before_year_large) simp
    with cal(1,5) day show False unfolding ymd2ord_def by linarith
  qed
  have s: "0 \<le> secs" "secs < 86400" "0 \<le> us" "us < 1000000" by (simp_all add: secs_def us_def)
  have h: "0 \<le> secs div 3600" "secs div 3600 < 24" "0 \<le> secs div 60 mod 60" "secs div 60 mod 60 < 60"
      "0 \<le> secs mod 60" "secs mod 60 < 60"
    using s by auto
  have hms: "(secs div 3600 * 60 + secs div 60 mod 60) * 60 + secs mod 60 = secs"
  proof -
    have "secs div 3600 = secs div 60 div 60" by (simp add: div_mult2_eq [symmetric])
    then have "secs div 3600 * 60 + secs div 60 mod 60 = secs div 60" by simp
    then show ?thesis by simp
  qed
  have i: "i = (day * 86400 + secs) * 1000000 + us"
    unfolding us_def secs_def day_def s_def by simp
  have "instant t = ((((day * 24 + secs div 3600) * 60 + secs div 60 mod 60) * 60 + secs mod 60) * 1000000 + us)"
    using cal(1) day h s by (simp add: instant_def t)
  also have "\<dots> = i"
  proof -
    have "((day * 24 + h) * 60 + m) * 60 + x = day * 86400 + ((h * 60 + m) * 60 + x)" for h m x :: int
      by simp
    then show ?thesis using hms i by metis
  qed
  finally have "instant t = i" .
  moreover have "valid_datetime t"
    unfolding valid_datetime_def valid_date_def t using cal \<open>y \<le> 9999\<close> s h by auto
  ultimately show ?thesis by (simp add: t)
qed

lemma to_utc_correct:
  assumes "to_utc t = Some u" and "valid_datetime t"
  shows "instant u = instant t \<and> valid_datetime u \<and> tz_offset u = Some 0"
  using assms of_instant_correct unfolding to_utc_def by (auto split: if_splits)

lemma peek_Cons [simp]: "peek (c # s) = c"
  by (simp add: peek_def)

lemma peek_Nil [simp]: "peek [] = CHR 0x00"
  by (simp add: peek_def)

lemma parse_date_pad:
  assumes "y < 10000" "m < 100" "d < 100"
  shows "parse_date 10 (pad 4 y @ ''-'' @ pad 2 m @ ''-'' @ pad 2 d @ s) = Some (y, m, d)"
proof -
  have "peek (pad 2 m @ s') \<noteq> CHR ''W''" for s'
  proof -
    have "is_digit (peek (pad 2 m @ s'))" 
      using set_pad [of "hd (pad 2 m)" 2 m] by (cases "pad 2 m") (auto simp: peek_def dest: arg_cong [of _ _ length])
    then show ?thesis by (auto simp: is_digit_def)
  qed
  with assms show ?thesis by (simp add: parse_date_def Let_def)
qed

lemma find_separator_pad:
  "find_separator (pad 4 y @ ''-'' @ pad 2 m @ ''-'' @ s) = Some 10"
proof -
  have n: "(pad 4 y @ ''-'' @ pad 2 m @ ''-'' @ s) ! 4 = CHR ''-''" by (simp add: nth_append)
  have "(pad 4 y @ ''-'' @ pad 2 m @ ''-'' @ s) ! 5 = pad 2 m ! 0" by (simp add: nth_append)
  moreover have "is_digit (pad 2 m ! 0)" by (rule set_pad [of _ 2 m]) simp
  ultimately have w: "(pad 4 y @ ''-'' @ pad 2 m @ ''-'' @ s) ! 5 \<noteq> CHR ''W''" by (auto simp: is_digit_def)
  show ?thesis using n w unfolding find_separator_def Let_def by simp
qed

lemma parse_fraction_pad:
  "us < 1000000 \<Longrightarrow> parse_fraction 6 (pad 6 us @ ''+00:00'') = Some (us, True)"
  by (simp add: parse_fraction_def is_digit_def)

lemma parse_hms_pad:
  assumes "h < 100" "m < 100" "s < 100"
  shows "parse_hms 3 True 8 (pad 2 h @ '':'' @ pad 2 m @ '':'' @ pad 2 s @ ''+00:00'') = Some ([h, m, s], 0, True)"
  "us < 1000000 \<Longrightarrow>
   parse_hms 3 True 15 (pad 2 h @ '':'' @ pad 2 m @ '':'' @ pad 2 s @ ''.'' @ pad 6 us @ ''+00:00'')
     = Some ([h, m, s], us, True)"
  using assms by (simp_all add: numeral_3_eq_3 Let_def parse_fraction_pad del: pad.simps)


lemma parse_time_text:
  assumes "valid_datetime t"
  shows "parse_time (time_text t @ ''+00:00'') =
    Some ([dt_hour t, dt_minute t, dt_second t], dt_micro t, Some 0)"
proof -
  let ?zone = "\<lambda>c. c = CHR ''+'' \<or> c = CHR ''-'' \<or> c = CHR ''Z''"
  have tw: "takeWhile (\<lambda>c. \<not> ?zone c) (time_text t @ ''+00:00'') = time_text t"
    by (auto simp: time_text_def not_zone_pad [simplified])
  have e: "length (time_text t) = (if dt_micro t = 0 then 8 else 15)" by (simp add: time_text_def)
  have "parse_hms 3 True (length (time_text t)) (time_text t @ ''+00:00'') =
      Some ([dt_hour t, dt_minute t, dt_second t], dt_micro t, True)"
    unfolding e using assms parse_hms_pad [of "dt_hour t" "dt_minute t" "dt_second t"]
    by (simp add: time_text_def valid_datetime_def)
  moreover have "drop (length (time_text t)) (time_text t @ ''+00:00'') = ''+00:00''" by simp
  ultimately show ?thesis
    unfolding parse_time_def Let_def tw using parse_hms_utc by (simp add: nth0_def)
qed

lemma days_in_month_le: "1 \<le> m \<Longrightarrow> m \<le> 12 \<Longrightarrow> days_in_month y m \<le> 31"
  by (elim month_cases) (simp_all add: days_in_month_def month_lengths_def)

lemma fromisoformat_isoformat:
  assumes "valid_datetime t" and "tz_offset t = Some 0"
  shows "fromisoformat (isoformat_utc t) = Some t"
proof -
  have shape: "isoformat_utc t = (pad 4 (dt_year t) @ ''-'' @ pad 2 (dt_month t) @ ''-'' @ pad 2 (dt_day t)) @
      ''T'' @ time_text t @ ''+00:00''"
    by (simp add: isoformat_utc_def)
  have bounds: "dt_year t < 10000" "dt_month t < 100" "dt_day t < 100"
    using assms(1) days_in_month_le [of "dt_month t" "dt_year t"]
    by (auto simp: valid_datetime_def valid_date_def)
  have d: "parse_date 10 (isoformat_utc t) = Some (dt_year t, dt_month t, dt_day t)"
    using parse_date_pad [OF bounds] unfolding shape by simp
  have f: "find_separator (isoformat_utc t) = Some 10"
    unfolding shape using find_separator_pad by simp
  have l: "length (isoformat_utc t) > 10" "drop 11 (isoformat_utc t) = time_text t @ ''+00:00''"
    unfolding shape by simp_all
  show ?thesis
    using assms parse_time_text [OF assms(1)] l d unfolding fromisoformat_def f
    by (cases t) (simp add: nth0_def Let_def)
qed

text \<open>The text of an instant in UTC up to its zone, and the characters in it.\<close>

definition utc_text :: "datetime \<Rightarrow> string" where
  "utc_text t =
     pad 4 (dt_year t) @ ''-'' @ pad 2 (dt_month t) @ ''-'' @ pad 2 (dt_day t) @ ''T'' @ time_text t"

lemma isoformat_utc_text: "isoformat_utc t = utc_text t @ ''+00:00''"
  by (simp add: isoformat_utc_def utc_text_def)

lemma set_utc_text: "c \<in> set (utc_text t) \<Longrightarrow> is_digit c \<or> c \<in> set ''-T:.''"
  by (auto simp: utc_text_def time_text_def dest: set_pad split: if_splits)

lemma offset_to_z_utc: "offset_to_z (isoformat_utc t) = utc_text t @ ''Z''"
proof -
  have "CHR ''+'' \<notin> set (utc_text t)" using set_utc_text [of "CHR ''+''" t] by (auto simp: is_digit_def)
  then show ?thesis unfolding isoformat_utc_text offset_to_z_def by (simp add: py_replace_skip starts_with_def)
qed

lemma z_to_offset_isoformat: "z_to_offset (offset_to_z (isoformat_utc t)) = isoformat_utc t"
proof -
  have "CHR ''Z'' \<notin> set (utc_text t)" using set_utc_text [of "CHR ''Z''" t] by (auto simp: is_digit_def)
  then show ?thesis
    unfolding offset_to_z_utc z_to_offset_def
    by (simp add: isoformat_utc_text py_replace_skip starts_with_def)
qed

lemma offset_to_z_no_space: "c \<in> set (offset_to_z (isoformat_utc t)) \<Longrightarrow> \<not> is_space c"
  using set_utc_text [of c t] by (auto simp: offset_to_z_utc is_digit_def is_space_def Let_def)

end
