(* ===== verification/Health.thy ===== *)
theory Health
  imports Iso_Time Canonical
begin

text \<open>
  The intake of health observations (health.py): an observation of a scanner is bounded,
  normalised, and turned into an inert \<open>Observation\<close> record whose identity is a digest of what
  was observed, when, and by whom.
\<close>

section \<open>Fields\<close>

definition health_text :: "json \<Rightarrow> string \<Rightarrow> nat \<Rightarrow> string res" where
  "health_text v field maximum =
     (case v of
        JStr s \<Rightarrow>
          if py_strip s = [] \<or> length s > maximum \<or> CHR 0x00 \<in> set s
          then Inl (ValueError (field @ '' must be bounded non-empty text''))
          else Inr (py_strip s)
      | _ \<Rightarrow> Inl (ValueError (field @ '' must be bounded non-empty text'')))"

definition parse_health_instant :: "string \<Rightarrow> datetime res" where
  "parse_health_instant v =
     (case fromisoformat (z_to_offset (py_strip v)) of
        None \<Rightarrow> Inl (ValueError ''observedAt must be an ISO-8601 timestamp'')
      | Some t \<Rightarrow>
          if tz_offset t = None
          then Inl (ValueError ''observedAt must include timezone info (e.g. Z or +00:00)'')
          else (case to_utc t of None \<Rightarrow> Inl OverflowError | Some u \<Rightarrow> Inr u))"

definition normalize_health_instant :: "string \<Rightarrow> string res" where
  "normalize_health_instant v =
     rbind (parse_health_instant v) (\<lambda>t. Inr (offset_to_z (isoformat_utc t)))"

definition health_outcomes :: "string list" where
  "health_outcomes = [''PASS'', ''FAIL'', ''UNKNOWN'']"

definition health_fields :: "string list" where
  "health_fields =
     [''repository'', ''outcome'', ''observedAt'', ''source'', ''sourceIdentity'', ''runIdentity'',
      ''findingIdentity'', ''finding'', ''categories'', ''evidence'']"

definition health_texts :: "json \<Rightarrow> string \<Rightarrow> nat \<Rightarrow> string list res" where
  "health_texts v field maximum =
     (case v of
        JArr xs \<Rightarrow>
          if length xs > 128 then Inl (ValueError (field @ '' must be a bounded list''))
          else rmapM (\<lambda>x. health_text x (field @ ''[]'') maximum) xs
      | _ \<Rightarrow> Inl (ValueError (field @ '' must be a bounded list'')))"

definition optional_health_text :: "json \<Rightarrow> string \<Rightarrow> nat \<Rightarrow> string option res" where
  "optional_health_text v field maximum =
     (if v = JNull then Inr None else rbind (health_text v field maximum) (\<lambda>s. Inr (Some s)))"

section \<open>The normalised observation\<close>

record health_observation =
  h_repository :: string
  h_outcome :: string
  h_observedAt :: string
  h_source :: string
  h_sourceIdentity :: string
  h_runIdentity :: "string option"
  h_findingIdentity :: string
  h_finding :: "string option"
  h_categories :: "string list"
  h_evidence :: "string list"

definition normalize_health_observation :: "dict \<Rightarrow> health_observation res" where
  "normalize_health_observation v =
     rbind (guard (set (map fst v) \<subseteq> set health_fields)
              (ValueError ''health observation contains unexpected fields'')) (\<lambda>_.
     rbind (health_text (dget v ''repository'') ''repository'' 512) (\<lambda>repository.
     rbind (health_text (dget v ''outcome'') ''outcome'' 16) (\<lambda>outcome0.
     let outcome = py_upper outcome0 in
     rbind (guard (outcome \<in> set health_outcomes)
              (ValueError ''outcome must be PASS, FAIL, or UNKNOWN'')) (\<lambda>_.
     rbind (health_text (dget v ''observedAt'') ''observedAt'' 64) (\<lambda>raw.
     rbind (normalize_health_instant raw) (\<lambda>observed_at.
     rbind (health_text (dget v ''source'') ''source'' 512) (\<lambda>source.
     rbind (health_text (dget_default v ''sourceIdentity'' (JStr source)) ''sourceIdentity'' 1024)
       (\<lambda>source_identity.
     rbind (health_texts (dget_default v ''categories'' (JArr [])) ''categories'' 128) (\<lambda>categories.
     rbind (health_texts (dget_default v ''evidence'' (JArr [])) ''evidence'' 1024) (\<lambda>evidence.
     rbind (optional_health_text (dget v ''finding'') ''finding'' 16384) (\<lambda>finding.
     rbind (optional_health_text (dget v ''runIdentity'') ''runIdentity'' 1024) (\<lambda>run.
     let category = (case categories of [] \<Rightarrow> ''general'' | c # _ \<Rightarrow> c);
         identity = (if dget v ''findingIdentity'' = JNull
                     then JStr (''health:'' @ repository @ '':'' @ category)
                     else dget v ''findingIdentity'') in
     rbind (health_text identity ''findingIdentity'' 1024) (\<lambda>finding_identity.
       Inr \<lparr>h_repository = repository, h_outcome = outcome, h_observedAt = observed_at,
            h_source = source, h_sourceIdentity = source_identity, h_runIdentity = run,
            h_findingIdentity = finding_identity, h_finding = finding,
            h_categories = categories, h_evidence = evidence\<rparr>)))))))))))))"

section \<open>The record\<close>

definition health_identity :: "health_observation \<Rightarrow> dict" where
  "health_identity h =
     [(''repository'', JStr (h_repository h)), (''outcome'', JStr (h_outcome h)),
      (''observedAt'', JStr (h_observedAt h)), (''sourceIdentity'', JStr (h_sourceIdentity h)),
      (''findingIdentity'', JStr (h_findingIdentity h))]"

definition health_record_id :: "health_observation \<Rightarrow> string" where
  "health_record_id h =
     ''observation:family-health:'' @ remove_prefix (canonical_digest (health_identity h)) ''sha256:''"

definition evidence_item :: "string \<Rightarrow> string \<Rightarrow> string \<Rightarrow> json" where
  "evidence_item i relation status =
     JObj [(''id'', JStr i), (''relation'', JStr relation), (''status'', JStr status)]"

definition health_evidence :: "health_observation \<Rightarrow> json list" where
  "health_evidence h =
     [evidence_item (h_sourceIdentity h) ''supports'' (h_outcome h)] @
     (case h_runIdentity h of
        None \<Rightarrow> [] | Some run \<Rightarrow> [evidence_item run ''references'' (h_outcome h)]) @
     map (\<lambda>item. evidence_item item ''references'' (h_outcome h)) (h_evidence h)"

definition health_details :: "health_observation \<Rightarrow> dict" where
  "health_details h =
     [(''outcome'', JStr (h_outcome h)), (''observationType'', JStr ''family-health''),
      (''healthRepository'', JStr (h_repository h)), (''observedAt'', JStr (h_observedAt h)),
      (''source'', JStr (h_source h)), (''sourceIdentity'', JStr (h_sourceIdentity h)),
      (''findingIdentity'', JStr (h_findingIdentity h)),
      (''categories'', JArr (map JStr (h_categories h)))] @
     (case h_runIdentity h of None \<Rightarrow> [] | Some run \<Rightarrow> [(''runIdentity'', JStr run)]) @
     (case h_finding h of None \<Rightarrow> [] | Some f \<Rightarrow> [(''finding'', JStr f)])"

definition health_record :: "health_observation \<Rightarrow> dict" where
  "health_record h =
     [(''apiVersion'', JStr ''commons.mncs.dev/v0alpha1''),
      (''kind'', JStr ''Observation''),
      (''metadata'', JObj
         [(''recordId'', JStr (health_record_id h)),
          (''createdAt'', JStr (h_observedAt h)),
          (''author'', JObj [(''type'', JStr ''health-scanner''), (''id'', JStr (h_source h))]),
          (''labels'', JArr [JStr ''family-health'', JStr ''untrusted''])]),
      (''subject'', JObj [(''type'', JStr ''repository''), (''identity'', JStr (h_repository h))]),
      (''scope'', JObj
         [(''context'', JObj [(''repository'', JStr (h_repository h))]),
          (''limitations'', JArr
             [JStr ''scanner observation is not a repository authorization or execution result'',
              JStr ''health is current only at the observedAt timestamp''])]),
      (''statement'', JObj
         [(''summary'', JStr (''Family health observation for '' @ h_repository h)),
          (''details'', JStr (case h_finding h of
                                None \<Rightarrow> ''No additional finding was supplied.'' | Some f \<Rightarrow> f))]),
      (''evidence'', JArr (health_evidence h)),
      (''reproduction'', JObj
         [(''prerequisites'', JArr [JStr (''the scanner'' @ [CHR 0x27] @ ''s independently authorized source'')]),
          (''procedure'', JArr [JObj [(''source'', JStr (h_sourceIdentity h))]]),
          (''expected'', JArr [JStr ''preserve PASS, FAIL, or UNKNOWN with freshness metadata''])]),
      (''dependencies'', JArr []),
      (''affectedContracts'', JArr []),
      (''provenance'', JObj
         [(''producer'', JObj [(''type'', JStr ''health-scanner''), (''id'', JStr (h_source h))]),
          (''sourceRecords'', JArr [JStr (h_sourceIdentity h)])]),
      (''confidence'', JObj
         [(''level'', JStr ''unreported''),
          (''rationale'', JStr ''scanner output is an untrusted observation at a declared time'')]),
      (''security'', JObj
         [(''sensitivity'', JStr ''restricted''), (''executableAttachments'', JBool False),
          (''instructionsAreUntrusted'', JBool True), (''requiredExternalAuthority'', JBool True)]),
      (''lifecycle'', JObj
         [(''initialState'', JStr ''proposed''), (''reviewWhen'', JArr [JStr ''source or revision changes''])]),
      (''relationships'', JArr []),
      (''details'', JObj (health_details h))]"

definition health_observation_record :: "dict \<Rightarrow> (dict \<times> health_observation) res" where
  "health_observation_record v =
     rbind (normalize_health_observation v) (\<lambda>h. Inr (health_record h, h))"

section \<open>Lemmas\<close>

lemma fromisoformat_valid: "fromisoformat s = Some t \<Longrightarrow> valid_datetime t"
  by (auto simp: fromisoformat_def Let_def bind_eq_Some_conv split: if_splits)

lemma parse_health_instant_Inr:
  "parse_health_instant v = Inr u \<Longrightarrow>
   \<exists>t. fromisoformat (z_to_offset (py_strip v)) = Some t \<and> tz_offset t \<noteq> None \<and>
       instant u = instant t \<and> valid_datetime u \<and> tz_offset u = Some 0"
  using to_utc_correct fromisoformat_valid
  by (fastforce simp: parse_health_instant_def split: option.splits if_splits)

text \<open>The normal form of an instant has no white space, so stripping leaves it alone.\<close>

lemma parse_normal_form:
  assumes "valid_datetime u" and "tz_offset u = Some 0"
  shows "parse_health_instant (offset_to_z (isoformat_utc u)) = Inr u"
proof -
  have "py_strip (offset_to_z (isoformat_utc u)) = offset_to_z (isoformat_utc u)"
    by (rule py_strip_no_space) (rule offset_to_z_no_space)
  then show ?thesis
    using assms fromisoformat_isoformat [OF assms]
    by (simp add: parse_health_instant_def z_to_offset_isoformat to_utc_def)
qed

lemma normalize_fixpoint:
  assumes "normalize_health_instant v = Inr w"
  shows "normalize_health_instant w = Inr w"
proof -
  from assms obtain u where u: "parse_health_instant v = Inr u"
    and w: "w = offset_to_z (isoformat_utc u)"
    by (auto simp: normalize_health_instant_def rbind_eq_Inr)
  from parse_health_instant_Inr [OF u] have "valid_datetime u" "tz_offset u = Some 0" by blast+
  then show ?thesis by (simp add: normalize_health_instant_def w parse_normal_form)
qed

text \<open>A moment of 2026, as the evaluation of the witnesses uses it.\<close>

definition sample_time :: datetime where
  "sample_time = \<lparr>dt_year = 2026, dt_month = 1, dt_day = 2, dt_hour = 3, dt_minute = 4,
     dt_second = 5, dt_micro = 0, tz_offset = Some 0\<rparr>"

lemma sample_time_valid: "valid_datetime sample_time"
  by (simp add: sample_time_def valid_datetime_def valid_date_def days_in_month_def month_lengths_def)

lemma sample_time_text: "offset_to_z (isoformat_utc sample_time) = ''2026-01-02T03:04:05Z''"
  by (simp add: offset_to_z_utc utc_text_def time_text_def sample_time_def pad_2 pad_4 digit_char_def
      char_of_def bit_0)

lemma sample_instant: "normalize_health_instant ''2026-01-02T03:04:05Z'' = Inr ''2026-01-02T03:04:05Z''"
proof -
  have "parse_health_instant ''2026-01-02T03:04:05Z'' = Inr sample_time"
    using parse_normal_form [OF sample_time_valid] by (simp add: sample_time_text) (simp add: sample_time_def)
  then show ?thesis by (simp add: normalize_health_instant_def sample_time_text)
qed

definition sample_observation :: dict where
  "sample_observation =
     [(''repository'', JStr ''mncs-atlas''), (''outcome'', JStr ''pass''),
      (''observedAt'', JStr ''2026-01-02T03:04:05Z''), (''source'', JStr ''scanner'')]"

lemma sample_observation_ok: "\<exists>r h. health_observation_record sample_observation = Inr (r, h)"
  by (simp add: health_observation_record_def normalize_health_observation_def sample_observation_def
      health_fields_def health_text_def py_strip_def is_space_def py_upper_def upper_char_def
      health_outcomes_def health_texts_def optional_health_text_def sample_instant guard_def
      of_char_def char_of_def bit_0 Let_def)

section \<open>Properties\<close>

text \<open>
  Normalising the instant of an observation keeps the instant and reaches a fixed point:
  the normal form is read back as the same moment in UTC, and normalising it again changes
  nothing.
\<close>

theorem health_instant_normal_form:
  assumes "normalize_health_instant v = Inr w"
  shows "\<exists>t u. fromisoformat (z_to_offset (py_strip v)) = Some t \<and> parse_health_instant w = Inr u \<and>
           instant u = instant t \<and> tz_offset u = Some 0 \<and> normalize_health_instant w = Inr w"
proof -
  from assms obtain u where u: "parse_health_instant v = Inr u"
    and w: "w = offset_to_z (isoformat_utc u)"
    by (auto simp: normalize_health_instant_def rbind_eq_Inr)
  from parse_health_instant_Inr [OF u] obtain t where
    t: "fromisoformat (z_to_offset (py_strip v)) = Some t" "instant u = instant t"
    and valid: "valid_datetime u" "tz_offset u = Some 0" by blast
  have "parse_health_instant w = Inr u" unfolding w by (rule parse_normal_form [OF valid])
  with t valid show ?thesis by (auto simp: normalize_health_instant_def w)
qed

text \<open>
  An accepted observation becomes an inert record: its instructions are marked untrusted
  and in need of an outside authority, nothing in it is executable, it starts as proposed, and
  the record is stamped with the normalised instant of the observation.
\<close>

theorem health_record_is_inert:
  assumes "health_observation_record v = Inr (r, h)"
  shows "\<exists>sec lc md. dget r ''security'' = JObj sec \<and> dget r ''lifecycle'' = JObj lc \<and>
           dget r ''metadata'' = JObj md \<and>
           dget sec ''instructionsAreUntrusted'' = JBool True \<and>
           dget sec ''requiredExternalAuthority'' = JBool True \<and>
           dget sec ''executableAttachments'' = JBool False \<and>
           dget lc ''initialState'' = JStr ''proposed'' \<and>
           dget md ''createdAt'' = JStr (h_observedAt h) \<and>
           normalize_health_instant (h_observedAt h) = Inr (h_observedAt h) \<and>
           h_outcome h \<in> {''PASS'', ''FAIL'', ''UNKNOWN''}"
proof -
  have n: "normalize_health_observation v = Inr h" and r: "r = health_record h"
    using assms by (auto simp: health_observation_record_def rbind_eq_Inr)
  obtain raw where raw: "normalize_health_instant raw = Inr (h_observedAt h)"
    and out: "h_outcome h \<in> set health_outcomes"
    using n by (auto simp: normalize_health_observation_def rbind_eq_Inr Let_def)
  show ?thesis using normalize_fixpoint [OF raw] out by (simp add: r health_record_def health_outcomes_def)
qed

section \<open>Witnesses\<close>

theorem health_instant_normal_form_witness:
  "\<exists>u. parse_health_instant ''2026-01-02T03:04:05Z'' = Inr u \<and>
       normalize_health_instant ''2026-01-02T03:04:05Z'' = Inr ''2026-01-02T03:04:05Z''"
  using health_instant_normal_form [OF sample_instant] by blast

theorem health_record_is_inert_witness:
  "\<exists>r h sec. health_observation_record sample_observation = Inr (r, h) \<and>
     dget r ''security'' = JObj sec \<and> dget sec ''instructionsAreUntrusted'' = JBool True"
proof -
  obtain r h where rh: "health_observation_record sample_observation = Inr (r, h)"
    using sample_observation_ok by blast
  from health_record_is_inert [OF rh] rh show ?thesis by blast
qed

end
