(* ===== verification/Lane_Policy.thy ===== *)
theory Lane_Policy
  imports Text_Tools
begin

text \<open>
  The authority policies of work lanes (lane_policy.py): which paths a lane may write, the
  check of a work request against its lane, and the decision whether a path is writable.
\<close>

section \<open>Lanes and policies\<close>

datatype work_lane =
  DOCUMENTATION | CONVERSION_PREP | VERIFICATION | REPO_LOCAL | REPO_HYGIENE | SHARED_CORE

fun lane_value :: "work_lane \<Rightarrow> string" where
  "lane_value DOCUMENTATION = ''DOCUMENTATION''"
| "lane_value CONVERSION_PREP = ''CONVERSION_PREP''"
| "lane_value VERIFICATION = ''VERIFICATION''"
| "lane_value REPO_LOCAL = ''REPO_LOCAL''"
| "lane_value REPO_HYGIENE = ''REPO_HYGIENE''"
| "lane_value SHARED_CORE = ''SHARED_CORE''"

definition work_lanes :: "work_lane list" where
  "work_lanes =
     [DOCUMENTATION, CONVERSION_PREP, VERIFICATION, REPO_LOCAL, REPO_HYGIENE, SHARED_CORE]"

text \<open>\<open>WorkLane(text)\<close>: the member with that value.\<close>

definition WorkLane :: "string \<Rightarrow> work_lane option" where
  "WorkLane s = map_of (map (\<lambda>l. (lane_value l, l)) work_lanes) s"

definition LANES :: "string list" where
  "LANES = map lane_value work_lanes"

definition SAFE_LANES :: "string list" where
  "SAFE_LANES =
     map lane_value [DOCUMENTATION, CONVERSION_PREP, VERIFICATION, REPO_LOCAL, REPO_HYGIENE]"

record lane_policy_rec =
  policy_lane :: string
  policy_read :: "string list"
  policy_write :: "string list"
  may_publish :: "string list"
  must_not_modify :: "string list"
  exclusive :: bool

definition str_array :: "string list \<Rightarrow> json" where
  "str_array xs = JArr (map JStr xs)"

definition policy_as_dict :: "lane_policy_rec \<Rightarrow> dict" where
  "policy_as_dict p =
     [(''lane'', JStr (policy_lane p)),
      (''read'', str_array (policy_read p)),
      (''write'', str_array (policy_write p)),
      (''mayPublish'', str_array (may_publish p)),
      (''mustNotModify'', str_array (must_not_modify p)),
      (''exclusive'', JBool (exclusive p))]"

definition shared_forbidden :: "string list" where
  "shared_forbidden =
     [''mncs-language/compiler/**'', ''mncs-language/src/**'', ''mncs-language/stdlib/**'',
      ''Commons protocol/schema semantics'', ''Fabric protocol semantics'',
      ''Harness policy semantics'', ''family-wide semantic schemas'',
      ''conformance and evaluator semantics'']"

definition publish_kinds :: "string list" where
  "publish_kinds = [''observations'', ''findings'', ''work_requests'', ''blockers'', ''handoffs'']"

fun lane_write :: "work_lane \<Rightarrow> string list" where
  "lane_write DOCUMENTATION =
     [''assigned_repo/docs/**'', ''assigned_repo/README*'', ''assigned_repo/examples/**'']"
| "lane_write CONVERSION_PREP = [''assigned_repo/**'']"
| "lane_write VERIFICATION =
     [''assigned_repo/tests/**'', ''assigned_repo/fixtures/**'', ''assigned_repo/.github/**'']"
| "lane_write REPO_LOCAL = [''assigned_repo/**'']"
| "lane_write REPO_HYGIENE =
     [''assigned_repo/.github/**'', ''assigned_repo/tests/**'', ''assigned_repo/fixtures/**'',
      ''assigned_repo/**'']"
| "lane_write SHARED_CORE = [''explicitly-authorized-shared-core/**'']"

definition lane_policy :: "string \<Rightarrow> lane_policy_rec res" where
  "lane_policy lane =
     (case WorkLane lane of
        None \<Rightarrow> Inl (ValueError (''unsupported work lane: '' @ lane))
      | Some selected \<Rightarrow>
          Inr \<lparr>policy_lane = lane_value selected,
               policy_read = [''mncs-family/**''],
               policy_write = lane_write selected,
               may_publish = publish_kinds,
               must_not_modify = (if selected = SHARED_CORE then [] else shared_forbidden),
               exclusive = (selected = SHARED_CORE)\<rparr>)"

section \<open>Requests and paths\<close>

definition validate_lane_request :: "dict \<Rightarrow> (string \<times> string) list res" where
  "validate_lane_request details =
     (case dget details ''lane'' of
        JNull \<Rightarrow> Inr []
      | JStr lane \<Rightarrow>
          if lane \<notin> set LANES then Inr [(''WORK_LANE_INVALID'', ''details.lane'')]
          else
            rbind (lane_policy lane) (\<lambda>policy.
              let shared_impact = dget details ''sharedCoreImpact''
              in if lane = ''SHARED_CORE'' \<and> shared_impact \<noteq> JBool True
                 then Inr [(''WORK_SHARED_CORE_IMPACT_REQUIRED'', ''details.sharedCoreImpact'')]
                 else if lane \<noteq> ''SHARED_CORE'' \<and> shared_impact = JBool True
                 then Inr [(''WORK_SAFE_LANE_SHARED_CORE'', ''details.sharedCoreImpact'')]
                 else
                   (case dget details ''forbiddenWriteScope'' of
                      JArr forbidden \<Rightarrow>
                        if list_ex (\<lambda>item. item \<notin> set (map JStr (must_not_modify policy))) forbidden
                        then Inr [(''WORK_FORBIDDEN_SCOPE_INVALID'', ''details.forbiddenWriteScope'')]
                        else Inr []
                    | _ \<Rightarrow> Inr []))
      | _ \<Rightarrow> Inr [(''WORK_LANE_INVALID'', ''details.lane'')])"

definition policy_hint :: json where
  "policy_hint = JStr ''policy hint; repository/Harness authorization remains external''"

definition scope_result :: "bool \<Rightarrow> string \<Rightarrow> string \<Rightarrow> string \<Rightarrow> lane_policy_rec \<Rightarrow> dict" where
  "scope_result allowed verdict lane normalized policy =
     [(''allowed'', JBool allowed), (''code'', JStr verdict), (''lane'', JStr lane),
      (''path'', JStr normalized), (''policy'', JObj (policy_as_dict policy)),
      (''authority'', policy_hint)]"

definition path_matches :: "string \<Rightarrow> string \<Rightarrow> string list \<Rightarrow> bool" where
  "path_matches normalized prefix patterns =
     list_ex (\<lambda>pattern. fnmatchcase normalized (py_replace ''assigned_repo/'' prefix pattern)) patterns"

definition scope_decision ::
  "string \<Rightarrow> string \<Rightarrow> string option \<Rightarrow> string list option \<Rightarrow> dict res" where
  "scope_decision lane path assigned_repository allowed_write_scope =
     rbind (lane_policy lane) (\<lambda>policy.
       let normalized = strip_char (CHR ''/'') (py_strip path)
       in if normalized = [] \<or> CHR 0x00 \<in> set normalized
          then Inr [(''allowed'', JBool False), (''code'', JStr ''SCOPE_INVALID''),
                    (''lane'', JStr lane), (''path'', JStr path)]
          else
            let patterns = (case allowed_write_scope of Some ps \<Rightarrow> ps | None \<Rightarrow> policy_write policy);
                decided = (\<lambda>allowed.
                  Inr (scope_result allowed (if allowed then ''SCOPE_ALLOWED'' else ''SCOPE_DENIED'')
                         lane normalized policy))
            in if exclusive policy then decided (list_ex (fnmatchcase normalized) patterns)
               else
                 (case assigned_repository of
                    None \<Rightarrow> Inr (scope_result False ''SCOPE_REPOSITORY_REQUIRED'' lane normalized policy)
                  | Some repo \<Rightarrow>
                      if strip_char (CHR ''/'') repo = []
                      then Inr (scope_result False ''SCOPE_REPOSITORY_REQUIRED'' lane normalized policy)
                      else
                        let prefix = strip_char (CHR ''/'') repo @ ''/''
                        in decided (path_matches normalized prefix patterns \<and>
                                    path_matches normalized prefix (policy_write policy))))"

section \<open>Lemmas\<close>

lemma WorkLane_value [simp]: "WorkLane (lane_value l) = Some l"
  by (cases l) (simp_all add: WorkLane_def work_lanes_def)

lemma lane_value_inject [simp]: "lane_value l = lane_value m \<longleftrightarrow> l = m"
  by (metis WorkLane_value option.inject)

lemma WorkLane_Some: "WorkLane s = Some l \<longleftrightarrow> s = lane_value l"
proof
  assume "WorkLane s = Some l"
  then show "s = lane_value l"
    by (auto simp: WorkLane_def work_lanes_def split: if_splits)
qed simp

lemma lane_policy_Inr:
  "lane_policy lane = Inr p \<longleftrightarrow>
   (\<exists>l. lane = lane_value l \<and>
        p = \<lparr>policy_lane = lane, policy_read = [''mncs-family/**''], policy_write = lane_write l,
             may_publish = publish_kinds,
             must_not_modify = (if l = SHARED_CORE then [] else shared_forbidden),
             exclusive = (l = SHARED_CORE)\<rparr>)"
proof (cases "WorkLane lane")
  case None
  then have "lane \<noteq> lane_value l" for l by auto
  with None show ?thesis by (simp add: lane_policy_def)
next
  case (Some l)
  then have "lane = lane_value l" by (simp add: WorkLane_Some)
  with Some show ?thesis by (auto simp: lane_policy_def)
qed

lemma lane_value_shared [simp]: "lane_value l = ''SHARED_CORE'' \<longleftrightarrow> l = SHARED_CORE"
  by (cases l) simp_all

lemma dget_scope_result [simp]:
  "dget (scope_result a c l n p) ''allowed'' = JBool a"
  "dget (scope_result a c l n p) ''path'' = JStr n"
  by (simp_all add: scope_result_def)

text \<open>The write patterns of a lane other than \<open>SHARED_CORE\<close>, below the assigned repository.\<close>

fun lane_below :: "work_lane \<Rightarrow> string list" where
  "lane_below DOCUMENTATION = [''docs/**'', ''README*'', ''examples/**'']"
| "lane_below VERIFICATION = [''tests/**'', ''fixtures/**'', ''.github/**'']"
| "lane_below REPO_HYGIENE = [''.github/**'', ''tests/**'', ''fixtures/**'', ''**'']"
| "lane_below _ = [''**'']"

lemma replaced_write:
  "l \<noteq> SHARED_CORE \<Longrightarrow>
   map (py_replace ''assigned_repo/'' prefix) (lane_write l) = map (\<lambda>p. prefix @ p) (lane_below l)"
  by (cases l) (simp_all add: starts_with_def)

lemma path_matches_map:
  "path_matches n prefix ps \<longleftrightarrow> (\<exists>q \<in> set (map (py_replace ''assigned_repo/'' prefix) ps). fnmatchcase n q)"
  by (auto simp: path_matches_def list_ex_iff)

lemma path_matches_lane:
  assumes "l \<noteq> SHARED_CORE" and "list_all plain_char prefix"
  shows "path_matches n prefix (lane_write l) \<longleftrightarrow>
         (\<exists>rest. n = prefix @ rest \<and> (\<exists>q \<in> set (lane_below l). fnmatchcase rest q))"
  unfolding path_matches_map replaced_write [OF assms(1)]
  by (auto simp: fnmatch_prefix [OF assms(2)])

text \<open>What the patterns of a lane say of the path below the repository.\<close>

fun lane_below_prefix :: "work_lane \<Rightarrow> string \<Rightarrow> bool" where
  "lane_below_prefix DOCUMENTATION rest =
     (starts_with rest ''docs/'' \<or> starts_with rest ''README'' \<or> starts_with rest ''examples/'')"
| "lane_below_prefix VERIFICATION rest =
     (starts_with rest ''tests/'' \<or> starts_with rest ''fixtures/'' \<or> starts_with rest ''.github/'')"
| "lane_below_prefix _ rest = True"

lemma fnmatch_starts_with: "list_all plain_char l \<Longrightarrow> fnmatchcase s (l @ p) \<Longrightarrow> starts_with s l"
  by (auto simp: fnmatch_prefix)

lemmas lane_prefixes =
  fnmatch_starts_with [of "''docs/''" _ "''**''"] fnmatch_starts_with [of "''README''" _ "''*''"]
  fnmatch_starts_with [of "''examples/''" _ "''**''"] fnmatch_starts_with [of "''tests/''" _ "''**''"]
  fnmatch_starts_with [of "''fixtures/''" _ "''**''"] fnmatch_starts_with [of "''.github/''" _ "''**''"]

lemma lane_below_match: "q \<in> set (lane_below l) \<Longrightarrow> fnmatchcase rest q \<Longrightarrow> lane_below_prefix l rest"
  using lane_prefixes [of rest] by (cases l) (auto simp: plain_char_def)

lemma plain_strip_char: "list_all plain_char s \<Longrightarrow> list_all plain_char (strip_char c s)"
  by (auto simp: list_all_iff strip_char_def dest!: set_dropWhileD)

lemma scope_decision_allowed:
  assumes "scope_decision lane path repo scope = Inr d" and "dget d ''allowed'' = JBool True"
    and "lane \<noteq> ''SHARED_CORE''"
  obtains l r where "lane = lane_value l" and "l \<noteq> SHARED_CORE" and "repo = Some r"
    and "strip_char (CHR ''/'') r \<noteq> []"
    and "dget d ''path'' = JStr (strip_char (CHR ''/'') (py_strip path))"
    and "strip_char (CHR ''/'') (py_strip path) \<noteq> []"
    and "CHR 0x00 \<notin> set (strip_char (CHR ''/'') (py_strip path))"
    and "path_matches (strip_char (CHR ''/'') (py_strip path)) (strip_char (CHR ''/'') r @ ''/'')
           (lane_write l)"
    and "\<And>ps. scope = Some ps \<Longrightarrow>
         path_matches (strip_char (CHR ''/'') (py_strip path)) (strip_char (CHR ''/'') r @ ''/'') ps"
  using assms
  by (auto simp: scope_decision_def scope_result_def rbind_eq_Inr lane_policy_Inr Let_def
      split: if_splits option.splits)

lemma scope_decision_safe:
  assumes "l \<noteq> SHARED_CORE" and "strip_char (CHR ''/'') r \<noteq> []"
    and "strip_char (CHR ''/'') (py_strip path) \<noteq> []"
    and "CHR 0x00 \<notin> set (strip_char (CHR ''/'') (py_strip path))"
  shows "\<exists>e. scope_decision (lane_value l) path (Some r) None = Inr e \<and>
           dget e ''path'' = JStr (strip_char (CHR ''/'') (py_strip path)) \<and>
           dget e ''allowed'' =
             JBool (path_matches (strip_char (CHR ''/'') (py_strip path))
                      (strip_char (CHR ''/'') r @ ''/'') (lane_write l))"
  using assms by (simp add: scope_decision_def lane_policy_def Let_def)

section \<open>Properties\<close>


text \<open>
  A requested write scope only narrows a lane other than \<open>SHARED_CORE\<close>: a path allowed
  under it is allowed without it.
\<close>

theorem write_scope_narrows:
  assumes "scope_decision lane path repo (Some scope) = Inr d"
    and "dget d ''allowed'' = JBool True" and "lane \<noteq> ''SHARED_CORE''"
  shows "\<exists>e. scope_decision lane path repo None = Inr e \<and> dget e ''allowed'' = JBool True \<and>
             dget e ''path'' = dget d ''path''"
  using assms
proof (rule scope_decision_allowed)
  fix l r
  assume r: "repo = Some r" "lane = lane_value l"
    and safe: "l \<noteq> SHARED_CORE" "strip_char (CHR ''/'') r \<noteq> []"
      "strip_char (CHR ''/'') (py_strip path) \<noteq> []"
      "CHR 0x00 \<notin> set (strip_char (CHR ''/'') (py_strip path))"
    and path: "dget d ''path'' = JStr (strip_char (CHR ''/'') (py_strip path))"
    and matches: "path_matches (strip_char (CHR ''/'') (py_strip path))
                    (strip_char (CHR ''/'') r @ ''/'') (lane_write l)"
  from scope_decision_safe [OF safe] matches path r show ?thesis by auto
qed

section \<open>Limits of the check\<close>

text \<open>
  Two inputs for which the decision is wider than the lane: a path is not resolved before it is
  matched, so a parent segment leaves the directory of the lane; and the name of the repository
  is spliced into the pattern, where a star matches every repository.
\<close>

lemmas scope_eval =
  scope_decision_def lane_policy_def WorkLane_def work_lanes_def strip_char_def py_strip_def
  is_space_def path_matches_def fnmatchcase_def pieces_def starts_with_def of_char_def

lemma parent_segment_allowed:
  "\<exists>d. scope_decision ''DOCUMENTATION'' ''atlas/docs/../src/a.py'' (Some ''atlas'') None = Inr d \<and>
       dget d ''allowed'' = JBool True"
  by (simp add: scope_eval)

lemma repository_pattern_allowed:
  "\<exists>d. scope_decision ''REPO_LOCAL'' ''other/src/a.py'' (Some ''*'') None = Inr d \<and>
       dget d ''allowed'' = JBool True"
  by (simp add: scope_eval)

section \<open>Witnesses\<close>

lemma docs_decision:
  "\<exists>d. scope_decision ''DOCUMENTATION'' ''atlas/docs/a.md'' (Some ''atlas'') (Some [''assigned_repo/docs/*''])
         = Inr d \<and> dget d ''allowed'' = JBool True"
  by (simp add: scope_eval)


theorem write_scope_narrows_witness:
  "\<exists>e. scope_decision ''DOCUMENTATION'' ''atlas/docs/a.md'' (Some ''atlas'') None = Inr e \<and>
       dget e ''allowed'' = JBool True"
proof -
  obtain d where d: "scope_decision ''DOCUMENTATION'' ''atlas/docs/a.md'' (Some ''atlas'')
      (Some [''assigned_repo/docs/*'']) = Inr d" "dget d ''allowed'' = JBool True"
    using docs_decision by blast
  from write_scope_narrows [OF d] show ?thesis by auto
qed

end
