(* ===== verification/Family_Identity.thy ===== *)
theory Family_Identity
  imports Lane_Policy "HOL-Library.Multiset"
begin

text \<open>
  Identities of the project family (the first half of family_registry.py): the canonical
  projects, the spellings each is known by, and the resolution of a submitted spelling, which
  may be a project id, a source alias, a repository or a URL, to one project.
\<close>

section \<open>URLs\<close>

text \<open>
  \<open>urllib.parse.urlparse\<close> of CPython 3.11, as far as the host name and the path are read from
  it. A host in brackets has to be an IP literal, or the call raises.
\<close>

definition is_ascii_alpha :: "char \<Rightarrow> bool" where
  "is_ascii_alpha c = (let n = (of_char c :: nat) in (65 \<le> n \<and> n \<le> 90) \<or> (97 \<le> n \<and> n \<le> 122))"

definition is_hex :: "char \<Rightarrow> bool" where
  "is_hex c =
     (let n = (of_char c :: nat) in (48 \<le> n \<and> n \<le> 57) \<or> (65 \<le> n \<and> n \<le> 70) \<or> (97 \<le> n \<and> n \<le> 102))"

definition is_scheme_char :: "char \<Rightarrow> bool" where
  "is_scheme_char c = (is_ascii_alpha c \<or> is_digit c \<or> c \<in> set ''+-.'')"

definition uses_params :: "string list" where
  "uses_params =
     [[], ''ftp'', ''hdl'', ''prospero'', ''http'', ''imap'', ''https'', ''shttp'', ''rtsp'', ''rtsps'',
      ''rtspu'', ''sip'', ''sips'', ''mms'', ''sftp'', ''tel'']"

text \<open>\<open>ipaddress.IPv6Address\<close>: whether a text is an address.\<close>

definition ipv4_octet :: "string \<Rightarrow> bool" where
  "ipv4_octet s =
     (s \<noteq> [] \<and> length s \<le> 3 \<and> list_all is_digit s \<and> (s = ''0'' \<or> hd s \<noteq> CHR ''0'') \<and>
      foldl (\<lambda>n c. n * 10 + (of_char c - 48)) 0 s \<le> (255 :: nat))"

definition ipv4_ok :: "string \<Rightarrow> bool" where
  "ipv4_ok s = (let os = split_char (CHR ''.'') s in length os = 4 \<and> list_all ipv4_octet os)"

definition hextet_ok :: "string \<Rightarrow> bool" where
  "hextet_ok s = (s \<noteq> [] \<and> length s \<le> 4 \<and> list_all is_hex s)"

definition ipv6_parts_ok :: "string list \<Rightarrow> bool" where
  "ipv6_parts_ok ps =
     (let n = length ps; gaps = filter (\<lambda>i. ps ! i = []) [1..<n - 1]
      in n \<le> 9 \<and>
         (case gaps of
            [] \<Rightarrow> n = 8 \<and> list_all hextet_ok ps
          | [k] \<Rightarrow>
              (let hi = (if hd ps = [] then k - 1 else k);
                   lo = (if last ps = [] then n - k - 2 else n - k - 1)
               in (hd ps = [] \<longrightarrow> hi = 0) \<and> (last ps = [] \<longrightarrow> lo = 0) \<and> hi + lo < 8 \<and>
                  list_all hextet_ok (take hi ps) \<and> list_all hextet_ok (drop (n - lo) ps))
          | _ \<Rightarrow> False))"

definition ipv6_ok :: "string \<Rightarrow> bool" where
  "ipv6_ok s =
     (let addr = before_char (CHR ''%'') s; scope = after_char (CHR ''%'') s;
          ps = split_char (CHR '':'') addr
      in (CHR ''%'' \<in> set s \<longrightarrow> scope \<noteq> [] \<and> CHR ''%'' \<notin> set scope) \<and> length ps \<ge> 3 \<and>
         (if CHR ''.'' \<in> set (last ps)
          then ipv4_ok (last ps) \<and> ipv6_parts_ok (butlast ps @ [''0'', ''0''])
          else ipv6_parts_ok ps))"

definition bracketed_host_ok :: "string \<Rightarrow> bool" where
  "bracketed_host_ok h =
     (if starts_with h ''v''
      then (let r = dropWhile is_hex (drop 1 h)
            in is_hex (hd (drop 1 h @ ''!'')) \<and> starts_with r ''.'' \<and> length r \<ge> 2)
      else ipv6_ok h)"

definition url_scheme :: "string \<Rightarrow> string \<times> string" where
  "url_scheme url =
     (let s = before_char (CHR '':'') url
      in if CHR '':'' \<in> set url \<and> s \<noteq> [] \<and> is_ascii_alpha (hd s) \<and> list_all is_scheme_char s
         then (py_lower s, after_char (CHR '':'') url) else ([], url))"

definition cut_params :: "string \<Rightarrow> string \<Rightarrow> string" where
  "cut_params scheme path =
     (if scheme \<in> set uses_params \<and> CHR '';'' \<in> set path then
        (if CHR ''/'' \<in> set path then
           (let tail = after_last (CHR ''/'') path
            in take (length path - length tail) path @ before_char (CHR '';'') tail)
         else before_char (CHR '';'') path)
      else path)"

text \<open>The network location and the path.\<close>

definition urlparse :: "string \<Rightarrow> (string \<times> string) res" where
  "urlparse value =
     (let clean = filter (\<lambda>c. c \<notin> {CHR 0x09, CHR 0x0A, CHR 0x0D})
                    (dropWhile (\<lambda>c. (of_char c :: nat) \<le> 32) value);
          (scheme, url) = url_scheme clean;
          (netloc, rest) = (if starts_with url ''//''
                            then (takeWhile (\<lambda>c. c \<notin> set ''/?#'') (drop 2 url),
                                  dropWhile (\<lambda>c. c \<notin> set ''/?#'') (drop 2 url))
                            else ([], url));
          op = CHR ''['' \<in> set netloc; cl = CHR '']'' \<in> set netloc
      in if op \<noteq> cl then Inl (ValueError ''Invalid IPv6 URL'')
         else if op \<and> \<not> bracketed_host_ok (before_char (CHR '']'') (after_char (CHR ''['') netloc))
         then Inl (ValueError ''invalid bracketed host'')
         else Inr (netloc, cut_params scheme (before_char (CHR ''?'') (before_char (CHR ''#'') rest))))"

definition url_hostname :: "string \<Rightarrow> string" where
  "url_hostname netloc =
     (let info = after_last (CHR ''@'') netloc;
          host = (if CHR ''['' \<in> set info then before_char (CHR '']'') (after_char (CHR ''['') info)
                  else before_char (CHR '':'') info)
      in py_lower (before_char (CHR ''%'') host) @ dropWhile (\<lambda>c. c \<noteq> CHR ''%'') host)"

section \<open>The family\<close>

definition CANONICAL_FAMILY :: "(string \<times> string) list" where
  "CANONICAL_FAMILY =
     [(''mncs'', ''epi13/machine-native-complexity-standard''),
      (''mncds'', ''epi13/machine-native-complexity-development-specification''),
      (''mncs-rights-provenance'', ''epi13/mncs-rights-provenance''),
      (''mncs-language'', ''epi13/mncs-language''),
      (''mncs-language-service'', ''epi13/mncs-language-service''),
      (''mncs-test'', ''epi13/mncs-test''),
      (''mncs-debug'', ''epi13/mncs-debug''),
      (''mncs-doctor'', ''epi13/mncs-doctor''),
      (''mncs-actions'', ''epi13/mncs-actions''),
      (''mncs-validator-rs'', ''epi13/mncs-validator-rs''),
      (''mncs-forge'', ''epi13/mncs-forge''),
      (''mncs-fabric'', ''epi13/mncs-fabric''),
      (''mncs-commons'', ''epi13/MNCS-Commons''),
      (''mncs-ingest'', ''epi13/mncs-ingest''),
      (''mncs-store'', ''epi13/mncs-store''),
      (''mncs-index'', ''epi13/mncs-index''),
      (''mncs-service'', ''epi13/mncs-service''),
      (''mncs-harness'', ''epi13/mncs-harness''),
      (''mncs-control-mcp'', ''epi13/mncs-control-mcp''),
      (''mncs-atlas'', ''epi13/mncs-atlas''),
      (''mncs-reference-studies'', ''epi13/mncs-reference-studies''),
      (''ravel'', ''epi13/RAVEL''),
      (''mnel'', ''epi13/Machine-Native-Experimental-Learning''),
      (''mncs-lineage'', ''epi13/mncs-lineage''),
      (''mncs-tui'', ''epi13/mncs-tui'')]"

definition SOURCE_ID_ALIASES :: "(string \<times> string) list" where
  "SOURCE_ID_ALIASES =
     [(''mncs-forge-mcp'', ''mncs-forge''),
      (''forge'', ''mncs-forge''),
      (''mncs-control'', ''mncs-control-mcp''),
      (''control'', ''mncs-control-mcp''),
      (''fabric'', ''mncs-fabric''),
      (''rights-provenance'', ''mncs-rights-provenance''),
      (''rust-validator'', ''mncs-validator-rs''),
      (''reference-studies'', ''mncs-reference-studies''),
      (''commons'', ''mncs-commons''),
      (''atlas'', ''mncs-atlas'')]"

record project_identity =
  projectId :: string
  repository_of :: string
  submitted_as :: string

definition repository_from_url :: "string \<Rightarrow> string option res" where
  "repository_from_url value =
     rbind (urlparse value) (\<lambda>(netloc, path).
       if url_hostname netloc \<noteq> ''github.com'' then Inr None
       else
         (case filter (\<lambda>p. p \<noteq> []) (split_char (CHR ''/'') (strip_char (CHR ''/'') path)) of
            [owner, name] \<Rightarrow> Inr (Some (owner @ ''/'' @ remove_suffix name ''.git''))
          | _ \<Rightarrow> Inr None))"

definition source_aliases :: "string \<Rightarrow> string list" where
  "source_aliases project_id =
     map fst (filter (\<lambda>at. snd at = project_id) SOURCE_ID_ALIASES)"

definition project_aliases :: "string \<times> string \<Rightarrow> string list" where
  "project_aliases project =
     [fst project, snd project, after_last (CHR ''/'') (snd project)] @
     source_aliases (fst project) @ map (\<lambda>a. ''epi13/'' @ a) (source_aliases (fst project))"

definition find_project :: "string \<Rightarrow> (string \<times> string) option" where
  "find_project candidate =
     List.find (\<lambda>p. candidate \<in> set (map py_lower (project_aliases p))) CANONICAL_FAMILY"

definition canonical_project_identity :: "string \<Rightarrow> project_identity option res" where
  "canonical_project_identity value =
     (let submitted = py_strip value
      in if submitted = [] then Inr None
         else
           rbind (repository_from_url submitted) (\<lambda>from_url.
             let candidate =
                   (case from_url of
                      Some r \<Rightarrow> r
                    | None \<Rightarrow> if count_char (CHR ''/'') submitted = 1 then remove_suffix submitted ''.git''
                             else submitted)
             in Inr (map_option
                       (\<lambda>p. \<lparr>projectId = fst p, repository_of = snd p, submitted_as = submitted\<rparr>)
                       (find_project (py_lower candidate)))))"

section \<open>The registry document\<close>

definition coverage_states :: "string list" where
  "coverage_states =
     [''ACTIVE_WORK'', ''HEALTHY_NO_WORK'', ''BLOCKED'', ''WAITING_SHARED_CORE'',
      ''INTENTIONALLY_INACTIVE'', ''NEEDS_REVIEW'']"

definition project_fields :: "string list" where
  "project_fields =
     [''id'', ''repository'', ''displayName'', ''group'', ''role'', ''status'', ''authorityClass'',
      ''sharedCore'', ''eligibleWorkLanes'', ''consumes'', ''orientationSource'', ''coveragePosture'']"

text \<open>\<open>set(xs)\<close> raises when an element is not hashable.\<close>

definition lanes_ok :: "json list \<Rightarrow> bool res" where
  "lanes_ok lanes =
     (if list_all hashable lanes then Inr (list_all (\<lambda>l. is_str l \<and> str_of l \<in> set LANES) lanes)
      else Inl TypeError)"

definition registry_entry ::
  "string list \<times> string list \<Rightarrow> json \<Rightarrow> (string list \<times> string list) res" where
  "registry_entry seen_pairs project =
     (case project of
        JObj p \<Rightarrow>
          rbind (guard (set (map fst p) = set project_fields)
                   (ValueError ''family project fields are invalid'')) (\<lambda>_.
          (case (dget p ''id'', dget p ''repository'', dget p ''eligibleWorkLanes'') of
             (JStr project_id, JStr repository, JArr lanes) \<Rightarrow>
               rbind (guard (project_id \<notin> set (fst seen_pairs) \<and> repository \<notin> set (snd seen_pairs))
                        (ValueError ''family project entry is invalid'')) (\<lambda>_.
               rbind (lanes_ok lanes) (\<lambda>ok.
               rbind (guard (ok \<and> dget p ''status'' = JStr ''active'')
                        (ValueError ''family project entry is invalid'')) (\<lambda>_.
               rbind (in_set (dget p ''coveragePosture'') coverage_states) (\<lambda>posture.
               rbind (guard (posture \<and> map_of CANONICAL_FAMILY project_id = Some repository)
                        (ValueError ''family project entry is invalid'')) (\<lambda>_.
                 Inr (project_id # fst seen_pairs, repository # snd seen_pairs))))))
           | _ \<Rightarrow> Inl (ValueError ''family project entry is invalid'')))
      | _ \<Rightarrow> Inl (ValueError ''family project fields are invalid''))"

definition validate_family_registry :: "dict \<Rightarrow> unit res" where
  "validate_family_registry value =
     (case dget value ''projects'' of
        JArr projects \<Rightarrow>
          rbind (guard (dget value ''registryVersion'' = JStr ''commons.mncs.dev/family-registry/v0alpha1'')
                   (ValueError ''family registry envelope is invalid'')) (\<lambda>_.
          rbind (guard (length projects = length CANONICAL_FAMILY)
                   (ValueError (''family registry must contain the canonical '' @
                      nat_str (length CANONICAL_FAMILY) @ '' projects''))) (\<lambda>_.
          rbind (rfoldM registry_entry ([], []) projects) (\<lambda>(ids, repositories).
            guard (set ids = set (map fst CANONICAL_FAMILY))
              (ValueError ''family registry identities are not canonical''))))
      | _ \<Rightarrow> Inl (ValueError ''family registry envelope is invalid''))"

section \<open>Lemmas\<close>

text \<open>The characters of the canonical spellings: letters, digits, hyphen and slash.\<close>

definition id_char :: "char \<Rightarrow> bool" where
  "id_char c = (is_ascii_alpha c \<or> is_digit c \<or> c = CHR ''-'' \<or> c = CHR ''/'')"

lemma id_char_simps:
  "id_char CHR ''a''" "id_char CHR ''b''" "id_char CHR ''c''" "id_char CHR ''d''"
  "id_char CHR ''e''" "id_char CHR ''f''" "id_char CHR ''g''" "id_char CHR ''h''"
  "id_char CHR ''i''" "id_char CHR ''j''" "id_char CHR ''k''" "id_char CHR ''l''"
  "id_char CHR ''m''" "id_char CHR ''n''" "id_char CHR ''o''" "id_char CHR ''p''"
  "id_char CHR ''q''" "id_char CHR ''r''" "id_char CHR ''s''" "id_char CHR ''t''"
  "id_char CHR ''u''" "id_char CHR ''v''" "id_char CHR ''w''" "id_char CHR ''x''"
  "id_char CHR ''y''" "id_char CHR ''z''" "id_char CHR ''A''" "id_char CHR ''B''"
  "id_char CHR ''C''" "id_char CHR ''D''" "id_char CHR ''E''" "id_char CHR ''F''"
  "id_char CHR ''G''" "id_char CHR ''H''" "id_char CHR ''I''" "id_char CHR ''J''"
  "id_char CHR ''K''" "id_char CHR ''L''" "id_char CHR ''M''" "id_char CHR ''N''"
  "id_char CHR ''O''" "id_char CHR ''P''" "id_char CHR ''Q''" "id_char CHR ''R''"
  "id_char CHR ''S''" "id_char CHR ''T''" "id_char CHR ''U''" "id_char CHR ''V''"
  "id_char CHR ''W''" "id_char CHR ''X''" "id_char CHR ''Y''" "id_char CHR ''Z''"
  "id_char CHR ''0''" "id_char CHR ''1''" "id_char CHR ''2''" "id_char CHR ''3''"
  "id_char CHR ''4''" "id_char CHR ''5''" "id_char CHR ''6''" "id_char CHR ''7''"
  "id_char CHR ''8''" "id_char CHR ''9''" "id_char CHR ''-''" "id_char CHR ''/''"
  by (simp_all add: id_char_def is_ascii_alpha_def is_digit_def of_char_def)

lemma lower_char_slash: "lower_char c = CHR ''/'' \<longleftrightarrow> c = CHR ''/''"
  by (auto simp: lower_char_def Let_def dest!: arg_cong [of _ _ "of_char :: char \<Rightarrow> nat"])

lemma id_char_not: "id_char c \<Longrightarrow> c \<notin> set ''.:[]?#;@%'' \<and> (of_char c :: nat) > 32 \<and> \<not> is_space c"
  by (auto simp: id_char_def is_ascii_alpha_def is_digit_def is_space_def Let_def)

lemmas spelling_defs =
  CANONICAL_FAMILY_def project_aliases_def source_aliases_def SOURCE_ID_ALIASES_def after_last_def

lemma canonical_ids_distinct: "distinct (map fst CANONICAL_FAMILY)"
  by (simp add: CANONICAL_FAMILY_def)

lemma canonical_repositories_distinct: "distinct (map snd CANONICAL_FAMILY)"
  by (simp add: CANONICAL_FAMILY_def)

lemma spellings_plain:
  "list_all (\<lambda>p. list_all (\<lambda>a. a \<noteq> [] \<and> hd a \<noteq> CHR ''/'' \<and> list_all id_char a) (project_aliases p))
     CANONICAL_FAMILY"
  by (simp add: spelling_defs id_char_simps)

text \<open>No spelling belongs to two projects.\<close>

lemma spellings_distinct:
  "distinct (concat (map (\<lambda>p. remdups (map py_lower (project_aliases p))) CANONICAL_FAMILY))"
  by (simp add: spelling_defs py_lower_def)

lemma concat_distinct_unique:
  assumes "distinct (concat (map f ps))" and "p \<in> set ps" "q \<in> set ps" and "x \<in> set (f p)" "x \<in> set (f q)"
  shows "p = q"
  using assms
proof (induction ps)
  case (Cons r ps)
  then show ?case by auto
qed simp

lemma find_project_spelling:
  assumes "p \<in> set CANONICAL_FAMILY" and "x \<in> set (map py_lower (project_aliases p))"
  shows "find_project x = Some p"
proof -
  let ?P = "\<lambda>q. x \<in> set (map py_lower (project_aliases q))"
  obtain q where q: "find_project x = Some q" "q \<in> set CANONICAL_FAMILY" "?P q"
    using assms find_None_iff [of ?P CANONICAL_FAMILY] find_Some_iff [of ?P CANONICAL_FAMILY]
    unfolding find_project_def by (metis (no_types, lifting) not_Some_eq nth_mem)
  have "p = q"
    using concat_distinct_unique [OF spellings_distinct assms(1) q(2)] assms(2) q(3) by simp
  with q(1) show ?thesis by simp
qed

lemma repository_from_url_plain:
  assumes "list_all id_char a" and "a \<noteq> []" and "hd a \<noteq> CHR ''/''"
  shows "repository_from_url a = Inr None"
proof -
  have c: "c \<notin> set ''.:[]?#;@%'' \<and> (of_char c :: nat) > 32 \<and> \<not> is_space c" if "c \<in> set a" for c
    using assms(1) that by (intro id_char_not) (simp add: list_all_iff)
  have "dropWhile (\<lambda>c. (of_char c :: nat) \<le> 32) a = a"
    using c [of "hd a"] assms(2) by (simp add: dropWhile_eq_self_iff)
  moreover have "filter (\<lambda>c. c \<notin> {CHR 0x09, CHR 0x0A, CHR 0x0D}) a = a"
    using c [of "CHR 0x09"] c [of "CHR 0x0A"] c [of "CHR 0x0D"]
    by (intro filter_True) (auto simp: of_char_def)
  moreover have "url_scheme a = ([], a)" using c [of "CHR '':''"] by (auto simp: url_scheme_def Let_def)
  moreover have "\<not> starts_with a ''//''" using assms(2,3) by (cases a) (auto simp: starts_with_def)
  ultimately show ?thesis
    unfolding repository_from_url_def urlparse_def Let_def
    by (simp add: url_hostname_def before_char_def after_last_def py_lower_def)
qed

lemma canonical_project_plain:
  assumes "list_all id_char a" and "a \<noteq> []" and "hd a \<noteq> CHR ''/''"
  shows "canonical_project_identity a =
    Inr (map_option (\<lambda>p. \<lparr>projectId = fst p, repository_of = snd p, submitted_as = a\<rparr>)
           (find_project (py_lower a)))"
proof -
  have "py_strip a = a" using assms(1) id_char_not by (intro py_strip_no_space) (auto simp: list_all_iff)
  moreover have "remove_suffix a ''.git'' = a"
  proof -
    have "CHR ''.'' \<notin> set a" using assms(1) id_char_not [of "CHR ''.''"] by (auto simp: list_all_iff)
    then have "drop n a \<noteq> ''.git''" for n by (metis in_set_dropD list.set_intros(1))
    then show ?thesis by (simp add: remove_suffix_def ends_with_def)
  qed
  ultimately show ?thesis
    using assms(2) repository_from_url_plain [OF assms] by (simp add: canonical_project_identity_def Let_def)
qed

text \<open>What the registry check has established after a list of entries.\<close>

lemma registry_entry_Inr:
  assumes "registry_entry (ids, repos) project = Inr (ids', repos')"
  shows "\<exists>p i r. project = JObj p \<and> dget p ''id'' = JStr i \<and> dget p ''repository'' = JStr r \<and>
     i \<notin> set ids \<and> r \<notin> set repos \<and> (i, r) \<in> set CANONICAL_FAMILY \<and> ids' = i # ids \<and> repos' = r # repos"
  using assms
  by (auto simp: registry_entry_def rbind_eq_Inr dest!: map_of_SomeD
      split: json.splits prod.splits list.splits)

definition entry_pair :: "json \<Rightarrow> string \<times> string" where
  "entry_pair project = (str_of (dget (obj_of project) ''id''), str_of (dget (obj_of project) ''repository''))"

lemma registry_entries:
  assumes "rfoldM registry_entry (ids, repos) projects = Inr (ids', repos')" and "distinct ids"
  shows "distinct ids' \<and> ids' = rev (map (fst \<circ> entry_pair) projects) @ ids \<and>
         set (map entry_pair projects) \<subseteq> set CANONICAL_FAMILY"
  using assms
proof (induction projects arbitrary: ids repos)
  case (Cons project projects)
  obtain ids1 repos1 where step: "registry_entry (ids, repos) project = Inr (ids1, repos1)"
    and rest: "rfoldM registry_entry (ids1, repos1) projects = Inr (ids', repos')"
    using Cons.prems(1) by (auto simp: rbind_eq_Inr)
  obtain p i r where p: "project = JObj p" "dget p ''id'' = JStr i" "dget p ''repository'' = JStr r"
      "i \<notin> set ids" "(i, r) \<in> set CANONICAL_FAMILY" "ids1 = i # ids"
    using registry_entry_Inr [OF step] by blast
  have "distinct ids1" using p Cons.prems(2) by simp
  from Cons.IH [OF rest this] have "distinct ids'"
    "ids' = rev (map (fst \<circ> entry_pair) projects) @ i # ids"
    "set (map entry_pair projects) \<subseteq> set CANONICAL_FAMILY" using p(6) by blast+
  moreover have "entry_pair project = (i, r)" using p by (simp add: entry_pair_def)
  ultimately show ?case using p(5) by (simp del: distinct_append)
qed simp

section \<open>Properties\<close>

text \<open>
  Every spelling of a project resolves, in any mixture of cases, and to that project alone:
  the identity names the canonical id and repository.
\<close>

theorem spelling_resolves:
  assumes "p \<in> set CANONICAL_FAMILY" and "a \<in> set (project_aliases p)"
    and "py_lower b = py_lower a" and "list_all id_char b"
  shows "canonical_project_identity b =
           Inr (Some \<lparr>projectId = fst p, repository_of = snd p, submitted_as = b\<rparr>)"
proof -
  have a: "a \<noteq> []" "hd a \<noteq> CHR ''/''" using spellings_plain assms(1,2) by (auto simp: list_all_iff)
  have "length b = length a" using assms(3) by (metis length_map py_lower_def)
  then have b: "b \<noteq> []" using a(1) by auto
  have "lower_char (hd b) = lower_char (hd a)"
    using assms(3) a(1) b by (metis hd_map py_lower_def)
  moreover have "lower_char (hd a) \<noteq> CHR ''/''"
    using a spellings_plain assms(1,2) lower_char_slash by (auto simp: list_all_iff)
  ultimately have "hd b \<noteq> CHR ''/''" by auto
  with canonical_project_plain [OF assms(4) b] find_project_spelling [OF assms(1), of "py_lower b"]
  show ?thesis using assms(2,3) by auto
qed

text \<open>
  A registry document that passes validation lists exactly the canonical projects, each
  once and with its canonical repository.
\<close>

theorem registry_is_canonical:
  assumes "validate_family_registry v = Inr u"
  shows "\<exists>projects. dget v ''projects'' = JArr projects \<and>
           mset (map entry_pair projects) = mset CANONICAL_FAMILY"
proof -
  obtain projects ids repos where pr: "dget v ''projects'' = JArr projects"
    and len: "length projects = length CANONICAL_FAMILY"
    and run: "rfoldM registry_entry ([], []) projects = Inr (ids, repos)"
    using assms by (auto simp: validate_family_registry_def rbind_eq_Inr split: json.splits)
  from registry_entries [OF run] have d: "distinct (rev (map (fst \<circ> entry_pair) projects))"
    and sub: "set (map entry_pair projects) \<subseteq> set CANONICAL_FAMILY" by (auto simp del: distinct_rev)
  then have dp: "distinct (map entry_pair projects)" by (metis distinct_map distinct_rev map_map)
  have dc: "distinct CANONICAL_FAMILY" using canonical_ids_distinct by (simp add: distinct_map)
  have "card (set (map entry_pair projects)) = card (set CANONICAL_FAMILY)"
    using distinct_card [OF dp] distinct_card [OF dc] len by simp
  with sub have "set (map entry_pair projects) = set CANONICAL_FAMILY" by (intro card_subset_eq) simp_all
  then have "mset (map entry_pair projects) = mset CANONICAL_FAMILY"
    using set_eq_iff_mset_eq_distinct [OF dp dc] by blast
  with pr show ?thesis by blast
qed

section \<open>Witnesses\<close>

theorem spelling_resolves_witness:
  "canonical_project_identity ''EPI13/Forge'' =
     Inr (Some \<lparr>projectId = ''mncs-forge'', repository_of = ''epi13/mncs-forge'',
                submitted_as = ''EPI13/Forge''\<rparr>)"
  using spelling_resolves [of "(''mncs-forge'', ''epi13/mncs-forge'')" "''epi13/forge''" "''EPI13/Forge''"]
  by (simp add: spelling_defs py_lower_def id_char_simps)

text \<open>A registry document made of the canonical projects.\<close>

definition sample_project :: "string \<times> string \<Rightarrow> json" where
  "sample_project p = JObj
     [(''id'', JStr (fst p)), (''repository'', JStr (snd p)), (''displayName'', JStr (fst p)),
      (''group'', JNull), (''role'', JNull), (''status'', JStr ''active''), (''authorityClass'', JNull),
      (''sharedCore'', JBool False), (''eligibleWorkLanes'', JArr [JStr ''REPO_LOCAL'']),
      (''consumes'', JArr []), (''orientationSource'', JNull), (''coveragePosture'', JStr ''NEEDS_REVIEW'')]"

definition sample_registry :: dict where
  "sample_registry =
     [(''registryVersion'', JStr ''commons.mncs.dev/family-registry/v0alpha1''),
      (''projects'', JArr (map sample_project CANONICAL_FAMILY))]"

lemma sample_entry:
  assumes "(i, r) \<in> set CANONICAL_FAMILY" and "i \<notin> set ids" "r \<notin> set repos"
  shows "registry_entry (ids, repos) (sample_project (i, r)) = Inr (i # ids, r # repos)"
proof -
  have "map_of CANONICAL_FAMILY i = Some r" using assms(1) canonical_ids_distinct by simp
  then show ?thesis
    using assms(2,3)
    by (simp add: registry_entry_def sample_project_def project_fields_def lanes_ok_def LANES_def
        work_lanes_def coverage_states_def guard_def)
qed

lemma sample_entries:
  "set ps \<subseteq> set CANONICAL_FAMILY \<Longrightarrow> distinct (rev (map fst ps) @ ids) \<Longrightarrow>
   distinct (rev (map snd ps) @ repos) \<Longrightarrow>
   rfoldM registry_entry (ids, repos) (map sample_project ps)
     = Inr (rev (map fst ps) @ ids, rev (map snd ps) @ repos)"
proof (induction ps arbitrary: ids repos)
  case (Cons p ps)
  obtain i r where p: "p = (i, r)" by (cases p)
  have "registry_entry (ids, repos) (sample_project p) = Inr (i # ids, r # repos)"
    unfolding p using Cons.prems by (intro sample_entry) (auto simp: p)
  moreover have "rfoldM registry_entry (i # ids, r # repos) (map sample_project ps)
      = Inr (rev (map fst ps) @ i # ids, rev (map snd ps) @ r # repos)"
    using Cons.prems by (intro Cons.IH) (auto simp: p)
  ultimately show ?case by (simp add: p)
qed simp

theorem registry_is_canonical_witness:
  "\<exists>projects. dget sample_registry ''projects'' = JArr projects \<and>
      mset (map entry_pair projects) = mset CANONICAL_FAMILY"
proof -
  have "validate_family_registry sample_registry = Inr ()"
    using sample_entries [of CANONICAL_FAMILY "[]" "[]"] canonical_ids_distinct
      canonical_repositories_distinct
    by (simp add: validate_family_registry_def sample_registry_def guard_def)
  then show ?thesis by (rule registry_is_canonical)
qed

end
