(* ===== verification/Work_Protocol.thy ===== *)
theory Work_Protocol
  imports Family_Identity Iso_Time Lifecycle "HOL-Library.Product_Lexorder"
begin

text \<open>
  Durable work records (work.py): the state tables of work and of its coordination, the
  normalisation of submitted fields, the validator of one record, the lineage check of a
  record against its history, and the two constructors, which submit a record and which
  make its next revision. The clock and the random identifier are arguments.
\<close>

section \<open>States\<close>

definition WORK_PROTOCOL :: string where
  "WORK_PROTOCOL = ''commons.mncs.dev/work-record/v0alpha1''"

definition coordination_transitions :: "(string \<times> string list) list" where
  "coordination_transitions =
     [(''AVAILABLE'', [''CLAIMED'', ''ABANDONED'', ''SUPERSEDED'']),
      (''CLAIMED'', [''IN_PROGRESS'', ''BLOCKED'', ''ABANDONED'', ''SUPERSEDED'']),
      (''IN_PROGRESS'',
        [''BLOCKED'', ''VERIFYING'', ''COMPLETE'', ''ABANDONED'', ''NEEDS_RECONCILIATION'']),
      (''BLOCKED'', [''CLAIMED'', ''IN_PROGRESS'', ''ABANDONED'', ''NEEDS_RECONCILIATION'']),
      (''VERIFYING'', [''COMPLETE'', ''BLOCKED'', ''NEEDS_RECONCILIATION'']),
      (''NEEDS_RECONCILIATION'', [''CLAIMED'', ''IN_PROGRESS'', ''ABANDONED'']),
      (''COMPLETE'', []),
      (''ABANDONED'', []),
      (''SUPERSEDED'', [])]"

definition WORK_COORDINATION_STATES :: "string list" where
  "WORK_COORDINATION_STATES =
     [''AVAILABLE'', ''CLAIMED'', ''IN_PROGRESS'', ''BLOCKED'', ''VERIFYING'', ''COMPLETE'',
      ''ABANDONED'', ''SUPERSEDED'', ''NEEDS_RECONCILIATION'']"

definition TERMINAL_COORDINATION_STATES :: "string list" where
  "TERMINAL_COORDINATION_STATES = [''COMPLETE'', ''ABANDONED'', ''SUPERSEDED'']"

definition WORK_STATES :: "string list" where
  "WORK_STATES =
     [''submitted'', ''accepted'', ''assigned'', ''queued'', ''running'', ''checkpointed'',
      ''blocked'', ''retrying'', ''completed'', ''failed'', ''cancelled'']"

definition TERMINAL_WORK_STATES :: "string list" where
  "TERMINAL_WORK_STATES = [''completed'', ''failed'', ''cancelled'']"

definition work_transitions :: "(string \<times> string list) list" where
  "work_transitions =
     [(''submitted'', [''accepted'', ''assigned'', ''failed'', ''cancelled'']),
      (''accepted'', [''assigned'', ''queued'', ''failed'', ''cancelled'']),
      (''assigned'', [''queued'', ''running'', ''blocked'', ''retrying'', ''failed'', ''cancelled'']),
      (''queued'', [''assigned'', ''running'', ''blocked'', ''retrying'', ''failed'', ''cancelled'']),
      (''running'',
        [''checkpointed'', ''blocked'', ''retrying'', ''completed'', ''failed'', ''cancelled'']),
      (''checkpointed'',
        [''running'', ''blocked'', ''retrying'', ''completed'', ''failed'', ''cancelled'']),
      (''blocked'', [''assigned'', ''queued'', ''running'', ''retrying'', ''failed'', ''cancelled'']),
      (''retrying'', [''assigned'', ''queued'', ''running'', ''blocked'', ''failed'', ''cancelled'']),
      (''completed'', []),
      (''failed'', []),
      (''cancelled'', [])]"

definition allowed_coordination_transitions :: "string \<Rightarrow> string list" where
  "allowed_coordination_transitions state = table_next coordination_transitions state"

definition allowed_work_transitions :: "string \<Rightarrow> string list" where
  "allowed_work_transitions state = table_next work_transitions state"

text \<open>The coordination state a work state stands for when none is given.\<close>

definition coordination_of_state :: "(string \<times> string) list" where
  "coordination_of_state =
     [(''submitted'', ''AVAILABLE''), (''accepted'', ''AVAILABLE''), (''assigned'', ''CLAIMED''),
      (''queued'', ''CLAIMED''), (''running'', ''IN_PROGRESS''), (''checkpointed'', ''VERIFYING''),
      (''blocked'', ''BLOCKED''), (''retrying'', ''NEEDS_RECONCILIATION''),
      (''completed'', ''COMPLETE''), (''failed'', ''ABANDONED''), (''cancelled'', ''ABANDONED'')]"

definition coordination_state :: "dict \<Rightarrow> string res" where
  "coordination_state details =
     rbind (in_set (dget details ''coordinationState'') WORK_COORDINATION_STATES) (\<lambda>explicit.
       if explicit then Inr (str_of (dget details ''coordinationState''))
       else Inr (case map_of coordination_of_state (py_str (dget details ''state'')) of
                   Some c \<Rightarrow> c | None \<Rightarrow> ''AVAILABLE''))"

definition request_state :: "string \<Rightarrow> string" where
  "request_state state =
     (if state = ''completed'' then ''completed''
      else if state = ''failed'' then ''unable_to_complete''
      else if state = ''cancelled'' then ''withdrawn''
      else if state = ''submitted'' then ''open''
      else ''claimed'')"

section \<open>Bounded fields\<close>

definition work_invalid :: "string \<Rightarrow> 'a res" where
  "work_invalid m = Inl (WorkProtocolError ''WORK_INVALID'' m)"

definition work_text :: "json \<Rightarrow> string \<Rightarrow> nat \<Rightarrow> string res" where
  "work_text v field maximum =
     (if is_str v \<and> py_strip (str_of v) \<noteq> [] \<and> length (str_of v) \<le> maximum \<and> CHR 0x00 \<notin> set (str_of v)
      then Inr (py_strip (str_of v))
      else work_invalid (field @ '' must be bounded non-empty text''))"

definition max_text :: nat where
  "max_text = 16384"

definition max_items :: nat where
  "max_items = 128"

definition optional_text :: "json \<Rightarrow> string \<Rightarrow> string option res" where
  "optional_text v field =
     (if v = JNull then Inr None else rbind (work_text v field max_text) (\<lambda>s. Inr (Some s)))"

definition string_list :: "json \<Rightarrow> string \<Rightarrow> string list res" where
  "string_list v field =
     (case v of
        JNull \<Rightarrow> Inr []
      | JArr xs \<Rightarrow>
          if length xs > max_items then work_invalid (field @ '' must be a bounded list'')
          else rmapM (\<lambda>x. work_text x (field @ ''[]'') max_text) xs
      | _ \<Rightarrow> work_invalid (field @ '' must be a bounded list''))"

definition mapping :: "json \<Rightarrow> string \<Rightarrow> bool \<Rightarrow> dict res" where
  "mapping v field required =
     (case v of
        JObj d \<Rightarrow> if length d > max_items then work_invalid (field @ '' must be a bounded object'') else Inr d
      | JNull \<Rightarrow> if required then work_invalid (field @ '' must be a bounded object'') else Inr []
      | _ \<Rightarrow> work_invalid (field @ '' must be a bounded object''))"

definition mapping_list :: "json \<Rightarrow> string \<Rightarrow> json list res" where
  "mapping_list v field =
     (case v of
        JNull \<Rightarrow> Inr []
      | JArr xs \<Rightarrow>
          if length xs > max_items then work_invalid (field @ '' must be a bounded list'')
          else rmapM (\<lambda>x. if is_obj x \<and> length (obj_of x) \<le> max_items then Inr x
                          else work_invalid (field @ ''[] must be a bounded object'')) xs
      | _ \<Rightarrow> work_invalid (field @ '' must be a bounded list''))"

definition bounded_priority :: "json \<Rightarrow> int res" where
  "bounded_priority v =
     (case v of
        JInt n \<Rightarrow> if 0 \<le> n \<and> n \<le> 1000 then Inr n
                  else work_invalid ''priority must be an integer between 0 and 1000''
      | _ \<Rightarrow> work_invalid ''priority must be an integer between 0 and 1000'')"

definition actor_of :: "json \<Rightarrow> string \<Rightarrow> dict res" where
  "actor_of v field =
     rbind (mapping v field True) (\<lambda>actor.
     rbind (guard (set (map fst actor) \<subseteq> {''type'', ''id''})
              (WorkProtocolError ''WORK_INVALID'' (field @ '' contains unexpected fields''))) (\<lambda>_.
     rbind (work_text (dget actor ''type'') (field @ ''.type'') 128) (\<lambda>t.
     rbind (work_text (dget actor ''id'') (field @ ''.id'') 1024) (\<lambda>i.
       Inr [(''type'', JStr t), (''id'', JStr i)]))))"

section \<open>Capabilities\<close>

definition is_separator :: "char \<Rightarrow> bool" where
  "is_separator c = (is_space c \<or> c \<in> set ''_./:-'')"

definition capability_aliases :: "(string \<times> string) list" where
  "capability_aliases = [(''masked'', ''mask''), (''reduction'', ''reduce''), (''reductions'', ''reduce'')]"

definition capability_alias :: "string \<Rightarrow> string" where
  "capability_alias part = (case map_of capability_aliases part of Some a \<Rightarrow> a | None \<Rightarrow> part)"

definition normalize_capability :: "json \<Rightarrow> string res" where
  "normalize_capability v =
     rbind (work_text v ''capability'' 256) (\<lambda>s.
       Inr (join ''.'' (map capability_alias (words_by is_separator (py_lower s)))))"

definition capability_overlap :: "json \<Rightarrow> json \<Rightarrow> string res" where
  "capability_overlap left right =
     rbind (normalize_capability left) (\<lambda>left_id.
     rbind (normalize_capability right) (\<lambda>right_id.
       Inr (if left_id = right_id then ''exact''
            else if card (set (split_char (CHR ''.'') left_id) \<inter> set (split_char (CHR ''.'') right_id)) \<ge> 2
            then ''ambiguous''
            else ''distinct'')))"

section \<open>The scope of repository hygiene\<close>

text \<open>The repositories a list of spellings stands for; \<open>None\<close> when one does not resolve.\<close>

fun resolve_all :: "json list \<Rightarrow> string list option res" where
  "resolve_all [] = Inr (Some [])"
| "resolve_all (item # items) =
     (if \<not> is_str item \<or> py_strip (str_of item) = [] then Inr None
      else
        rbind (canonical_project_identity (str_of item)) (\<lambda>ident.
          case ident of
            None \<Rightarrow> Inr None
          | Some i \<Rightarrow> rbind (resolve_all items) (\<lambda>rest. Inr (map_option ((#) (repository_of i)) rest))))"

definition resolve_one :: "json \<Rightarrow> string option res" where
  "resolve_one v =
     (if is_str v \<and> py_strip (str_of v) \<noteq> []
      then rbind (canonical_project_identity (str_of v)) (\<lambda>ident. Inr (map_option repository_of ident))
      else Inr None)"

definition hygiene_scope_invalid :: "dict \<Rightarrow> bool res" where
  "hygiene_scope_invalid details =
     (if dget details ''lane'' \<noteq> JStr ''REPO_HYGIENE'' then Inr False
      else if dget details ''coordinationState'' = JStr ''NEEDS_RECONCILIATION'' then Inr False
      else
        let canonical = dget details ''canonicalRepository'';
            primary = (if is_str canonical \<and> py_strip (str_of canonical) \<noteq> [] then canonical
                       else dget details ''repository'')
        in rbind (resolve_one primary) (\<lambda>p.
             case p of
               None \<Rightarrow> Inr True
             | Some repository \<Rightarrow>
                 let canonical_affected = dget details ''canonicalAffectedRepositories'';
                     affected = (if is_arr canonical_affected \<and> arr_of canonical_affected \<noteq> []
                                 then canonical_affected else dget details ''affectedRepositories'')
                 in if \<not> is_arr affected \<or> arr_of affected = [] then Inr True
                    else
                      rbind (resolve_all (arr_of affected)) (\<lambda>rs.
                        case rs of
                          None \<Rightarrow> Inr True
                        | Some repositories \<Rightarrow>
                            Inr (card (set repositories) \<noteq> 1 \<or> repository \<notin> set repositories))))"

section \<open>The validator of one record\<close>

definition diag :: "bool \<Rightarrow> string \<Rightarrow> string \<Rightarrow> string \<Rightarrow> diagnostic list" where
  "diag b c p m = (if b then [Diagnostic c p m] else [])"

definition diag_res :: "bool res \<Rightarrow> string \<Rightarrow> string \<Rightarrow> string \<Rightarrow> diagnostic list res" where
  "diag_res r c p m = rbind r (\<lambda>b. Inr (diag b c p m))"

definition is_durable_work :: "dict \<Rightarrow> bool" where
  "is_durable_work v =
     (dget v ''kind'' = JStr ''WorkRequest'' \<and> is_obj (dget v ''details'') \<and>
      (has_key (obj_of (dget v ''details'')) ''workProtocol'' \<or>
       has_key (obj_of (dget v ''details'')) ''workId'' \<or>
       has_key (obj_of (dget v ''details'')) ''stateEvent''))"

definition work_id_diagnostics :: "dict \<Rightarrow> dict \<Rightarrow> diagnostic list" where
  "work_id_diagnostics v details =
     (let work_id = dget details ''workId'';
          record_id = (case dget v ''metadata'' of JObj m \<Rightarrow> dget m ''recordId'' | _ \<Rightarrow> JNull)
      in if \<not> is_str work_id \<or> \<not> starts_with (str_of work_id) ''work:'' \<or> length (str_of work_id) > 256
         then [Diagnostic ''WORK_ID_INVALID'' ''details.workId'' ''invalid work identity'']
         else diag (record_id \<noteq> work_id) ''WORK_ID_MISMATCH'' ''metadata.recordId''
                ''recordId must equal workId'')"

definition state_event_diagnostics :: "dict \<Rightarrow> dict \<Rightarrow> diagnostic list" where
  "state_event_diagnostics v details =
     (case dget details ''stateEvent'' of
        JObj event \<Rightarrow>
          (let actor = dget event ''actor'';
               author = (case dget v ''metadata'' of JObj m \<Rightarrow> dget m ''author'' | _ \<Rightarrow> JNull)
           in diag (\<not> py_eq (dget event ''to'') (dget details ''state''))
                ''WORK_EVENT_MISMATCH'' ''details.stateEvent.to'' ''must equal state'' @
              diag (\<not> is_obj actor \<or> \<not> truthy (dget (obj_of actor) ''type'') \<or>
                    \<not> truthy (dget (obj_of actor) ''id''))
                ''WORK_ACTOR_REQUIRED'' ''details.stateEvent.actor'' ''actor is required'' @
              diag (\<not> py_eq actor author) ''WORK_ACTOR_MISMATCH'' ''metadata.author''
                ''revision author must equal the state-event actor'')
      | _ \<Rightarrow> [Diagnostic ''WORK_EVENT_REQUIRED'' ''details.stateEvent'' ''state event is required''])"

definition authority_boundary :: string where
  "authority_boundary = ''record-only; execution requires external authority''"

definition bounded_string_array :: "json \<Rightarrow> bool" where
  "bounded_string_array v =
     (is_arr v \<and> length (arr_of v) \<le> max_items \<and>
      list_all (\<lambda>x. is_str x \<and> py_strip (str_of x) \<noteq> []) (arr_of v))"

definition bounded_text :: "json \<Rightarrow> bool" where
  "bounded_text v = (is_str v \<and> py_strip (str_of v) \<noteq> [] \<and> length (str_of v) \<le> max_text)"

definition priority_ok :: "json \<Rightarrow> bool" where
  "priority_ok v = (case v of JInt n \<Rightarrow> 0 \<le> n \<and> n \<le> 1000 | _ \<Rightarrow> False)"

definition lane_list_fields :: "string list" where
  "lane_list_fields =
     [''affectedRepositories'', ''dependencies'', ''capabilityRequirements'', ''blockingWorkIds'',
      ''evidenceLinks'', ''allowedWriteScope'', ''forbiddenWriteScope'']"

definition hygiene_message :: string where
  "hygiene_message =
     ''REPO_HYGIENE work must be scoped to exactly one canonical repository equal to the primary repository''"

definition terminal_outcome :: "json \<Rightarrow> bool" where
  "terminal_outcome result = (is_obj result \<and> truthy (dget (obj_of result) ''terminalOutcome''))"

text \<open>The checks of a record that names a lane.\<close>

definition lane_diagnostics :: "dict \<Rightarrow> diagnostic list res" where
  "lane_diagnostics details =
     (let coordination = dget details ''coordinationState''; claim = dget details ''claim''
      in rconcat
        [diag_res (rbind (in_set (dget details ''lane'') LANES) (\<lambda>b. Inr (\<not> b)))
           ''WORK_LANE_INVALID'' ''details.lane'' ''unsupported work lane'',
         rbind (validate_lane_request details) (\<lambda>pairs.
           Inr (map (\<lambda>(c, field). Diagnostic c field ''lane policy combination is invalid'') pairs)),
         Inr (concat (map (\<lambda>field.
           diag (has_key details field \<and> \<not> bounded_string_array (dget details field))
             ''WORK_FIELD_INVALID'' (''details.'' @ field) ''must be a bounded string list'') lane_list_fields)),
         Inr (concat (map (\<lambda>field.
           diag (has_key details field \<and> \<not> bounded_text (dget details field))
             ''WORK_FIELD_INVALID'' (''details.'' @ field) ''must be bounded text'')
           [''capability'', ''reason'', ''expectedSemantics''])),
         Inr (diag (\<not> priority_ok (dget details ''priority''))
           ''WORK_PRIORITY_INVALID'' ''details.priority'' ''priority must be between 0 and 1000''),
         Inr (diag (claim \<noteq> JNull \<and> \<not> is_obj claim)
           ''WORK_CLAIM_INVALID'' ''details.claim'' ''claim must be an object or null''),
         diag_res (rbind (in_set coordination [''CLAIMED'', ''IN_PROGRESS'', ''VERIFYING'']) (\<lambda>b. Inr (b \<and> \<not> is_obj claim)))
           ''WORK_CLAIM_REQUIRED'' ''details.claim'' ''active work requires a claim'',
         Inr (diag (coordination = JStr ''BLOCKED'' \<and> \<not> truthy (dget details ''blockers''))
           ''WORK_BLOCKERS_REQUIRED'' ''details.blockers'' ''blocked work requires blockers''),
         Inr (diag (coordination = JStr ''COMPLETE'' \<and> \<not> terminal_outcome (dget details ''result''))
           ''WORK_COMPLETION_EVIDENCE_REQUIRED'' ''details.result'' ''complete work requires a result''),
         diag_res (hygiene_scope_invalid details)
           ''WORK_HYGIENE_REPOSITORY_SCOPE_INVALID'' ''details.affectedRepositories'' hygiene_message])"

definition work_required_fields :: "string list" where
  "work_required_fields =
     [''objective'', ''requestedKind'', ''submittingConsumer'', ''project'', ''constraints'']"

definition validate_work_record :: "dict \<Rightarrow> diagnostic list res" where
  "validate_work_record v =
     (if \<not> is_durable_work v then Inr []
      else
        let details = obj_of (dget v ''details''); coordination = dget details ''coordinationState''
        in rconcat
          [Inr (diag (dget details ''workProtocol'' \<noteq> JStr WORK_PROTOCOL)
             ''WORK_PROTOCOL_UNSUPPORTED'' ''details.workProtocol'' ''unsupported protocol''),
           Inr (work_id_diagnostics v details),
           diag_res (rbind (in_set (dget details ''state'') WORK_STATES) (\<lambda>b. Inr (\<not> b)))
             ''WORK_STATE_INVALID'' ''details.state'' ''unsupported state'',
           Inr (state_event_diagnostics v details),
           Inr (diag (dget details ''authorityBoundary'' \<noteq> JStr authority_boundary)
             ''WORK_AUTHORITY_BOUNDARY_REQUIRED'' ''details.authorityBoundary''
             ''work records must deny execution authority''),
           Inr (concat (map (\<lambda>field. diag (\<not> has_key details field)
             ''WORK_FIELD_REQUIRED'' (''details.'' @ field) ''work field is required'') work_required_fields)),
           diag_res (rbind (in_set coordination WORK_COORDINATION_STATES) (\<lambda>b. Inr (\<not> b)))
             ''WORK_COORDINATION_STATE_INVALID'' ''details.coordinationState'' ''unsupported coordination state'',
           (if coordination = JStr ''AVAILABLE'' \<and> dget details ''proposalStatus'' = JStr ''ACCEPTED''
            then diag_res (rbind (in_set (dget details ''lane'') LANES) (\<lambda>b. Inr (\<not> b)))
                   ''WORK_LANE_REQUIRED'' ''details.lane'' ''claimable work must declare a lane''
            else Inr []),
           (if has_key details ''lane'' then lane_diagnostics details else Inr []),
           Inr (diag (\<not> is_obj (dget v ''security'') \<or>
                      dget (obj_of (dget v ''security'')) ''instructionsAreUntrusted'' \<noteq> JBool True)
             ''WORK_TRUST_BOUNDARY_REQUIRED'' ''security.instructionsAreUntrusted''
             ''work instructions must remain untrusted'')])"

section \<open>Lineage\<close>

text \<open>\<open>int(item.get("metadata", {}).get("revision", default))\<close>.\<close>

definition record_revision :: "int \<Rightarrow> dict \<Rightarrow> int res" where
  "record_revision fallback item =
     rbind (attr_get (dget_default item ''metadata'' (JObj [])) ''revision'' (JInt fallback)) py_int"

text \<open>\<open>max(items, key=...)\<close>: the first of the items whose key is the largest.\<close>

fun first_max :: "(int \<times> dict) list \<Rightarrow> (int \<times> dict) \<Rightarrow> dict" where
  "first_max [] best = snd best"
| "first_max (x # xs) best = first_max xs (if fst x > fst best then x else best)"

definition latest_revision :: "dict list \<Rightarrow> dict res" where
  "latest_revision prior =
     rbind (rmapM (\<lambda>item. rbind (record_revision 1 item) (\<lambda>n. Inr (n, item))) prior) (\<lambda>keyed.
       Inr (first_max (tl keyed) (hd keyed)))"

definition immutable_fields :: "string list" where
  "immutable_fields =
     [''workId'', ''objective'', ''title'', ''summary'', ''requestedKind'', ''submittingConsumer'',
      ''project'', ''repository'', ''constraints'', ''lane'', ''affectedRepositories'', ''priority'',
      ''dependencies'', ''capabilityRequirements'', ''capability'', ''reason'', ''expectedSemantics'',
      ''blockingWorkIds'', ''evidenceLinks'', ''sharedCoreImpact'', ''allowedWriteScope'',
      ''forbiddenWriteScope'', ''createdFrom'', ''parentWorkId'', ''authorityBoundary'',
      ''proposalStatus'', ''proposalSource'', ''observationTimestamp'', ''findingIdentity'',
      ''healthStatus'', ''proposalReason'', ''deduplication'', ''canonicalRepository'',
      ''canonicalAffectedRepositories'']"

definition lineage_diagnostics :: "dict \<Rightarrow> dict \<Rightarrow> diagnostic list res" where
  "lineage_diagnostics details latest_details =
     (let previous_state = py_str (dget latest_details ''state'');
          state = py_str (dget details ''state'');
          event = dget details ''stateEvent''
      in rconcat
        [Inr (concat (map (\<lambda>field. diag (\<not> py_eq (dget details field) (dget latest_details field))
           ''WORK_REQUEST_MUTATED'' (''details.'' @ field)
           ''submitted work identity and request fields are immutable'') immutable_fields)),
         Inr (diag (state \<noteq> previous_state \<and> state \<notin> set (allowed_work_transitions previous_state))
           ''WORK_TRANSITION_REJECTED'' ''details.state'' (previous_state @ '' -> '' @ state @ '' is not allowed'')),
         Inr (diag (\<not> is_obj event \<or> dget (obj_of event) ''from'' \<noteq> JStr previous_state)
           ''WORK_EVENT_STALE'' ''details.stateEvent.from'' ''state event does not name the previous state''),
         rbind (coordination_state latest_details) (\<lambda>previous_coordination.
         rbind (coordination_state details) (\<lambda>next_coordination.
           Inr (diag (next_coordination \<noteq> previous_coordination \<and>
                      next_coordination \<notin> set (allowed_coordination_transitions previous_coordination))
             ''WORK_COORDINATION_TRANSITION_REJECTED'' ''details.coordinationState''
             (previous_coordination @ '' -> '' @ next_coordination @ '' is not allowed''))))])"

definition work_semantic_diagnostics :: "dict \<Rightarrow> dict list \<Rightarrow> diagnostic list res" where
  "work_semantic_diagnostics candidate prior =
     (case dget candidate ''details'' of
        JObj details \<Rightarrow>
          if dget details ''workProtocol'' \<noteq> JStr WORK_PROTOCOL then Inr []
          else if prior = [] then
            (let event = dget details ''stateEvent''
             in Inr (diag (dget details ''state'' \<noteq> JStr ''submitted'' \<or> \<not> is_obj event \<or>
                           dget (obj_of event) ''from'' \<noteq> JNull)
                  ''WORK_INITIAL_STATE_INVALID'' ''details.stateEvent''
                  ''first work revision must submit from no prior state''))
          else
            rbind (latest_revision prior) (\<lambda>latest.
              case dget latest ''details'' of
                JObj latest_details \<Rightarrow>
                  if dget latest_details ''workProtocol'' \<noteq> JStr WORK_PROTOCOL
                  then Inr [Diagnostic ''WORK_HISTORY_INVALID'' ''details.workProtocol''
                              ''logical identity changed protocol'']
                  else lineage_diagnostics details latest_details
              | _ \<Rightarrow> Inr [Diagnostic ''WORK_HISTORY_INVALID'' ''details.workProtocol''
                            ''logical identity changed protocol''])
      | _ \<Rightarrow> Inr [])"

section \<open>Submission\<close>

definition submission_fields :: "string list" where
  "submission_fields =
     [''workId'', ''submittingConsumer'', ''project'', ''repository'', ''task'', ''title'', ''summary'',
      ''lane'', ''affectedRepositories'', ''priority'', ''dependencies'', ''capabilityRequirements'',
      ''capability'', ''reason'', ''expectedSemantics'', ''blockingWorkIds'', ''evidenceLinks'',
      ''sharedCoreImpact'', ''allowedWriteScope'', ''forbiddenWriteScope'', ''createdFrom'',
      ''constraints'', ''parentWorkId'', ''fabricJobId'', ''workerId'', ''modelId'', ''attempt'',
      ''securitySensitivity'', ''coordinationState'', ''proposalStatus'', ''proposalSource'',
      ''observationTimestamp'', ''findingIdentity'', ''healthStatus'', ''proposalReason'',
      ''deduplication'', ''attachments'', ''canonicalRepository'', ''canonicalAffectedRepositories'']"

text \<open>
  The normalisation of the observation timestamp. A naive timestamp raises inside the handler of
  \<open>ValueError\<close>, of which \<open>WorkProtocolError\<close> is a subclass, so it leaves with the handler's
  message.
\<close>

definition observation_instant :: "string option \<Rightarrow> string option res" where
  "observation_instant raw =
     (case raw of
        None \<Rightarrow> Inr None
      | Some s \<Rightarrow>
          (case fromisoformat (z_to_offset (py_strip s)) of
             None \<Rightarrow> work_invalid ''observationTimestamp must be an ISO-8601 timestamp''
           | Some t \<Rightarrow>
               if tz_offset t = None
               then work_invalid ''observationTimestamp must be an ISO-8601 timestamp''
               else (case to_utc t of
                       None \<Rightarrow> Inl OverflowError
                     | Some u \<Rightarrow> Inr (Some (offset_to_z (isoformat_utc u))))))"

definition opt_entry :: "string \<Rightarrow> string option \<Rightarrow> dict" where
  "opt_entry k v = (case v of None \<Rightarrow> [] | Some s \<Rightarrow> [(k, JStr s)])"

definition opt_json :: "string option \<Rightarrow> json" where
  "opt_json v = (case v of None \<Rightarrow> JNull | Some s \<Rightarrow> JStr s)"

definition opt_or :: "string option \<Rightarrow> string \<Rightarrow> string" where
  "opt_or v s = (case v of None \<Rightarrow> s | Some t \<Rightarrow> t)"

record work_request =
  w_workId :: string
  w_submitter :: dict
  w_task :: string
  w_project :: dict
  w_repository :: "string option"
  w_constraints :: "string list"
  w_parentWorkId :: "string option"
  w_title :: string
  w_summary :: string
  w_lane :: "string option"

definition submitted_lane :: "json \<Rightarrow> string option res" where
  "submitted_lane v =
     (if v = JNull then Inr None
      else rbind (in_set v LANES) (\<lambda>b.
        if b then Inr (Some (str_of v))
        else Inl (WorkProtocolError ''WORK_LANE_INVALID'' ''lane is unsupported'')))"

text \<open>The first fields of a submission, up to its lane.\<close>

definition submitted_request :: "string \<Rightarrow> dict \<Rightarrow> work_request res" where
  "submitted_request uuid req =
     rbind (guard (set (map fst req) \<subseteq> set submission_fields)
              (WorkProtocolError ''WORK_INVALID'' ''work submission contains unexpected fields'')) (\<lambda>_.
     rbind (optional_text (dget req ''workId'') ''workId'') (\<lambda>given_id.
     let work_id = opt_or given_id (''work:'' @ uuid) in
     rbind (guard (starts_with work_id ''work:'' \<and> length work_id \<le> 256)
              (WorkProtocolError ''WORK_INVALID'' ''workId must start with work:'')) (\<lambda>_.
     rbind (actor_of (dget req ''submittingConsumer'') ''submittingConsumer'') (\<lambda>submitter.
     rbind (work_text (dget req ''task'') ''task'' max_text) (\<lambda>task.
     rbind (mapping (dget req ''project'') ''project'' True) (\<lambda>project.
     rbind (optional_text (dget req ''repository'') ''repository'') (\<lambda>repository.
     rbind (string_list (dget req ''constraints'') ''constraints'') (\<lambda>constraints.
     rbind (optional_text (dget req ''parentWorkId'') ''parentWorkId'') (\<lambda>parent.
     rbind (optional_text (dget req ''title'') ''title'') (\<lambda>title.
     rbind (optional_text (dget req ''summary'') ''summary'') (\<lambda>summary.
     rbind (submitted_lane (dget req ''lane'')) (\<lambda>lane.
       Inr \<lparr>w_workId = work_id, w_submitter = submitter, w_task = task, w_project = project,
            w_repository = repository, w_constraints = constraints, w_parentWorkId = parent,
            w_title = opt_or title task, w_summary = opt_or summary task, w_lane = lane\<rparr>))))))))))))"

record lane_request =
  l_affected :: "string list"
  l_priority :: int
  l_dependencies :: "string list"
  l_capabilities :: "string list"
  l_capability :: "string option"
  l_reason :: "string option"
  l_semantics :: "string option"
  l_blocking :: "string list"
  l_evidence :: "string list"
  l_shared :: bool
  l_allowedScope :: "string list"
  l_forbiddenScope :: "string list"
  l_createdFrom :: "string list"
  l_coordination :: string

definition policy_scope :: "string option \<Rightarrow> (lane_policy_rec \<Rightarrow> string list) \<Rightarrow> json res" where
  "policy_scope lane field =
     (case lane of
        None \<Rightarrow> Inr (JArr [])
      | Some l \<Rightarrow> rbind (lane_policy l) (\<lambda>p. Inr (str_array (field p))))"

text \<open>The fields of the lane, in the order in which they are read.\<close>

definition submitted_lane_fields :: "work_request \<Rightarrow> dict \<Rightarrow> lane_request res" where
  "submitted_lane_fields w req =
     rbind (string_list (dget_default req ''affectedRepositories''
              (JArr (case w_repository w of None \<Rightarrow> [] | Some r \<Rightarrow> [JStr r]))) ''affectedRepositories'') (\<lambda>affected.
     rbind (bounded_priority (dget_default req ''priority'' (JInt 100))) (\<lambda>priority.
     rbind (string_list (dget req ''dependencies'') ''dependencies'') (\<lambda>dependencies.
     rbind (string_list (dget req ''capabilityRequirements'') ''capabilityRequirements'') (\<lambda>capabilities.
     rbind (optional_text (dget req ''capability'') ''capability'') (\<lambda>capability.
     rbind (optional_text (dget req ''reason'') ''reason'') (\<lambda>reason.
     rbind (optional_text (dget req ''expectedSemantics'') ''expectedSemantics'') (\<lambda>semantics.
     rbind (string_list (dget req ''blockingWorkIds'') ''blockingWorkIds'') (\<lambda>blocking.
     rbind (string_list (dget req ''evidenceLinks'') ''evidenceLinks'') (\<lambda>evidence.
     let shared = dget_default req ''sharedCoreImpact'' (JBool (w_lane w = Some ''SHARED_CORE'')) in
     rbind (guard (is_bool shared)
              (WorkProtocolError ''WORK_INVALID'' ''sharedCoreImpact must be boolean'')) (\<lambda>_.
     rbind (policy_scope (w_lane w) policy_write) (\<lambda>default_allowed.
     rbind (string_list (dget_default req ''allowedWriteScope'' default_allowed) ''allowedWriteScope'') (\<lambda>allowed_scope.
     rbind (policy_scope (w_lane w) must_not_modify) (\<lambda>default_forbidden.
     rbind (string_list (dget_default req ''forbiddenWriteScope'' default_forbidden) ''forbiddenWriteScope'') (\<lambda>forbidden_scope.
     rbind (string_list (dget req ''createdFrom'') ''createdFrom'') (\<lambda>created_from.
     let coordination = dget_default req ''coordinationState'' (JStr ''AVAILABLE'') in
     rbind (in_set coordination WORK_COORDINATION_STATES) (\<lambda>known.
     rbind (guard known (WorkProtocolError ''WORK_COORDINATION_STATE_INVALID'' ''coordinationState is unsupported'')) (\<lambda>_.
       Inr \<lparr>l_affected = affected, l_priority = priority, l_dependencies = dependencies,
            l_capabilities = capabilities, l_capability = capability, l_reason = reason,
            l_semantics = semantics, l_blocking = blocking, l_evidence = evidence,
            l_shared = (shared = JBool True), l_allowedScope = allowed_scope,
            l_forbiddenScope = forbidden_scope, l_createdFrom = created_from,
            l_coordination = str_of coordination\<rparr>)))))))))))))))))"

record proposal_request =
  p_status :: "string option"
  p_source :: "string option"
  p_observed :: "string option"
  p_finding :: "string option"
  p_health :: "string option"
  p_reason :: "string option"
  p_dedup :: dict
  p_attachments :: "json list"
  p_canonical :: "string option"
  p_affected :: "string list"

definition submitted_proposal :: "dict \<Rightarrow> proposal_request res" where
  "submitted_proposal req =
     rbind (optional_text (dget req ''proposalStatus'') ''proposalStatus'') (\<lambda>status.
     rbind (optional_text (dget req ''proposalSource'') ''proposalSource'') (\<lambda>source.
     rbind (optional_text (dget req ''observationTimestamp'') ''observationTimestamp'') (\<lambda>raw.
     rbind (observation_instant raw) (\<lambda>observed.
     rbind (optional_text (dget req ''findingIdentity'') ''findingIdentity'') (\<lambda>finding.
     rbind (optional_text (dget req ''healthStatus'') ''healthStatus'') (\<lambda>health.
     rbind (optional_text (dget req ''proposalReason'') ''proposalReason'') (\<lambda>reason.
     rbind (mapping (dget req ''deduplication'') ''deduplication'' False) (\<lambda>dedup.
     rbind (mapping_list (dget req ''attachments'') ''attachments'') (\<lambda>attachments.
     rbind (optional_text (dget req ''canonicalRepository'') ''canonicalRepository'') (\<lambda>canonical.
     rbind (string_list (dget req ''canonicalAffectedRepositories'') ''canonicalAffectedRepositories'') (\<lambda>affected.
       Inr \<lparr>p_status = status, p_source = source, p_observed = observed, p_finding = finding,
            p_health = health, p_reason = reason, p_dedup = dedup, p_attachments = attachments,
            p_canonical = canonical, p_affected = affected\<rparr>)))))))))))"

definition hygiene_probe :: "work_request \<Rightarrow> lane_request \<Rightarrow> proposal_request \<Rightarrow> dict" where
  "hygiene_probe w l p =
     [(''lane'', opt_json (w_lane w)), (''repository'', opt_json (w_repository w)),
      (''affectedRepositories'', str_array (l_affected l)),
      (''coordinationState'', JStr (l_coordination l))] @
     opt_entry ''canonicalRepository'' (p_canonical p) @
     (if p_affected p = [] then [] else [(''canonicalAffectedRepositories'', str_array (p_affected p))])"

definition bounded_attempt :: "json \<Rightarrow> int res" where
  "bounded_attempt v =
     (case v of
        JInt n \<Rightarrow> if 0 \<le> n \<and> n \<le> 10000 then Inr n
                  else work_invalid ''attempt must be an integer between 0 and 10000''
      | _ \<Rightarrow> work_invalid ''attempt must be an integer between 0 and 10000'')"

definition relationship :: "string \<Rightarrow> string \<Rightarrow> json" where
  "relationship t target = JObj [(''type'', JStr t), (''target'', JStr target)]"

definition lane_details :: "work_request \<Rightarrow> lane_request \<Rightarrow> proposal_request \<Rightarrow> dict" where
  "lane_details w l p =
     (case w_lane w of
        Some lane \<Rightarrow>
          [(''lane'', JStr lane), (''affectedRepositories'', str_array (l_affected l)),
           (''priority'', JInt (l_priority l)), (''dependencies'', str_array (l_dependencies l)),
           (''capabilityRequirements'', str_array (l_capabilities l)),
           (''blockingWorkIds'', str_array (l_blocking l)), (''evidenceLinks'', str_array (l_evidence l)),
           (''sharedCoreImpact'', JBool (l_shared l)), (''allowedWriteScope'', str_array (l_allowedScope l)),
           (''forbiddenWriteScope'', str_array (l_forbiddenScope l)),
           (''createdFrom'', str_array (l_createdFrom l)), (''coordinationState'', JStr (l_coordination l)),
           (''claim'', JNull), (''blockers'', JArr []), (''result'', JNull),
           (''attachments'', JArr (p_attachments p))] @
          opt_entry ''capability'' (l_capability l) @ opt_entry ''reason'' (l_reason l) @
          opt_entry ''expectedSemantics'' (l_semantics l)
      | None \<Rightarrow>
          [(''coordinationState'', JStr (l_coordination l)), (''claim'', JNull), (''blockers'', JArr []),
           (''result'', JNull), (''attachments'', JArr (p_attachments p))]) @
     opt_entry ''proposalStatus'' (p_status p) @ opt_entry ''proposalSource'' (p_source p) @
     opt_entry ''observationTimestamp'' (p_observed p) @ opt_entry ''findingIdentity'' (p_finding p) @
     opt_entry ''healthStatus'' (p_health p) @ opt_entry ''proposalReason'' (p_reason p) @
     opt_entry ''canonicalRepository'' (p_canonical p) @
     (if p_affected p = [] then [] else [(''canonicalAffectedRepositories'', str_array (p_affected p))]) @
     (if p_dedup p = [] then [] else [(''deduplication'', JObj (p_dedup p))])"

definition submitted_details ::
  "work_request \<Rightarrow> lane_request \<Rightarrow> proposal_request \<Rightarrow> int \<Rightarrow> dict \<Rightarrow> dict" where
  "submitted_details w l p attempt routing =
     [(''objective'', JStr (w_task w)), (''title'', JStr (w_title w)), (''summary'', JStr (w_summary w)),
      (''requestedKind'', JStr ''WorkExecution''), (''requestState'', JStr ''open''),
      (''workProtocol'', JStr WORK_PROTOCOL), (''workId'', JStr (w_workId w)),
      (''state'', JStr ''submitted''), (''submittingConsumer'', JObj (w_submitter w)),
      (''project'', JObj (w_project w)), (''repository'', opt_json (w_repository w)),
      (''constraints'', str_array (w_constraints w))] @
     lane_details w l p @
     [(''parentWorkId'', opt_json (w_parentWorkId w)), (''attempt'', JInt attempt),
      (''routing'', JObj routing),
      (''stateEvent'', JObj [(''from'', JNull), (''to'', JStr ''submitted''), (''actor'', JObj (w_submitter w))]),
      (''authorityBoundary'', JStr authority_boundary)]"

definition work_record_of ::
  "string \<Rightarrow> work_request \<Rightarrow> lane_request \<Rightarrow> string \<Rightarrow> dict \<Rightarrow> dict" where
  "work_record_of created w l sensitivity details =
     [(''apiVersion'', JStr ''commons.mncs.dev/v0alpha1''), (''kind'', JStr ''WorkRequest''),
      (''metadata'', JObj
         [(''recordId'', JStr (w_workId w)), (''createdAt'', JStr created),
          (''author'', JObj (w_submitter w)), (''revision'', JInt 1),
          (''labels'', JArr [JStr ''durable-work'', JStr ''untrusted''])]),
      (''subject'', JObj
         [(''type'', JStr ''project''), (''identity'', JStr (opt_or (w_repository w) (w_workId w)))]),
      (''scope'', JObj
         [(''context'', JObj ([(''project'', JObj (w_project w))] @ opt_entry ''repository'' (w_repository w))),
          (''limitations'', JArr (JStr ''record carries no execution authority'' # map JStr (w_constraints w)))]),
      (''statement'', JObj [(''summary'', JStr (w_title w)), (''details'', JStr (w_summary w))]),
      (''evidence'', JArr []),
      (''dependencies'', str_array (l_dependencies l)),
      (''affectedContracts'', JArr []),
      (''provenance'', JObj [(''producer'', JObj (w_submitter w)), (''sourceRecords'', JArr [])]),
      (''confidence'', JObj
         [(''level'', JStr ''unreported''),
          (''rationale'', JStr ''work state is an untrusted coordination assertion'')]),
      (''security'', JObj
         [(''sensitivity'', JStr sensitivity), (''executableAttachments'', JBool False),
          (''instructionsAreUntrusted'', JBool True), (''requiredExternalAuthority'', JBool True)]),
      (''lifecycle'', JObj
         [(''initialState'', JStr ''proposed''), (''reviewWhen'', JArr [JStr ''work state changes''])]),
      (''relationships'', JArr
         (map (relationship ''depends_on'') (l_dependencies l) @
          map (relationship ''derived_from'') (l_createdFrom l) @
          (case w_parentWorkId w of None \<Rightarrow> [] | Some parent \<Rightarrow> [relationship ''depends_on'' parent]))),
      (''details'', JObj details)]"

definition new_work_record :: "string \<Rightarrow> string \<Rightarrow> dict \<Rightarrow> dict res" where
  "new_work_record now uuid req =
     rbind (submitted_request uuid req) (\<lambda>w.
     rbind (submitted_lane_fields w req) (\<lambda>l.
     rbind (submitted_proposal req) (\<lambda>p.
     rbind (guard (\<not> (w_lane w = Some ''SHARED_CORE'' \<and> \<not> l_shared l))
              (WorkProtocolError ''WORK_SHARED_CORE_IMPACT_REQUIRED'' ''SHARED_CORE work must declare impact'')) (\<lambda>_.
     rbind (guard (\<not> (w_lane w \<noteq> None \<and> w_lane w \<noteq> Some ''SHARED_CORE'' \<and> l_shared l))
              (WorkProtocolError ''WORK_SAFE_LANE_SHARED_CORE'' ''safe-lane work cannot declare shared-core impact'')) (\<lambda>_.
     rbind (hygiene_scope_invalid (hygiene_probe w l p)) (\<lambda>bad_scope.
     rbind (guard (\<not> bad_scope) (WorkProtocolError ''WORK_HYGIENE_REPOSITORY_SCOPE_INVALID'' hygiene_message)) (\<lambda>_.
     rbind (bounded_attempt (dget_default req ''attempt'' (JInt 0))) (\<lambda>attempt.
     let sensitivity = dget_default req ''securitySensitivity'' (JStr ''restricted'') in
     rbind (in_set sensitivity [''public'', ''restricted'', ''sensitive'', ''security-sensitive'']) (\<lambda>known.
     rbind (guard known (WorkProtocolError ''WORK_INVALID'' ''securitySensitivity is invalid'')) (\<lambda>_.
     rbind (optional_text (dget req ''fabricJobId'') ''fabricJobId'') (\<lambda>fabric.
     rbind (optional_text (dget req ''workerId'') ''workerId'') (\<lambda>worker.
     rbind (optional_text (dget req ''modelId'') ''modelId'') (\<lambda>model.
       let routing = opt_entry ''fabricJobId'' fabric @ opt_entry ''workerId'' worker @ opt_entry ''modelId'' model
       in Inr (work_record_of now w l (str_of sensitivity) (submitted_details w l p attempt routing)))))))))))))))"

section \<open>The next revision\<close>

definition transition_fields :: "string list" where
  "transition_fields =
     [''state'', ''actor'', ''expectedPreviousDigest'', ''reason'', ''fabricJobId'', ''workerId'',
      ''modelId'', ''attempt'', ''progress'', ''blockers'', ''result'', ''coordinationState'',
      ''claim'', ''followOnRequests'', ''attachments'']"

text \<open>The state event of the revision and the details that follow from the new state alone.\<close>

definition state_event :: "string \<Rightarrow> string \<Rightarrow> dict \<Rightarrow> dict \<Rightarrow> json res" where
  "state_event previous target actor transition =
     (let base = [(''from'', JStr previous), (''to'', JStr target), (''actor'', JObj actor)]
      in if dget transition ''reason'' = JNull then Inr (JObj base)
         else rbind (work_text (dget transition ''reason'') ''reason'' max_text) (\<lambda>r.
                Inr (JObj (base @ [(''reason'', JStr r)]))))"

definition next_coordination_of :: "dict \<Rightarrow> dict \<Rightarrow> string \<Rightarrow> string res" where
  "next_coordination_of transition details target =
     (if has_key transition ''coordinationState'' then
        rbind (work_text (dget transition ''coordinationState'') ''coordinationState'' 32) (\<lambda>c.
          if c \<in> set WORK_COORDINATION_STATES then Inr c
          else Inl (WorkProtocolError ''WORK_COORDINATION_STATE_INVALID'' ''coordinationState is unsupported''))
      else
        rbind (coordination_state details) (\<lambda>current.
          Inr (case map_of coordination_of_state target of Some c \<Rightarrow> c | None \<Rightarrow> current)))"

text \<open>
  The relationships of the record with the follow-ons added that it does not have. The pairs of
  type and target are collected in a set, so both have to be hashable.
\<close>

definition follow_up_relationships :: "dict \<Rightarrow> string list \<Rightarrow> json res" where
  "follow_up_relationships candidate follow_ons =
     rbind (py_iter (dget_default candidate ''relationships'' (JArr []))) (\<lambda>existing.
       let objs = map obj_of (filter is_obj existing)
       in if list_ex (\<lambda>r. \<not> hashable (dget r ''type'') \<or> \<not> hashable (dget r ''target'')) objs
          then Inl TypeError
          else Inr (JArr (existing @ map (relationship ''follows_up'')
                 (filter (\<lambda>f. \<not> list_ex (\<lambda>r. dget r ''type'' = JStr ''follows_up'' \<and> dget r ''target'' = JStr f) objs)
                    follow_ons))))"

text \<open>Updates of the details by the fields a transition may carry.\<close>

definition with_claim :: "dict \<Rightarrow> dict \<Rightarrow> dict res" where
  "with_claim transition d =
     (if \<not> has_key transition ''claim'' then Inr d
      else if dget transition ''claim'' = JNull then Inr (dset ''claim'' JNull d)
      else rbind (mapping (dget transition ''claim'') ''claim'' True) (\<lambda>c. Inr (dset ''claim'' (JObj c) d)))"

definition with_follow_ons :: "dict \<Rightarrow> dict \<times> dict \<Rightarrow> (dict \<times> dict) res" where
  "with_follow_ons transition cd =
     (if \<not> has_key transition ''followOnRequests'' then Inr cd
      else
        rbind (string_list (dget transition ''followOnRequests'') ''followOnRequests'') (\<lambda>fs.
        rbind (follow_up_relationships (fst cd) fs) (\<lambda>rels.
          Inr (dset ''relationships'' rels (fst cd), dset ''followOnRequests'' (str_array fs) (snd cd)))))"

definition with_attachments :: "dict \<Rightarrow> dict \<Rightarrow> dict res" where
  "with_attachments transition d =
     (if \<not> has_key transition ''attachments'' then Inr d
      else rbind (mapping_list (dget transition ''attachments'') ''attachments'') (\<lambda>xs.
        Inr (dset ''attachments'' (JArr xs) d)))"

definition routed :: "dict \<Rightarrow> string \<Rightarrow> dict \<Rightarrow> dict res" where
  "routed transition field routing =
     (if \<not> has_key transition field then Inr routing
      else rbind (work_text (dget transition field) field max_text) (\<lambda>s. Inr (dset field (JStr s) routing)))"

definition with_routing :: "dict \<Rightarrow> dict \<Rightarrow> dict res" where
  "with_routing transition d =
     rbind (mapping (dget d ''routing'') ''routing'' False) (\<lambda>r0.
     rbind (routed transition ''fabricJobId'' r0) (\<lambda>r1.
     rbind (routed transition ''workerId'' r1) (\<lambda>r2.
     rbind (routed transition ''modelId'' r2) (\<lambda>r3. Inr (dset ''routing'' (JObj r3) d)))))"

definition with_attempt :: "dict \<Rightarrow> dict \<Rightarrow> dict res" where
  "with_attempt transition d =
     (if \<not> has_key transition ''attempt'' then Inr d
      else rbind (bounded_attempt (dget transition ''attempt'')) (\<lambda>n. Inr (dset ''attempt'' (JInt n) d)))"

definition with_mapping :: "string \<Rightarrow> dict \<Rightarrow> dict \<Rightarrow> dict res" where
  "with_mapping field transition d =
     (if \<not> has_key transition field then Inr d
      else rbind (mapping (dget transition field) field True) (\<lambda>m. Inr (dset field (JObj m) d)))"

definition with_blockers :: "dict \<Rightarrow> dict \<Rightarrow> dict res" where
  "with_blockers transition d =
     (if \<not> has_key transition ''blockers'' then Inr d
      else rbind (string_list (dget transition ''blockers'') ''blockers'') (\<lambda>bs.
        Inr (dset ''blockers'' (str_array bs) d)))"

definition revision_complete :: "dict \<Rightarrow> dict \<Rightarrow> string \<Rightarrow> string \<Rightarrow> unit res" where
  "revision_complete details d target coordination =
     rbind (guard (\<not> (target = ''blocked'' \<and> \<not> truthy (dget d ''blockers'')))
              (WorkProtocolError ''WORK_INVALID'' ''blocked work requires blockers'')) (\<lambda>_.
     rbind (guard (\<not> (target \<in> {''completed'', ''failed''} \<and> \<not> terminal_outcome (dget d ''result'')))
              (WorkProtocolError ''WORK_INVALID'' (target @ '' work requires result.terminalOutcome''))) (\<lambda>_.
     rbind (guard (\<not> (truthy (dget details ''lane'') \<and>
                      coordination \<in> {''CLAIMED'', ''IN_PROGRESS'', ''VERIFYING''} \<and> \<not> is_obj (dget d ''claim'')))
              (WorkProtocolError ''WORK_CLAIM_REQUIRED'' ''active work requires a claim'')) (\<lambda>_.
     rbind (guard (\<not> (coordination = ''BLOCKED'' \<and> \<not> truthy (dget d ''blockers'')))
              (WorkProtocolError ''WORK_INVALID'' ''blocked work requires blockers'')) (\<lambda>_.
       guard (\<not> (coordination = ''COMPLETE'' \<and> truthy (dget details ''lane'') \<and>
                 \<not> (is_obj (dget d ''result'') \<and> is_arr (dget (obj_of (dget d ''result'')) ''evidence'') \<and>
                    arr_of (dget (obj_of (dget d ''result'')) ''evidence'') \<noteq> [])))
         (WorkProtocolError ''WORK_COMPLETION_EVIDENCE_REQUIRED''
            ''lane work completion requires non-empty result.evidence'')))))"

text \<open>The details of the next revision, and the candidate record with the follow-ons they name.\<close>

definition revised_details ::
  "dict \<Rightarrow> dict \<Rightarrow> dict \<Rightarrow> string \<Rightarrow> string \<Rightarrow> dict \<Rightarrow> (dict \<times> dict) res" where
  "revised_details candidate details transition previous target actor =
     rbind (state_event previous target actor transition) (\<lambda>event.
     let d0 = dset ''stateEvent'' event (dset ''requestState'' (JStr (request_state target))
                (dset ''state'' (JStr target) details)) in
     rbind (next_coordination_of transition details target) (\<lambda>next_coordination.
     rbind (coordination_state details) (\<lambda>previous_coordination.
     rbind (guard (next_coordination = previous_coordination \<or>
                   next_coordination \<in> set (allowed_coordination_transitions previous_coordination))
              (WorkProtocolError ''WORK_COORDINATION_TRANSITION_REJECTED''
                 (previous_coordination @ '' -> '' @ next_coordination @ '' is not allowed''))) (\<lambda>_.
     let d1 = dset ''coordinationState'' (JStr next_coordination) d0 in
     rbind (hygiene_scope_invalid d1) (\<lambda>bad_scope.
     rbind (guard (\<not> bad_scope) (WorkProtocolError ''WORK_HYGIENE_REPOSITORY_SCOPE_INVALID'' hygiene_message)) (\<lambda>_.
     rbind (with_claim transition d1) (\<lambda>d2.
     rbind (with_follow_ons transition (candidate, d2)) (\<lambda>(candidate', d3).
     rbind (with_attachments transition d3) (\<lambda>d4.
     rbind (with_routing transition d4) (\<lambda>d5.
     rbind (with_attempt transition d5) (\<lambda>d6.
     rbind (with_mapping ''progress'' transition d6) (\<lambda>d7.
     rbind (with_mapping ''result'' transition d7) (\<lambda>d8.
     rbind (with_blockers transition d8) (\<lambda>d9.
     rbind (revision_complete details d9 target next_coordination) (\<lambda>_.
       Inr (candidate', d9))))))))))))))))"

definition revised_work_record :: "string \<Rightarrow> dict \<Rightarrow> dict \<Rightarrow> dict res" where
  "revised_work_record now current transition =
     rbind (guard (set (map fst transition) \<subseteq> set transition_fields)
              (WorkProtocolError ''WORK_INVALID'' ''work transition contains unexpected fields'')) (\<lambda>_.
     (case (dget current ''details'', dget current ''metadata'') of
        (JObj details, JObj metadata) \<Rightarrow>
          let previous_digest = own_digest current; previous_state = py_str (dget details ''state'') in
          rbind (guard (dget transition ''expectedPreviousDigest'' = JStr previous_digest)
                   (WorkProtocolError ''WORK_CONFLICT'' ''expectedPreviousDigest is stale or missing'')) (\<lambda>_.
          rbind (work_text (dget_default transition ''state'' (JStr previous_state)) ''state'' 32) (\<lambda>target_state.
          rbind (guard (target_state \<in> set (allowed_work_transitions previous_state) \<or>
                        target_state = previous_state \<and> has_key transition ''attachments'')
                   (WorkProtocolError ''WORK_TRANSITION_REJECTED''
                      (previous_state @ '' -> '' @ target_state @ '' is not allowed''))) (\<lambda>_.
          rbind (actor_of (dget transition ''actor'') ''actor'') (\<lambda>actor.
          rbind (py_int (dget_default metadata ''revision'' (JInt 1))) (\<lambda>revision.
          let metadata' = dset ''previousDigest'' (JStr previous_digest)
                (dset ''revision'' (JInt (revision + 1)) (dset ''author'' (JObj actor)
                  (dset ''createdAt'' (JStr now) metadata)));
              candidate = dset ''metadata'' (JObj metadata') (AList.delete ''contentDigest'' current) in
          rbind (revised_details candidate details transition previous_state target_state actor)
            (\<lambda>(candidate', next_details). Inr (dset ''details'' (JObj next_details) candidate')))))))
      | _ \<Rightarrow> work_invalid ''current work record is malformed''))"

section \<open>The tables as machines\<close>

inductive work_step :: "string \<Rightarrow> string \<Rightarrow> bool" where
  move: "t \<in> set (allowed_work_transitions s) \<Longrightarrow> work_step s t"

inductive coordination_step :: "string \<Rightarrow> string \<Rightarrow> bool" where
  move: "t \<in> set (allowed_coordination_transitions s) \<Longrightarrow> coordination_step s t"

inductive_simps work_step_iff: "work_step s t"
inductive_simps coordination_step_iff: "coordination_step s t"

lemma work_step_pair: "work_step s t \<Longrightarrow> (s, t) \<in> set (table_pairs work_transitions)"
  by (simp add: work_step_iff allowed_work_transitions_def table_next_pair)

lemma coordination_step_pair:
  "coordination_step s t \<Longrightarrow> (s, t) \<in> set (table_pairs coordination_transitions)"
  by (simp add: coordination_step_iff allowed_coordination_transitions_def table_next_pair)

lemma work_table_progress:
  "s \<in> set WORK_STATES \<Longrightarrow> s \<notin> set TERMINAL_WORK_STATES \<Longrightarrow> allowed_work_transitions s \<noteq> []"
  by (auto simp: WORK_STATES_def TERMINAL_WORK_STATES_def allowed_work_transitions_def table_next_def
      work_transitions_def)

lemma coordination_table_progress:
  "s \<in> set WORK_COORDINATION_STATES \<Longrightarrow> s \<notin> set TERMINAL_COORDINATION_STATES \<Longrightarrow>
   allowed_coordination_transitions s \<noteq> []"
  by (auto simp: WORK_COORDINATION_STATES_def TERMINAL_COORDINATION_STATES_def
      allowed_coordination_transitions_def table_next_def coordination_transitions_def)

interpretation work_table: transition_machine work_step "set WORK_STATES" "set TERMINAL_WORK_STATES"
proof unfold_locales
  fix s t
  show "work_step s t \<Longrightarrow> s \<in> set WORK_STATES" "work_step s t \<Longrightarrow> t \<in> set WORK_STATES"
    by (auto dest!: work_step_pair simp: table_pairs_def work_transitions_def WORK_STATES_def)
  show "s \<in> set TERMINAL_WORK_STATES \<Longrightarrow> s \<in> set WORK_STATES"
    by (auto simp: TERMINAL_WORK_STATES_def WORK_STATES_def)
  show "s \<in> set TERMINAL_WORK_STATES \<Longrightarrow> \<not> work_step s t"
    by (auto dest!: work_step_pair simp: table_pairs_def work_transitions_def TERMINAL_WORK_STATES_def)
  show "s \<in> set WORK_STATES \<Longrightarrow> s \<notin> set TERMINAL_WORK_STATES \<Longrightarrow> \<exists>t. work_step s t"
    using work_table_progress [of s] by (meson work_step.intros list.set_sel(1))
qed

interpretation coordination_table:
  transition_machine coordination_step "set WORK_COORDINATION_STATES" "set TERMINAL_COORDINATION_STATES"
proof unfold_locales
  fix s t
  show "coordination_step s t \<Longrightarrow> s \<in> set WORK_COORDINATION_STATES"
    "coordination_step s t \<Longrightarrow> t \<in> set WORK_COORDINATION_STATES"
    by (auto dest!: coordination_step_pair
        simp: table_pairs_def coordination_transitions_def WORK_COORDINATION_STATES_def)
  show "s \<in> set TERMINAL_COORDINATION_STATES \<Longrightarrow> s \<in> set WORK_COORDINATION_STATES"
    by (auto simp: TERMINAL_COORDINATION_STATES_def WORK_COORDINATION_STATES_def)
  show "s \<in> set TERMINAL_COORDINATION_STATES \<Longrightarrow> \<not> coordination_step s t"
    by (auto dest!: coordination_step_pair
        simp: table_pairs_def coordination_transitions_def TERMINAL_COORDINATION_STATES_def)
  show "s \<in> set WORK_COORDINATION_STATES \<Longrightarrow> s \<notin> set TERMINAL_COORDINATION_STATES \<Longrightarrow>
      \<exists>t. coordination_step s t"
    using coordination_table_progress [of s] by (meson coordination_step.intros list.set_sel(1))
qed

section \<open>Lemmas\<close>

lemma py_eq_refl: "json_wf v \<Longrightarrow> py_eq v v"
proof (induction v)
  case (JArr xs)
  then show ?case by (simp add: list_all_iff list.rel_refl_strong)
next
  case (JObj d)
  have "py_eq (snd kv) (snd kv)" if "kv \<in> set d" for kv
    using JObj that by (cases kv) (auto simp: list_all_iff)
  moreover have "map_of d (fst kv) = Some (snd kv)" if "kv \<in> set d" for kv
    using JObj.prems that by (cases kv) (simp add: dict_wf_def)
  ultimately show ?case by (auto simp: list_all_iff)
qed auto

lemma coordination_state_known: "coordination_state d = Inr c \<Longrightarrow> c \<in> set WORK_COORDINATION_STATES"
  by (auto simp: coordination_state_def rbind_eq_Inr in_set_True coordination_of_state_def
      WORK_COORDINATION_STATES_def split: if_splits option.splits)

lemma coordination_state_explicit:
  "dget d ''coordinationState'' = JStr c \<Longrightarrow> c \<in> set WORK_COORDINATION_STATES \<Longrightarrow>
   coordination_state d = Inr c"
  by (simp add: coordination_state_def)

lemma next_coordination_known:
  "next_coordination_of t d target = Inr c \<Longrightarrow> c \<in> set WORK_COORDINATION_STATES"
  using coordination_state_known [of d]
  by (auto simp: next_coordination_of_def rbind_eq_Inr coordination_of_state_def WORK_COORDINATION_STATES_def
      split: if_splits option.splits dest!: map_of_SomeD)

text \<open>An update of the details touches its own field only.\<close>

lemma with_claim_dget: "with_claim t d = Inr e \<Longrightarrow> f \<noteq> ''claim'' \<Longrightarrow> dget e f = dget d f"
  by (auto simp: with_claim_def rbind_eq_Inr split: if_splits)

lemma with_follow_ons_dget:
  "with_follow_ons t (c, d) = Inr (c', e) \<Longrightarrow>
   (f \<noteq> ''followOnRequests'' \<longrightarrow> dget e f = dget d f) \<and> (f \<noteq> ''relationships'' \<longrightarrow> dget c' f = dget c f)"
  by (auto simp: with_follow_ons_def rbind_eq_Inr split: if_splits)

lemma with_attachments_dget: "with_attachments t d = Inr e \<Longrightarrow> f \<noteq> ''attachments'' \<Longrightarrow> dget e f = dget d f"
  by (auto simp: with_attachments_def rbind_eq_Inr split: if_splits)

lemma with_routing_dget: "with_routing t d = Inr e \<Longrightarrow> f \<noteq> ''routing'' \<Longrightarrow> dget e f = dget d f"
  by (auto simp: with_routing_def rbind_eq_Inr)

lemma with_attempt_dget: "with_attempt t d = Inr e \<Longrightarrow> f \<noteq> ''attempt'' \<Longrightarrow> dget e f = dget d f"
  by (auto simp: with_attempt_def rbind_eq_Inr split: if_splits)

lemma with_mapping_dget: "with_mapping k t d = Inr e \<Longrightarrow> f \<noteq> k \<Longrightarrow> dget e f = dget d f"
  by (auto simp: with_mapping_def rbind_eq_Inr split: if_splits)

lemma with_blockers_dget: "with_blockers t d = Inr e \<Longrightarrow> f \<noteq> ''blockers'' \<Longrightarrow> dget e f = dget d f"
  by (auto simp: with_blockers_def rbind_eq_Inr split: if_splits)

definition revised_fields :: "string list" where
  "revised_fields =
     [''claim'', ''followOnRequests'', ''attachments'', ''routing'', ''attempt'', ''progress'',
      ''result'', ''blockers'', ''state'', ''requestState'', ''stateEvent'', ''coordinationState'']"

lemma revised_details_Inr:
  assumes "revised_details candidate details t previous target actor = Inr (c', d)"
  shows "(\<forall>f. f \<notin> set revised_fields \<longrightarrow> dget d f = dget details f) \<and>
    (\<forall>f. f \<noteq> ''relationships'' \<longrightarrow> dget c' f = dget candidate f) \<and>
    dget d ''state'' = JStr target \<and>
    (\<exists>e. dget d ''stateEvent'' = JObj e \<and> dget e ''from'' = JStr previous) \<and>
    (\<exists>pc nc. coordination_state details = Inr pc \<and> coordination_state d = Inr nc \<and>
       (nc = pc \<or> nc \<in> set (allowed_coordination_transitions pc)))"
proof -
  obtain event nc pc d2 d3 d4 d5 d6 d7 d8 where
    event: "state_event previous target actor t = Inr event"
    and nc: "next_coordination_of t details target = Inr nc"
    and pc: "coordination_state details = Inr pc"
    and ok: "nc = pc \<or> nc \<in> set (allowed_coordination_transitions pc)"
    and d2: "with_claim t (dset ''coordinationState'' (JStr nc) (dset ''stateEvent'' event
               (dset ''requestState'' (JStr (request_state target)) (dset ''state'' (JStr target) details)))) = Inr d2"
    and d3: "with_follow_ons t (candidate, d2) = Inr (c', d3)"
    and d4: "with_attachments t d3 = Inr d4" and d5: "with_routing t d4 = Inr d5"
    and d6: "with_attempt t d5 = Inr d6" and d7: "with_mapping ''progress'' t d6 = Inr d7"
    and d8: "with_mapping ''result'' t d7 = Inr d8" and d9: "with_blockers t d8 = Inr d"
    using assms unfolding revised_details_def
    by (auto simp: rbind_eq_Inr Let_def)
  note keep = with_claim_dget [OF d2] with_follow_ons_dget [OF d3] with_attachments_dget [OF d4]
    with_routing_dget [OF d5] with_attempt_dget [OF d6] with_mapping_dget [OF d7]
    with_mapping_dget [OF d8] with_blockers_dget [OF d9]
  have "dget d f = dget details f" if "f \<notin> set revised_fields" for f
    using that by (auto simp: keep revised_fields_def)
  moreover have "dget d ''state'' = JStr target" "dget d ''stateEvent'' = event"
    "dget d ''coordinationState'' = JStr nc"
    by (simp_all add: keep)
  moreover have "\<exists>e. event = JObj e \<and> dget e ''from'' = JStr previous"
    using event by (auto simp: state_event_def Let_def rbind_eq_Inr split: if_splits)
  moreover have "coordination_state d = Inr nc"
    using \<open>dget d ''coordinationState'' = JStr nc\<close> next_coordination_known [OF nc]
    by (rule coordination_state_explicit)
  ultimately show ?thesis using with_follow_ons_dget [OF d3] pc ok by blast
qed

lemma immutable_not_revised: "f \<in> set immutable_fields \<Longrightarrow> f \<notin> set revised_fields"
  by (auto simp: immutable_fields_def revised_fields_def)

lemma revised_work_record_Inr:
  assumes "revised_work_record now cur t = Inr nxt" and "dget cur ''details'' = JObj details"
  shows "\<exists>m m' n d target actor candidate c'.
    dget cur ''metadata'' = JObj m \<and> dget nxt ''metadata'' = JObj m' \<and>
    py_int (dget_default m ''revision'' (JInt 1)) = Inr n \<and> dget m' ''revision'' = JInt (n + 1) \<and>
    dget m' ''previousDigest'' = JStr (own_digest cur) \<and>
    dget t ''expectedPreviousDigest'' = JStr (own_digest cur) \<and>
    dget nxt ''details'' = JObj d \<and>
    revised_details candidate details t (py_str (dget details ''state'')) target actor = Inr (c', d) \<and>
    (target = py_str (dget details ''state'') \<or> work_step (py_str (dget details ''state'')) target)"
proof -
  obtain m where m: "dget cur ''metadata'' = JObj m"
    using assms by (cases "dget cur ''metadata''") (auto simp: revised_work_record_def rbind_eq_Inr work_invalid_def)
  define prev where "prev = py_str (dget details ''state'')"
  obtain target actor n c' d where
    digest: "dget t ''expectedPreviousDigest'' = JStr (own_digest cur)"
    and target: "target \<in> set (allowed_work_transitions prev) \<or> target = prev \<and> has_key t ''attachments''"
    and n: "py_int (dget_default m ''revision'' (JInt 1)) = Inr n"
    and d: "revised_details (dset ''metadata'' (JObj (dset ''previousDigest'' (JStr (own_digest cur))
                (dset ''revision'' (JInt (n + 1)) (dset ''author'' (JObj actor)
                  (dset ''createdAt'' (JStr now) m))))) (AList.delete ''contentDigest'' cur))
              details t prev target actor = Inr (c', d)"
    and nxt: "nxt = dset ''details'' (JObj d) c'"
    using assms m unfolding revised_work_record_def prev_def
    by (clarsimp simp: rbind_eq_Inr Let_def)
  have "dget nxt ''metadata'' = JObj (dset ''previousDigest'' (JStr (own_digest cur))
                (dset ''revision'' (JInt (n + 1)) (dset ''author'' (JObj actor)
                  (dset ''createdAt'' (JStr now) m))))"
    using revised_details_Inr [OF d] by (simp add: nxt)
  then show ?thesis
    using m n digest target d nxt unfolding prev_def [symmetric] by (auto simp: work_step_iff)
qed

lemma json_wf_dget: "json_wf (JObj d) \<Longrightarrow> json_wf (dget d k)"
  by (cases "map_of d k") (simp_all add: dget_def json_wf_field del: json_wf.simps(3))

lemma diag_False [simp]: "diag False c p m = []"
  by (simp add: diag_def)

lemma lineage_of_revision:
  assumes "json_wf (JObj details)"
    and "revised_details candidate details t (py_str (dget details ''state'')) target actor = Inr (c', d)"
    and "target = py_str (dget details ''state'') \<or> work_step (py_str (dget details ''state'')) target"
  shows "lineage_diagnostics d details = Inr []"
proof -
  note r = revised_details_Inr [OF assms(2)]
  have same: "py_eq (dget d f) (dget details f)" if "f \<in> set immutable_fields" for f
  proof -
    have "dget d f = dget details f" using r immutable_not_revised [OF that] by blast
    then show ?thesis using json_wf_dget [OF assms(1), of f] by (simp add: py_eq_refl)
  qed
  obtain pc nc where co: "coordination_state details = Inr pc" "coordination_state d = Inr nc"
    "nc = pc \<or> nc \<in> set (allowed_coordination_transitions pc)" using r by blast
  obtain e where e: "dget d ''stateEvent'' = JObj e" "dget e ''from'' = JStr (py_str (dget details ''state''))"
    using r by blast
  have st: "dget d ''state'' = JStr target" using r by blast
  have "concat (map (\<lambda>field. diag (\<not> py_eq (dget d field) (dget details field))
           ''WORK_REQUEST_MUTATED'' (''details.'' @ field)
           ''submitted work identity and request fields are immutable'') immutable_fields) = []"
    using same by simp
  then show ?thesis
    using co e st assms(3) unfolding lineage_diagnostics_def Let_def
    by (auto simp: work_step_iff diag_def simp del: concat_eq_Nil_conv)
qed

lemma work_text_Inr:
  "work_text v f n = Inr s \<Longrightarrow> py_strip s = s \<and> s \<noteq> [] \<and> length s \<le> n \<and> (\<exists>t. v = JStr t \<and> s = py_strip t)"
  using length_py_strip [of "str_of v"]
  by (cases v) (auto simp: work_text_def work_invalid_def split: if_splits)

lemma string_list_Inr: "string_list v f = Inr xs \<Longrightarrow> bounded_string_array (str_array xs)"
  using rmapM_length [of "\<lambda>x. work_text x (f @ ''[]'') max_text"]
    rmapM_Inr_set [of "\<lambda>x. work_text x (f @ ''[]'') max_text" _ xs] work_text_Inr
  by (cases v) (fastforce simp: string_list_def work_invalid_def bounded_string_array_def str_array_def
      list_all_iff split: if_splits)+

lemma optional_text_Inr: "optional_text v f = Inr (Some s) \<Longrightarrow> bounded_text (JStr s)"
  using work_text_Inr by (fastforce simp: optional_text_def bounded_text_def rbind_eq_Inr split: if_splits)

lemma bounded_priority_Inr: "bounded_priority v = Inr n \<Longrightarrow> priority_ok (JInt n)"
  by (cases v) (auto simp: bounded_priority_def priority_ok_def work_invalid_def split: if_splits)

lemma dget_opt_entry: "dget (opt_entry k v) k' = (if k' = k then opt_json v else JNull)"
  by (simp add: opt_entry_def opt_json_def split: option.splits)

lemma has_key_opt_entry: "has_key (opt_entry k v) k' \<longleftrightarrow> k' = k \<and> v \<noteq> None"
  by (auto simp: opt_entry_def split: option.splits)

lemma hygiene_cong:
  "list_all (\<lambda>k. dget d k = dget e k)
     [''lane'', ''coordinationState'', ''canonicalRepository'', ''repository'',
      ''canonicalAffectedRepositories'', ''affectedRepositories''] \<Longrightarrow>
   hygiene_scope_invalid d = hygiene_scope_invalid e"
  by (simp add: hygiene_scope_invalid_def Let_def cong: if_cong option.case_cong)



lemmas details_lookup = dget_append has_key_append dget_opt_entry has_key_opt_entry

lemma submitted_hygiene:
  "w_lane w = Some lane \<Longrightarrow>
   hygiene_scope_invalid (submitted_details w l p a r) = hygiene_scope_invalid (hygiene_probe w l p)"
  by (rule hygiene_cong)
    (simp add: submitted_details_def lane_details_def hygiene_probe_def details_lookup opt_json_def)

end
