(* ===== verification/Work_History.thy ===== *)
theory Work_History
  imports Work_Protocol "HOL-Library.Multiset"
begin

text \<open>
  Projections of stored work records (work.py, second half): the history of one work item as a
  chain of revisions, the list of items, and the choice of the next work to offer.
\<close>

section \<open>The history of one item\<close>

record history_entry =
  he_revision :: int
  he_digest :: string
  he_createdAt :: json
  he_state :: string
  he_event :: json

record work_view =
  v_workId :: string
  v_state :: string
  v_coordination :: string
  v_lane :: json
  v_digest :: string
  v_current :: dict
  v_history :: "history_entry list"

definition details_of :: "dict \<Rightarrow> dict" where
  "details_of item = obj_of (dget item ''details'')"

definition is_work_of :: "string \<Rightarrow> dict \<Rightarrow> bool" where
  "is_work_of work_id item =
     (is_obj (dget item ''details'') \<and> dget (details_of item) ''workProtocol'' = JStr WORK_PROTOCOL \<and>
      dget (details_of item) ''workId'' = JStr work_id)"

definition history_invalid :: "string \<Rightarrow> exn" where
  "history_invalid m = WorkProtocolError ''WORK_HISTORY_INVALID'' m"

text \<open>
  One round of the loop: \<open>n\<close> is the expected revision, \<open>prev\<close> the digest and the state of the
  revision before, none at the first.
\<close>

definition history_step :: "int \<Rightarrow> (string \<times> string) option \<Rightarrow> dict \<Rightarrow> history_entry res" where
  "history_step n prev item =
     (case dget_default item ''metadata'' (JObj []) of
        JObj metadata \<Rightarrow>
          let details = details_of item; state = py_str (dget details ''state'');
              event = dget_default details ''stateEvent'' (JObj []) in
          rbind (guard (py_eq (dget metadata ''revision'') (JInt n))
                   (history_invalid ''work revisions are not contiguous'')) (\<lambda>_.
          rbind (case prev of
                   None \<Rightarrow>
                     guard (dget metadata ''previousDigest'' = JNull \<and> state = ''submitted'')
                       (history_invalid ''first work revision is invalid'')
                 | Some (digest, previous_state) \<Rightarrow>
                     rbind (guard (dget metadata ''previousDigest'' = JStr digest)
                              (history_invalid ''work revision lineage is broken'')) (\<lambda>_.
                     rbind (guard (state = previous_state \<or> state \<in> set (allowed_work_transitions previous_state))
                              (history_invalid ''work state history is invalid'')) (\<lambda>_.
                       guard (is_obj event \<and> dget (obj_of event) ''from'' = JStr previous_state)
                         (history_invalid ''work state event is stale'')))) (\<lambda>_.
            Inr \<lparr>he_revision = n, he_digest = own_digest item, he_createdAt = dget metadata ''createdAt'',
                 he_state = state, he_event = event\<rparr>))
      | _ \<Rightarrow> Inl AttributeError)"

fun history_loop :: "int \<Rightarrow> (string \<times> string) option \<Rightarrow> dict list \<Rightarrow> history_entry list res" where
  "history_loop n prev [] = Inr []"
| "history_loop n prev (item # items) =
     rbind (history_step n prev item) (\<lambda>e.
     rbind (history_loop (n + 1) (Some (he_digest e, he_state e)) items) (\<lambda>es. Inr (e # es)))"

text \<open>\<open>selected.sort(key=...)\<close>: the keys are computed first, the sort is stable.\<close>

definition by_revision :: "dict list \<Rightarrow> dict list res" where
  "by_revision items =
     rbind (rmapM (\<lambda>item. rbind (record_revision 0 item) (\<lambda>n. Inr (n, item))) items) (\<lambda>keyed.
       Inr (map snd (sort_key fst keyed)))"

definition project_work_history :: "dict list \<Rightarrow> string \<Rightarrow> work_view res" where
  "project_work_history records work_id =
     (let selected = filter (is_work_of work_id) records
      in if selected = [] then Inl (WorkProtocolError ''WORK_NOT_FOUND'' ''work record was not found'')
         else
           rbind (by_revision selected) (\<lambda>ordered.
           rbind (history_loop 1 None ordered) (\<lambda>history.
           let current = last ordered in
           rbind (coordination_state (details_of current)) (\<lambda>coordination.
             Inr \<lparr>v_workId = work_id, v_state = he_state (last history), v_coordination = coordination,
                  v_lane = dget (details_of current) ''lane'', v_digest = he_digest (last history),
                  v_current = current, v_history = history\<rparr>))))"

section \<open>Lists of items\<close>

definition work_ids :: "dict list \<Rightarrow> string list" where
  "work_ids records =
     sorted_set (map (\<lambda>item. str_of (dget (details_of item) ''workId''))
       (filter (\<lambda>item. is_obj (dget item ''details'') \<and>
                  dget (details_of item) ''workProtocol'' = JStr WORK_PROTOCOL \<and>
                  is_str (dget (details_of item) ''workId'')) records))"

fun rfilterM :: "('a \<Rightarrow> bool res) \<Rightarrow> 'a list \<Rightarrow> 'a list res" where
  "rfilterM p [] = Inr []"
| "rfilterM p (x # xs) = rbind (p x) (\<lambda>b. rbind (rfilterM p xs) (\<lambda>ys. Inr (if b then x # ys else ys)))"

text \<open>An empty list of states, lanes or coordination states asks for all, as \<open>None\<close> does.\<close>

definition list_work ::
  "dict list \<Rightarrow> string list \<Rightarrow> string list \<Rightarrow> string list \<Rightarrow> work_view list res" where
  "list_work records states lanes coordination_states =
     rbind (rmapM (project_work_history records) (work_ids records)) (\<lambda>projected.
     let by_state = filter (\<lambda>v. states = [] \<or> v_state v \<in> set states) projected in
     rbind (if lanes = [] then Inr by_state
            else rfilterM (\<lambda>v. in_set (dget (details_of (v_current v)) ''lane'') lanes) by_state) (\<lambda>by_lane.
       if coordination_states = [] then Inr by_lane
       else rfilterM (\<lambda>v. rbind (coordination_state (details_of (v_current v))) (\<lambda>c.
              Inr (c \<in> set coordination_states))) by_lane))"

section \<open>The next work\<close>

definition iter_field :: "dict \<Rightarrow> string \<Rightarrow> json list res" where
  "iter_field d k = py_iter (dget_default d k (JArr []))"

definition strings_of :: "json list \<Rightarrow> string list" where
  "strings_of xs = map str_of (filter is_str xs)"

text \<open>The spellings resolved until one raises; the loop is inside a handler that passes.\<close>

fun alias_additions :: "json list \<Rightarrow> string list" where
  "alias_additions [] = []"
| "alias_additions (item # items) =
     (if \<not> is_str item then alias_additions items
      else
        (case canonical_project_identity (str_of item) of
           Inl _ \<Rightarrow> []
         | Inr None \<Rightarrow> alias_additions items
         | Inr (Some i) \<Rightarrow> repository_of i # projectId i # alias_additions items))"

definition item_repos :: "dict \<Rightarrow> string list res" where
  "item_repos details =
     rbind (iter_field details ''affectedRepositories'') (\<lambda>affected.
     rbind (iter_field details ''canonicalAffectedRepositories'') (\<lambda>canonical.
       Inr (strings_of affected @ strings_of canonical @ strings_of [dget details ''canonicalRepository''])))"

definition active_repos :: "dict \<Rightarrow> string list res" where
  "active_repos details =
     rbind (item_repos details) (\<lambda>repos.
       Inr (repos @ (case iter_field details ''affectedRepositories'' of
                       Inl _ \<Rightarrow> [] | Inr items \<Rightarrow> alias_additions items)))"

definition canonical_filter :: "string \<Rightarrow> string option" where
  "canonical_filter repository =
     (case canonical_project_identity repository of Inr (Some i) \<Rightarrow> Some (repository_of i) | _ \<Rightarrow> None)"

definition concerns_repository :: "string \<Rightarrow> dict \<Rightarrow> bool" where
  "concerns_repository repository details =
     (let affected = dget_default details ''affectedRepositories'' (JArr []);
          canon_affected = dget_default details ''canonicalAffectedRepositories'' (JArr []);
          canon_repo = dget details ''canonicalRepository''
      in (is_arr affected \<and> JStr repository \<in> set (arr_of affected)) \<or>
         (case canonical_filter repository of
            None \<Rightarrow> False
          | Some c \<Rightarrow>
              (is_arr canon_affected \<and> JStr c \<in> set (arr_of canon_affected)) \<or> canon_repo = JStr c \<or>
              (is_arr affected \<and> list_ex (\<lambda>v. canonical_filter v = Some c) (strings_of (arr_of affected)))))"

definition hashed :: "json list res \<Rightarrow> json list res" where
  "hashed xs = rbind xs (\<lambda>ys. if list_all hashable ys then Inr ys else Inl TypeError)"

text \<open>
  \<open>any(d.startswith("work:") and d not in completed ...)\<close>; a value without the method raises when
  it is reached. The set is taken in the order of the list.
\<close>

fun open_dependency :: "string list \<Rightarrow> json list \<Rightarrow> bool res" where
  "open_dependency completed [] = Inr False"
| "open_dependency completed (JStr d # ds) =
     (if starts_with d ''work:'' \<and> d \<notin> set completed then Inr True else open_dependency completed ds)"
| "open_dependency completed (_ # ds) = Inl AttributeError"

definition is_eligible :: "string option \<Rightarrow> string list \<Rightarrow> string list \<Rightarrow> work_view \<Rightarrow> bool res" where
  "is_eligible repository capabilities completed v =
     (let details = details_of (v_current v)
      in if (case repository of None \<Rightarrow> False | Some r \<Rightarrow> r \<noteq> [] \<and> \<not> concerns_repository r details)
         then Inr False
         else
           rbind (hashed (iter_field details ''capabilityRequirements'')) (\<lambda>required.
           if \<not> list_all (\<lambda>c. is_str c \<and> str_of c \<in> set capabilities) required then Inr False
           else
             rbind (hashed (iter_field details ''dependencies'')) (\<lambda>dependencies.
             let parent = dget details ''parentWorkId'' in
             rbind (open_dependency completed
                      (dependencies @ (if truthy parent then [JStr (py_str parent)] else []))) (\<lambda>blocked.
               Inr (\<not> blocked)))))"

definition work_key :: "string list \<Rightarrow> string list \<Rightarrow> work_view \<Rightarrow> (int \<times> int \<times> int \<times> string \<times> string) res" where
  "work_key active dependents v =
     (let details = details_of (v_current v)
      in rbind (py_int (dget_default details ''priority'' (JInt 100))) (\<lambda>priority.
         rbind (item_repos details) (\<lambda>repos.
         rbind (attr_get (dget_default (v_current v) ''metadata'' (JObj [])) ''createdAt'' (JStr [])) (\<lambda>created.
           Inr (priority, - int (count_list dependents (v_workId v)),
                if set active \<inter> set repos \<noteq> {} then 0 else -1, py_str created, v_workId v)))))"

definition next_work ::
  "dict list \<Rightarrow> string option \<Rightarrow> string option \<Rightarrow> string list \<Rightarrow> int \<Rightarrow> work_view list res" where
  "next_work records lane repository capabilities limit =
     rbind (guard (case lane of None \<Rightarrow> True | Some l \<Rightarrow> l \<in> set LANES)
              (WorkProtocolError ''WORK_LANE_INVALID'' ''lane is unsupported'')) (\<lambda>_.
     rbind (list_work records [] (case lane of None \<Rightarrow> [] | Some l \<Rightarrow> [l]) [''AVAILABLE'']) (\<lambda>projected.
     rbind (list_work records [] [] [''COMPLETE'']) (\<lambda>complete.
     let completed = map v_workId complete in
     rbind (list_work records [] [] [''CLAIMED'', ''IN_PROGRESS'', ''VERIFYING'']) (\<lambda>active_items.
     rbind (rconcat (map (\<lambda>v. active_repos (details_of (v_current v))) active_items)) (\<lambda>active.
     rbind (list_work records [] [] []) (\<lambda>everything.
     rbind (rconcat (map (\<lambda>v. rbind (iter_field (details_of (v_current v)) ''dependencies'') (\<lambda>ds.
              Inr (map py_str ds))) everything)) (\<lambda>dependents.
     rbind (rfilterM (is_eligible repository capabilities completed) projected) (\<lambda>eligible.
     rbind (rmapM (\<lambda>v. rbind (work_key active dependents v) (\<lambda>k. Inr (k, v))) eligible) (\<lambda>keyed.
       Inr (take (nat (max 1 (min limit 1000))) (map snd (sort_key fst keyed))))))))))))"

section \<open>Lemmas on histories\<close>

definition link_of :: "(string \<times> string) option \<Rightarrow> history_entry list \<Rightarrow> (string \<times> string) option" where
  "link_of prev es = (if es = [] then prev else Some (he_digest (last es), he_state (last es)))"

lemma history_loop_snoc:
  "history_loop n prev (items @ [item]) =
     rbind (history_loop n prev items) (\<lambda>es.
     rbind (history_step (n + int (length items)) (link_of prev es) item) (\<lambda>e. Inr (es @ [e])))"
proof (induction items arbitrary: n prev)
  case (Cons x xs)
  show ?case
  proof (cases "history_step n prev x")
    case (Inr e)
    have *: "link_of prev (e # es) = link_of (Some (he_digest e, he_state e)) es" for es
      by (simp add: link_of_def)
    show ?thesis
      unfolding append_Cons history_loop.simps Inr rbind_Inr Cons.IH rbind_assoc *
      by (simp add: ac_simps)
  qed simp
qed (simp add: link_of_def)

lemma history_loop_length: "history_loop n prev items = Inr es \<Longrightarrow> length es = length items"
  by (induction items arbitrary: n prev es) (auto simp: rbind_eq_Inr)

lemma history_step_Inr:
  assumes "history_step n prev item = Inr e"
  shows "he_revision e = n \<and> he_digest e = own_digest item \<and> he_state e = py_str (dget (details_of item) ''state'') \<and>
    (\<exists>m. dget_default item ''metadata'' (JObj []) = JObj m \<and> py_eq (dget m ''revision'') (JInt n) \<and>
       (case prev of None \<Rightarrow> he_state e = ''submitted''
        | Some (d, s) \<Rightarrow> dget m ''previousDigest'' = JStr d \<and> (he_state e = s \<or> work_step s (he_state e))))"
  using assms
  by (auto simp: history_step_def rbind_eq_Inr Let_def work_step_iff split: json.splits option.splits prod.splits)

lemma history_loop_walk:
  assumes "history_loop n None items = Inr es" and "es \<noteq> []"
  shows "\<exists>ps. walk work_step ''submitted'' ps (he_state (last es))"
  using assms
proof (induction items arbitrary: es rule: rev_induct)
  case (snoc item items)
  from snoc.prems(1) obtain fs e where fs: "history_loop n None items = Inr fs"
    and e: "history_step (n + int (length items)) (link_of None fs) item = Inr e" and es: "es = fs @ [e]"
    by (auto simp: history_loop_snoc rbind_eq_Inr)
  show ?case
  proof (cases "fs = []")
    case True
    then have "he_state e = ''submitted''" using history_step_Inr [OF e] by (auto simp: link_of_def)
    then show ?thesis using es by (auto intro: walk.here)
  next
    case False
    then obtain ps where ps: "walk work_step ''submitted'' ps (he_state (last fs))" using snoc.IH [OF fs] by blast
    have "he_state e = he_state (last fs) \<or> work_step (he_state (last fs)) (he_state e)"
      using history_step_Inr [OF e] False by (auto simp: link_of_def)
    then show ?thesis using ps es by (auto intro: walk.onward)
  qed
qed simp

text \<open>The entries of a history by position.\<close>

lemma history_loop_nth:
  assumes "history_loop n prev items = Inr es" and "i < length items"
  shows "history_step (n + int i) (link_of prev (take i es)) (items ! i) = Inr (es ! i)"
  using assms
proof (induction items arbitrary: es rule: rev_induct)
  case (snoc item items)
  from snoc.prems(1) obtain fs e where fs: "history_loop n prev items = Inr fs"
    and e: "history_step (n + int (length items)) (link_of prev fs) item = Inr e" and es: "es = fs @ [e]"
    by (auto simp: history_loop_snoc rbind_eq_Inr)
  have len: "length fs = length items" using history_loop_length [OF fs] .
  show ?case
  proof (cases "i < length items")
    case True
    then show ?thesis using snoc.IH [OF fs True] es len by (simp add: nth_append)
  next
    case False
    then have "i = length items" using snoc.prems(2) by simp
    then show ?thesis using e es len by (simp add: nth_append)
  qed
qed simp

lemma by_revision_mset:
  assumes "by_revision items = Inr ordered" shows "mset ordered = mset items"
proof -
  obtain keyed where keyed: "rmapM (\<lambda>item. rbind (record_revision 0 item) (\<lambda>n. Inr (n, item))) items = Inr keyed"
    and o: "ordered = map snd (sort_key fst keyed)"
    using assms by (auto simp: by_revision_def rbind_eq_Inr)
  have "map snd keyed = items" using keyed
    by (induction items arbitrary: keyed) (auto simp: rbind_eq_Inr)
  then show ?thesis using o by (metis mset_map mset_sort)
qed

lemma project_Inr:
  assumes "project_work_history records work_id = Inr v"
  obtains ordered where "mset ordered = mset (filter (is_work_of work_id) records)" "ordered \<noteq> []"
    "by_revision (filter (is_work_of work_id) records) = Inr ordered"
    "history_loop 1 None ordered = Inr (v_history v)" "v_history v \<noteq> []"
    "v_state v = he_state (last (v_history v))" "v_digest v = he_digest (last (v_history v))"
    "v_current v = last ordered" "coordination_state (details_of (last ordered)) = Inr (v_coordination v)"
    "v_workId v = work_id" "v_lane v = dget (details_of (last ordered)) ''lane''"
proof -
  obtain ordered history coordination where o: "filter (is_work_of work_id) records \<noteq> []"
    "by_revision (filter (is_work_of work_id) records) = Inr ordered"
    "history_loop 1 None ordered = Inr history" "coordination_state (details_of (last ordered)) = Inr coordination"
    "v = \<lparr>v_workId = work_id, v_state = he_state (last history), v_coordination = coordination,
          v_lane = dget (details_of (last ordered)) ''lane'', v_digest = he_digest (last history),
          v_current = last ordered, v_history = history\<rparr>"
    using assms by (auto simp: project_work_history_def Let_def rbind_eq_Inr split: if_splits)
  have m: "mset ordered = mset (filter (is_work_of work_id) records)" using by_revision_mset [OF o(2)] .
  then have "ordered \<noteq> []" using o(1) by (metis mset_zero_iff)
  moreover from this have "history \<noteq> []" using history_loop_length [OF o(3)] by auto
  ultimately show thesis using that [OF m] o by simp
qed

lemma link_of_Suc:
  "Suc i \<le> length es \<Longrightarrow> link_of prev (take (Suc i) es) = Some (he_digest (es ! i), he_state (es ! i))"
  by (auto simp: link_of_def take_Suc_conv_app_nth)

lemma history_link:
  assumes "history_loop n prev items = Inr es" and "Suc i < length items"
  shows "(he_state (es ! Suc i) = he_state (es ! i) \<or> work_step (he_state (es ! i)) (he_state (es ! Suc i))) \<and>
    (\<exists>m. dget_default (items ! Suc i) ''metadata'' (JObj []) = JObj m \<and>
       dget m ''previousDigest'' = JStr (he_digest (es ! i)))"
proof -
  have "Suc i \<le> length es" using history_loop_length [OF assms(1)] assms(2) by simp
  then have link: "link_of prev (take (Suc i) es) = Some (he_digest (es ! i), he_state (es ! i))"
    by (rule link_of_Suc)
  from history_step_Inr [OF history_loop_nth [OF assms]] show ?thesis unfolding link by auto
qed

lemma history_terminal:
  assumes "history_loop n prev items = Inr es" and "i \<le> j" and "j < length items"
    and "he_state (es ! i) \<in> set TERMINAL_WORK_STATES"
  shows "he_state (es ! j) = he_state (es ! i)"
  using assms(2,3)
proof (induction rule: dec_induct)
  case (step k)
  then have "he_state (es ! k) = he_state (es ! i)" by simp
  with history_link [OF assms(1) step.prems] assms(4) work_table.final_stuck show ?case by fastforce
qed simp

section \<open>Lemmas on lists of items\<close>

lemma rfilterM_Inr: "rfilterM p xs = Inr ys \<Longrightarrow> y \<in> set ys \<Longrightarrow> y \<in> set xs \<and> p y = Inr True"
  by (induction xs arbitrary: ys) (auto simp: rbind_eq_Inr split: if_splits)

lemma list_work_Inr:
  assumes "list_work records states lanes coordination_states = Inr vs" and "v \<in> set vs"
  shows "project_work_history records (v_workId v) = Inr v \<and> (states = [] \<or> v_state v \<in> set states) \<and>
    (lanes = [] \<or> (\<exists>l \<in> set lanes. v_lane v = JStr l)) \<and>
    (coordination_states = [] \<or> v_coordination v \<in> set coordination_states)"
proof -
  obtain projected by_lane where p: "rmapM (project_work_history records) (work_ids records) = Inr projected"
    and l: "(if lanes = [] then Inr (filter (\<lambda>v. states = [] \<or> v_state v \<in> set states) projected)
            else rfilterM (\<lambda>v. in_set (dget (details_of (v_current v)) ''lane'') lanes)
                   (filter (\<lambda>v. states = [] \<or> v_state v \<in> set states) projected)) = Inr by_lane"
    and c: "(if coordination_states = [] then Inr by_lane
       else rfilterM (\<lambda>v. rbind (coordination_state (details_of (v_current v))) (\<lambda>c.
              Inr (c \<in> set coordination_states))) by_lane) = Inr vs"
    using assms(1) by (auto simp: list_work_def rbind_eq_Inr Let_def)
  have v1: "v \<in> set by_lane"
    and co: "coordination_states = [] \<or> (\<exists>k \<in> set coordination_states. coordination_state (details_of (v_current v)) = Inr k)"
    using c assms(2) rfilterM_Inr by (fastforce simp: rbind_eq_Inr split: if_splits)+
  have v2: "v \<in> set projected" "states = [] \<or> v_state v \<in> set states"
    and la: "lanes = [] \<or> in_set (dget (details_of (v_current v)) ''lane'') lanes = Inr True"
    using l v1 rfilterM_Inr by (fastforce split: if_splits)+
  obtain wid where wid: "project_work_history records wid = Inr v" using rmapM_Inr_set [OF p v2(1)] by blast
  then have "v_workId v = wid" "v_lane v = dget (details_of (v_current v)) ''lane''"
    "coordination_state (details_of (v_current v)) = Inr (v_coordination v)"
    by (auto elim!: project_Inr)
  with wid v2(2) co la show ?thesis by (auto simp: in_set_True)
qed

lemma open_dependency_False:
  "open_dependency completed ds = Inr False \<Longrightarrow>
     \<forall>d \<in> set ds. \<exists>s. d = JStr s \<and> (starts_with s ''work:'' \<longrightarrow> s \<in> set completed)"
  by (induction completed ds rule: open_dependency.induct) (auto split: if_splits)

lemma is_eligible_True:
  assumes "is_eligible repository capabilities completed v = Inr True"
  shows "(\<exists>required. iter_field (details_of (v_current v)) ''capabilityRequirements'' = Inr required \<and>
            set required \<subseteq> JStr ` set capabilities) \<and>
    (\<exists>dependencies. iter_field (details_of (v_current v)) ''dependencies'' = Inr dependencies \<and>
       (\<forall>d. JStr d \<in> set dependencies \<and> starts_with d ''work:'' \<longrightarrow> d \<in> set completed))"
proof -
  obtain required dependencies where
    r: "iter_field (details_of (v_current v)) ''capabilityRequirements'' = Inr required"
      "list_all (\<lambda>c. is_str c \<and> str_of c \<in> set capabilities) required"
    and d: "iter_field (details_of (v_current v)) ''dependencies'' = Inr dependencies"
      "open_dependency completed (dependencies @ (if truthy (dget (details_of (v_current v)) ''parentWorkId'')
         then [JStr (py_str (dget (details_of (v_current v)) ''parentWorkId''))] else [])) = Inr False"
    using assms by (auto simp: is_eligible_def Let_def hashed_def rbind_eq_Inr split: if_splits)
  have "set required \<subseteq> JStr ` set capabilities"
  proof
    fix c assume "c \<in> set required"
    with r(2) show "c \<in> JStr ` set capabilities" by (cases c) (auto simp: list_all_iff)
  qed
  moreover have "\<forall>d. JStr d \<in> set dependencies \<and> starts_with d ''work:'' \<longrightarrow> d \<in> set completed"
    using open_dependency_False [OF d(2)] by auto
  ultimately show ?thesis using r(1) d(1) by blast
qed

definition priority_of :: "work_view \<Rightarrow> int" where
  "priority_of v = (case py_int (dget_default (details_of (v_current v)) ''priority'' (JInt 100)) of Inr n \<Rightarrow> n | Inl _ \<Rightarrow> 0)"

lemma work_key_priority: "work_key active dependents v = Inr k \<Longrightarrow> fst k = priority_of v"
  by (auto simp: work_key_def priority_of_def Let_def rbind_eq_Inr)

lemma keyed_priorities:
  assumes "rmapM (\<lambda>v. rbind (work_key active dependents v) (\<lambda>k. Inr (k, v))) eligible = Inr keyed"
  shows "map snd keyed = eligible" "\<forall>kv \<in> set keyed. fst (fst kv) = priority_of (snd kv)"
proof -
  show "map snd keyed = eligible"
    using assms by (induction eligible arbitrary: keyed) (auto simp: rbind_eq_Inr)
  show "\<forall>kv \<in> set keyed. fst (fst kv) = priority_of (snd kv)"
  proof
    fix kv assume "kv \<in> set keyed"
    from rmapM_Inr_set [OF assms this] show "fst (fst kv) = priority_of (snd kv)"
      by (elim bexE) (cases kv, auto simp: rbind_eq_Inr dest: work_key_priority)
  qed
qed

lemma sorted_keys_priority:
  assumes "\<forall>kv \<in> set keyed. fst (fst kv) = f (snd kv)"
  shows "sorted (map f (map snd (sort_key fst keyed)))"
proof -
  have "sorted_wrt (\<lambda>a b. fst a \<le> fst b) (sort_key fst keyed)"
    using sorted_sort_key [of fst keyed] by (simp add: sorted_wrt_map)
  then have "sorted_wrt (\<lambda>a b. f (snd a) \<le> f (snd b)) (sort_key fst keyed)"
    by (rule sorted_wrt_mono_rel [rotated]) (use assms in \<open>auto simp: less_eq_prod_def\<close>)
  then show ?thesis by (simp add: sorted_wrt_map)
qed

section \<open>Revisions of the current record\<close>

text \<open>The keys of an accepted history are its positions, so that a later revision sorts last.\<close>

lemma history_step_key:
  assumes "history_step n prev item = Inr e" and "n \<ge> 1"
  shows "record_revision 0 item = Inr n"
proof -
  obtain m where m: "dget_default item ''metadata'' (JObj []) = JObj m" "py_eq (dget m ''revision'') (JInt n)"
    using history_step_Inr [OF assms(1)] by blast
  then have "dget_default m ''revision'' (JInt 0) = dget m ''revision''"
    by (auto simp: dget_def dget_default_def split: option.splits)
  with m py_eq_py_int [OF m(2) assms(2)] show ?thesis by (simp add: record_revision_def)
qed

lemma by_revision_snoc:
  assumes "by_revision items = Inr ordered" and "record_revision 0 y = Inr k"
    and "\<And>x n. x \<in> set items \<Longrightarrow> record_revision 0 x = Inr n \<Longrightarrow> n \<le> k"
  shows "by_revision (items @ [y]) = Inr (ordered @ [y])"
proof -
  let ?key = "\<lambda>item. rbind (record_revision 0 item) (\<lambda>n. Inr (n, item))"
  obtain keyed where keyed: "rmapM ?key items = Inr keyed" and o: "ordered = map snd (sort_key fst keyed)"
    using assms(1) by (auto simp: by_revision_def rbind_eq_Inr)
  have "fst p \<le> k" if "p \<in> set keyed" for p
    using rmapM_Inr_set [OF keyed that] assms(3) by (auto simp: rbind_eq_Inr)
  then have "sort_key fst (keyed @ [(k, y)]) = sort_key fst keyed @ [(k, y)]" by (intro sort_key_snoc) simp
  with keyed o assms(2) show ?thesis by (simp add: by_revision_def rmapM_snoc)
qed

lemma revised_is_work_of:
  assumes "revised_work_record now cur t = Inr nxt" and "is_work_of wid cur"
  shows "is_work_of wid nxt"
proof -
  obtain details where d: "dget cur ''details'' = JObj details"
    using assms(2) by (cases "dget cur ''details''") (auto simp: is_work_of_def)
  obtain d' target actor candidate c' where d': "dget nxt ''details'' = JObj d'"
    "revised_details candidate details t (py_str (dget details ''state'')) target actor = Inr (c', d')"
    using revised_work_record_Inr [OF assms(1) d] by blast
  have "''workProtocol'' \<notin> set revised_fields" "''workId'' \<notin> set revised_fields"
    by (simp_all add: revised_fields_def)
  then show ?thesis
    using revised_details_Inr [OF d'(2)] d d'(1) assms(2) by (simp add: is_work_of_def details_of_def)
qed

lemma revised_step:
  assumes "revised_work_record now cur t = Inr nxt" and "dget cur ''details'' = JObj details"
    and "record_revision 0 cur = Inr n" and "n \<ge> 1"
  shows "\<exists>e. history_step (n + 1) (Some (own_digest cur, py_str (dget details ''state''))) nxt = Inr e \<and>
     record_revision 0 nxt = Inr (n + 1) \<and> (\<exists>c. coordination_state (details_of nxt) = Inr c)"
proof -
  obtain m m' k d target actor candidate c' where
    m: "dget cur ''metadata'' = JObj m" "dget nxt ''metadata'' = JObj m'"
    and k: "py_int (dget_default m ''revision'' (JInt 1)) = Inr k" "dget m' ''revision'' = JInt (k + 1)"
    and pd: "dget m' ''previousDigest'' = JStr (own_digest cur)"
    and d: "dget nxt ''details'' = JObj d"
    and run: "revised_details candidate details t (py_str (dget details ''state'')) target actor = Inr (c', d)"
    and target: "target = py_str (dget details ''state'') \<or> work_step (py_str (dget details ''state'')) target"
    using revised_work_record_Inr [OF assms(1,2)] by blast
  note r = revised_details_Inr [OF run]
  have md: "dget_default cur ''metadata'' (JObj []) = JObj m" "dget_default nxt ''metadata'' (JObj []) = JObj m'"
    using m by (auto simp: dget_def dget_default_def split: option.splits)
  have "py_int (dget_default m ''revision'' (JInt 0)) = Inr n" using assms(3) by (simp add: record_revision_def md)
  with assms(4) k(1) have "k = n" by (auto simp: dget_default_def split: option.splits)
  moreover have "dget_default m' ''revision'' (JInt 0) = JInt (k + 1)"
    using k(2) by (auto simp: dget_def dget_default_def split: option.splits)
  moreover obtain ev where ev: "dget d ''stateEvent'' = JObj ev" "dget ev ''from'' = JStr (py_str (dget details ''state''))"
    using r by blast
  moreover have "dget_default d ''stateEvent'' (JObj []) = JObj ev"
    using ev(1) by (auto simp: dget_def dget_default_def split: option.splits)
  ultimately show ?thesis
    using r md k pd d target
    by (auto simp: history_step_def record_revision_def details_of_def Let_def work_step_iff guard_def)
qed

section \<open>Properties\<close>


text \<open>
  C33. What \<open>next_work\<close> offers is ready: each item is the projection of its own stored history,
  available, in the lane asked for, within the capabilities of the caller, and every work item
  it depends on is complete. The offers come in order of priority and are at most the limit
  asked for, which is held between 1 and 1000.
\<close>

theorem next_work_ready:
  assumes "next_work records lane repository capabilities limit = Inr vs"
  shows "int (length vs) \<le> max 1 (min limit 1000) \<and> sorted (map priority_of vs) \<and>
    (\<forall>v \<in> set vs. project_work_history records (v_workId v) = Inr v \<and> v_coordination v = ''AVAILABLE'' \<and>
       (case lane of None \<Rightarrow> True | Some l \<Rightarrow> v_lane v = JStr l) \<and>
       (\<exists>required. iter_field (details_of (v_current v)) ''capabilityRequirements'' = Inr required \<and>
          set required \<subseteq> JStr ` set capabilities) \<and>
       (\<exists>dependencies. iter_field (details_of (v_current v)) ''dependencies'' = Inr dependencies \<and>
          (\<forall>d. JStr d \<in> set dependencies \<and> starts_with d ''work:'' \<longrightarrow>
             (\<exists>w. project_work_history records d = Inr w \<and> v_coordination w = ''COMPLETE''))))"
proof -
  obtain projected complete active dependents eligible keyed where
    projected: "list_work records [] (case lane of None \<Rightarrow> [] | Some l \<Rightarrow> [l]) [''AVAILABLE''] = Inr projected"
    and complete: "list_work records [] [] [''COMPLETE''] = Inr complete"
    and eligible: "rfilterM (is_eligible repository capabilities (map v_workId complete)) projected = Inr eligible"
    and keyed: "rmapM (\<lambda>v. rbind (work_key active dependents v) (\<lambda>k. Inr (k, v))) eligible = Inr keyed"
    and vs: "vs = take (nat (max 1 (min limit 1000))) (map snd (sort_key fst keyed))"
    using assms by (auto simp: next_work_def rbind_eq_Inr Let_def)
  have size: "int (length vs) \<le> max 1 (min limit 1000)" by (simp add: vs)
  have prio: "sorted (map priority_of vs)"
    using sorted_wrt_take [OF sorted_keys_priority [OF keyed_priorities(2) [OF keyed]]]
    by (simp add: vs take_map)
  have finished: "\<exists>w. project_work_history records d = Inr w \<and> v_coordination w = ''COMPLETE''"
    if "d \<in> set (map v_workId complete)" for d
    using that list_work_Inr [OF complete] by auto
  show ?thesis
  proof (intro conjI ballI size prio)
    fix v assume "v \<in> set vs"
    then have "v \<in> set eligible"
      unfolding keyed_priorities(1) [OF keyed, symmetric] by (auto simp: vs dest!: in_set_takeD)
    then have v: "v \<in> set projected" and e: "is_eligible repository capabilities (map v_workId complete) v = Inr True"
      using rfilterM_Inr [OF eligible] by blast+
    show "project_work_history records (v_workId v) = Inr v" "v_coordination v = ''AVAILABLE''"
      "case lane of None \<Rightarrow> True | Some l \<Rightarrow> v_lane v = JStr l"
      using list_work_Inr [OF projected v] by (cases lane; auto)+
    show "\<exists>required. iter_field (details_of (v_current v)) ''capabilityRequirements'' = Inr required \<and>
        set required \<subseteq> JStr ` set capabilities"
      using is_eligible_True [OF e] by blast
    show "\<exists>dependencies. iter_field (details_of (v_current v)) ''dependencies'' = Inr dependencies \<and>
        (\<forall>d. JStr d \<in> set dependencies \<and> starts_with d ''work:'' \<longrightarrow>
           (\<exists>w. project_work_history records d = Inr w \<and> v_coordination w = ''COMPLETE''))"
      using is_eligible_True [OF e] finished by blast
  qed
qed

section \<open>Witnesses\<close>

definition sample_item :: dict where
  "sample_item =
     [(''contentDigest'', JStr ''sha256:0''),
      (''metadata'', JObj [(''recordId'', JStr ''work:1''), (''revision'', JInt 1)]),
      (''details'', JObj [(''workProtocol'', JStr WORK_PROTOCOL), (''workId'', JStr ''work:1''),
                          (''state'', JStr ''submitted''), (''priority'', JInt 7),
                          (''coordinationState'', JStr ''AVAILABLE'')])]"

definition sample_view :: work_view where
  "sample_view =
     \<lparr>v_workId = ''work:1'', v_state = ''submitted'', v_coordination = ''AVAILABLE'', v_lane = JNull,
      v_digest = ''sha256:0'', v_current = sample_item,
      v_history = [\<lparr>he_revision = 1, he_digest = ''sha256:0'', he_createdAt = JNull,
                     he_state = ''submitted'', he_event = JObj []\<rparr>]\<rparr>"

lemma sample_fields [simp]:
  "dget sample_item ''details'' = JObj [(''workProtocol'', JStr WORK_PROTOCOL), (''workId'', JStr ''work:1''),
                          (''state'', JStr ''submitted''), (''priority'', JInt 7),
                          (''coordinationState'', JStr ''AVAILABLE'')]"
  "dget_default sample_item ''metadata'' v = JObj [(''recordId'', JStr ''work:1''), (''revision'', JInt 1)]"
  "own_digest sample_item = ''sha256:0''"
  by (simp_all add: sample_item_def own_digest_def)

lemma sample_projection: "project_work_history [sample_item] ''work:1'' = Inr sample_view"
  by (simp add: project_work_history_def is_work_of_def details_of_def by_revision_def record_revision_def
      history_step_def guard_def coordination_state_def WORK_COORDINATION_STATES_def sample_view_def)


lemma sample_list: "list_work [sample_item] [] [] cs = Inr (if cs = [] \<or> ''AVAILABLE'' \<in> set cs then [sample_view] else [])"
  by (simp add: list_work_def work_ids_def details_of_def sorted_set_def sample_projection sample_view_def
      coordination_state_def WORK_COORDINATION_STATES_def)

lemma sample_next: "next_work [sample_item] None None [] 5 = Inr [sample_view]"
  by (simp add: next_work_def guard_def sample_list)
     (simp add: is_eligible_def sample_view_def details_of_def iter_field_def hashed_def work_key_def item_repos_def)

theorem next_work_ready_witness:
  "next_work [sample_item] None None [] 5 = Inr [sample_view] \<and> v_coordination sample_view = ''AVAILABLE''"
  using sample_next next_work_ready [OF sample_next] by simp

end
