(* ===== verification/Work_Lineage.thy ===== *)
theory Work_Lineage
  imports Work_History
begin

text \<open>
  What the constructors of work records promise: a submission passes the validator and starts a
  history, a revision passes the lineage check against the record it revises, and the identity
  of a capability is stable.
\<close>

section \<open>Lemmas on submissions\<close>

lemma opt_json_simps [simp]: "opt_json None = JNull" "opt_json (Some s) = JStr s"
  by (simp_all add: opt_json_def)

lemma actor_of_Inr:
  "actor_of v f = Inr a \<Longrightarrow> \<exists>t i. a = [(''type'', JStr t), (''id'', JStr i)] \<and> t \<noteq> [] \<and> i \<noteq> []"
  by (auto simp: actor_of_def rbind_eq_Inr dest!: work_text_Inr)

lemma submitted_lane_Inr: "submitted_lane v = Inr (Some lane) \<Longrightarrow> lane \<in> set LANES \<and> v = JStr lane"
  by (auto simp: submitted_lane_def rbind_eq_Inr in_set_True split: if_splits)

lemma submitted_request_Inr:
  assumes "submitted_request uuid req = Inr w"
  shows "starts_with (w_workId w) ''work:'' \<and> length (w_workId w) \<le> 256 \<and>
     (\<exists>t i. w_submitter w = [(''type'', JStr t), (''id'', JStr i)] \<and> t \<noteq> [] \<and> i \<noteq> []) \<and>
     submitted_lane (dget req ''lane'') = Inr (w_lane w)"
  using assms by (auto simp: submitted_request_def rbind_eq_Inr Let_def dest!: actor_of_Inr)

text \<open>The lists and texts a submission has read are those the validator asks for.\<close>

lemma submitted_lane_fields_reads:
  assumes "submitted_lane_fields w req = Inr l"
  obtains c default_forbidden where
    "\<exists>v f. string_list v f = Inr (l_affected l)" "bounded_priority c = Inr (l_priority l)"
    "\<exists>v f. string_list v f = Inr (l_dependencies l)" "\<exists>v f. string_list v f = Inr (l_capabilities l)"
    "\<exists>v f. string_list v f = Inr (l_blocking l)" "\<exists>v f. string_list v f = Inr (l_evidence l)"
    "\<exists>v f. string_list v f = Inr (l_allowedScope l)"
    "policy_scope (w_lane w) must_not_modify = Inr default_forbidden"
    "string_list (dget_default req ''forbiddenWriteScope'' default_forbidden) ''forbiddenWriteScope''
       = Inr (l_forbiddenScope l)"
    "\<exists>v f. optional_text v f = Inr (l_capability l)" "\<exists>v f. optional_text v f = Inr (l_reason l)"
    "\<exists>v f. optional_text v f = Inr (l_semantics l)"
    "in_set (dget_default req ''coordinationState'' (JStr ''AVAILABLE'')) WORK_COORDINATION_STATES = Inr True"
    "l_coordination l = str_of (dget_default req ''coordinationState'' (JStr ''AVAILABLE''))"
  using assms unfolding submitted_lane_fields_def Let_def
  by (clarsimp simp: rbind_eq_Inr) blast

lemma string_list_stripped:
  assumes "list_all (\<lambda>x. py_strip x = x \<and> x \<noteq> [] \<and> length x \<le> max_text \<and> CHR 0x00 \<notin> set x) xs"
    and "length xs \<le> max_items"
  shows "string_list (str_array xs) f = Inr xs"
proof -
  have "rmapM (\<lambda>x. work_text x (f @ ''[]'') max_text) (map JStr xs) = Inr xs"
    using assms(1) by (induction xs) (auto simp: work_text_def)
  with assms(2) show ?thesis by (simp add: string_list_def str_array_def)
qed

lemma shared_forbidden_stripped: "string_list (str_array shared_forbidden) f = Inr shared_forbidden"
  by (rule string_list_stripped)
    (simp_all add: shared_forbidden_def max_text_def max_items_def py_strip_def is_space_def of_char_def)

lemma forbidden_default:
  assumes "policy_scope (Some lane) must_not_modify = Inr v" and "string_list v f = Inr xs"
  shows "\<exists>p. lane_policy lane = Inr p \<and> xs = must_not_modify p"
proof -
  obtain p where p: "lane_policy lane = Inr p" "v = str_array (must_not_modify p)"
    using assms(1) by (auto simp: policy_scope_def rbind_eq_Inr)
  then have "must_not_modify p \<in> {[], shared_forbidden}" by (auto simp: lane_policy_Inr)
  then have "string_list v f = Inr (must_not_modify p)"
    using p(2) shared_forbidden_stripped [of f] string_list_stripped [of "[]" f] by auto
  with assms(2) p(1) show ?thesis by simp
qed

lemma lane_details_valid:
  assumes "submitted_lane_fields w req = Inr l" and "w_lane w = Some lane" and "lane \<in> set LANES"
    and "\<not> has_key req ''coordinationState''" and "\<not> has_key req ''forbiddenWriteScope''"
    and "hygiene_scope_invalid (hygiene_probe w l p) = Inr False"
    and "lane = ''SHARED_CORE'' \<longleftrightarrow> l_shared l"
  shows "lane_diagnostics (submitted_details w l p a r) = Inr []"
proof -
  let ?d = "submitted_details w l p a r"
  from assms(1) obtain c v where
    lists: "\<exists>v f. string_list v f = Inr (l_affected l)" "\<exists>v f. string_list v f = Inr (l_dependencies l)"
      "\<exists>v f. string_list v f = Inr (l_capabilities l)" "\<exists>v f. string_list v f = Inr (l_blocking l)"
      "\<exists>v f. string_list v f = Inr (l_evidence l)" "\<exists>v f. string_list v f = Inr (l_allowedScope l)"
    and priority: "bounded_priority c = Inr (l_priority l)"
    and forbidden: "policy_scope (w_lane w) must_not_modify = Inr v"
      "string_list (dget_default req ''forbiddenWriteScope'' v) ''forbiddenWriteScope'' = Inr (l_forbiddenScope l)"
    and texts: "\<exists>v f. optional_text v f = Inr (l_capability l)" "\<exists>v f. optional_text v f = Inr (l_reason l)"
      "\<exists>v f. optional_text v f = Inr (l_semantics l)"
    and coord: "l_coordination l = str_of (dget_default req ''coordinationState'' (JStr ''AVAILABLE''))"
    by (rule submitted_lane_fields_reads)
  have fb: "dget_default req ''forbiddenWriteScope'' v = v"
    using assms(5) by (simp add: dget_default_def has_key_def split: option.splits)
  obtain pol where pol: "lane_policy lane = Inr pol" "l_forbiddenScope l = must_not_modify pol"
    using forbidden_default [of lane v "''forbiddenWriteScope''" "l_forbiddenScope l"] assms(2) forbidden fb
    by auto
  have co: "l_coordination l = ''AVAILABLE''"
    using assms(4) coord by (simp add: dget_default_def has_key_def split: option.splits)
  have req_lane: "validate_lane_request ?d = Inr []"
    using assms(2,3,7) pol
    by (auto simp: validate_lane_request_def submitted_details_def lane_details_def details_lookup
        opt_json_def str_array_def list_ex_iff Let_def)
  have bounded: "bounded_string_array (str_array xs)" if "\<exists>v f. string_list v f = Inr xs" for xs
    using that string_list_Inr by blast
  have text_ok: "x = None \<or> bounded_text (opt_json x)" if "\<exists>v f. optional_text v f = Inr x" for x
    using that optional_text_Inr by (cases x) (auto simp: opt_json_def)
  have vals: "dget ?d ''affectedRepositories'' = str_array (l_affected l)"
    "dget ?d ''dependencies'' = str_array (l_dependencies l)"
    "dget ?d ''capabilityRequirements'' = str_array (l_capabilities l)"
    "dget ?d ''blockingWorkIds'' = str_array (l_blocking l)"
    "dget ?d ''evidenceLinks'' = str_array (l_evidence l)"
    "dget ?d ''allowedWriteScope'' = str_array (l_allowedScope l)"
    "dget ?d ''forbiddenWriteScope'' = str_array (l_forbiddenScope l)"
    using assms(2) by (simp_all add: submitted_details_def lane_details_def details_lookup)
  have lists_ok: "list_all (\<lambda>field. bounded_string_array (dget ?d field)) lane_list_fields"
    by (simp only: lane_list_fields_def list.pred_inject vals bounded [OF lists(1)] bounded [OF lists(2)]
        bounded [OF lists(3)] bounded [OF lists(4)] bounded [OF lists(5)] bounded [OF lists(6)]
        string_list_Inr [OF forbidden(2)] simp_thms)
  have tvals: "dget ?d ''capability'' = opt_json (l_capability l)" "dget ?d ''reason'' = opt_json (l_reason l)"
    "dget ?d ''expectedSemantics'' = opt_json (l_semantics l)"
    "has_key ?d ''capability'' \<longleftrightarrow> l_capability l \<noteq> None" "has_key ?d ''reason'' \<longleftrightarrow> l_reason l \<noteq> None"
    "has_key ?d ''expectedSemantics'' \<longleftrightarrow> l_semantics l \<noteq> None"
    using assms(2) by (simp_all add: submitted_details_def lane_details_def details_lookup)
  have texts_ok: "list_all (\<lambda>field. has_key ?d field \<longrightarrow> bounded_text (dget ?d field))
      [''capability'', ''reason'', ''expectedSemantics'']"
    unfolding list.pred_inject tvals
    using text_ok [OF texts(1)] text_ok [OF texts(2)] text_ok [OF texts(3)] by auto
  have fields: "dget ?d ''lane'' = JStr lane" "dget ?d ''coordinationState'' = JStr ''AVAILABLE''"
    "dget ?d ''claim'' = JNull" "dget ?d ''priority'' = JInt (l_priority l)"
    using assms(2) co by (simp_all add: submitted_details_def lane_details_def details_lookup)
  show ?thesis
    unfolding lane_diagnostics_def Let_def rconcat_eq_Nil
    using assms(3,6) req_lane lists_ok texts_ok bounded_priority_Inr [OF priority] submitted_hygiene [OF assms(2)]
    by (auto simp: fields diag_res_def diag_def rbind_eq_Inr list_all_iff)
qed

lemma new_work_record_Inr:
  assumes "new_work_record now uuid req = Inr v"
  obtains w l p a r sens where
    "submitted_request uuid req = Inr w" "submitted_lane_fields w req = Inr l" "submitted_proposal req = Inr p"
    "\<not> (w_lane w = Some ''SHARED_CORE'' \<and> \<not> l_shared l)"
    "\<not> (w_lane w \<noteq> None \<and> w_lane w \<noteq> Some ''SHARED_CORE'' \<and> l_shared l)"
    "hygiene_scope_invalid (hygiene_probe w l p) = Inr False"
    "v = work_record_of now w l sens (submitted_details w l p a r)"
  using assms unfolding new_work_record_def Let_def
  by (clarsimp simp: rbind_eq_Inr)

lemma submitted_details_fields:
  shows "dget (submitted_details w l p a r) ''workProtocol'' = JStr WORK_PROTOCOL" "dget (submitted_details w l p a r) ''workId'' = JStr (w_workId w)"
    "dget (submitted_details w l p a r) ''state'' = JStr ''submitted''" "dget (submitted_details w l p a r) ''authorityBoundary'' = JStr authority_boundary"
    "dget (submitted_details w l p a r) ''stateEvent'' = JObj [(''from'', JNull), (''to'', JStr ''submitted''), (''actor'', JObj (w_submitter w))]"
    "has_key (submitted_details w l p a r) ''workProtocol''" "list_all (has_key (submitted_details w l p a r)) work_required_fields"
    "dget (submitted_details w l p a r) ''coordinationState'' = JStr (l_coordination l)"
    "has_key (submitted_details w l p a r) ''lane'' \<longleftrightarrow> w_lane w \<noteq> None" "dget (submitted_details w l p a r) ''proposalStatus'' = opt_json (p_status p)"
    "dget (submitted_details w l p a r) ''lane'' = opt_json (w_lane w)"
  by (cases "w_lane w"; simp add: submitted_details_def lane_details_def details_lookup
      work_required_fields_def)+

lemma unlaned_status:
  assumes "submitted_request uuid req = Inr w" and "submitted_proposal req = Inr p" and "w_lane w = None"
    and "dget req ''lane'' \<noteq> JNull \<or> dget req ''proposalStatus'' = JNull"
  shows "p_status p = None"
proof -
  have "submitted_lane (dget req ''lane'') = Inr None" using submitted_request_Inr [OF assms(1)] assms(3) by simp
  then have "dget req ''lane'' = JNull" by (auto simp: submitted_lane_def rbind_eq_Inr split: if_splits)
  with assms(4) have "dget req ''proposalStatus'' = JNull" by simp
  with assms(2) show ?thesis by (clarsimp simp: submitted_proposal_def rbind_eq_Inr optional_text_def)
qed

section \<open>Lemmas on capabilities\<close>

lemma lower_char_idem [simp]: "lower_char (lower_char c) = lower_char c"
  by (simp add: lower_char_def Let_def)

lemma py_lower_idem [simp]: "py_lower (py_lower s) = py_lower s"
  by (simp add: py_lower_def)

section \<open>Properties\<close>

text \<open>
  A submission that leaves the coordination state and the forbidden scope to their defaults
  makes a record the validator accepts, and one that may start a history.
\<close>

theorem submission_is_valid:
  assumes "new_work_record now uuid req = Inr v"
    and "\<not> has_key req ''coordinationState''" and "\<not> has_key req ''forbiddenWriteScope''"
    and "dget req ''lane'' \<noteq> JNull \<or> dget req ''proposalStatus'' = JNull"
  shows "validate_work_record v = Inr [] \<and> work_semantic_diagnostics v [] = Inr []"
proof -
  from assms(1) obtain w l p a r sens where
    w: "submitted_request uuid req = Inr w" and l: "submitted_lane_fields w req = Inr l"
    and p: "submitted_proposal req = Inr p"
    and shared: "\<not> (w_lane w = Some ''SHARED_CORE'' \<and> \<not> l_shared l)"
      "\<not> (w_lane w \<noteq> None \<and> w_lane w \<noteq> Some ''SHARED_CORE'' \<and> l_shared l)"
    and hyg: "hygiene_scope_invalid (hygiene_probe w l p) = Inr False"
    and v: "v = work_record_of now w l sens (submitted_details w l p a r)"
    by (rule new_work_record_Inr)
  let ?d = "submitted_details w l p a r"
  note wf = submitted_request_Inr [OF w]
  obtain t i where actor: "w_submitter w = [(''type'', JStr t), (''id'', JStr i)]" "t \<noteq> []" "i \<noteq> []"
    using wf by blast
  have rec: "dget v ''kind'' = JStr ''WorkRequest''" "dget v ''details'' = JObj ?d"
    "dget v ''metadata'' = JObj [(''recordId'', JStr (w_workId w)), (''createdAt'', JStr now),
          (''author'', JObj (w_submitter w)), (''revision'', JInt 1),
          (''labels'', JArr [JStr ''durable-work'', JStr ''untrusted''])]"
    "dget (obj_of (dget v ''security'')) ''instructionsAreUntrusted'' = JBool True" "is_obj (dget v ''security'')"
    by (simp_all add: v work_record_of_def)
  note det = submitted_details_fields [of w l p a r]
  have lane_ok: "has_key ?d ''lane'' \<Longrightarrow> lane_diagnostics ?d = Inr []"
  proof -
    assume "has_key ?d ''lane''"
    then obtain lane where lane: "w_lane w = Some lane" using det(9) by auto
    then have "lane \<in> set LANES" using wf submitted_lane_Inr by fastforce
    moreover have "lane = ''SHARED_CORE'' \<longleftrightarrow> l_shared l" using shared lane by auto
    ultimately show ?thesis using lane_details_valid [OF l lane _ assms(2,3) hyg] by blast
  qed
  have co: "l_coordination l \<in> set WORK_COORDINATION_STATES"
    using l by (rule submitted_lane_fields_reads) (auto simp: in_set_True)
  have lane_req: "w_lane w = None \<Longrightarrow> p_status p = None"
    using unlaned_status [OF w p] assms(4) by blast
  have ids: "work_id_diagnostics v ?d = []" "state_event_diagnostics v ?d = []"
    using wf actor py_eq_refl [of "JObj (w_submitter w)"]
    by (simp_all add: work_id_diagnostics_def state_event_diagnostics_def rec det dict_wf_def)
  have durable: "is_durable_work v" by (simp add: is_durable_work_def rec det)
  have lane_known: "in_set (dget ?d ''lane'') LANES = Inr True" if "p_status p \<noteq> None"
    using that lane_req wf by (cases "w_lane w") (auto simp: det opt_json_def dest: submitted_lane_Inr)
  have "validate_work_record v = Inr []"
    unfolding validate_work_record_def Let_def rconcat_eq_Nil rec
    using durable ids lane_ok co lane_known det(7)
    by (auto simp: rec det diag_def diag_res_def WORK_STATES_def list_all_iff opt_json_def split: option.splits)
  moreover have "work_semantic_diagnostics v [] = Inr []"
    by (simp add: work_semantic_diagnostics_def rec det)
  ultimately show ?thesis by blast
qed

text \<open>
  C32. Every revision of a work record is accepted by the lineage check against the record it
  revises: the request fields are unchanged, both state tables allow the step, and the state
  event names the state it leaves. The revision number grows by one and the revision names the
  digest of its predecessor.
\<close>

theorem revision_keeps_lineage:
  assumes "json_wf (JObj cur)" and "dget cur ''details'' = JObj details"
    and "dget details ''workProtocol'' = JStr WORK_PROTOCOL"
    and "revised_work_record now cur t = Inr nxt"
  shows "work_semantic_diagnostics nxt [cur] = Inr [] \<and>
    (\<exists>m m' n. dget cur ''metadata'' = JObj m \<and> dget nxt ''metadata'' = JObj m' \<and>
       py_int (dget_default m ''revision'' (JInt 1)) = Inr n \<and> dget m' ''revision'' = JInt (n + 1) \<and>
       dget m' ''previousDigest'' = JStr (own_digest cur))"
proof -
  obtain m m' n d target actor candidate c' where
    m: "dget cur ''metadata'' = JObj m" "dget nxt ''metadata'' = JObj m'"
    and n: "py_int (dget_default m ''revision'' (JInt 1)) = Inr n" "dget m' ''revision'' = JInt (n + 1)"
    and pd: "dget m' ''previousDigest'' = JStr (own_digest cur)"
    and d: "dget nxt ''details'' = JObj d"
    and run: "revised_details candidate details t (py_str (dget details ''state'')) target actor = Inr (c', d)"
    and target: "target = py_str (dget details ''state'') \<or> work_step (py_str (dget details ''state'')) target"
    using revised_work_record_Inr [OF assms(4,2)] by blast
  have "''workProtocol'' \<notin> set revised_fields" by (simp add: revised_fields_def)
  then have "dget d ''workProtocol'' = JStr WORK_PROTOCOL"
    using revised_details_Inr [OF run] assms(3) by simp
  moreover have "latest_revision [cur] = Inr cur"
    using m(1) n(1) by (simp add: latest_revision_def record_revision_def dget_def dget_default_def split: option.splits)
  moreover have "json_wf (JObj details)" using json_wf_dget [OF assms(1), of "''details''"] assms(2) by simp
  ultimately have "work_semantic_diagnostics nxt [cur] = Inr []"
    using d assms(2,3) lineage_of_revision [OF _ run target]
    by (simp add: work_semantic_diagnostics_def)
  with m n pd show ?thesis by blast
qed

text \<open>
  C31. A revision extends the history it revises: when the stored records of an item project to
  a history, adding the revision of its current record projects to the same history with one
  more entry, the revision being current. The store can therefore always be read back after
  the constructor has succeeded.
\<close>

theorem revision_extends_history:
  assumes "project_work_history records wid = Inr v" and "revised_work_record now (v_current v) t = Inr nxt"
  shows "\<exists>v' e. project_work_history (records @ [nxt]) wid = Inr v' \<and> v_current v' = nxt \<and>
     v_history v' = v_history v @ [e] \<and> v_state v' = he_state e"
proof -
  from assms(1) obtain items where m: "mset items = mset (filter (is_work_of wid) records)" and ne: "items \<noteq> []"
    and ord: "by_revision (filter (is_work_of wid) records) = Inr items"
    and run: "history_loop 1 None items = Inr (v_history v)" and hne: "v_history v \<noteq> []" and cur: "v_current v = last items"
    by (rule project_Inr)
  let ?n = "int (length items)"
  have len: "length (v_history v) = length items" using history_loop_length [OF run] .
  have key: "record_revision 0 (items ! i) = Inr (int i + 1)" if "i < length items" for i
    using history_step_key [OF history_loop_nth [OF run that]] by (simp add: add.commute)
  have "last items = items ! (length items - 1)" using ne by (rule last_conv_nth)
  then have lastkey: "record_revision 0 (last items) = Inr ?n" using key [of "length items - 1"] ne by (cases items) auto
  have sets: "set items = set (filter (is_work_of wid) records)" using m by (metis set_mset_mset)
  then have work: "is_work_of wid (last items)" using last_in_set [OF ne] by auto
  then obtain details where d: "dget (last items) ''details'' = JObj details"
    by (cases "dget (last items) ''details''") (auto simp: is_work_of_def)
  have lasth: "history_step ?n (link_of None (take (length items - 1) (v_history v))) (last items) = Inr (last (v_history v))"
    using history_loop_nth [OF run, of "length items - 1"] ne hne len \<open>last items = _\<close>
    by (simp add: last_conv_nth of_nat_diff Suc_leI)
  have link: "link_of None (v_history v) = Some (own_digest (last items), py_str (dget details ''state''))"
    using history_step_Inr [OF lasth] hne d by (simp add: link_of_def details_of_def)
  obtain e c where e: "history_step (?n + 1) (link_of None (v_history v)) nxt = Inr e"
    and k: "record_revision 0 nxt = Inr (?n + 1)" and c: "coordination_state (details_of nxt) = Inr c"
    using revised_step [OF assms(2)[unfolded cur] d lastkey] ne unfolding link by (cases items) auto
  have "by_revision (filter (is_work_of wid) records @ [nxt]) = Inr (items @ [nxt])"
  proof (rule by_revision_snoc [OF ord k])
    fix x n assume "x \<in> set (filter (is_work_of wid) records)" "record_revision 0 x = Inr n"
    then obtain i where "i < length items" "x = items ! i" using sets by (metis in_set_conv_nth)
    then show "n \<le> ?n + 1" using key \<open>record_revision 0 x = Inr n\<close> by fastforce
  qed
  moreover have "is_work_of wid nxt" using revised_is_work_of [OF assms(2)] cur work by simp
  ultimately show ?thesis
    using run e c by (simp add: project_work_history_def history_loop_snoc add.commute)
qed

section \<open>Witnesses\<close>

definition sample_submission :: dict where
  "sample_submission =
     [(''workId'', JStr ''work:1''),
      (''submittingConsumer'', JObj [(''type'', JStr ''agent''), (''id'', JStr ''a'')]),
      (''task'', JStr ''fix''), (''project'', JObj []), (''lane'', JStr ''REPO_LOCAL'')]"

lemma string_list_null [simp]: "string_list JNull f = Inr []"
  by (simp add: string_list_def)

lemma optional_text_null [simp]: "optional_text JNull f = Inr None"
  by (simp add: optional_text_def)

lemma mapping_list_null [simp]: "mapping_list JNull f = Inr []"
  by (simp add: mapping_list_def)

lemma sample_request:
  "\<exists>w. submitted_request u sample_submission = Inr w \<and> w_lane w = Some ''REPO_LOCAL'' \<and> w_repository w = None"
  by (simp add: submitted_request_def sample_submission_def submission_fields_def optional_text_def
      opt_or_def starts_with_def actor_of_def mapping_def max_items_def max_text_def work_text_def
      py_strip_def is_space_def of_char_def guard_def submitted_lane_def LANES_def work_lanes_def)

lemma sample_lane_fields:
  assumes "w_lane w = Some ''REPO_LOCAL''" and "w_repository w = None"
  shows "\<exists>l. submitted_lane_fields w sample_submission = Inr l \<and> \<not> l_shared l"
proof -
  have policy: "lane_policy ''REPO_LOCAL'' =
      Inr \<lparr>policy_lane = ''REPO_LOCAL'', policy_read = [''mncs-family/**''],
           policy_write = [''assigned_repo/**''], may_publish = publish_kinds,
           must_not_modify = shared_forbidden, exclusive = False\<rparr>"
    using WorkLane_value [of REPO_LOCAL] by (simp add: lane_policy_def)
  have scope: "string_list (str_array [''assigned_repo/**'']) f = Inr [''assigned_repo/**'']" for f
    by (rule string_list_stripped)
      (simp_all add: max_text_def max_items_def py_strip_def is_space_def of_char_def)
  have affected: "string_list (JArr []) f = Inr []" for f by (simp add: string_list_def)
  show ?thesis
    using assms policy scope affected shared_forbidden_stripped
    by (simp add: submitted_lane_fields_def sample_submission_def bounded_priority_def policy_scope_def
        guard_def WORK_COORDINATION_STATES_def)
qed

lemma sample_submission_ok: "\<exists>v. new_work_record ''now'' ''u'' sample_submission = Inr v"
proof -
  obtain w where w: "submitted_request ''u'' sample_submission = Inr w" "w_lane w = Some ''REPO_LOCAL''"
      "w_repository w = None"
    using sample_request by blast
  obtain l where l: "submitted_lane_fields w sample_submission = Inr l" "\<not> l_shared l"
    using sample_lane_fields [OF w(2,3)] by blast
  have p: "\<exists>p. submitted_proposal sample_submission = Inr p"
    by (simp add: submitted_proposal_def sample_submission_def observation_instant_def mapping_def)
  have "hygiene_scope_invalid (hygiene_probe w l p) = Inr False" for p
    using w(2) by (simp add: hygiene_scope_invalid_def hygiene_probe_def opt_json_def)
  then show ?thesis
    using w l p
    by (auto simp: new_work_record_def guard_def sample_submission_def bounded_attempt_def)
qed

theorem submission_is_valid_witness:
  "\<exists>v. new_work_record ''now'' ''u'' sample_submission = Inr v \<and> validate_work_record v = Inr []"
proof -
  obtain v where v: "new_work_record ''now'' ''u'' sample_submission = Inr v"
    using sample_submission_ok by blast
  from submission_is_valid [OF v] v show ?thesis by (simp add: sample_submission_def)
qed

definition sample_work :: dict where
  "sample_work =
     [(''contentDigest'', JStr ''sha256:0''), (''kind'', JStr ''WorkRequest''),
      (''metadata'', JObj [(''recordId'', JStr ''work:1''), (''revision'', JInt 1)]),
      (''details'', JObj [(''workProtocol'', JStr WORK_PROTOCOL), (''workId'', JStr ''work:1''),
                          (''state'', JStr ''submitted'')])]"

definition sample_transition :: dict where
  "sample_transition =
     [(''state'', JStr ''accepted''), (''expectedPreviousDigest'', JStr ''sha256:0''),
      (''actor'', JObj [(''type'', JStr ''agent''), (''id'', JStr ''a'')])]"

lemmas revision_eval =
  revised_work_record_def revised_details_def sample_work_def sample_transition_def transition_fields_def
  own_digest_def guard_def work_text_def py_strip_def is_space_def of_char_def actor_of_def mapping_def
  max_items_def max_text_def state_event_def next_coordination_of_def coordination_state_def in_set_def
  coordination_of_state_def hygiene_scope_invalid_def with_claim_def with_follow_ons_def
  with_attachments_def with_routing_def routed_def with_attempt_def with_mapping_def with_blockers_def
  revision_complete_def allowed_work_transitions_def table_next_def work_transitions_def

lemma sample_revision_ok: "\<exists>nxt. revised_work_record ''now'' sample_work sample_transition = Inr nxt"
  by (simp add: revision_eval)

theorem revision_keeps_lineage_witness:
  "\<exists>nxt. revised_work_record ''now'' sample_work sample_transition = Inr nxt \<and>
     work_semantic_diagnostics nxt [sample_work] = Inr []"
proof -
  obtain nxt where nxt: "revised_work_record ''now'' sample_work sample_transition = Inr nxt"
    using sample_revision_ok by blast
  have wf: "json_wf (JObj sample_work)" by (simp add: sample_work_def dict_wf_def)
  have d: "dget sample_work ''details'' = JObj [(''workProtocol'', JStr WORK_PROTOCOL),
      (''workId'', JStr ''work:1''), (''state'', JStr ''submitted'')]"
    by (simp add: sample_work_def)
  from revision_keeps_lineage [OF wf d _ nxt] nxt show ?thesis by simp
qed

lemma sample_work_history:
  "\<exists>v. project_work_history [sample_work] ''work:1'' = Inr v \<and> v_current v = sample_work"
  by (simp add: project_work_history_def is_work_of_def details_of_def by_revision_def record_revision_def
      history_step_def guard_def coordination_state_def coordination_of_state_def sample_work_def in_set_def Let_def)

theorem revision_extends_history_witness:
  "\<exists>v nxt v'. project_work_history [sample_work] ''work:1'' = Inr v \<and>
     revised_work_record ''now'' sample_work sample_transition = Inr nxt \<and>
     project_work_history [sample_work, nxt] ''work:1'' = Inr v' \<and> v_current v' = nxt"
proof -
  obtain v where v: "project_work_history [sample_work] ''work:1'' = Inr v" "v_current v = sample_work"
    using sample_work_history by blast
  obtain nxt where nxt: "revised_work_record ''now'' sample_work sample_transition = Inr nxt"
    using sample_revision_ok by blast
  from revision_extends_history [OF v(1), of "''now''" sample_transition nxt] v nxt show ?thesis by auto
qed

end
