(* ===== verification/Family_Record.thy ===== *)
theory Family_Record
  imports Health "HOL-Library.Product_Lexorder" "HOL-Library.Multiset"
begin

text \<open>
  The record spine of the family (family.py): exact references to records other producers own,
  and the five records built around them. A reference is normalised before it is stored; a
  record carries its references in a fixed order, each once, with one relationship per
  reference.
\<close>

section \<open>Tables\<close>

definition FAMILY_REFERENCE_SCHEMA :: string where
  "FAMILY_REFERENCE_SCHEMA = ''commons.mncs.dev/producer-reference/v0alpha1''"

definition CONCEPT_EXPERIMENT_SCHEMA :: string where
  "CONCEPT_EXPERIMENT_SCHEMA = ''commons.mncs.dev/concept-experiment/v0alpha1''"

definition FAILURE_CLASSIFICATION_SCHEMA :: string where
  "FAILURE_CLASSIFICATION_SCHEMA = ''commons.mncs.dev/failure-classification/v0alpha1''"

definition REPLICATION_SCHEMA :: string where
  "REPLICATION_SCHEMA = ''commons.mncs.dev/replication/v0alpha1''"

definition DEVELOPMENT_RECORD_SCHEMA :: string where
  "DEVELOPMENT_RECORD_SCHEMA = ''commons.mncs.dev/development-record/v0alpha1''"

definition CHANGESET_SCHEMA :: string where
  "CHANGESET_SCHEMA = ''commons.mncs.dev/changeset/v0alpha1''"

definition CHANGESET_EDGE_TYPES :: "(string \<times> string) list" where
  "CHANGESET_EDGE_TYPES =
     [(''supports'', ''supports''), (''pressure'', ''pressure/supports-pressure''),
      (''contradicts'', ''contradicts''), (''promotes'', ''promotion/promotes'')]"

definition EXPERIMENT_STATUSES :: "string list" where
  "EXPERIMENT_STATUSES =
     [''DEFINED'', ''FROZEN'', ''SCHEDULED'', ''RUNNING'', ''COLLECTING_EVIDENCE'', ''TERMINAL'',
      ''PUBLISHED'', ''FAILED'', ''STOPPED'', ''UNKNOWN'']"

definition FAILURE_CLASSES :: "string list" where
  "FAILURE_CLASSES =
     [''implementation_error'', ''language_expressivity_gap'', ''semantic_model_gap'',
      ''compiler_lowering_gap'', ''verifier_evaluator_gap'', ''tooling_orchestration_gap'',
      ''target_portability_gap'', ''specification_ambiguity'', ''unresolved_insufficient_evidence'']"

definition CLASSIFICATION_DISPOSITIONS :: "string list" where
  "CLASSIFICATION_DISPOSITIONS =
     [''OBSERVED'', ''CLAIMED'', ''SUPPORTED'', ''CONTRADICTED'', ''UNRESOLVED'']"

definition REFERENCE_RELATIONS :: "string list" where
  "REFERENCE_RELATIONS =
     [''governed_by'', ''actor'', ''candidate'', ''compiler_record'', ''execution'', ''evaluation'',
      ''observation'', ''failure'', ''artifact'', ''backend'']"

section \<open>Fields\<close>

definition family_text :: "json \<Rightarrow> string \<Rightarrow> nat \<Rightarrow> string res" where
  "family_text v field maximum =
     (case v of
        JStr s \<Rightarrow>
          if py_strip s = [] \<or> length s > maximum \<or> CHR 0x00 \<in> set s
          then Inl (FamilyRecordError (field @ '' must be bounded non-empty text''))
          else Inr (py_strip s)
      | _ \<Rightarrow> Inl (FamilyRecordError (field @ '' must be bounded non-empty text'')))"

definition family_text_list :: "json \<Rightarrow> string \<Rightarrow> string list res" where
  "family_text_list v field =
     (case v of
        JArr xs \<Rightarrow>
          if length xs > 256 then Inl (FamilyRecordError (field @ '' must be a bounded list''))
          else rmapM (\<lambda>x. family_text x (field @ ''[]'') 4096) xs
      | _ \<Rightarrow> Inl (FamilyRecordError (field @ '' must be a bounded list'')))"

definition timestamp :: "string \<Rightarrow> string res" where
  "timestamp v =
     (case fromisoformat (z_to_offset v) of
        None \<Rightarrow> Inl (FamilyRecordError ''created_at must be an ISO-8601 timestamp'')
      | Some t \<Rightarrow>
          if tz_offset t = None then Inl (FamilyRecordError ''created_at must include a timezone'')
          else Inr v)"

definition is_hex :: "char \<Rightarrow> bool" where
  "is_hex c = (c \<in> set ''0123456789abcdef'')"

definition digest_identity :: "string \<Rightarrow> string \<Rightarrow> unit res" where
  "digest_identity digest field =
     rbind (guard (starts_with digest ''sha256:'' \<and> length digest = 71)
              (FamilyRecordError (field @ '' must be a sha256: identity''))) (\<lambda>_.
       guard (list_all is_hex (drop 7 digest)) (FamilyRecordError (field @ '' must be lowercase hexadecimal'')))"

text \<open>A field that is read only when it is present and not null.\<close>

definition optional_family_text :: "dict \<Rightarrow> string \<Rightarrow> string \<Rightarrow> nat \<Rightarrow> dict res" where
  "optional_family_text d key field maximum =
     (if dget d key = JNull then Inr []
      else rbind (family_text (dget d key) field maximum) (\<lambda>s. Inr [(key, JStr s)]))"

section \<open>References\<close>

definition reference_fields :: "string list" where
  "reference_fields =
     [''schema'', ''producer'', ''recordKind'', ''schemaVersion'', ''stableId'', ''contentDigest'',
      ''artifact'', ''scope'']"

definition unknown_fields :: "dict \<Rightarrow> string list \<Rightarrow> string list" where
  "unknown_fields d allowed_fields = sorted_set (filter (\<lambda>k. k \<notin> set allowed_fields) (map fst d))"

definition reference_digest :: "dict \<Rightarrow> dict res" where
  "reference_digest v =
     (if dget v ''contentDigest'' = JNull then Inr []
      else
        rbind (family_text (dget v ''contentDigest'') ''contentDigest'' 80) (\<lambda>digest.
        rbind (digest_identity digest ''contentDigest'') (\<lambda>_. Inr [(''contentDigest'', JStr digest)])))"

definition reference_artifact :: "dict \<Rightarrow> dict res" where
  "reference_artifact v =
     (case dget v ''artifact'' of
        JNull \<Rightarrow> Inr []
      | JObj artifact \<Rightarrow>
          let unknown = unknown_fields artifact [''identity'', ''kind'', ''digest'', ''location''] in
          rbind (guard (unknown = [])
                   (FamilyRecordError (''artifact reference has unknown fields: '' @ join '', '' unknown))) (\<lambda>_.
          rbind (family_text (dget artifact ''identity'') ''artifact.identity'' 2048) (\<lambda>identity.
          rbind (family_text (dget artifact ''kind'') ''artifact.kind'' 256) (\<lambda>kind.
          rbind (optional_family_text artifact ''digest'' ''artifact.digest'' 256) (\<lambda>digest.
          rbind (optional_family_text artifact ''location'' ''artifact.location'' 4096) (\<lambda>location.
            Inr [(''artifact'', JObj ([(''identity'', JStr identity), (''kind'', JStr kind)] @ digest @ location))])))))
      | _ \<Rightarrow> Inl (FamilyRecordError ''artifact must be an object''))"

definition reference_scope :: "dict \<Rightarrow> dict res" where
  "reference_scope v =
     (case dget v ''scope'' of
        JNull \<Rightarrow> Inr []
      | JObj scope \<Rightarrow> Inr [(''scope'', JObj scope)]
      | _ \<Rightarrow> Inl (FamilyRecordError ''scope must be an object''))"

definition normalize_producer_reference :: "dict \<Rightarrow> dict res" where
  "normalize_producer_reference v =
     (let unknown = unknown_fields v reference_fields in
      rbind (guard (unknown = [])
               (FamilyRecordError (''producer reference has unknown fields: '' @ join '', '' unknown))) (\<lambda>_.
      rbind (guard (dget_default v ''schema'' (JStr FAMILY_REFERENCE_SCHEMA) = JStr FAMILY_REFERENCE_SCHEMA)
               (FamilyRecordError ''producer reference schema is unsupported'')) (\<lambda>_.
      rbind (family_text (dget v ''producer'') ''producer'' 256) (\<lambda>producer.
      rbind (family_text (dget v ''recordKind'') ''recordKind'' 256) (\<lambda>record_kind.
      rbind (family_text (dget v ''schemaVersion'') ''schemaVersion'' 256) (\<lambda>schema_version.
      rbind (family_text (dget v ''stableId'') ''stableId'' 2048) (\<lambda>stable_identity.
      rbind (reference_digest v) (\<lambda>digest.
      rbind (reference_artifact v) (\<lambda>artifact.
      rbind (reference_scope v) (\<lambda>scope.
        Inr ([(''schema'', JStr FAMILY_REFERENCE_SCHEMA), (''producer'', JStr producer),
              (''recordKind'', JStr record_kind), (''schemaVersion'', JStr schema_version),
              (''stableId'', JStr stable_identity)] @ digest @ artifact @ scope)))))))))))"

definition opt_field :: "string \<Rightarrow> json option \<Rightarrow> dict" where
  "opt_field k v = (case v of None \<Rightarrow> [] | Some x \<Rightarrow> [(k, x)])"

definition producer_reference ::
  "string \<Rightarrow> string \<Rightarrow> string \<Rightarrow> string \<Rightarrow> string option \<Rightarrow> dict option \<Rightarrow> dict option \<Rightarrow> dict res" where
  "producer_reference producer record_kind schema_version stable_identity content_digest artifact scope =
     normalize_producer_reference
       ([(''producer'', JStr producer), (''recordKind'', JStr record_kind),
         (''schemaVersion'', JStr schema_version), (''stableId'', JStr stable_identity)] @
        opt_field ''contentDigest'' (map_option JStr content_digest) @
        opt_field ''artifact'' (map_option JObj artifact) @ opt_field ''scope'' (map_option JObj scope))"

definition reference_identity :: "dict \<Rightarrow> string res" where
  "reference_identity reference =
     rbind (normalize_producer_reference reference) (\<lambda>r. Inr (canonical_digest_unprojected r))"

definition stable_id :: "dict \<Rightarrow> string" where
  "stable_id r = str_of (dget r ''stableId'')"

section \<open>Reference entries\<close>

text \<open>
  An entry is a relation with a reference, an edge the type and the target of a relationship.
  The accumulator of the loop holds the entries, the edges and the keys already seen.
\<close>

type_synonym entry = "string \<times> dict"
type_synonym edge = "string \<times> string"

record entry_acc =
  a_entries :: "entry list"
  a_edges :: "edge list"
  a_seen :: "(string \<times> string) list"

definition edge_type :: "string \<Rightarrow> string" where
  "edge_type relation =
     (case map_of [(''candidate'', ''produced''), (''compiler_record'', ''compiled_from''),
                   (''execution'', ''executes''), (''evaluation'', ''evaluates'')] relation of
        Some t \<Rightarrow> t
      | None \<Rightarrow> if relation \<in> {''observation'', ''failure''} then ''derived_from'' else ''depends_on'')"

definition add_entry :: "entry_acc \<Rightarrow> string \<Rightarrow> string \<Rightarrow> dict \<Rightarrow> entry_acc" where
  "add_entry acc relation edge reference =
     (let key = (relation, stable_id reference)
      in if key \<in> set (a_seen acc) then acc
         else \<lparr>a_entries = a_entries acc @ [(relation, reference)],
               a_edges = a_edges acc @ [(edge, stable_id reference)], a_seen = key # a_seen acc\<rparr>)"

definition empty_acc :: entry_acc where
  "empty_acc = \<lparr>a_entries = [], a_edges = [], a_seen = []\<rparr>"

definition reference_step :: "entry_acc \<Rightarrow> dict \<Rightarrow> entry_acc res" where
  "reference_step acc v =
     rbind (family_text (dget v ''relation'') ''references[].relation'' 128) (\<lambda>relation.
     rbind (guard (relation \<in> set REFERENCE_RELATIONS)
              (FamilyRecordError (''unsupported producer reference relation: '' @ relation))) (\<lambda>_.
     case dget v ''reference'' of
       JObj raw \<Rightarrow>
         rbind (normalize_producer_reference raw) (\<lambda>reference.
           Inr (add_entry acc relation (edge_type relation) reference))
     | _ \<Rightarrow> Inl (FamilyRecordError ''references[].reference must be an object'')))"

definition entry_key :: "entry \<Rightarrow> string \<times> string" where
  "entry_key e = (fst e, stable_id (snd e))"

definition reference_entries :: "dict list \<Rightarrow> (entry list \<times> edge list) res" where
  "reference_entries values =
     rbind (rfoldM reference_step empty_acc values) (\<lambda>acc.
       Inr (sort_key entry_key (a_entries acc), sort (a_edges acc)))"

definition entry_json :: "entry \<Rightarrow> json" where
  "entry_json e = JObj [(''relation'', JStr (fst e)), (''reference'', JObj (snd e))]"

definition edge_json :: "edge \<Rightarrow> json" where
  "edge_json e = JObj [(''type'', JStr (fst e)), (''target'', JStr (snd e))]"

definition source_records :: "entry list \<Rightarrow> json" where
  "source_records es = JArr (map (\<lambda>e. JStr (stable_id (snd e))) es)"

section \<open>The envelope\<close>

definition producer_json :: "string \<Rightarrow> json" where
  "producer_json i = JObj [(''type'', JStr ''producer''), (''id'', JStr i)]"

definition envelope ::
  "string \<Rightarrow> dict \<Rightarrow> string \<Rightarrow> string \<Rightarrow> dict \<Rightarrow> string \<Rightarrow> string \<Rightarrow> json list \<Rightarrow> string \<Rightarrow> json \<Rightarrow>
   string \<Rightarrow> string \<Rightarrow> bool \<Rightarrow> edge list \<Rightarrow> dict \<Rightarrow> dict" where
  "envelope kind metadata subject_type subject scope_context limitation summary evidence producer sources
     rationale sensitivity authority edges details =
     [(''apiVersion'', JStr ''commons.mncs.dev/v0alpha1''),
      (''kind'', JStr kind),
      (''metadata'', JObj metadata),
      (''subject'', JObj [(''type'', JStr subject_type), (''identity'', JStr subject)]),
      (''scope'', JObj [(''context'', JObj scope_context), (''limitations'', JArr [JStr limitation])]),
      (''statement'', JObj [(''summary'', JStr summary)]),
      (''evidence'', JArr evidence),
      (''dependencies'', JArr []),
      (''affectedContracts'', JArr []),
      (''provenance'', JObj [(''producer'', producer_json producer), (''sourceRecords'', sources)]),
      (''confidence'', JObj [(''level'', JStr ''unreported''), (''rationale'', JStr rationale)]),
      (''security'', JObj
         [(''sensitivity'', JStr sensitivity), (''executableAttachments'', JBool False),
          (''instructionsAreUntrusted'', JBool True), (''requiredExternalAuthority'', JBool authority)]),
      (''lifecycle'', JObj [(''initialState'', JStr ''proposed''), (''reviewWhen'', JArr [])]),
      (''relationships'', JArr (map edge_json edges)),
      (''details'', JObj details)]"

definition labelled_metadata :: "string \<Rightarrow> string \<Rightarrow> string \<Rightarrow> string list \<Rightarrow> dict" where
  "labelled_metadata record_id created_at producer labels =
     [(''recordId'', JStr record_id), (''createdAt'', JStr created_at),
      (''author'', producer_json producer), (''labels'', JArr (map JStr labels))]"

section \<open>Concept experiments\<close>

record experiment_args =
  x_experiment_id :: string
  x_concept_id :: string
  x_created_at :: string
  x_language_profile :: string
  x_target_profile :: dict
  x_hypothesis :: string
  x_task :: string
  x_falsifiers :: "string list"
  x_protected :: "string list"
  x_frozen :: "dict list"
  x_hidden :: "dict list"
  x_budget :: dict
  x_actors :: "dict list"
  x_references :: "dict list"
  x_status :: string
  x_producer :: string
  x_rerun_of :: "string option"
  x_predecessor :: "string option"
  x_revision :: "int option"
  x_previous_digest :: "string option"

definition actor_fields :: "string list" where
  "actor_fields = [''model'', ''provider'', ''worker'', ''route'', ''policy'', ''promptDigest'', ''session'']"

definition actor_tools :: "dict \<Rightarrow> dict res" where
  "actor_tools actor =
     (if dget actor ''tools'' = JNull then Inr []
      else rbind (family_text_list (dget actor ''tools'') ''actors[].tools'') (\<lambda>tools.
             Inr [(''tools'', JArr (map JStr (sorted_set tools)))]))"

definition normalize_actor :: "dict \<Rightarrow> dict res" where
  "normalize_actor actor =
     rbind (family_text (dget actor ''role'') ''actors[].role'' 128) (\<lambda>role.
     case dget actor ''reference'' of
       JObj raw \<Rightarrow>
         rbind (normalize_producer_reference raw) (\<lambda>reference.
         rbind (rconcat (map (\<lambda>f. optional_family_text actor f (''actors[].'' @ f) 2048) actor_fields)) (\<lambda>fields.
         rbind (actor_tools actor) (\<lambda>tools.
           Inr ([(''role'', JStr role), (''reference'', JObj reference)] @ fields @ tools))))
     | _ \<Rightarrow> Inl (FamilyRecordError ''actors[].reference must be an object''))"

definition actor_stable_id :: "dict \<Rightarrow> string" where
  "actor_stable_id actor = stable_id (obj_of (dget actor ''reference''))"

definition actor_key :: "dict \<Rightarrow> string \<times> string" where
  "actor_key actor = (str_of (dget actor ''role''), actor_stable_id actor)"

definition optional_edge :: "string \<Rightarrow> string option \<Rightarrow> edge list res" where
  "optional_edge relation target =
     (case target of
        None \<Rightarrow> Inr []
      | Some t \<Rightarrow> rbind (family_text (JStr t) relation 256) (\<lambda>s. Inr [(relation, s)]))"

definition experiment_boundary :: string where
  "experiment_boundary =
     ''coordination status only; producer references retain native semantics and no '' @
     ''scientific, assurance, or conformance verdict is inferred''"

definition make_concept_experiment_record :: "experiment_args \<Rightarrow> dict res" where
  "make_concept_experiment_record x =
     rbind (family_text (JStr (x_experiment_id x)) ''experiment_id'' 256) (\<lambda>experiment_id.
     rbind (family_text (JStr (x_concept_id x)) ''concept_id'' 512) (\<lambda>concept_id.
     rbind (family_text (JStr (x_created_at x)) ''created_at'' 128) (\<lambda>created.
     rbind (timestamp created) (\<lambda>created_at.
     rbind (guard (x_status x \<in> set EXPERIMENT_STATUSES)
              (FamilyRecordError ''experiment status is unsupported'')) (\<lambda>_.
     rbind (rmapM normalize_actor (x_actors x)) (\<lambda>unordered.
     let actors = sort_key actor_key unordered in
     rbind (reference_entries (x_references x)) (\<lambda>(entries, edges).
     rbind (optional_edge ''rerun_of'' (x_rerun_of x)) (\<lambda>rerun.
     rbind (optional_edge ''predecessor'' (x_predecessor x)) (\<lambda>predecessor.
     let pairs = sorted_set (edges @ map (\<lambda>a. (''depends_on'', actor_stable_id a)) actors @ rerun @ predecessor) in
     rbind (guard (case x_revision x of None \<Rightarrow> True | Some n \<Rightarrow> n \<ge> 1)
              (FamilyRecordError ''revision must be positive'')) (\<lambda>_.
     let metadata = labelled_metadata experiment_id created_at (x_producer x)
                      [''concept-experiment'', ''family-record-spine''] @
                    opt_field ''revision'' (map_option JInt (x_revision x)) @
                    opt_field ''previousDigest'' (map_option JStr (x_previous_digest x)) in
     rbind (family_text (JStr (x_language_profile x)) ''language_profile'' 1024) (\<lambda>language_profile.
     rbind (family_text (JStr (x_hypothesis x)) ''hypothesis'' 20000) (\<lambda>hypothesis.
     rbind (family_text (JStr (x_task x)) ''task'' 20000) (\<lambda>task.
     rbind (family_text_list (JArr (map JStr (x_falsifiers x))) ''falsifiers'') (\<lambda>falsifiers.
     rbind (family_text_list (JArr (map JStr (x_protected x))) ''protected_properties'') (\<lambda>protected_properties.
     let details =
       [(''schema'', JStr CONCEPT_EXPERIMENT_SCHEMA), (''conceptId'', JStr concept_id),
        (''languageProfile'', JStr language_profile), (''targetProfile'', JObj (x_target_profile x)),
        (''hypothesis'', JStr hypothesis), (''task'', JStr task),
        (''falsifiers'', JArr (map JStr falsifiers)),
        (''protectedProperties'', JArr (map JStr protected_properties)),
        (''frozenInputs'', JArr (map JObj (x_frozen x))), (''hiddenInputs'', JArr (map JObj (x_hidden x))),
        (''resourceBudget'', JObj (x_budget x)), (''actors'', JArr (map JObj actors)),
        (''references'', JArr (map entry_json entries)), (''experimentStatus'', JStr (x_status x)),
        (''authorityBoundary'', JStr experiment_boundary)] in
       Inr (envelope ''ConceptExperiment'' metadata ''experiment'' experiment_id
              [(''conceptId'', JStr concept_id), (''languageProfile'', JStr language_profile),
               (''targetProfile'', JObj (x_target_profile x))]
              experiment_boundary (''Concept experiment '' @ experiment_id @ '' for '' @ concept_id @ ''.'') []
              (x_producer x) (source_records entries) ''experiment envelope does not infer confidence''
              (if x_hidden x = [] then ''public'' else ''restricted'') True pairs details))))))))))))))))"

section \<open>Failure classifications\<close>

definition make_failure_classification_record ::
  "string \<Rightarrow> string \<Rightarrow> dict \<Rightarrow> string \<Rightarrow> string \<Rightarrow> dict \<Rightarrow> dict list \<Rightarrow> string \<Rightarrow> string \<Rightarrow> dict res" where
  "make_failure_classification_record classification_id experiment_id failure_reference classification
     disposition classifier evidence_references rationale created_at =
     rbind (guard (classification \<in> set FAILURE_CLASSES)
              (FamilyRecordError ''failure classification is unsupported'')) (\<lambda>_.
     rbind (guard (disposition \<in> set CLASSIFICATION_DISPOSITIONS)
              (FamilyRecordError ''classification disposition is unsupported'')) (\<lambda>_.
     rbind (normalize_producer_reference failure_reference) (\<lambda>failure.
     rbind (normalize_producer_reference classifier) (\<lambda>actor.
     rbind (rmapM normalize_producer_reference evidence_references) (\<lambda>unordered.
     let evidence = sort_key stable_id unordered;
         edges = [(''responds_to'', experiment_id), (''derived_from'', stable_id failure)] @
                 map (\<lambda>item. (''supports'', stable_id item)) evidence;
         producer = str_of (dget actor ''producer'') in
     rbind (family_text (JStr classification_id) ''classification_id'' 256) (\<lambda>record_id.
     rbind (timestamp created_at) (\<lambda>created.
     rbind (family_text (JStr rationale) ''rationale'' 20000) (\<lambda>summary.
       Inr (envelope ''FailureClassification''
              (labelled_metadata record_id created producer [''failure-classification'', classification])
              ''experiment'' experiment_id [(''experimentId'', JStr experiment_id)]
              ''classification is a provenance-bearing assertion, not automatic truth'' summary
              (map (\<lambda>item. JObj [(''id'', JStr (stable_id item)), (''relation'', JStr ''supports''),
                                (''status'', JStr ''UNKNOWN'')]) evidence)
              producer (JArr [JStr (stable_id failure), JStr (stable_id actor)])
              ''support disposition and provenance are preserved separately'' ''public'' False edges
              [(''schema'', JStr FAILURE_CLASSIFICATION_SCHEMA), (''failureReference'', JObj failure),
               (''classification'', JStr classification), (''disposition'', JStr disposition),
               (''classifier'', JObj actor), (''evidenceReferences'', JArr (map JObj evidence)),
               (''authorityBoundary'',
                JStr ''classification support is local to the named evidence and actor'')])))))))))"

section \<open>Replications\<close>

definition replication_edges :: "string \<Rightarrow> string \<Rightarrow> edge list" where
  "replication_edges outcome target =
     [(''attempts'', target)] @ (if outcome = ''PASS'' then [(''replicates'', target)] else []) @
     (if outcome = ''FAIL'' then [(''failed_to_replicate'', target)] else [])"

definition make_replication_record ::
  "string \<Rightarrow> string \<Rightarrow> string \<Rightarrow> string \<Rightarrow> json \<Rightarrow> dict list \<Rightarrow> string \<Rightarrow> string \<Rightarrow> dict res" where
  "make_replication_record replication_id created_at target_record outcome independence references summary producer =
     rbind (family_text (JStr replication_id) ''replication_id'' 256) (\<lambda>record_id.
     rbind (family_text (JStr target_record) ''target_record'' 256) (\<lambda>target.
     rbind (family_text (JStr created_at) ''created_at'' 128) (\<lambda>created0.
     rbind (timestamp created0) (\<lambda>created.
     rbind (guard (outcome \<in> {''PASS'', ''FAIL'', ''UNKNOWN''})
              (FamilyRecordError ''replication outcome must be PASS, FAIL, or UNKNOWN'')) (\<lambda>_.
     rbind (guard (is_obj independence) (FamilyRecordError ''independence must be an object'')) (\<lambda>_.
     rbind (reference_entries references) (\<lambda>(entries, edges).
     let relationships = sort (replication_edges outcome target @ edges) in
     rbind (family_text (JStr summary) ''summary'' 20000) (\<lambda>text.
       Inr (envelope ''Replication''
              (labelled_metadata record_id created producer [''replication'', ''family-record-spine''])
              ''experiment'' target [(''targetRecord'', JStr target)]
              (''coordination status only; producer references retain native semantics '' @
               ''and no assurance or conformance verdict is inferred'')
              text [] producer (source_records entries) ''replication envelope does not infer confidence''
              ''public'' False relationships
              [(''schema'', JStr REPLICATION_SCHEMA), (''targetRecord'', JStr target), (''outcome'', JStr outcome),
               (''independence'', independence), (''references'', JArr (map entry_json entries)),
               (''authorityBoundary'', JStr
                 (''describes the replication attempt and its exact evidence references; '' @
                  ''publication is not verification and no subsystem becomes an authority '' @
                  ''over language semantics, Fabric execution, Forge evaluation, or MNCS '' @ ''conformance''))])))))))))"

section \<open>Development records\<close>

record development_args =
  d_record_id :: string
  d_created_at :: string
  d_version :: string
  d_digest :: string
  d_profile :: string
  d_epoch :: string
  d_status :: string
  d_summary :: string
  d_references :: "dict list"
  d_candidate :: "string option"
  d_supersedes :: "string option"
  d_experiments :: "string list"
  d_producer :: string

definition superseded_edge :: "string option \<Rightarrow> edge list res" where
  "superseded_edge previous =
     (case previous of
        None \<Rightarrow> Inr []
      | Some r \<Rightarrow> rbind (family_text (JStr r) ''supersedes_record_id'' 256) (\<lambda>s. Inr [(''supersedes'', s)]))"

definition selected_candidate :: "string option \<Rightarrow> dict res" where
  "selected_candidate candidate =
     (case candidate of
        None \<Rightarrow> Inr []
      | Some c \<Rightarrow> rbind (family_text (JStr c) ''selected_candidate_id'' 256) (\<lambda>s.
                    Inr [(''selectedCandidateId'', JStr s)]))"

definition make_development_record_record :: "development_args \<Rightarrow> dict res" where
  "make_development_record_record a =
     rbind (family_text (JStr (d_record_id a)) ''development_record_id'' 256) (\<lambda>record_id.
     rbind (family_text (JStr (d_created_at a)) ''created_at'' 128) (\<lambda>created.
     rbind (timestamp created) (\<lambda>created_at.
     rbind (family_text (JStr (d_version a)) ''mncds_version'' 64) (\<lambda>version.
     rbind (digest_identity (d_digest a) ''record_digest'') (\<lambda>_.
     rbind (family_text (JStr (d_profile a)) ''profile'' 64) (\<lambda>profile.
     rbind (family_text (JStr (d_epoch a)) ''epoch_id'' 256) (\<lambda>epoch.
     rbind (guard (d_status a \<in> {''PASS'', ''FAIL'', ''UNKNOWN''})
              (FamilyRecordError ''computed_status must be PASS, FAIL, or UNKNOWN'')) (\<lambda>_.
     rbind (reference_entries (d_references a)) (\<lambda>(entries, edges).
     rbind (rmapM (\<lambda>e. rbind (family_text (JStr e) ''concept_experiment_ids[]'' 256) (\<lambda>t.
              Inr (''derived_from'', t))) (d_experiments a)) (\<lambda>experiments.
     rbind (superseded_edge (d_supersedes a)) (\<lambda>previous.
     let relationships = sort (edges @ experiments @ previous) in
     rbind (selected_candidate (d_candidate a)) (\<lambda>candidate.
     rbind (family_text (JStr (d_summary a)) ''summary'' 20000) (\<lambda>summary.
       Inr (envelope ''DevelopmentRecord''
              (labelled_metadata (''development-record:'' @ record_id) created_at (d_producer a)
                 [''development-record'', ''family-record-spine''])
              ''experiment'' record_id
              [(''mncdsVersion'', JStr version), (''profile'', JStr profile), (''epochId'', JStr epoch),
               (''computedStatus'', JStr (d_status a))]
              (''coordination status only; the referenced MNCDS record retains '' @
               ''native development-process semantics'')
              summary [] (d_producer a) (source_records entries)
              ''the projected MNCDS record carries its own computed status'' ''public'' False relationships
              ([(''schema'', JStr DEVELOPMENT_RECORD_SCHEMA), (''mncdsVersion'', JStr version),
                (''recordId'', JStr record_id), (''recordDigest'', JStr (d_digest a)),
                (''profile'', JStr profile), (''epochId'', JStr epoch), (''computedStatus'', JStr (d_status a)),
                (''references'', JArr (map entry_json entries)),
                (''authorityBoundary'', JStr
                  (''projection of a validated MNCDS development record; development-process '' @
                   ''semantics stay in MNCDS and no assurance or conformance verdict is inferred''))]
               @ candidate)))))))))))))))"

section \<open>Change sets\<close>

definition is_commit :: "string \<Rightarrow> bool" where
  "is_commit c = (length c = 40 \<and> list_all is_hex c)"

definition check_reference_scope :: "dict \<Rightarrow> (string \<times> string) list \<Rightarrow> string \<Rightarrow> unit res" where
  "check_reference_scope reference named grp =
     (case dget reference ''scope'' of
        JNull \<Rightarrow> Inr ()
      | JObj scope \<Rightarrow>
          let repository = dget scope ''repository''; commit = dget scope ''commit'' in
          if repository = JNull \<and> commit = JNull then Inr ()
          else
            rbind (guard (is_str repository \<and> str_of repository \<noteq> [])
                     (FamilyRecordError (grp @ '' reference scope.repository must be non-empty''))) (\<lambda>_.
            rbind (guard (is_str commit \<and> is_commit (str_of commit))
                     (FamilyRecordError (grp @ '' reference scope.commit must be an exact revision''))) (\<lambda>_.
              guard ((str_of repository, str_of commit) \<in> set named)
                (FamilyRecordError
                   (grp @ '' reference is bound to '' @ str_of repository @ ''@'' @ str_of commit @
                    '', which this ChangeSet does not name''))))
      | _ \<Rightarrow> Inl (FamilyRecordError (grp @ '' reference scope must be an object'')))"

definition base_revision :: "nat \<Rightarrow> json \<Rightarrow> (string \<times> string) res" where
  "base_revision i revision =
     (let field = ''base_revisions['' @ nat_str i @ '']''
      in case revision of
           JObj d \<Rightarrow>
             rbind (family_text (dget d ''repository'') (field @ ''.repository'') 256) (\<lambda>repository.
             rbind (family_text (dget d ''commit'') (field @ ''.commit'') 64) (\<lambda>commit.
             rbind (guard (is_commit commit)
                      (FamilyRecordError (field @ ''.commit must be an exact 40-hex revision''))) (\<lambda>_.
               Inr (repository, commit))))
         | _ \<Rightarrow> Inl (FamilyRecordError (field @ '' must be an object'')))"

definition promotion_result :: "json \<Rightarrow> unit res" where
  "promotion_result v =
     (case v of
        JObj d \<Rightarrow>
          rbind (normalize_producer_reference d) (\<lambda>reference.
            guard (dget reference ''recordKind'' = JStr ''check-result'' \<and>
                   dget reference ''producer'' = JStr ''mncs-promotion-boundary'')
              (FamilyRecordError
                 (''a promotes edge originates only from an MNCS '' @ ''promotion-boundary evaluation result '' @
                  ''(recordKind check-result, producer mncs-promotion-boundary)'')))
      | _ \<Rightarrow> Inl (FamilyRecordError ''promotes references must be objects''))"

definition changeset_edge :: "string \<Rightarrow> string" where
  "changeset_edge grp = (case map_of CHANGESET_EDGE_TYPES grp of Some t \<Rightarrow> t | None \<Rightarrow> [])"

definition changeset_step ::
  "(string \<times> string) list \<Rightarrow> entry_acc \<Rightarrow> string \<times> json \<Rightarrow> entry_acc res" where
  "changeset_step named acc gv =
     (case snd gv of
        JObj d \<Rightarrow>
          rbind (normalize_producer_reference d) (\<lambda>reference.
          rbind (check_reference_scope reference named (fst gv)) (\<lambda>_.
            Inr (add_entry acc (fst gv) (changeset_edge (fst gv)) reference)))
      | _ \<Rightarrow> Inl (FamilyRecordError (fst gv @ '' references must be objects'')))"

definition grouped_references ::
  "json list \<Rightarrow> json list \<Rightarrow> json list \<Rightarrow> json list \<Rightarrow> (string \<times> json) list" where
  "grouped_references supports pressure contradicts promotes =
     map (Pair ''supports'') supports @ map (Pair ''pressure'') pressure @
     map (Pair ''contradicts'') contradicts @ map (Pair ''promotes'') promotes"

definition changeset_entry_json :: "entry \<Rightarrow> json" where
  "changeset_entry_json e =
     JObj [(''group'', JStr (fst e)), (''relation'', JStr (fst e)), (''reference'', JObj (snd e))]"

definition revision_json :: "string \<times> string \<Rightarrow> json" where
  "revision_json r = JObj [(''repository'', JStr (fst r)), (''commit'', JStr (snd r))]"

definition make_changeset_record ::
  "string \<Rightarrow> string \<Rightarrow> json list \<Rightarrow> json list \<Rightarrow> json list \<Rightarrow> json list \<Rightarrow> json list \<Rightarrow> string \<Rightarrow> string \<Rightarrow>
   dict res" where
  "make_changeset_record changeset created base_revisions supports pressure contradicts promotes summary producer =
     rbind (family_text (JStr changeset) ''changeset_id'' 256) (\<lambda>changeset_id.
     rbind (family_text (JStr created) ''created_at'' 128) (\<lambda>created0.
     rbind (timestamp created0) (\<lambda>created_at.
     rbind (rmapM (\<lambda>(i, r). base_revision i r) (enumerate 0 base_revisions)) (\<lambda>pinned.
     rbind (guard (pinned \<noteq> []) (FamilyRecordError ''base_revisions must name at least one revision'')) (\<lambda>_.
     rbind (guard (length promotes \<le> 1)
              (FamilyRecordError ''a ChangeSet carries at most one promotion result'')) (\<lambda>_.
     rbind (rmapM promotion_result promotes) (\<lambda>_.
     rbind (rfoldM (changeset_step pinned) empty_acc
              (grouped_references supports pressure contradicts promotes)) (\<lambda>acc.
     let entries = sort_key entry_key (a_entries acc); relationships = sort (a_edges acc) in
     rbind (family_text (JStr summary) ''summary'' 20000) (\<lambda>text.
       Inr (envelope ''ChangeSet''
              (labelled_metadata (''changeset:'' @ changeset_id) created_at producer
                 [''changeset'', ''family-record-spine''])
              ''changeset'' changeset_id
              [(''changesetId'', JStr changeset_id), (''baseRevisionCount'', JInt (int (length pinned)))]
              ''coordination status only; carried claims retain native owner semantics''
              text [] producer (source_records entries)
              ''coordination only; carried claims carry their own verdicts'' ''public'' False relationships
              [(''schema'', JStr CHANGESET_SCHEMA), (''changesetId'', JStr changeset_id),
               (''baseRevisions'', JArr (map revision_json pinned)),
               (''references'', JArr (map changeset_entry_json entries)),
               (''authorityBoundary'', JStr
                 (''coordination relationships only; development-process semantics stay '' @
                  ''in MNCDS, promotion semantics stay in MNCS, and no conformance '' @
                  ''verdict is inferred from component records''))]))))))))))"

section \<open>References of a record\<close>

definition or_empty :: "json \<Rightarrow> json list res" where
  "or_empty v = (if truthy v then py_iter v else Inr [])"

definition nested_references :: "json list \<Rightarrow> dict list" where
  "nested_references xs =
     concat (map (\<lambda>x. case dget (obj_of x) ''reference'' of JObj r \<Rightarrow> [r] | _ \<Rightarrow> []) xs)"

definition objects_of :: "json list \<Rightarrow> dict list" where
  "objects_of xs = map obj_of (filter is_obj xs)"

fun normalizable :: "dict list \<Rightarrow> dict list res" where
  "normalizable [] = Inr []"
| "normalizable (r # rs) =
     (case normalize_producer_reference r of
        Inr n \<Rightarrow> rbind (normalizable rs) (\<lambda>ns. Inr (n # ns))
      | Inl (FamilyRecordError _) \<Rightarrow> normalizable rs
      | Inl e \<Rightarrow> Inl e)"

definition producer_references :: "dict \<Rightarrow> dict list res" where
  "producer_references rec =
     (case dget rec ''details'' of
        JObj details \<Rightarrow>
          rbind (or_empty (dget details ''references'')) (\<lambda>references.
          rbind (or_empty (dget details ''actors'')) (\<lambda>actors.
          rbind (or_empty (dget details ''evidenceReferences'')) (\<lambda>evidence.
            normalizable (nested_references references @ nested_references actors @
              objects_of [dget details ''failureReference'', dget details ''classifier''] @ objects_of evidence))))
      | _ \<Rightarrow> Inr [])"

section \<open>Lemmas on references\<close>

lemma family_text_Inr:
  assumes "family_text v f n = Inr s"
  shows "s \<noteq> [] \<and> (\<exists>t. v = JStr t) \<and> family_text (JStr s) g n = Inr s"
proof -
  obtain t where t: "v = JStr t" "s = py_strip t" "s \<noteq> []" "length t \<le> n" "CHR 0x00 \<notin> set t"
    using assms by (auto simp: family_text_def split: json.splits if_splits)
  have "set (py_strip t) \<subseteq> set t" by (auto simp: py_strip_def dest!: set_dropWhileD)
  then show ?thesis using t length_py_strip [of t] by (auto simp: family_text_def)
qed

lemma family_text_error: "family_text v f n = Inl e \<Longrightarrow> \<exists>m. e = FamilyRecordError m"
  by (auto simp: family_text_def split: json.splits if_splits)

lemma optional_family_text_Inr:
  assumes "optional_family_text d k f n = Inr x"
  shows "(x = [] \<or> (\<exists>s. x = [(k, JStr s)])) \<and> (\<forall>e. dget e k = dget x k \<longrightarrow> optional_family_text e k f n = Inr x)"
  using assms family_text_Inr [of "dget d k" f n _ f]
  by (auto simp: optional_family_text_def rbind_eq_Inr split: if_splits)

lemma reference_digest_Inr:
  assumes "reference_digest v = Inr x"
  shows "(x = [] \<or> (\<exists>s. x = [(''contentDigest'', JStr s)])) \<and>
    (\<forall>w. dget w ''contentDigest'' = dget x ''contentDigest'' \<longrightarrow> reference_digest w = Inr x)"
  using assms family_text_Inr [of "dget v ''contentDigest''" "''contentDigest''" 80 _ "''contentDigest''"]
  by (auto simp: reference_digest_def rbind_eq_Inr split: if_splits)

lemma reference_scope_Inr:
  assumes "reference_scope v = Inr x"
  shows "(x = [] \<or> (\<exists>s. x = [(''scope'', JObj s)])) \<and>
    (\<forall>w. dget w ''scope'' = dget x ''scope'' \<longrightarrow> reference_scope w = Inr x)"
  using assms by (auto simp: reference_scope_def split: json.splits)

lemma unknown_fields_Nil: "unknown_fields d ks = [] \<longleftrightarrow> set (map fst d) \<subseteq> set ks"
proof -
  have "unknown_fields d ks = [] \<longleftrightarrow> set (unknown_fields d ks) = {}" by simp
  also have "\<dots> \<longleftrightarrow> set (map fst d) \<subseteq> set ks" by (auto simp: unknown_fields_def)
  finally show ?thesis .
qed

lemma reference_artifact_Inr:
  assumes "reference_artifact v = Inr x"
  shows "(x = [] \<or> (\<exists>s. x = [(''artifact'', JObj s)])) \<and>
    (\<forall>w. dget w ''artifact'' = dget x ''artifact'' \<longrightarrow> reference_artifact w = Inr x)"
proof (cases "dget v ''artifact''")
  case JNull
  then show ?thesis using assms by (auto simp: reference_artifact_def)
next
  case (JObj a)
  then obtain i k d l where parts: "family_text (dget a ''identity'') ''artifact.identity'' 2048 = Inr i"
      "family_text (dget a ''kind'') ''artifact.kind'' 256 = Inr k"
      "optional_family_text a ''digest'' ''artifact.digest'' 256 = Inr d"
      "optional_family_text a ''location'' ''artifact.location'' 4096 = Inr l"
    and x: "x = [(''artifact'', JObj ([(''identity'', JStr i), (''kind'', JStr k)] @ d @ l))]"
    using assms by (auto simp: reference_artifact_def Let_def rbind_eq_Inr)
  let ?b = "[(''identity'', JStr i), (''kind'', JStr k)] @ d @ l"
  note d = optional_family_text_Inr [OF parts(3)] and l = optional_family_text_Inr [OF parts(4)]
  have "dget ?b ''digest'' = dget d ''digest''" "dget ?b ''location'' = dget l ''location''"
    using d l by auto
  then have "optional_family_text ?b ''digest'' ''artifact.digest'' 256 = Inr d"
    "optional_family_text ?b ''location'' ''artifact.location'' 4096 = Inr l" using d l by blast+
  moreover have "unknown_fields ?b [''identity'', ''kind'', ''digest'', ''location''] = []"
    using d l by (auto simp: unknown_fields_Nil)
  ultimately show ?thesis
    using family_text_Inr [OF parts(1)] family_text_Inr [OF parts(2)] x by (auto simp: reference_artifact_def guard_def)
qed (use assms in \<open>simp_all add: reference_artifact_def\<close>)

lemma normalize_Inr:
  assumes "normalize_producer_reference v = Inr r"
  obtains p k s i d a c where
    "r = [(''schema'', JStr FAMILY_REFERENCE_SCHEMA), (''producer'', JStr p), (''recordKind'', JStr k),
          (''schemaVersion'', JStr s), (''stableId'', JStr i)] @ d @ a @ c"
    "family_text (dget v ''producer'') ''producer'' 256 = Inr p"
    "family_text (dget v ''recordKind'') ''recordKind'' 256 = Inr k"
    "family_text (dget v ''schemaVersion'') ''schemaVersion'' 256 = Inr s"
    "family_text (dget v ''stableId'') ''stableId'' 2048 = Inr i"
    "reference_digest v = Inr d" "reference_artifact v = Inr a" "reference_scope v = Inr c"
  using assms by (auto simp: normalize_producer_reference_def Let_def rbind_eq_Inr)

lemma normalize_idem:
  assumes "normalize_producer_reference v = Inr r"
  shows "normalize_producer_reference r = Inr r"
  using assms
proof (rule normalize_Inr)
  fix p k s i d a c
  assume r: "r = [(''schema'', JStr FAMILY_REFERENCE_SCHEMA), (''producer'', JStr p), (''recordKind'', JStr k),
          (''schemaVersion'', JStr s), (''stableId'', JStr i)] @ d @ a @ c"
    and texts: "family_text (dget v ''producer'') ''producer'' 256 = Inr p"
      "family_text (dget v ''recordKind'') ''recordKind'' 256 = Inr k"
      "family_text (dget v ''schemaVersion'') ''schemaVersion'' 256 = Inr s"
      "family_text (dget v ''stableId'') ''stableId'' 2048 = Inr i"
    and parts: "reference_digest v = Inr d" "reference_artifact v = Inr a" "reference_scope v = Inr c"
  note p = reference_digest_Inr [OF parts(1)] reference_artifact_Inr [OF parts(2)] reference_scope_Inr [OF parts(3)]
  have lookups: "dget r ''contentDigest'' = dget d ''contentDigest''" "dget r ''artifact'' = dget a ''artifact''"
    "dget r ''scope'' = dget c ''scope''"
    using p unfolding r by (auto simp: dget_append)
  have again: "reference_digest r = Inr d" "reference_artifact r = Inr a" "reference_scope r = Inr c"
    using p lookups by blast+
  have "unknown_fields r reference_fields = []"
    using p unfolding r by (auto simp: unknown_fields_Nil reference_fields_def)
  then show "normalize_producer_reference r = Inr r"
    using again texts [THEN family_text_Inr]
    unfolding normalize_producer_reference_def by (simp add: r guard_def)
qed

lemma optional_family_text_error: "optional_family_text d k f n = Inl e \<Longrightarrow> \<exists>m. e = FamilyRecordError m"
  by (auto simp: optional_family_text_def rbind_eq_Inl dest: family_text_error split: if_splits)

lemma reference_digest_error: "reference_digest v = Inl e \<Longrightarrow> \<exists>m. e = FamilyRecordError m"
  by (auto simp: reference_digest_def digest_identity_def rbind_eq_Inl dest: family_text_error split: if_splits)

lemma reference_artifact_error: "reference_artifact v = Inl e \<Longrightarrow> \<exists>m. e = FamilyRecordError m"
  by (cases "dget v ''artifact''")
    (auto simp: reference_artifact_def Let_def rbind_eq_Inl dest!: family_text_error optional_family_text_error)

lemma reference_scope_error: "reference_scope v = Inl e \<Longrightarrow> \<exists>m. e = FamilyRecordError m"
  by (cases "dget v ''scope''") (auto simp: reference_scope_def)

lemma normalize_error: "normalize_producer_reference v = Inl e \<Longrightarrow> \<exists>m. e = FamilyRecordError m"
  unfolding normalize_producer_reference_def Let_def rbind_eq_Inl
  by (elim disjE exE conjE)
    (simp_all add: family_text_error reference_digest_error reference_artifact_error reference_scope_error)

lemma normalizable_eq:
  "normalizable rs = Inr (concat (map (\<lambda>r. case normalize_producer_reference r of Inr n \<Rightarrow> [n] | Inl _ \<Rightarrow> []) rs))"
proof (induction rs)
  case (Cons r rs)
  show ?case
  proof (cases "normalize_producer_reference r")
    case (Inl e)
    then show ?thesis using normalize_error [OF Inl] Cons by auto
  qed (use Cons in simp)
qed simp

lemma normalizable_normal:
  "list_all (\<lambda>r. normalize_producer_reference r = Inr r) rs \<Longrightarrow> normalizable rs = Inr rs"
  by (induction rs) auto

section \<open>Loops that collect entries\<close>

definition normal_reference :: "dict \<Rightarrow> bool" where
  "normal_reference r = (normalize_producer_reference r = Inr r)"

definition acc_ok :: "(string \<Rightarrow> string) \<Rightarrow> entry_acc \<Rightarrow> bool" where
  "acc_ok edge acc =
     (set (a_seen acc) = entry_key ` set (a_entries acc) \<and> distinct (map entry_key (a_entries acc)) \<and>
      a_edges acc = map (\<lambda>e. (edge (fst e), stable_id (snd e))) (a_entries acc) \<and>
      list_all normal_reference (map snd (a_entries acc)))"

lemma add_entry_ok:
  "acc_ok edge acc \<Longrightarrow> normal_reference r \<Longrightarrow> acc_ok edge (add_entry acc rel (edge rel) r)"
  by (auto simp: acc_ok_def add_entry_def entry_key_def Let_def image_iff)

lemma add_entry_keys:
  "acc_ok edge acc \<Longrightarrow>
   entry_key ` set (a_entries (add_entry acc rel e r)) = insert (rel, stable_id r) (entry_key ` set (a_entries acc))"
  by (auto simp: acc_ok_def add_entry_def Let_def) (auto simp: entry_key_def image_iff)

lemma add_entry_set: "set (a_entries (add_entry acc rel e r)) \<subseteq> insert (rel, r) (set (a_entries acc))"
  by (auto simp: add_entry_def Let_def)

text \<open>
  The two loops of the module collect entries by the same rule: a step that succeeds adds what
  its argument offers, unless an entry of the same key is there.
\<close>

locale entry_loop =
  fixes step :: "entry_acc \<Rightarrow> 'v \<Rightarrow> entry_acc res"
    and edge :: "string \<Rightarrow> string"
    and offers :: "'v \<Rightarrow> string \<Rightarrow> dict \<Rightarrow> bool"
  assumes step_adds: "step acc x = Inr acc' \<Longrightarrow>
      \<exists>rel r. offers x rel r \<and> normal_reference r \<and> acc' = add_entry acc rel (edge rel) r"
begin

lemma loop_ok: "rfoldM step acc xs = Inr acc' \<Longrightarrow> acc_ok edge acc \<Longrightarrow> acc_ok edge acc'"
  by (erule rfoldM_invariant [where I = "acc_ok edge"]) (auto dest!: step_adds intro: add_entry_ok)

lemma loop_sound:
  assumes "rfoldM step acc xs = Inr acc'" and "e \<in> set (a_entries acc')" and "e \<notin> set (a_entries acc)"
  shows "\<exists>x \<in> set xs. offers x (fst e) (snd e)"
proof -
  have "\<forall>e \<in> set (a_entries acc'). e \<in> set (a_entries acc) \<or> (\<exists>x \<in> set xs. offers x (fst e) (snd e))"
    using assms(1)
  proof (rule rfoldM_invariant [where I = "\<lambda>s. \<forall>e \<in> set (a_entries s). e \<in> set (a_entries acc) \<or>
          (\<exists>x \<in> set xs. offers x (fst e) (snd e))"])
    fix s x s' assume x: "x \<in> set xs" and s: "step s x = Inr s'"
      and I: "\<forall>e \<in> set (a_entries s). e \<in> set (a_entries acc) \<or> (\<exists>x \<in> set xs. offers x (fst e) (snd e))"
    obtain rel r where "offers x rel r" "s' = add_entry s rel (edge rel) r" using step_adds [OF s] by blast
    then show "\<forall>e \<in> set (a_entries s'). e \<in> set (a_entries acc) \<or> (\<exists>x \<in> set xs. offers x (fst e) (snd e))"
      using add_entry_set [of s rel "edge rel" r] x I by fastforce
  qed simp
  with assms(2,3) show ?thesis by blast
qed

lemma loop_complete:
  assumes "rfoldM step acc xs = Inr acc'" and "acc_ok edge acc"
  shows "entry_key ` set (a_entries acc) \<subseteq> entry_key ` set (a_entries acc') \<and>
    (\<forall>x \<in> set xs. \<exists>rel r. offers x rel r \<and> (rel, stable_id r) \<in> entry_key ` set (a_entries acc'))"
  using assms
proof (induction xs arbitrary: acc)
  case (Cons x xs)
  from Cons.prems(1) obtain s where s: "step acc x = Inr s" "rfoldM step s xs = Inr acc'" by (auto simp: rbind_eq_Inr)
  obtain rel r where r: "offers x rel r" "normal_reference r" "s = add_entry acc rel (edge rel) r"
    using step_adds [OF s(1)] by blast
  have "acc_ok edge s" using add_entry_ok [OF Cons.prems(2) r(2)] r(3) by simp
  from Cons.IH [OF s(2) this] r(1) add_entry_keys [OF Cons.prems(2), of rel "edge rel" r] r(3)
  show ?case by auto
qed simp

end

definition offers_reference :: "dict \<Rightarrow> string \<Rightarrow> dict \<Rightarrow> bool" where
  "offers_reference v rel r =
     (family_text (dget v ''relation'') ''references[].relation'' 128 = Inr rel \<and>
      is_obj (dget v ''reference'') \<and> normalize_producer_reference (obj_of (dget v ''reference'')) = Inr r)"

definition offers_grouped :: "(string \<times> string) list \<Rightarrow> string \<times> json \<Rightarrow> string \<Rightarrow> dict \<Rightarrow> bool" where
  "offers_grouped named gv rel r =
     (rel = fst gv \<and> is_obj (snd gv) \<and> normalize_producer_reference (obj_of (snd gv)) = Inr r \<and>
      check_reference_scope r named rel = Inr ())"

lemma reference_step_adds:
  assumes "reference_step acc v = Inr acc'"
  shows "\<exists>rel r. offers_reference v rel r \<and> normal_reference r \<and> acc' = add_entry acc rel (edge_type rel) r"
  using assms normalize_idem
  by (cases "dget v ''reference''")
    (auto simp: reference_step_def offers_reference_def normal_reference_def rbind_eq_Inr)

lemma changeset_step_adds:
  assumes "changeset_step named acc gv = Inr acc'"
  shows "\<exists>rel r. offers_grouped named gv rel r \<and> normal_reference r \<and> acc' = add_entry acc rel (changeset_edge rel) r"
  using assms normalize_idem
  by (cases "snd gv") (auto simp: changeset_step_def offers_grouped_def normal_reference_def rbind_eq_Inr)

interpretation reference_loop: entry_loop reference_step edge_type offers_reference
  by unfold_locales (rule reference_step_adds)

interpretation changeset_loop: entry_loop "changeset_step named" changeset_edge "offers_grouped named" for named
  by unfold_locales (rule changeset_step_adds)

lemma empty_acc_ok [simp]: "acc_ok edge empty_acc" and empty_acc_entries [simp]: "a_entries empty_acc = []"
  by (simp_all add: acc_ok_def empty_acc_def)

lemma reference_entries_Inr:
  assumes "reference_entries values = Inr (entries, edges)"
  shows "sorted (map entry_key entries) \<and> distinct (map entry_key entries) \<and>
    edges = sort (map (\<lambda>e. (edge_type (fst e), stable_id (snd e))) entries) \<and>
    list_all normal_reference (map snd entries) \<and>
    (\<forall>e \<in> set entries. \<exists>v \<in> set values. offers_reference v (fst e) (snd e)) \<and>
    (\<forall>v \<in> set values. \<exists>rel r. offers_reference v rel r \<and> (rel, stable_id r) \<in> entry_key ` set entries)"
proof -
  obtain acc where acc: "rfoldM reference_step empty_acc values = Inr acc"
    and e: "entries = sort_key entry_key (a_entries acc)" "edges = sort (a_edges acc)"
    using assms by (auto simp: reference_entries_def rbind_eq_Inr)
  have ok: "acc_ok edge_type acc" using reference_loop.loop_ok [OF acc] by simp
  have "mset (map f entries) = mset (map f (a_entries acc))" for f :: "entry \<Rightarrow> edge" by (simp add: e)
  then have "sort (map f entries) = sort (map f (a_entries acc))" for f :: "entry \<Rightarrow> edge"
    by (metis mset_sort properties_for_sort sorted_sort)
  then show ?thesis
    using ok reference_loop.loop_sound [OF acc] reference_loop.loop_complete [OF acc empty_acc_ok] e
    by (auto simp: acc_ok_def list_all_iff distinct_map)
qed

lemma edge_type_neutral: "edge_type rel \<noteq> ''replicates''" "edge_type rel \<noteq> ''failed_to_replicate''"
  by (simp_all add: edge_type_def)

lemma nested_references_Nil [simp]: "nested_references [] = []"
  by (simp add: nested_references_def)

lemma nested_entries: "nested_references (map entry_json es) = map snd es"
  by (induction es) (simp_all add: nested_references_def entry_json_def)

lemma nested_changeset_entries: "nested_references (map changeset_entry_json es) = map snd es"
  by (induction es) (simp_all add: nested_references_def changeset_entry_json_def)

lemma envelope_fields [simp]:
  "dget (envelope kind metadata st subj ctx lim summary evidence producer sources rationale sensitivity authority edges details)
     ''details'' = JObj details"
  "dget (envelope kind metadata st subj ctx lim summary evidence producer sources rationale sensitivity authority edges details)
     ''relationships'' = JArr (map edge_json edges)"
  by (simp_all add: envelope_def)

lemma or_empty_arr [simp]: "or_empty (JArr xs) = Inr xs" and or_empty_null [simp]: "or_empty JNull = Inr []"
  by (simp_all add: or_empty_def)

lemma edge_json_inj: "edge_json e \<in> edge_json ` A \<longleftrightarrow> e \<in> A"
  by (auto simp: edge_json_def prod_eq_iff)

definition relates :: "dict \<Rightarrow> string \<Rightarrow> string \<Rightarrow> bool" where
  "relates rec kind target =
     (JObj [(''type'', JStr kind), (''target'', JStr target)] \<in> set (arr_of (dget rec ''relationships'')))"

lemma relates_edges:
  "dget rec ''relationships'' = JArr (map edge_json edges) \<Longrightarrow> relates rec kind target \<longleftrightarrow> (kind, target) \<in> set edges"
  using edge_json_inj [of "(kind, target)" "set edges"] by (simp add: relates_def edge_json_def)

text \<open>
  A normalised reference is a fixed point of the normalisation, so the identity of a reference
  does not depend on whether it was normalised before.
\<close>

theorem reference_normal_form:
  assumes "normalize_producer_reference v = Inr r"
  shows "normalize_producer_reference r = Inr r \<and> reference_identity r = reference_identity v"
  using assms normalize_idem [OF assms] by (simp add: reference_identity_def)

lemma replication_Inr:
  assumes "make_replication_record rid created target_record outcome independence references summary producer = Inr rec"
  obtains target entries edges d where "family_text (JStr target_record) ''target_record'' 256 = Inr target"
    "reference_entries references = Inr (entries, edges)" "outcome \<in> {''PASS'', ''FAIL'', ''UNKNOWN''}"
    "dget rec ''relationships'' = JArr (map edge_json (sort (replication_edges outcome target @ edges)))"
    "dget rec ''details'' = JObj d" "dget d ''references'' = JArr (map entry_json entries)"
    "dget d ''actors'' = JNull" "dget d ''evidenceReferences'' = JNull" "dget d ''failureReference'' = JNull"
    "dget d ''classifier'' = JNull"
  using assms unfolding make_replication_record_def Let_def
  by (clarsimp simp: rbind_eq_Inr split: prod.splits)

text \<open>
  A replication record always states that it attempts its target. It states that it
  replicates the target only when the outcome is PASS, and that it failed to only when the
  outcome is FAIL: an undetermined outcome states neither, whatever references it carries.
\<close>

theorem replication_claims_outcome:
  assumes "make_replication_record rid created target_record outcome independence references summary producer = Inr rec"
  shows "\<exists>target. family_text (JStr target_record) ''target_record'' 256 = Inr target \<and>
    relates rec ''attempts'' target \<and>
    (\<forall>t. relates rec ''replicates'' t \<longleftrightarrow> outcome = ''PASS'' \<and> t = target) \<and>
    (\<forall>t. relates rec ''failed_to_replicate'' t \<longleftrightarrow> outcome = ''FAIL'' \<and> t = target)"
proof -
  from assms obtain target entries edges where target: "family_text (JStr target_record) ''target_record'' 256 = Inr target"
    and refs: "reference_entries references = Inr (entries, edges)"
    and rel: "dget rec ''relationships'' = JArr (map edge_json (sort (replication_edges outcome target @ edges)))"
    by (rule replication_Inr)
  have "set edges = (\<lambda>e. (edge_type (fst e), stable_id (snd e))) ` set entries"
    using reference_entries_Inr [OF refs] by simp
  then have "t \<noteq> ''replicates'' \<and> t \<noteq> ''failed_to_replicate''" if "(t, x) \<in> set edges" for t x
    using that edge_type_neutral by auto
  moreover have "relates rec k t \<longleftrightarrow> (k, t) \<in> set (replication_edges outcome target) \<or> (k, t) \<in> set edges" for k t
    unfolding relates_edges [OF rel] set_sort by simp
  ultimately show ?thesis
    using target by (intro exI [of _ target]) (auto simp: replication_edges_def)
qed

text \<open>
  The references of a replication record are read back as they were given: one per relation
  and stable identity, in the order of these keys, each normalised, none lost.
\<close>

theorem references_survive:
  assumes "make_replication_record rid created target_record outcome independence references summary producer = Inr rec"
  shows "\<exists>entries. producer_references rec = Inr (map snd entries) \<and>
    sorted (map entry_key entries) \<and> distinct (map entry_key entries) \<and>
    (\<forall>e \<in> set entries. \<exists>v \<in> set references. offers_reference v (fst e) (snd e)) \<and>
    (\<forall>v \<in> set references. \<exists>rel r. offers_reference v rel r \<and> (rel, stable_id r) \<in> entry_key ` set entries)"
proof -
  from assms obtain entries edges d where refs: "reference_entries references = Inr (entries, edges)"
    and d: "dget rec ''details'' = JObj d" "dget d ''references'' = JArr (map entry_json entries)"
      "dget d ''actors'' = JNull" "dget d ''evidenceReferences'' = JNull" "dget d ''failureReference'' = JNull"
      "dget d ''classifier'' = JNull"
    by (rule replication_Inr)
  note e = reference_entries_Inr [OF refs]
  have "producer_references rec = Inr (map snd entries)"
    using d e by (simp add: producer_references_def nested_entries objects_of_def
        normalizable_normal normal_reference_def [abs_def])
  with e show ?thesis by blast
qed

lemma changeset_Inr:
  assumes "make_changeset_record cid created bases supports pressure contradicts promotes summary producer = Inr rec"
  obtains pinned acc where
    "rfoldM (changeset_step pinned) empty_acc (grouped_references supports pressure contradicts promotes) = Inr acc"
    "length promotes \<le> 1" "\<exists>us. rmapM promotion_result promotes = Inr us"
    "dget rec ''relationships'' = JArr (map edge_json (sort (a_edges acc)))"
    "dget (obj_of (dget rec ''details'')) ''baseRevisions'' = JArr (map revision_json pinned)"
    "dget (obj_of (dget rec ''details'')) ''references'' =
       JArr (map changeset_entry_json (sort_key entry_key (a_entries acc)))"
  using assms unfolding make_changeset_record_def Let_def
  by (clarsimp simp: rbind_eq_Inr)


lemma scope_named:
  assumes "check_reference_scope r named grp = Inr ()" and "dget r ''scope'' = JObj s"
    and "dget s ''repository'' \<noteq> JNull \<or> dget s ''commit'' \<noteq> JNull"
  shows "\<exists>rc \<in> set named. dget s ''repository'' = JStr (fst rc) \<and> dget s ''commit'' = JStr (snd rc)"
proof -
  have "is_str (dget s ''repository'')" "is_str (dget s ''commit'')"
    "(str_of (dget s ''repository''), str_of (dget s ''commit'')) \<in> set named"
    using assms by (auto simp: check_reference_scope_def Let_def rbind_eq_Inr split: if_splits)
  moreover have "is_str v \<Longrightarrow> v = JStr (str_of v)" for v by (cases v) auto
  ultimately show ?thesis by (metis fst_conv snd_conv)
qed

lemma promotion_origin:
  assumes "rmapM promotion_result ps = Inr us" and "JObj d \<in> set ps" and "normalize_producer_reference d = Inr r"
  shows "dget r ''recordKind'' = JStr ''check-result'' \<and> dget r ''producer'' = JStr ''mncs-promotion-boundary''"
  using assms
  by (induction ps arbitrary: us) (auto simp: rbind_eq_Inr promotion_result_def)

lemma offered_promotion:
  assumes "offers_grouped named gv ''promotes'' r" and "gv \<in> set (grouped_references ss ps cs qs)"
  shows "\<exists>d. JObj d \<in> set qs \<and> normalize_producer_reference d = Inr r"
  using assms by (cases gv; cases "snd gv") (auto simp: offers_grouped_def grouped_references_def)

text \<open>
  A change set carries only evidence about the revisions it names: a reference scoped to a
  repository or a commit names one of the pinned revisions. There is one relationship per
  entry and no other, at most one promotion result, and that one comes from the promotion
  boundary.
\<close>

theorem changeset_bound_to_revisions:
  assumes "make_changeset_record cid created bases supports pressure contradicts promotes summary producer = Inr rec"
  shows "\<exists>pinned entries.
    dget (obj_of (dget rec ''details'')) ''baseRevisions'' = JArr (map revision_json pinned) \<and>
    dget (obj_of (dget rec ''details'')) ''references'' = JArr (map changeset_entry_json entries) \<and>
    (\<forall>kind target. relates rec kind target \<longleftrightarrow> (\<exists>e \<in> set entries. kind = changeset_edge (fst e) \<and> target = stable_id (snd e))) \<and>
    (\<forall>g r s. (g, r) \<in> set entries \<and> dget r ''scope'' = JObj s \<and> (dget s ''repository'' \<noteq> JNull \<or> dget s ''commit'' \<noteq> JNull) \<longrightarrow>
       (\<exists>rc \<in> set pinned. dget s ''repository'' = JStr (fst rc) \<and> dget s ''commit'' = JStr (snd rc))) \<and>
    (\<forall>r r'. (''promotes'', r) \<in> set entries \<and> (''promotes'', r') \<in> set entries \<longrightarrow> r = r') \<and>
    (\<forall>r. (''promotes'', r) \<in> set entries \<longrightarrow>
       dget r ''recordKind'' = JStr ''check-result'' \<and> dget r ''producer'' = JStr ''mncs-promotion-boundary'')"
proof -
  from assms obtain pinned acc where
    run: "rfoldM (changeset_step pinned) empty_acc (grouped_references supports pressure contradicts promotes) = Inr acc"
    and one: "length promotes \<le> 1" and ok: "\<exists>us. rmapM promotion_result promotes = Inr us"
    and rel: "dget rec ''relationships'' = JArr (map edge_json (sort (a_edges acc)))"
    and fields: "dget (obj_of (dget rec ''details'')) ''baseRevisions'' = JArr (map revision_json pinned)"
      "dget (obj_of (dget rec ''details'')) ''references'' =
       JArr (map changeset_entry_json (sort_key entry_key (a_entries acc)))"
    by (rule changeset_Inr)
  let ?es = "sort_key entry_key (a_entries acc)"
  have edges: "a_edges acc = map (\<lambda>e. (changeset_edge (fst e), stable_id (snd e))) (a_entries acc)"
    using changeset_loop.loop_ok [OF run empty_acc_ok] by (simp add: acc_ok_def)
  have from_group: "\<exists>gv \<in> set (grouped_references supports pressure contradicts promotes). offers_grouped pinned gv g r"
    if "(g, r) \<in> set ?es" for g r
    using changeset_loop.loop_sound [OF run, of "(g, r)"] that by simp
  have promo: "\<exists>d. JObj d \<in> set promotes \<and> normalize_producer_reference d = Inr r" if "(''promotes'', r) \<in> set ?es" for r
    using from_group [OF that] offered_promotion by blast
  have single: "x = y" if "x \<in> set promotes" "y \<in> set promotes" for x y
    using one that by (cases promotes) auto
  have "relates rec kind target \<longleftrightarrow> (\<exists>e \<in> set ?es. kind = changeset_edge (fst e) \<and> target = stable_id (snd e))" for kind target
    unfolding relates_edges [OF rel] set_sort edges by force
  moreover have "\<exists>rc \<in> set pinned. dget s ''repository'' = JStr (fst rc) \<and> dget s ''commit'' = JStr (snd rc)"
    if "(g, r) \<in> set ?es" "dget r ''scope'' = JObj s" "dget s ''repository'' \<noteq> JNull \<or> dget s ''commit'' \<noteq> JNull" for g r s
    using from_group [OF that(1)] that(2,3) scope_named by (auto simp: offers_grouped_def)
  moreover have "r = r'" if "(''promotes'', r) \<in> set ?es" "(''promotes'', r') \<in> set ?es" for r r'
    using promo [OF that(1)] promo [OF that(2)] single by fastforce
  moreover have "dget r ''recordKind'' = JStr ''check-result'' \<and> dget r ''producer'' = JStr ''mncs-promotion-boundary''"
    if "(''promotes'', r) \<in> set ?es" for r
    using promo [OF that] ok promotion_origin by blast
  ultimately show ?thesis
    using fields by (intro exI [of _ pinned] exI [of _ ?es]) blast
qed


lemma normalizable_all_normal: "normalizable rs = Inr ns \<Longrightarrow> list_all normal_reference ns"
  by (auto simp: normalizable_eq normal_reference_def list_all_iff split: sum.splits) (metis normalize_idem)

text \<open>
  Reading the references of a record whose reference fields are lists or absent always
  succeeds: a malformed reference is skipped, and what is returned is normalised.
\<close>

theorem extraction_never_raises:
  assumes "\<And>k. k \<in> {''references'', ''actors'', ''evidenceReferences''} \<Longrightarrow>
      is_arr (dget (obj_of (dget rec ''details'')) k) \<or> dget (obj_of (dget rec ''details'')) k = JNull"
  shows "\<exists>rs. producer_references rec = Inr rs \<and> (\<forall>r \<in> set rs. normalize_producer_reference r = Inr r)"
proof (cases "dget rec ''details''")
  case (JObj d)
  have "\<exists>xs. or_empty (dget d k) = Inr xs" if "k \<in> {''references'', ''actors'', ''evidenceReferences''}" for k
    using assms [OF that] JObj by (cases "dget d k") auto
  from this [of "''references''"] this [of "''actors''"] this [of "''evidenceReferences''"]
  obtain xs ys zs where "or_empty (dget d ''references'') = Inr xs" "or_empty (dget d ''actors'') = Inr ys"
    "or_empty (dget d ''evidenceReferences'') = Inr zs" by auto
  then have "\<exists>rs. producer_references rec = normalizable rs" using JObj by (auto simp: producer_references_def)
  then obtain ns where "producer_references rec = Inr ns" "\<exists>rs. normalizable rs = Inr ns"
    by (metis normalizable_eq)
  then show ?thesis using normalizable_all_normal by (auto simp: list_all_iff normal_reference_def)
qed (simp_all add: producer_references_def)

section \<open>Witnesses\<close>

lemma health_instant_timestamp:
  assumes "normalize_health_instant s = Inr w" and "py_strip s = s" shows "timestamp s = Inr s"
  using assms by (auto simp: normalize_health_instant_def parse_health_instant_def timestamp_def rbind_eq_Inr
      split: option.splits if_splits)

definition sample_reference :: dict where
  "sample_reference =
     [(''producer'', JStr ''mncs-promotion-boundary''), (''recordKind'', JStr ''check-result''),
      (''schemaVersion'', JStr ''1''), (''stableId'', JStr ''r1''),
      (''scope'', JObj [(''repository'', JStr ''atlas''), (''commit'', JStr (replicate 40 CHR ''a''))])]"

lemma family_text_plain:
  "list_all (\<lambda>c. \<not> is_space c \<and> c \<noteq> CHR 0x00) s \<Longrightarrow> s \<noteq> [] \<Longrightarrow> length s \<le> n \<Longrightarrow> family_text (JStr s) f n = Inr s"
  using py_strip_no_space [of s] by (auto simp: family_text_def list_all_iff)

lemma sample_reference_ok: "\<exists>r. normalize_producer_reference sample_reference = Inr r"
  by (simp add: normalize_producer_reference_def sample_reference_def unknown_fields_def reference_fields_def
      sorted_set_def guard_def family_text_plain reference_digest_def reference_artifact_def reference_scope_def
      is_space_def of_char_def)

theorem reference_normal_form_witness:
  "\<exists>r. normalize_producer_reference sample_reference = Inr r \<and> reference_identity r = reference_identity sample_reference"
proof -
  obtain r where r: "normalize_producer_reference sample_reference = Inr r" using sample_reference_ok by blast
  from reference_normal_form [OF r] r show ?thesis by blast
qed

lemma sample_timestamp: "timestamp ''2026-01-02T03:04:05Z'' = Inr ''2026-01-02T03:04:05Z''"
  using health_instant_timestamp [OF sample_instant] by (simp add: py_strip_def is_space_def of_char_def)

abbreviation sample_replication :: "string \<Rightarrow> dict list \<Rightarrow> dict res" where
  "sample_replication outcome refs \<equiv>
     make_replication_record ''rep1'' ''2026-01-02T03:04:05Z'' ''exp1'' outcome (JObj []) refs ''tried'' ''lab''"

lemma sample_replication_ok:
  "\<exists>rec. sample_replication ''UNKNOWN'' [] = Inr rec"
  by (simp add: make_replication_record_def family_text_plain sample_timestamp guard_def reference_entries_def
      empty_acc_def is_space_def of_char_def)

lemma sample_cited_replication_ok:
  "\<exists>rec. sample_replication ''PASS'' [[(''relation'', JStr ''execution''), (''reference'', JObj sample_reference)]] = Inr rec"
proof -
  obtain r where r: "normalize_producer_reference sample_reference = Inr r" using sample_reference_ok by blast
  then have "\<exists>es. reference_entries [[(''relation'', JStr ''execution''), (''reference'', JObj sample_reference)]] = Inr es"
    by (simp add: reference_entries_def reference_step_def family_text_plain guard_def REFERENCE_RELATIONS_def
        is_space_def of_char_def)
  then show ?thesis
    by (auto simp: make_replication_record_def family_text_plain sample_timestamp guard_def is_space_def of_char_def
        split: prod.splits)
qed

theorem replication_claims_outcome_witness:
  "\<exists>rec. sample_replication ''UNKNOWN'' [] = Inr rec \<and> (\<forall>t. \<not> relates rec ''replicates'' t \<and> \<not> relates rec ''failed_to_replicate'' t)"
proof -
  obtain rec where rec: "sample_replication ''UNKNOWN'' [] = Inr rec" using sample_replication_ok by blast
  from replication_claims_outcome [OF rec] rec show ?thesis by auto
qed

theorem references_survive_witness:
  "\<exists>rec rs. sample_replication ''PASS'' [[(''relation'', JStr ''execution''), (''reference'', JObj sample_reference)]] = Inr rec \<and>
     producer_references rec = Inr rs"
proof -
  obtain rec where rec: "sample_replication ''PASS'' [[(''relation'', JStr ''execution''), (''reference'', JObj sample_reference)]] = Inr rec"
    using sample_cited_replication_ok by blast
  from references_survive [OF rec] rec show ?thesis by blast
qed

abbreviation sample_changeset :: "dict res" where
  "sample_changeset \<equiv>
     make_changeset_record ''c1'' ''2026-01-02T03:04:05Z''
       [JObj [(''repository'', JStr ''atlas''), (''commit'', JStr (replicate 40 CHR ''a''))]]
       [] [] [] [JObj sample_reference] ''one'' ''commons''"

lemma sample_promotion:
  assumes "normalize_producer_reference sample_reference = Inr r"
  shows "dget r ''recordKind'' = JStr ''check-result''" "dget r ''producer'' = JStr ''mncs-promotion-boundary''"
    "dget r ''scope'' = JObj [(''repository'', JStr ''atlas''), (''commit'', JStr (replicate 40 CHR ''a''))]"
  using assms
  by (auto simp: normalize_producer_reference_def sample_reference_def unknown_fields_def reference_fields_def
      sorted_set_def guard_def family_text_plain reference_digest_def reference_artifact_def reference_scope_def
      is_space_def of_char_def)

lemma sample_changeset_ok: "\<exists>rec. sample_changeset = Inr rec"
proof -
  obtain r where r: "normalize_producer_reference sample_reference = Inr r" using sample_reference_ok by blast
  have commit: "is_commit (replicate 40 CHR ''a'')" by (simp add: is_commit_def is_hex_def list_all_iff)
  have plain: "family_text (JStr (replicate 40 CHR ''a'')) f 64 = Inr (replicate 40 CHR ''a'')" for f
    by (rule family_text_plain) (simp_all add: list_all_iff is_space_def of_char_def)
  have "check_reference_scope r [(''atlas'', replicate 40 CHR ''a'')] g = Inr ()" for g
    using sample_promotion [OF r] commit by (simp add: check_reference_scope_def guard_def)
  then show ?thesis
    using r sample_promotion [OF r] commit plain
    by (simp add: make_changeset_record_def family_text_plain sample_timestamp guard_def base_revision_def
        promotion_result_def grouped_references_def changeset_step_def is_space_def of_char_def Let_def del: replicate.simps)
qed

theorem changeset_bound_to_revisions_witness:
  "\<exists>rec pinned. sample_changeset = Inr rec \<and>
     dget (obj_of (dget rec ''details'')) ''baseRevisions'' = JArr (map revision_json pinned)"
proof -
  obtain rec where rec: "sample_changeset = Inr rec" using sample_changeset_ok by blast
  from changeset_bound_to_revisions [OF rec] rec show ?thesis by blast
qed

theorem extraction_never_raises_witness:
  "\<exists>rs. producer_references [(''details'', JObj [(''references'', JArr [JNull])])] = Inr rs"
proof -
  let ?rec = "[(''details'', JObj [(''references'', JArr [JNull])])]"
  have "\<exists>rs. producer_references ?rec = Inr rs \<and> (\<forall>r \<in> set rs. normalize_producer_reference r = Inr r)"
    by (rule extraction_never_raises) auto
  then show ?thesis by blast
qed

end
