(* ===== verification/Semantic.thy ===== *)
theory Semantic
  imports Work_Protocol Family_Record
begin

text \<open>
  The checks that need the history of the store (semantic.py): a changed logical record must be
  the next revision, a stable producer identity keeps its binding, a record does not relate to
  itself, and the relations of precedence stay acyclic.
\<close>

section \<open>Identities and edges\<close>

definition logical_or :: "dict \<Rightarrow> string \<Rightarrow> string" where
  "logical_or rec fallback =
     (case dget rec ''metadata'' of
        JObj m \<Rightarrow> if truthy (dget m ''recordId'') then py_str (dget m ''recordId'') else fallback
      | _ \<Rightarrow> fallback)"

definition identity_of :: "dict \<Rightarrow> string" where
  "identity_of rec = (case dget rec ''contentDigest'' of JStr d \<Rightarrow> d | _ \<Rightarrow> logical_or rec [])"

definition logical_id :: "dict \<Rightarrow> string" where
  "logical_id rec = logical_or rec (identity_of rec)"

text \<open>The dictionary \<open>known\<close>: later entries replace earlier ones.\<close>

fun known_nodes :: "dict list \<Rightarrow> (string \<times> string) list \<Rightarrow> (string \<times> string) list" where
  "known_nodes [] known = known"
| "known_nodes (rec # recs) known =
     (let node = identity_of rec
      in known_nodes recs (AList.update (logical_id rec) node (AList.update node node known)))"

text \<open>The edges of one record; an entry of the list that is not an object is skipped.\<close>

fun precedence_targets :: "(string \<times> string) list \<Rightarrow> json list \<Rightarrow> string list res" where
  "precedence_targets known [] = Inr []"
| "precedence_targets known (JObj relation # rs) =
     rbind (in_set (dget relation ''type'') [''supersedes'', ''depends_on'']) (\<lambda>kept.
     rbind (precedence_targets known rs) (\<lambda>ts.
       Inr (if kept
            then (case map_of known (py_str (dget relation ''target'')) of Some t \<Rightarrow> t # ts | None \<Rightarrow> ts)
            else ts)))"
| "precedence_targets known (_ # rs) = precedence_targets known rs"

type_synonym edges = "(string \<times> string list) list"

definition targets :: "edges \<Rightarrow> string \<Rightarrow> string list" where
  "targets edges node = (case map_of edges node of None \<Rightarrow> [] | Some ts \<Rightarrow> ts)"

text \<open>\<open>edges.setdefault(source, set()).add(target)\<close> for every target.\<close>

definition add_targets :: "string \<Rightarrow> string list \<Rightarrow> edges \<Rightarrow> edges" where
  "add_targets source ts edges =
     (if ts = [] then edges else AList.update source (remdups (targets edges source @ ts)) edges)"

definition record_edges :: "(string \<times> string) list \<Rightarrow> edges \<Rightarrow> dict \<Rightarrow> edges res" where
  "record_edges known edges rec =
     rbind (py_iter (dget_default rec ''relationships'' (JArr []))) (\<lambda>relations.
     rbind (precedence_targets known relations) (\<lambda>ts.
       Inr (add_targets (identity_of rec) ts edges)))"

definition relation_edges :: "dict list \<Rightarrow> edges res" where
  "relation_edges recs = rfoldM (record_edges (known_nodes recs [])) [] recs"

section \<open>The search for a cycle\<close>

text \<open>
  \<open>visit\<close> returns the visited nodes, or \<open>None\<close> when it has found a cycle. The set \<open>visiting\<close> is
  passed down: a call that finds no cycle removes what it added, and a call that finds one ends
  the search. The order of a set of targets does not matter to the answer, which
  \<open>has_cycle_iff\<close> states without it.
\<close>

definition graph_nodes :: "edges \<Rightarrow> string set" where
  "graph_nodes edges = set (map fst edges)"

lemma targets_outside: "node \<notin> graph_nodes edges \<Longrightarrow> targets edges node = []"
  by (auto simp: graph_nodes_def targets_def map_of_eq_None_iff [symmetric] split: option.splits)

lemma fewer_unvisited:
  assumes "node \<notin> set visiting" and "node \<in> graph_nodes edges"
  shows "card (graph_nodes edges - set (node # visiting)) < card (graph_nodes edges - set visiting)"
  using assms by (intro psubset_card_mono) (auto simp: graph_nodes_def)

text \<open>
  The search ends: a call below a node has one node fewer to enter, and a node without outgoing
  edges has no targets to try.
\<close>

function (sequential) visit :: "edges \<Rightarrow> string \<Rightarrow> string list \<Rightarrow> string list \<Rightarrow> string list option"
  and visit_any :: "edges \<Rightarrow> string list \<Rightarrow> string list \<Rightarrow> string list \<Rightarrow> string list option" where
  "visit edges node visiting visited =
     (if node \<in> set visiting then None
      else if node \<in> set visited then Some visited
      else
        (case visit_any edges (targets edges node) (node # visiting) visited of
           None \<Rightarrow> None
         | Some visited' \<Rightarrow> Some (node # visited')))"
| "visit_any edges [] visiting visited = Some visited"
| "visit_any edges (t # ts) visiting visited =
     (case visit edges t visiting visited of
        None \<Rightarrow> None
      | Some visited' \<Rightarrow> visit_any edges ts visiting visited')"
  by pat_completeness auto

termination
proof (relation "measures
    [\<lambda>x. case x of Inl (edges, node, visiting, visited) \<Rightarrow> card (graph_nodes edges - set visiting)
                 | Inr (edges, ts, visiting, visited) \<Rightarrow> card (graph_nodes edges - set visiting),
     \<lambda>x. case x of Inl _ \<Rightarrow> 1 | Inr (edges, ts, visiting, visited) \<Rightarrow> 2 * length ts]")
  fix edges :: edges and node :: string and visiting visited :: "string list"
  assume "node \<notin> set visiting" "node \<notin> set visited"
  then show "(Inr (edges, targets edges node, node # visiting, visited), Inl (edges, node, visiting, visited))
      \<in> measures [\<lambda>x. case x of Inl (edges, node, visiting, visited) \<Rightarrow> card (graph_nodes edges - set visiting)
                 | Inr (edges, ts, visiting, visited) \<Rightarrow> card (graph_nodes edges - set visiting),
     \<lambda>x. case x of Inl _ \<Rightarrow> 1 | Inr (edges, ts, visiting, visited) \<Rightarrow> 2 * length ts]"
    using fewer_unvisited [of node visiting edges] targets_outside [of node edges]
    by (cases "node \<in> graph_nodes edges") (auto simp: Diff_insert0)
qed auto

declare visit.simps [simp del]

definition has_cycle :: "edges \<Rightarrow> bool" where
  "has_cycle edges = (visit_any edges (map fst edges) [] [] = None)"

section \<open>Bindings of producer identities\<close>

record binding =
  b_producer :: string
  b_recordKind :: string
  b_schemaVersion :: string
  b_contentDigest :: json

definition reference_binding :: "dict \<Rightarrow> binding" where
  "reference_binding r =
     \<lparr>b_producer = str_of (dget r ''producer''), b_recordKind = str_of (dget r ''recordKind''),
      b_schemaVersion = str_of (dget r ''schemaVersion''), b_contentDigest = dget r ''contentDigest''\<rparr>"

definition setdefault :: "'k \<Rightarrow> 'v \<Rightarrow> ('k \<times> 'v) list \<Rightarrow> ('k \<times> 'v) list" where
  "setdefault k v d = (if map_of d k = None then d @ [(k, v)] else d)"

definition bind_reference :: "(string \<times> binding) list \<Rightarrow> dict \<Rightarrow> (string \<times> binding) list" where
  "bind_reference bindings r = setdefault (stable_id r) (reference_binding r) bindings"

definition record_bindings :: "dict list \<Rightarrow> (string \<times> binding) list res" where
  "record_bindings recs =
     rfoldM (\<lambda>bindings rec. rbind (producer_references rec) (\<lambda>rs. Inr (foldl bind_reference bindings rs))) [] recs"

definition same_producer :: "binding \<Rightarrow> binding \<Rightarrow> bool" where
  "same_producer b c = 
     (b_producer b = b_producer c \<and> b_recordKind b = b_recordKind c \<and> b_schemaVersion b = b_schemaVersion c)"

definition same_digest :: "binding \<Rightarrow> binding \<Rightarrow> bool" where
  "same_digest b c =
     (let d = b_contentDigest b; e = b_contentDigest c in truthy d \<longrightarrow> truthy e \<longrightarrow> py_eq d e)"

fun reference_conflicts :: "nat \<Rightarrow> (string \<times> binding) list \<Rightarrow> dict list \<Rightarrow> diagnostic list" where
  "reference_conflicts i bindings [] = []"
| "reference_conflicts i bindings (r # rs) =
     (let at = ''details.producerReferences['' @ nat_str i @ '']''; current = reference_binding r
      in case map_of bindings (stable_id r) of
           Some prior \<Rightarrow>
             (if \<not> same_producer prior current
              then [Diagnostic ''PRODUCER_REFERENCE_CONFLICT'' at
                      ''stable producer identity is already bound to different producer metadata'']
              else if \<not> same_digest prior current
              then [Diagnostic ''PRODUCER_DIGEST_CONFLICT'' at
                      ''stable producer identity is already bound to a different content digest'']
              else []) @ reference_conflicts (i + 1) bindings rs
         | None \<Rightarrow> reference_conflicts (i + 1) (bind_reference bindings r) rs)"

section \<open>The diagnostics of a candidate\<close>

definition opt_get :: "json \<Rightarrow> string \<Rightarrow> json" where
  "opt_get v k = (case v of JObj d \<Rightarrow> dget d k | _ \<Rightarrow> JNull)"

definition revision_diagnostics :: "dict \<Rightarrow> dict list \<Rightarrow> diagnostic list res" where
  "revision_diagnostics candidate same_id =
     (if same_id = [] then Inr []
      else
        rbind (latest_revision same_id) (\<lambda>latest.
        rbind (record_revision 1 latest) (\<lambda>n.
        let metadata = dget_default candidate ''metadata'' (JObj []) in
          Inr (if \<not> py_eq (opt_get metadata ''revision'') (JInt (n + 1)) \<or>
                  opt_get metadata ''previousDigest'' \<noteq> JStr (identity_of latest)
               then [Diagnostic ''REVISION_REQUIRED'' ''metadata''
                       ''a changed logical record requires the next revision and previousDigest'']
               else []))))"

definition is_self :: "dict \<Rightarrow> string \<Rightarrow> bool" where
  "is_self candidate target = (target = identity_of candidate \<or> target = logical_id candidate)"

definition self_relations :: "dict \<Rightarrow> diagnostic list res" where
  "self_relations candidate =
     rbind (py_iter (dget_default candidate ''relationships'' (JArr []))) (\<lambda>relations.
       Inr (concat (map (\<lambda>(i, relation).
              if is_obj relation \<and> is_self candidate (py_str (dget_default (obj_of relation) ''target'' (JStr [])))
              then [Diagnostic ''SELF_RELATION'' (''relationships['' @ nat_str i @ '']'')
                      ''relation target is the record itself'']
              else []) (enumerate 0 relations))))"

definition self_replication :: "dict \<Rightarrow> diagnostic list" where
  "self_replication candidate =
     (if dget candidate ''kind'' = JStr ''Replication'' \<and> is_obj (dget candidate ''details'') \<and>
         is_self candidate (py_str (dget (obj_of (dget candidate ''details'')) ''targetRecord''))
      then [Diagnostic ''SELF_REPLICATION'' ''details.targetRecord'' ''a replication cannot target itself'']
      else [])"

definition cycle_diagnostics :: "dict list \<Rightarrow> diagnostic list res" where
  "cycle_diagnostics all_records =
     rbind (relation_edges all_records) (\<lambda>edges.
       Inr (if has_cycle edges
            then [Diagnostic ''RELATION_CYCLE'' ''relationships''
                    ''supersedes and depends_on relationships must remain acyclic'']
            else []))"

definition record_semantic_diagnostics :: "dict \<Rightarrow> dict list \<Rightarrow> diagnostic list res" where
  "record_semantic_diagnostics candidate recs =
     (let same_id = filter (\<lambda>item. logical_id item = logical_id candidate) recs
      in if list_ex (\<lambda>item. identity_of item = identity_of candidate) same_id then Inr []
         else
           rconcat
             [revision_diagnostics candidate same_id,
              work_semantic_diagnostics candidate same_id,
              rbind (record_bindings recs) (\<lambda>bindings.
              rbind (producer_references candidate) (\<lambda>rs. Inr (reference_conflicts 0 bindings rs))),
              self_relations candidate,
              Inr (self_replication candidate),
              cycle_diagnostics (recs @ [candidate])])"

section \<open>Correctness of the search\<close>

definition edge_rel :: "edges \<Rightarrow> (string \<times> string) set" where
  "edge_rel edges = {(a, b). b \<in> set (targets edges a)}"

lemma visit_finds_cycle:
  "visit edges node visiting visited = None \<Longrightarrow> (\<forall>v \<in> set visiting. (v, node) \<in> (edge_rel edges)\<^sup>+) \<Longrightarrow>
     \<exists>n. (n, n) \<in> (edge_rel edges)\<^sup>+"
  "visit_any edges ts visiting visited = None \<Longrightarrow> (\<forall>v \<in> set visiting. \<forall>t \<in> set ts. (v, t) \<in> (edge_rel edges)\<^sup>+) \<Longrightarrow>
     \<exists>n. (n, n) \<in> (edge_rel edges)\<^sup>+"
proof (induction edges node visiting visited and edges ts visiting visited rule: visit_visit_any.induct)
  case (1 edges node visiting visited)
  show ?case
  proof (cases "node \<in> set visiting")
    case True
    then show ?thesis using 1(3) by blast
  next
    case False
    then have new: "node \<notin> set visited" and rec: "visit_any edges (targets edges node) (node # visiting) visited = None"
      using 1(2) by (auto simp: visit.simps [of edges node] split: if_splits option.splits)
    have "(v, t) \<in> (edge_rel edges)\<^sup>+" if "v \<in> set (node # visiting)" "t \<in> set (targets edges node)" for v t
    proof -
      have e: "(node, t) \<in> edge_rel edges" using that(2) by (simp add: edge_rel_def)
      then show ?thesis using that(1) 1(3) by (auto intro: trancl.intros)
    qed
    then show ?thesis using 1(1) [OF False new rec] by blast
  qed
qed (auto split: option.splits)

text \<open>What a search leaves behind: its nodes are closed under edges and lie on no cycle.\<close>

definition searched :: "edges \<Rightarrow> string set \<Rightarrow> bool" where
  "searched edges V = (edge_rel edges `` V \<subseteq> V \<and> (\<forall>a \<in> V. (a, a) \<notin> (edge_rel edges)\<^sup>+))"

lemma closed_trancl: "R `` V \<subseteq> V \<Longrightarrow> (a, b) \<in> R\<^sup>+ \<Longrightarrow> a \<in> V \<Longrightarrow> b \<in> V"
  by (erule trancl_induct) auto

lemma searched_insert:
  assumes "searched edges V" and "set (targets edges node) \<subseteq> V" and "node \<notin> V"
  shows "searched edges (insert node V)"
proof -
  have "(node, node) \<notin> (edge_rel edges)\<^sup>+"
  proof
    assume "(node, node) \<in> (edge_rel edges)\<^sup>+"
    then obtain t where t: "(node, t) \<in> edge_rel edges" "(t, node) \<in> (edge_rel edges)\<^sup>*"
      by (auto dest: tranclD)
    have "t \<in> V" using t(1) assms(2) by (auto simp: edge_rel_def)
    moreover have "t \<noteq> node" using calculation assms(3) by blast
    ultimately have "node \<in> V"
      using t(2) assms(1) closed_trancl [of "edge_rel edges" V t node] by (auto simp: searched_def rtrancl_eq_or_trancl)
    with assms(3) show False by blast
  qed
  with assms show ?thesis by (auto simp: searched_def edge_rel_def)
qed

lemma visit_searches:
  "visit edges node visiting visited = Some visited' \<Longrightarrow> searched edges (set visited) \<Longrightarrow> set visiting \<inter> set visited = {} \<Longrightarrow>
     searched edges (set visited') \<and> set visiting \<inter> set visited' = {} \<and> insert node (set visited) \<subseteq> set visited'"
  "visit_any edges ts visiting visited = Some visited' \<Longrightarrow> searched edges (set visited) \<Longrightarrow> set visiting \<inter> set visited = {} \<Longrightarrow>
     searched edges (set visited') \<and> set visiting \<inter> set visited' = {} \<and> set ts \<union> set visited \<subseteq> set visited'"
proof (induction edges node visiting visited and edges ts visiting visited arbitrary: visited' and visited'
    rule: visit_visit_any.induct)
  case (1 edges node visiting visited)
  have v: "node \<notin> set visiting" using 1(2) by (auto simp: visit.simps [of edges node])
  show ?case
  proof (cases "node \<in> set visited")
    case True
    then show ?thesis using 1(2-4) v by (auto simp: visit.simps [of edges node])
  next
    case False
    then obtain w where w: "visit_any edges (targets edges node) (node # visiting) visited = Some w"
      and vis: "visited' = node # w"
      using 1(2) v by (auto simp: visit.simps [of edges node] split: option.splits)
    have "set (node # visiting) \<inter> set visited = {}" using 1(4) False by auto
    from 1(1) [OF v False w 1(3) this]
    have "searched edges (set w)" "set (node # visiting) \<inter> set w = {}" "set (targets edges node) \<union> set visited \<subseteq> set w"
      by blast+
    then show ?thesis using searched_insert [of edges "set w" node] v by (auto simp: vis)
  qed
next
  case (3 edges t ts visiting visited)
  from 3(3) obtain w where w: "visit edges t visiting visited = Some w" "visit_any edges ts visiting w = Some visited'"
    by (auto split: option.splits)
  from 3(1) [OF w(1) 3(4,5)] 3(2) [OF w(1) w(2)] show ?case by auto
qed simp

text \<open>
  C14. The search finds a cycle exactly when the relation of the edges has one. It always returns,
  and its answer does not depend on the order in which targets are tried.
\<close>

theorem has_cycle_iff: "has_cycle edges \<longleftrightarrow> (\<exists>n. (n, n) \<in> (edge_rel edges)\<^sup>+)"
proof (cases "visit_any edges (map fst edges) [] []")
  case None
  then show ?thesis using visit_finds_cycle(2) [OF None] by (simp add: has_cycle_def)
next
  case (Some V)
  then have V: "searched edges (set V)" "set (map fst edges) \<subseteq> set V"
    using visit_searches(2) [OF Some] by (auto simp: searched_def)
  have "(n, n) \<notin> (edge_rel edges)\<^sup>+" for n
  proof
    assume n: "(n, n) \<in> (edge_rel edges)\<^sup>+"
    then obtain t where "(n, t) \<in> edge_rel edges" by (auto dest: tranclD)
    then have "n \<in> graph_nodes edges" using targets_outside [of n edges] by (fastforce simp: edge_rel_def)
    then show False using n V by (auto simp: searched_def graph_nodes_def)
  qed
  then show ?thesis using Some by (simp add: has_cycle_def)
qed

section \<open>The relation between records\<close>

definition precedes :: "dict list \<Rightarrow> string \<Rightarrow> string \<Rightarrow> bool" where
  "precedes recs a b =
     (\<exists>rec \<in> set recs. identity_of rec = a \<and>
        (\<exists>rs relation. py_iter (dget_default rec ''relationships'' (JArr [])) = Inr rs \<and> JObj relation \<in> set rs \<and>
           dget relation ''type'' \<in> {JStr ''supersedes'', JStr ''depends_on''} \<and>
           map_of (known_nodes recs []) (py_str (dget relation ''target'')) = Some b))"

lemma precedence_targets_set:
  "precedence_targets known rs = Inr ts \<Longrightarrow>
   b \<in> set ts \<longleftrightarrow> (\<exists>relation. JObj relation \<in> set rs \<and> dget relation ''type'' \<in> {JStr ''supersedes'', JStr ''depends_on''} \<and>
     map_of known (py_str (dget relation ''target'')) = Some b)"
proof (induction known rs arbitrary: ts rule: precedence_targets.induct)
  case (2 known relation rs)
  then obtain kept us where k: "in_set (dget relation ''type'') [''supersedes'', ''depends_on''] = Inr kept"
    and us: "precedence_targets known rs = Inr us"
    and ts: "ts = (if kept then (case map_of known (py_str (dget relation ''target'')) of Some t \<Rightarrow> t # us | None \<Rightarrow> us) else us)"
    by (auto simp: rbind_eq_Inr)
  have "kept \<longleftrightarrow> dget relation ''type'' \<in> {JStr ''supersedes'', JStr ''depends_on''}"
    using k by (cases "dget relation ''type''") (auto simp: in_set_def)
  then show ?case using 2(1) [OF us] ts by (auto split: option.splits)
qed auto

lemma targets_add:
  "b \<in> set (targets (add_targets s ts edges) a) \<longleftrightarrow> b \<in> set (targets edges a) \<or> a = s \<and> b \<in> set ts"
  by (auto simp: add_targets_def targets_def update_conv split: option.splits)

lemma record_edges_rel:
  assumes "rfoldM (record_edges known) edges recs = Inr edges'"
  shows "(a, b) \<in> edge_rel edges' \<longleftrightarrow> (a, b) \<in> edge_rel edges \<or>
    (\<exists>rec \<in> set recs. identity_of rec = a \<and>
        (\<exists>rs relation. py_iter (dget_default rec ''relationships'' (JArr [])) = Inr rs \<and> JObj relation \<in> set rs \<and>
           dget relation ''type'' \<in> {JStr ''supersedes'', JStr ''depends_on''} \<and>
           map_of known (py_str (dget relation ''target'')) = Some b))"
  using assms
proof (induction recs arbitrary: edges)
  case (Cons rec recs)
  from Cons.prems obtain s where s: "record_edges known edges rec = Inr s" and run: "rfoldM (record_edges known) s recs = Inr edges'"
    by (auto simp: rbind_eq_Inr)
  from s obtain rs ts where rs: "py_iter (dget_default rec ''relationships'' (JArr [])) = Inr rs"
    and ts: "precedence_targets known rs = Inr ts" and st: "s = add_targets (identity_of rec) ts edges"
    by (auto simp: record_edges_def rbind_eq_Inr)
  have rest: "rfoldM (record_edges known) (add_targets (identity_of rec) ts edges) recs = Inr edges'" using run st by simp
  have "(a, b) \<in> edge_rel (add_targets (identity_of rec) ts edges) \<longleftrightarrow>
      (a, b) \<in> edge_rel edges \<or> a = identity_of rec \<and> b \<in> set ts"
    by (simp add: edge_rel_def targets_add)
  with Cons.IH [OF rest] precedence_targets_set [OF ts, of b] rs show ?case by auto
qed simp

lemma relation_edges_rel:
  "relation_edges recs = Inr edges \<Longrightarrow> edge_rel edges = {(a, b). precedes recs a b}"
  using record_edges_rel [of "known_nodes recs []" "[]" recs edges]
  by (auto simp: relation_edges_def precedes_def edge_rel_def targets_def)

lemma accepted_parts:
  assumes "record_semantic_diagnostics candidate recs = Inr []"
    and "\<not> (\<exists>item \<in> set recs. logical_id item = logical_id candidate \<and> identity_of item = identity_of candidate)"
  shows "revision_diagnostics candidate (filter (\<lambda>item. logical_id item = logical_id candidate) recs) = Inr []"
    "rbind (record_bindings recs) (\<lambda>bindings. rbind (producer_references candidate) (\<lambda>rs.
        Inr (reference_conflicts 0 bindings rs))) = Inr []"
    "self_relations candidate = Inr []" "self_replication candidate = []"
    "cycle_diagnostics (recs @ [candidate]) = Inr []"
proof -
  have "\<not> list_ex (\<lambda>item. identity_of item = identity_of candidate) (filter (\<lambda>item. logical_id item = logical_id candidate) recs)"
    using assms(2) by (auto simp: list_ex_iff)
  then show "revision_diagnostics candidate (filter (\<lambda>item. logical_id item = logical_id candidate) recs) = Inr []"
    "rbind (record_bindings recs) (\<lambda>bindings. rbind (producer_references candidate) (\<lambda>rs.
        Inr (reference_conflicts 0 bindings rs))) = Inr []"
    "self_relations candidate = Inr []" "self_replication candidate = []"
    "cycle_diagnostics (recs @ [candidate]) = Inr []"
    using assms(1) unfolding record_semantic_diagnostics_def Let_def
    by (simp_all only: if_False rconcat_eq_Nil) simp_all
qed

text \<open>
  C15. A record that passes the semantic checks and is not stored yet keeps the precedence
  relation acyclic: no chain of supersedes and depends_on relations among the stored records
  and the new one leads back to its start.
\<close>

theorem accepted_relations_acyclic:
  assumes "record_semantic_diagnostics candidate recs = Inr []"
    and "\<not> (\<exists>item \<in> set recs. logical_id item = logical_id candidate \<and> identity_of item = identity_of candidate)"
  shows "acyclic {(a, b). precedes (recs @ [candidate]) a b}"
proof -
  obtain edges where e: "relation_edges (recs @ [candidate]) = Inr edges" "\<not> has_cycle edges"
    using accepted_parts(5) [OF assms] by (auto simp: cycle_diagnostics_def rbind_eq_Inr split: if_splits)
  then show ?thesis using relation_edges_rel [OF e(1)] by (auto simp: has_cycle_iff acyclic_def)
qed

section \<open>Revisions\<close>

lemma first_max_mem: "first_max xs best \<in> snd ` insert best (set xs)"
  by (induction xs arbitrary: best) fastforce+

lemma first_max_key:
  assumes "\<forall>x \<in> insert best (set xs). f (snd x) = Inr (fst x)"
  shows "\<exists>n. f (first_max xs best) = Inr n \<and> (\<forall>x \<in> insert best (set xs). fst x \<le> n)"
  using assms
proof (induction xs arbitrary: best)
  case (Cons x xs)
  from Cons.prems Cons.IH [of "if fst x > fst best then x else best"] show ?case by (fastforce split: if_splits)
qed simp

lemma latest_revision_Inr:
  assumes "latest_revision items = Inr latest" and "items \<noteq> []"
  shows "latest \<in> set items \<and> (\<exists>n. record_revision 1 latest = Inr n \<and>
    (\<forall>x \<in> set items. \<exists>k \<le> n. record_revision 1 x = Inr k))"
proof -
  obtain keyed where keyed: "rmapM (\<lambda>item. rbind (record_revision 1 item) (\<lambda>n. Inr (n, item))) items = Inr keyed"
    and l: "latest = first_max (tl keyed) (hd keyed)"
    using assms(1) by (auto simp: latest_revision_def rbind_eq_Inr)
  have items: "map snd keyed = items" using keyed by (induction items arbitrary: keyed) (auto simp: rbind_eq_Inr)
  then have ne: "insert (hd keyed) (set (tl keyed)) = set keyed" using assms(2) by (cases keyed) auto
  have k: "record_revision 1 (snd x) = Inr (fst x)" if "x \<in> set keyed" for x
    using rmapM_Inr_set [OF keyed that] by (auto simp: rbind_eq_Inr)
  obtain n where n: "record_revision 1 latest = Inr n" "\<forall>x \<in> set keyed. fst x \<le> n"
    using first_max_key [of "hd keyed" "tl keyed" "record_revision 1"] k unfolding ne l by blast
  have "\<exists>j \<le> n. record_revision 1 x = Inr j" if "x \<in> set items" for x
    using that k n(2) unfolding items [symmetric] by auto
  moreover have "latest \<in> set items"
    using first_max_mem [of "tl keyed" "hd keyed"] unfolding ne l items [symmetric] by simp
  ultimately show ?thesis using n(1) by blast
qed

text \<open>
  C16. A record accepted for a logical identity the store already holds is its next revision: its
  number is one more than the highest stored one, and it names the identity of the record that
  has that number.
\<close>

theorem accepted_next_revision:
  assumes "record_semantic_diagnostics candidate recs = Inr []"
    and "\<not> (\<exists>item \<in> set recs. logical_id item = logical_id candidate \<and> identity_of item = identity_of candidate)"
    and "prior \<in> set recs" and "logical_id prior = logical_id candidate"
  shows "\<exists>latest \<in> set recs. \<exists>n. logical_id latest = logical_id candidate \<and> record_revision 1 latest = Inr n \<and>
    (\<exists>k \<le> n. record_revision 1 prior = Inr k) \<and>
    py_eq (opt_get (dget_default candidate ''metadata'' (JObj [])) ''revision'') (JInt (n + 1)) \<and>
    opt_get (dget_default candidate ''metadata'' (JObj [])) ''previousDigest'' = JStr (identity_of latest)"
proof -
  let ?same = "filter (\<lambda>item. logical_id item = logical_id candidate) recs"
  have ne: "?same \<noteq> []" and p: "prior \<in> set ?same" using assms(3,4) by (auto simp: filter_empty_conv)
  obtain latest n where l: "latest_revision ?same = Inr latest" "record_revision 1 latest = Inr n"
    and c: "py_eq (opt_get (dget_default candidate ''metadata'' (JObj [])) ''revision'') (JInt (n + 1))"
      "opt_get (dget_default candidate ''metadata'' (JObj [])) ''previousDigest'' = JStr (identity_of latest)"
    using accepted_parts(1) [OF assms(1,2)] ne
    by (auto simp: revision_diagnostics_def rbind_eq_Inr Let_def split: if_splits)
  from latest_revision_Inr [OF l(1) ne] p l(2) c show ?thesis by fastforce
qed

section \<open>Bindings\<close>

definition identities_agree :: "dict list \<Rightarrow> bool" where
  "identities_agree recs =
     (\<forall>rec \<in> set recs. \<forall>rec' \<in> set recs. \<forall>rs rs'. \<forall>r r'.
        producer_references rec = Inr rs \<and> producer_references rec' = Inr rs' \<and> r \<in> set rs \<and> r' \<in> set rs' \<and>
        stable_id r = stable_id r' \<longrightarrow> same_producer (reference_binding r) (reference_binding r'))"

lemma map_of_setdefault:
  "map_of (setdefault k v d) k' = (if k' = k \<and> map_of d k = None then Some v else map_of d k')"
  by (auto simp: setdefault_def map_add_def split: option.splits)

lemma bind_reference_keeps: "map_of B k = Some b \<Longrightarrow> map_of (bind_reference B r) k = Some b"
  by (auto simp: bind_reference_def map_of_setdefault)

lemma bind_keeps: "map_of B k = Some b \<Longrightarrow> map_of (foldl bind_reference B rs) k = Some b"
  by (induction rs arbitrary: B) (auto intro: bind_reference_keeps)

lemma bind_source:
  "map_of (foldl bind_reference B rs) k = Some b \<Longrightarrow>
   map_of B k = Some b \<or> (\<exists>r \<in> set rs. stable_id r = k \<and> b = reference_binding r)"
  by (induction rs arbitrary: B)
    (fastforce simp: bind_reference_def map_of_setdefault split: if_splits)+

lemma bind_covers: "r \<in> set rs \<Longrightarrow> \<exists>b. map_of (foldl bind_reference B rs) (stable_id r) = Some b"
proof (induction rs arbitrary: B)
  case (Cons x xs)
  obtain b where "map_of (bind_reference B x) (stable_id x) = Some b"
    by (cases "map_of B (stable_id x)") (simp_all add: bind_reference_def map_of_setdefault)
  with Cons show ?case using bind_keeps by auto
qed simp

lemma conflicts_Nil:
  "reference_conflicts i B rs = [] \<Longrightarrow> r \<in> set rs \<Longrightarrow>
   \<exists>b. map_of (foldl bind_reference B rs) (stable_id r) = Some b \<and> same_producer b (reference_binding r)"
proof (induction rs arbitrary: i B)
  case (Cons x xs)
  show ?case
  proof (cases "map_of B (stable_id x)")
    case None
    have rest: "reference_conflicts (i + 1) (bind_reference B x) xs = []" using Cons.prems(1) None by (simp add: Let_def)
    have b: "map_of (bind_reference B x) (stable_id x) = Some (reference_binding x)"
      using None by (simp add: bind_reference_def map_of_setdefault)
    show ?thesis
      using Cons.IH [OF rest] Cons.prems(2) bind_keeps [OF b, of xs] by (auto simp: same_producer_def)
  next
    case (Some p)
    have same: "bind_reference B x = B" using Some by (simp add: bind_reference_def setdefault_def)
    have rest: "reference_conflicts (i + 1) B xs = []" and p: "same_producer p (reference_binding x)"
      using Cons.prems(1) Some by (auto simp: Let_def split: if_splits)
    show ?thesis
      using Cons.IH [OF rest] Cons.prems(2) bind_keeps [OF Some, of xs] same p by auto
  qed
qed simp

definition references_in :: "dict list \<Rightarrow> dict set" where
  "references_in recs = {r. \<exists>rec \<in> set recs. \<exists>rs. producer_references rec = Inr rs \<and> r \<in> set rs}"

lemma record_bindings_snoc:
  "record_bindings (recs @ [rec]) =
     rbind (record_bindings recs) (\<lambda>B. rbind (producer_references rec) (\<lambda>rs. Inr (foldl bind_reference B rs)))"
  by (cases "producer_references rec") (auto simp: record_bindings_def rfoldM_append rbind_def split: sum.splits)

lemma record_bindings_Inr:
  assumes "record_bindings recs = Inr B"
  shows "(\<forall>k b. map_of B k = Some b \<longrightarrow> (\<exists>r \<in> references_in recs. stable_id r = k \<and> b = reference_binding r)) \<and>
    (\<forall>r \<in> references_in recs. \<exists>b. map_of B (stable_id r) = Some b)"
  using assms
proof (induction recs arbitrary: B rule: rev_induct)
  case Nil
  then show ?case by (auto simp: record_bindings_def references_in_def)
next
  case (snoc rec recs)
  then obtain B0 rs where B0: "record_bindings recs = Inr B0" and rs: "producer_references rec = Inr rs"
    and B: "B = foldl bind_reference B0 rs"
    by (auto simp: record_bindings_snoc rbind_eq_Inr)
  have refs: "references_in (recs @ [rec]) = references_in recs \<union> set rs" using rs by (auto simp: references_in_def)
  show ?case
    using snoc.IH [OF B0] bind_source [of B0 rs] bind_covers [of _ rs B0] bind_keeps [of B0 _ _ rs]
    unfolding refs B by blast
qed

lemma identities_agree_iff:
  "identities_agree recs \<longleftrightarrow> (\<forall>r \<in> references_in recs. \<forall>r' \<in> references_in recs.
     stable_id r = stable_id r' \<longrightarrow> same_producer (reference_binding r) (reference_binding r'))"
  by (auto simp: identities_agree_def references_in_def)

text \<open>
  Accepting a record keeps the bindings of producer identities: when all references of the
  store to one stable identity agree on producer, kind and schema, they still do afterwards.
\<close>

theorem accepted_identities_agree:
  assumes "identities_agree recs" and "record_semantic_diagnostics candidate recs = Inr []"
    and "\<not> (\<exists>item \<in> set recs. logical_id item = logical_id candidate \<and> identity_of item = identity_of candidate)"
  shows "identities_agree (recs @ [candidate])"
proof -
  obtain B rs where B: "record_bindings recs = Inr B" and rs: "producer_references candidate = Inr rs"
    and ok: "reference_conflicts 0 B rs = []"
    using accepted_parts(2) [OF assms(2,3)] by (auto simp: rbind_eq_Inr)
  let ?B = "foldl bind_reference B rs"
  have refs: "references_in (recs @ [candidate]) = references_in recs \<union> set rs" using rs by (auto simp: references_in_def)
  have old: "\<exists>b. map_of ?B (stable_id r) = Some b \<and> same_producer b (reference_binding r)" if r: "r \<in> references_in recs" for r
  proof -
    obtain b where b: "map_of B (stable_id r) = Some b" using record_bindings_Inr [OF B] r by blast
    then obtain r' where "r' \<in> references_in recs" "stable_id r' = stable_id r" "b = reference_binding r'"
      using record_bindings_Inr [OF B] by blast
    then have "same_producer b (reference_binding r)" using assms(1) r by (auto simp: identities_agree_iff)
    then show ?thesis using bind_keeps [OF b] by blast
  qed
  have all: "\<exists>b. map_of ?B (stable_id r) = Some b \<and> same_producer b (reference_binding r)"
    if "r \<in> references_in (recs @ [candidate])" for r
    using that old conflicts_Nil [OF ok] unfolding refs by blast
  have "same_producer (reference_binding r) (reference_binding r')"
    if "r \<in> references_in (recs @ [candidate])" "r' \<in> references_in (recs @ [candidate])" "stable_id r = stable_id r'" for r r'
    using all [OF that(1)] all [OF that(2)] that(3) by (auto simp: same_producer_def)
  then show ?thesis by (simp add: identities_agree_iff)
qed

section \<open>Witnesses\<close>

definition sample_first :: dict where
  "sample_first =
     [(''contentDigest'', JStr ''sha256:a''), (''metadata'', JObj [(''recordId'', JStr ''r''), (''revision'', JInt 1)])]"

definition sample_second :: dict where
  "sample_second =
     [(''contentDigest'', JStr ''sha256:b''),
      (''metadata'', JObj [(''recordId'', JStr ''r''), (''revision'', JInt 2), (''previousDigest'', JStr ''sha256:a'')]),
      (''relationships'', JArr [JObj [(''type'', JStr ''supersedes''), (''target'', JStr ''sha256:a'')]])]"

lemmas identity_eval = identity_of_def logical_id_def logical_or_def

lemma sample_ids [simp]:
  "identity_of sample_first = ''sha256:a''" "logical_id sample_first = ''r''"
  "identity_of sample_second = ''sha256:b''" "logical_id sample_second = ''r''"
  by (simp_all add: identity_eval sample_first_def sample_second_def)

lemma sample_edges: "relation_edges [sample_first, sample_second] = Inr [(''sha256:b'', [''sha256:a''])]"
  by (simp add: relation_edges_def record_edges_def Let_def add_targets_def targets_def)
     (simp add: sample_first_def sample_second_def targets_def)

lemma sample_no_cycle: "\<not> has_cycle [(''sha256:b'', [''sha256:a''])]"
  by (simp add: has_cycle_def visit.simps targets_def)

lemma sample_accepted: "record_semantic_diagnostics sample_second [sample_first] = Inr []"
proof -
  have rev: "revision_diagnostics sample_second [sample_first] = Inr []"
    by (simp add: revision_diagnostics_def latest_revision_def record_revision_def opt_get_def
        sample_first_def sample_second_def identity_of_def)
  have work: "work_semantic_diagnostics sample_second [sample_first] = Inr []"
    by (simp add: work_semantic_diagnostics_def sample_second_def)
  have refs: "producer_references sample_first = Inr []" "producer_references sample_second = Inr []"
    by (simp_all add: producer_references_def sample_first_def sample_second_def)
  have self: "self_relations sample_second = Inr []" "self_replication sample_second = []"
    by (simp_all add: self_relations_def self_replication_def is_self_def) (simp_all add: sample_second_def)
  have cycle: "cycle_diagnostics [sample_first, sample_second] = Inr []"
    by (simp add: cycle_diagnostics_def sample_edges sample_no_cycle)
  show ?thesis
    by (simp add: record_semantic_diagnostics_def rev work refs self cycle record_bindings_def)
qed

theorem accepted_relations_acyclic_witness:
  "record_semantic_diagnostics sample_second [sample_first] = Inr [] \<and>
   acyclic {(a, b). precedes [sample_first, sample_second] a b}"
  using sample_accepted accepted_relations_acyclic [OF sample_accepted] by simp

theorem accepted_next_revision_witness:
  "\<exists>n. record_revision 1 sample_first = Inr n \<and>
     py_eq (opt_get (dget_default sample_second ''metadata'' (JObj [])) ''revision'') (JInt (n + 1))"
  using accepted_next_revision [OF sample_accepted, of sample_first] by auto

theorem accepted_identities_agree_witness: "identities_agree [sample_first, sample_second]"
proof -
  have "identities_agree [sample_first]"
    by (simp add: identities_agree_def producer_references_def sample_first_def)
  from accepted_identities_agree [OF this sample_accepted] show ?thesis by simp
qed

end
