(* ===== verification/Validation.thy ===== *)
theory Validation
  imports Work_Protocol Family_Record
begin

text \<open>
  Structural validation of records and events (validation.py). Every check appends diagnostics;
  a check that looks a value up in a set raises on a value that cannot be hashed. A record or an
  event is valid when no check reports anything and its digest, if it carries one, is its own.
\<close>

section \<open>Tables\<close>

definition API_VERSION :: string where
  "API_VERSION = ''commons.mncs.dev/v0alpha1''"

definition EVENT_KIND :: string where
  "EVENT_KIND = ''LifecycleEvent''"

definition record_kinds :: "string list" where
  "record_kinds =
     [''ConceptExperiment'', ''FailureClassification'', ''Observation'', ''Claim'', ''Finding'', ''Question'',
      ''Hypothesis'', ''FailedApproach'', ''Handoff'', ''ArtifactReference'', ''Thread'', ''WorkRequest'',
      ''Replication'', ''DevelopmentRecord'', ''ChangeSet'', ''Advisory'', ''Decision'', ''Epoch'',
      ''EpochSummary'', ''ReplicationSeries'', ''ObservationSeries'']"

definition result_statuses :: "string list" where
  "result_statuses = [''PASS'', ''FAIL'', ''UNKNOWN'']"

definition work_request_states :: "string list" where
  "work_request_states =
     [''open'', ''claimed'', ''responded'', ''completed'', ''unable_to_complete'', ''superseded'', ''withdrawn'']"

definition relation_types :: "string list" where
  "relation_types =
     [''supports'', ''contradicts'', ''replicates'', ''failed_to_replicate'', ''supersedes'', ''narrows'',
      ''depends_on'', ''derived_from'', ''requests'', ''responds_to'', ''answers'', ''contributes_to'',
      ''explores'', ''attempts'', ''hands_off'', ''follows_up'', ''verifies'', ''disputes'',
      ''affects_contract'', ''references_artifact'', ''rerun_of'', ''predecessor'', ''evaluates'',
      ''executes'', ''compiled_from'', ''produced'']"

definition record_keys :: "string list" where
  "record_keys =
     [''apiVersion'', ''kind'', ''contentDigest'', ''metadata'', ''subject'', ''scope'', ''statement'',
      ''evidence'', ''reproduction'', ''dependencies'', ''affectedContracts'', ''provenance'',
      ''confidence'', ''security'', ''lifecycle'', ''relationships'', ''details'', ''extensions'']"

definition event_keys :: "string list" where
  "event_keys =
     [''apiVersion'', ''kind'', ''contentDigest'', ''metadata'', ''target'', ''transition'', ''authority'',
      ''evidence'', ''extensions'']"

definition SENSITIVITIES :: "string list" where
  "SENSITIVITIES = [''public'', ''restricted'', ''sensitive'', ''security-sensitive'']"

definition CONFIDENCE :: "string list" where
  "CONFIDENCE = [''low'', ''medium'', ''high'', ''unreported'']"

text \<open>The required details of a kind are a set; here they are in the order of the source.\<close>

definition REQUIRED_DETAILS :: "(string \<times> string list) list" where
  "REQUIRED_DETAILS =
     [(''ConceptExperiment'',
       [''schema'', ''conceptId'', ''languageProfile'', ''targetProfile'', ''hypothesis'', ''task'',
        ''falsifiers'', ''protectedProperties'', ''frozenInputs'', ''hiddenInputs'', ''resourceBudget'',
        ''actors'', ''references'', ''experimentStatus'', ''authorityBoundary'']),
      (''FailureClassification'',
       [''schema'', ''failureReference'', ''classification'', ''disposition'', ''classifier'',
        ''evidenceReferences'', ''authorityBoundary'']),
      (''Observation'', [''outcome'']),
      (''Claim'', [''outcome'', ''falsifier'']),
      (''Finding'', [''basis'', ''significance'']),
      (''Question'', [''question'', ''answerCriteria'']),
      (''Hypothesis'', [''hypothesis'', ''falsifier'']),
      (''FailedApproach'', [''approach'', ''failureMode'', ''lesson'']),
      (''Handoff'', [''objective'', ''continuation'', ''authorityBoundary'']),
      (''ArtifactReference'', [''artifactIdentity'', ''artifactType'']),
      (''Thread'', [''topic'', ''status'']),
      (''WorkRequest'', [''objective'', ''requestedKind'', ''authorityBoundary'']),
      (''Replication'', [''targetRecord'', ''outcome'', ''independence'']),
      (''Advisory'', [''severity'', ''concern'']),
      (''Decision'', [''domain'', ''rationale'', ''authorityScope'']),
      (''Epoch'', [''windowStart'', ''workAttempted'']),
      (''EpochSummary'', [''epochId'', ''sourceIdentities'']),
      (''ReplicationSeries'', [''target'', ''passes'', ''failures'', ''sourceIdentities'']),
      (''ObservationSeries'', [''sourceIdentities'']),
      (''ChangeSet'', [''schema'', ''changesetId'', ''baseRevisions'', ''references'', ''authorityBoundary''])]"

text \<open>\<open>protocol_spec\<close> of protocol.py: the one version there is.\<close>

definition protocol_known :: "json \<Rightarrow> bool" where
  "protocol_known v = (py_str v = API_VERSION)"

section \<open>Checks on values\<close>

definition require_object :: "json \<Rightarrow> string \<Rightarrow> diagnostic list" where
  "require_object v p = diag (\<not> is_obj v) ''TYPE_OBJECT'' p ''must be an object''"

definition is_text :: "json \<Rightarrow> bool" where
  "is_text v = (case v of JStr s \<Rightarrow> py_strip s \<noteq> [] | _ \<Rightarrow> False)"

definition require_string :: "json \<Rightarrow> string \<Rightarrow> diagnostic list" where
  "require_string v p = diag (\<not> is_text v) ''TYPE_STRING'' p ''must be a non-empty string''"

definition check_keys :: "dict \<Rightarrow> string list \<Rightarrow> string \<Rightarrow> diagnostic list" where
  "check_keys d allowed_keys p =
     concat (map (\<lambda>kv. diag (fst kv \<notin> set allowed_keys) ''UNKNOWN_FIELD'' (p @ ''.'' @ fst kv)
                        ''field is not defined by v0alpha1'') d)"

definition is_timestamp :: "string \<Rightarrow> bool" where
  "is_timestamp s = (case fromisoformat (z_to_offset s) of None \<Rightarrow> False | Some t \<Rightarrow> tz_offset t \<noteq> None)"

definition check_timestamp :: "json \<Rightarrow> string \<Rightarrow> diagnostic list" where
  "check_timestamp v p =
     (if \<not> is_text v then require_string v p
      else diag (\<not> is_timestamp (str_of v)) ''INVALID_TIMESTAMP'' p ''must be an ISO-8601 timestamp with timezone'')"

definition valid_digest :: "json \<Rightarrow> bool" where
  "valid_digest v =
     (case v of
        JStr s \<Rightarrow> starts_with s ''sha256:'' \<and> length s = 71 \<and> list_all is_hex (drop 7 s)
      | _ \<Rightarrow> False)"

definition string_array :: "json \<Rightarrow> bool" where
  "string_array v = (is_arr v \<and> list_all is_str (arr_of v))"

definition revision_number :: "json \<Rightarrow> bool" where
  "revision_number v = (case v of JInt n \<Rightarrow> n \<ge> 1 | _ \<Rightarrow> False)"

definition check_metadata :: "json \<Rightarrow> diagnostic list" where
  "check_metadata v =
     (case v of
        JObj d \<Rightarrow>
          let author = dget d ''author'' in
          check_keys d [''recordId'', ''createdAt'', ''author'', ''labels'', ''revision'', ''previousDigest''] ''metadata'' @
          check_timestamp (dget d ''createdAt'') ''metadata.createdAt'' @
          (if is_obj author
           then require_string (dget (obj_of author) ''type'') ''metadata.author.type'' @
                require_string (dget (obj_of author) ''id'') ''metadata.author.id''
           else require_object author ''metadata.author'') @
          diag (\<not> string_array (dget_default d ''labels'' (JArr [])))
            ''TYPE_LABELS'' ''metadata.labels'' ''must be a list of strings'' @
          diag (has_key d ''revision'' \<and> \<not> revision_number (dget d ''revision''))
            ''INVALID_REVISION'' ''metadata.revision'' ''must be a positive integer'' @
          diag (has_key d ''previousDigest'' \<and> \<not> valid_digest (dget d ''previousDigest''))
            ''INVALID_DIGEST'' ''metadata.previousDigest'' ''must be a sha256: digest''
      | _ \<Rightarrow> require_object v ''metadata'')"

text \<open>A value that must be one of a set of texts; \<open>in_set\<close> raises on a list or an object.\<close>

definition require_member :: "json \<Rightarrow> string list \<Rightarrow> string \<Rightarrow> string \<Rightarrow> string \<Rightarrow> diagnostic list res" where
  "require_member v names c p m = rbind (in_set v names) (\<lambda>b. Inr (diag (\<not> b) c p m))"

definition indexed :: "string \<Rightarrow> nat \<Rightarrow> string" where
  "indexed p i = p @ ''['' @ nat_str i @ '']''"

definition check_each :: "(nat \<Rightarrow> json \<Rightarrow> diagnostic list res) \<Rightarrow> json list \<Rightarrow> diagnostic list res" where
  "check_each f xs = rconcat (map (\<lambda>(i, x). f i x) (enumerate 0 xs))"

definition check_evidence_item :: "string \<Rightarrow> nat \<Rightarrow> json \<Rightarrow> diagnostic list res" where
  "check_evidence_item p i item =
     (let ip = indexed p i
      in case item of
           JObj d \<Rightarrow>
             rconcat
               [Inr (require_string (dget d ''id'') (ip @ ''.id'')),
                if has_key d ''status''
                then require_member (dget d ''status'') result_statuses ''INVALID_STATUS'' (ip @ ''.status'')
                       ''must be PASS, FAIL, or UNKNOWN''
                else Inr []]
         | _ \<Rightarrow> Inr (require_object item ip))"

definition check_evidence :: "json \<Rightarrow> string \<Rightarrow> diagnostic list res" where
  "check_evidence v p =
     (case v of
        JArr xs \<Rightarrow> check_each (check_evidence_item p) xs
      | _ \<Rightarrow> Inr [Diagnostic ''TYPE_ARRAY'' p ''must be a list''])"

definition is_extension :: "json \<Rightarrow> bool" where
  "is_extension relation =
     (case relation of JStr s \<Rightarrow> CHR ''/'' \<in> set s \<and> before_char (CHR ''/'') s \<noteq> [] | _ \<Rightarrow> False)"

definition check_relationship :: "json \<Rightarrow> nat \<Rightarrow> json \<Rightarrow> diagnostic list res" where
  "check_relationship record_id i item =
     (let p = indexed ''relationships'' i
      in case item of
           JObj d \<Rightarrow>
             rbind (in_set (dget d ''type'') relation_types) (\<lambda>known.
               Inr (diag (\<not> known \<and> \<not> is_extension (dget d ''type'')) ''INVALID_RELATION'' (p @ ''.type'')
                      ''relationship type is not supported'' @
                    require_string (dget d ''target'') (p @ ''.target'') @
                    diag (truthy record_id \<and> py_eq (dget d ''target'') record_id) ''SELF_RELATION'' p
                      ''a record cannot relate to itself''))
         | _ \<Rightarrow> Inr (require_object item p))"

definition check_relationships :: "json \<Rightarrow> json \<Rightarrow> diagnostic list res" where
  "check_relationships v record_id =
     (case v of
        JArr xs \<Rightarrow> check_each (check_relationship record_id) xs
      | _ \<Rightarrow> Inr [Diagnostic ''TYPE_ARRAY'' ''relationships'' ''must be a list''])"

section \<open>Family details\<close>

definition check_family_reference :: "json \<Rightarrow> string \<Rightarrow> diagnostic list res" where
  "check_family_reference v p =
     (case v of
        JObj d \<Rightarrow>
          (case normalize_producer_reference d of
             Inr _ \<Rightarrow> Inr []
           | Inl (FamilyRecordError m) \<Rightarrow> Inr [Diagnostic ''INVALID_PRODUCER_REFERENCE'' p m]
           | Inl e \<Rightarrow> Inl e)
      | _ \<Rightarrow> Inr [Diagnostic ''TYPE_OBJECT'' p ''must be a producer reference object''])"

definition check_entry :: "nat \<Rightarrow> json \<Rightarrow> diagnostic list res" where
  "check_entry i entry =
     (let p = indexed ''details.references'' i
      in case entry of
           JObj d \<Rightarrow>
             rconcat [Inr (require_string (dget d ''relation'') (p @ ''.relation'')),
                      check_family_reference (dget d ''reference'') (p @ ''.reference'')]
         | _ \<Rightarrow> Inr (require_object entry p))"

definition check_actor :: "nat \<Rightarrow> json \<Rightarrow> diagnostic list res" where
  "check_actor i actor =
     (let p = indexed ''details.actors'' i
      in case actor of
           JObj d \<Rightarrow>
             rconcat [Inr (require_string (dget d ''role'') (p @ ''.role'')),
                      check_family_reference (dget d ''reference'') (p @ ''.reference''),
                      Inr (diag (dget d ''tools'' \<noteq> JNull \<and> \<not> string_array (dget d ''tools''))
                             ''TYPE_ARRAY_STRINGS'' (p @ ''.tools'') ''must be strings'')]
         | _ \<Rightarrow> Inr (require_object actor p))"

definition check_or_empty :: "json \<Rightarrow> (nat \<Rightarrow> json \<Rightarrow> diagnostic list res) \<Rightarrow> diagnostic list res" where
  "check_or_empty v f = rbind (or_empty v) (check_each f)"

definition check_concept_experiment :: "dict \<Rightarrow> diagnostic list res" where
  "check_concept_experiment details =
     rconcat
       [Inr (diag (dget details ''schema'' \<noteq> JStr CONCEPT_EXPERIMENT_SCHEMA) ''EXPERIMENT_SCHEMA_UNSUPPORTED''
               ''details.schema'' ''unsupported schema''),
        require_member (dget details ''experimentStatus'') EXPERIMENT_STATUSES ''EXPERIMENT_STATUS_INVALID''
          ''details.experimentStatus'' ''unsupported coordination status'',
        Inr (concat (map (\<lambda>f. require_object (dget details f) (''details.'' @ f)) [''targetProfile'', ''resourceBudget''])),
        Inr (concat (map (\<lambda>f. diag (\<not> is_arr (dget details f)) ''TYPE_ARRAY'' (''details.'' @ f) ''must be a list'')
               [''falsifiers'', ''protectedProperties'', ''frozenInputs'', ''hiddenInputs'', ''actors'', ''references''])),
        check_or_empty (dget details ''actors'') check_actor,
        check_or_empty (dget details ''references'') check_entry]"

definition check_failure_classification :: "dict \<Rightarrow> diagnostic list res" where
  "check_failure_classification details =
     rconcat
       [Inr (diag (dget details ''schema'' \<noteq> JStr FAILURE_CLASSIFICATION_SCHEMA) ''FAILURE_SCHEMA_UNSUPPORTED''
               ''details.schema'' ''unsupported schema''),
        require_member (dget details ''classification'') FAILURE_CLASSES ''FAILURE_CLASS_INVALID''
          ''details.classification'' ''unsupported class'',
        require_member (dget details ''disposition'') CLASSIFICATION_DISPOSITIONS ''FAILURE_DISPOSITION_INVALID''
          ''details.disposition'' ''unsupported disposition'',
        check_family_reference (dget details ''failureReference'') ''details.failureReference'',
        check_family_reference (dget details ''classifier'') ''details.classifier'',
        case dget details ''evidenceReferences'' of
          JArr xs \<Rightarrow> check_each (\<lambda>i item. check_family_reference item (indexed ''details.evidenceReferences'' i)) xs
        | _ \<Rightarrow> Inr [Diagnostic ''TYPE_ARRAY'' ''details.evidenceReferences'' ''must be a list'']]"

definition check_replication :: "dict \<Rightarrow> diagnostic list res" where
  "check_replication details =
     rconcat
       [Inr (diag (has_key details ''schema'' \<and> dget details ''schema'' \<noteq> JStr REPLICATION_SCHEMA)
               ''REPLICATION_SCHEMA_UNSUPPORTED'' ''details.schema'' ''unsupported schema''),
        if has_key details ''references'' \<and> \<not> is_arr (dget details ''references'')
        then Inr [Diagnostic ''TYPE_ARRAY'' ''details.references'' ''must be a list'']
        else check_or_empty (dget details ''references'') check_entry]"

section \<open>Common checks\<close>

definition check_party :: "json \<Rightarrow> string \<Rightarrow> string \<Rightarrow> diagnostic list" where
  "check_party v p key =
     (case v of
        JObj d \<Rightarrow> require_string (dget d ''type'') (p @ ''.type'') @ require_string (dget d key) (p @ ''.'' @ key)
      | _ \<Rightarrow> require_object v p)"

definition check_scope :: "json \<Rightarrow> diagnostic list" where
  "check_scope v =
     (case v of
        JObj d \<Rightarrow>
          check_keys d [''context'', ''limitations'', ''reviewAt''] ''scope'' @
          require_object (dget_default d ''context'' (JObj [])) ''scope.context'' @
          diag (has_key d ''limitations'' \<and> \<not> string_array (dget d ''limitations'')) ''TYPE_ARRAY_STRINGS''
            ''scope.limitations'' ''must be a list of strings'' @
          (if has_key d ''reviewAt'' then check_timestamp (dget d ''reviewAt'') ''scope.reviewAt'' else [])
      | _ \<Rightarrow> require_object v ''scope'')"

definition check_statement :: "json \<Rightarrow> diagnostic list" where
  "check_statement v =
     (case v of JObj d \<Rightarrow> require_string (dget d ''summary'') ''statement.summary'' | _ \<Rightarrow> require_object v ''statement'')"

definition check_provenance :: "json \<Rightarrow> diagnostic list" where
  "check_provenance v =
     (case v of
        JObj d \<Rightarrow> check_party (dget d ''producer'') ''provenance.producer'' ''id''
      | _ \<Rightarrow> require_object v ''provenance'')"

definition check_confidence :: "json \<Rightarrow> diagnostic list res" where
  "check_confidence v =
     (case v of
        JObj d \<Rightarrow>
          rconcat
            [Inr (check_keys d [''level'', ''rationale''] ''confidence''),
             require_member (dget d ''level'') CONFIDENCE ''INVALID_CONFIDENCE'' ''confidence.level''
               ''unsupported confidence level'',
             Inr (require_string (dget d ''rationale'') ''confidence.rationale'')]
      | _ \<Rightarrow> Inr (require_object v ''confidence''))"

definition check_security :: "json \<Rightarrow> diagnostic list res" where
  "check_security v =
     (case v of
        JObj d \<Rightarrow>
          rconcat
            [Inr (check_keys d [''sensitivity'', ''executableAttachments'', ''instructionsAreUntrusted'',
                                ''requiredExternalAuthority''] ''security''),
             require_member (dget d ''sensitivity'') SENSITIVITIES ''INVALID_SENSITIVITY'' ''security.sensitivity''
               ''unsupported sensitivity'',
             Inr (diag (\<not> is_bool (dget d ''executableAttachments'')) ''TYPE_BOOLEAN''
                    ''security.executableAttachments'' ''must be boolean'' @
                  diag (dget d ''instructionsAreUntrusted'' \<noteq> JBool True) ''UNTRUSTED_BOUNDARY_REQUIRED''
                    ''security.instructionsAreUntrusted'' ''must be true'')]
      | _ \<Rightarrow> Inr (require_object v ''security''))"

definition check_lifecycle :: "json \<Rightarrow> diagnostic list" where
  "check_lifecycle v =
     (case v of
        JObj d \<Rightarrow>
          check_keys d [''initialState'', ''reviewWhen''] ''lifecycle'' @
          diag (dget d ''initialState'' \<noteq> JStr ''proposed'') ''INVALID_INITIAL_STATE'' ''lifecycle.initialState''
            ''records must begin proposed'' @
          diag (\<not> string_array (dget_default d ''reviewWhen'' (JArr []))) ''TYPE_ARRAY_STRINGS''
            ''lifecycle.reviewWhen'' ''must be a list of strings''
      | _ \<Rightarrow> require_object v ''lifecycle'')"

definition check_reproduction :: "json \<Rightarrow> diagnostic list" where
  "check_reproduction v =
     (case v of
        JNull \<Rightarrow> []
      | JObj d \<Rightarrow> diag (\<not> is_arr (dget_default d ''procedure'' (JArr []))) ''TYPE_ARRAY'' ''reproduction.procedure''
                    ''must be a list; it remains inert data''
      | _ \<Rightarrow> require_object v ''reproduction'')"

definition common_record_checks :: "dict \<Rightarrow> diagnostic list res" where
  "common_record_checks v =
     rconcat
       [Inr (check_metadata (dget v ''metadata'')),
        Inr (check_party (dget v ''subject'') ''subject'' ''identity''),
        Inr (check_scope (dget v ''scope'')),
        Inr (check_statement (dget v ''statement'')),
        check_evidence (dget v ''evidence'') ''evidence'',
        Inr (concat (map (\<lambda>k. diag (\<not> string_array (dget v k)) ''TYPE_ARRAY_STRINGS'' k ''must be a list of strings'')
               [''dependencies'', ''affectedContracts''])),
        Inr (check_provenance (dget v ''provenance'')),
        check_confidence (dget v ''confidence''),
        check_security (dget v ''security''),
        Inr (check_lifecycle (dget v ''lifecycle'')),
        check_relationships (dget v ''relationships'') (dget (obj_of (dget v ''metadata'')) ''recordId''),
        Inr (check_reproduction (dget v ''reproduction''))]"

section \<open>Records\<close>

definition required_record_fields :: "string list" where
  "required_record_fields =
     [''metadata'', ''subject'', ''scope'', ''statement'', ''evidence'', ''dependencies'', ''affectedContracts'',
      ''provenance'', ''confidence'', ''security'', ''lifecycle'', ''relationships'', ''details'']"

definition require_fields :: "dict \<Rightarrow> string list \<Rightarrow> diagnostic list" where
  "require_fields v names =
     concat (map (\<lambda>f. diag (\<not> has_key v f) ''REQUIRED_FIELD'' f ''field is required'') names)"

definition kind_details :: "string \<Rightarrow> dict \<Rightarrow> dict \<Rightarrow> diagnostic list res" where
  "kind_details kind v details =
     rconcat
       [if has_key details ''outcome''
        then require_member (dget details ''outcome'') result_statuses ''INVALID_STATUS'' ''details.outcome''
               ''must be PASS, FAIL, or UNKNOWN''
        else Inr [],
        Inr (diag (kind = ''Replication'' \<and> \<not> is_obj (dget details ''independence'')) ''TYPE_OBJECT''
               ''details.independence'' ''must preserve correlation metadata'' @
             diag (kind = ''Finding'' \<and> \<not> is_arr (dget details ''basis'')) ''TYPE_ARRAY'' ''details.basis''
               ''must be a list of source record or evidence identities'' @
             diag (kind = ''Question'' \<and> \<not> is_arr (dget details ''answerCriteria'')) ''TYPE_ARRAY''
               ''details.answerCriteria'' ''must be a list of bounded answer criteria'' @
             diag (kind = ''Handoff'' \<and> \<not> is_obj (dget details ''continuation'')) ''TYPE_OBJECT''
               ''details.continuation'' ''must describe bounded continuation state''),
        if kind = ''Thread''
        then require_member (dget details ''status'') [''open'', ''resolved'', ''superseded'', ''archived'']
               ''INVALID_THREAD_STATUS'' ''details.status'' ''unsupported thread status''
        else Inr [],
        if kind = ''WorkRequest'' \<and> has_key details ''requestState''
        then require_member (dget details ''requestState'') work_request_states ''INVALID_WORK_REQUEST_STATE''
               ''details.requestState'' ''unsupported WorkRequest coordination state''
        else Inr [],
        if kind = ''ConceptExperiment'' then check_concept_experiment details else Inr [],
        if kind = ''Replication'' then check_replication details else Inr [],
        if kind = ''FailureClassification'' then check_failure_classification details else Inr [],
        if kind = ''WorkRequest'' then validate_work_record v else Inr []]"

definition check_details :: "json \<Rightarrow> dict \<Rightarrow> diagnostic list res" where
  "check_details kind v =
     (case dget v ''details'' of
        JObj details \<Rightarrow>
          (case map_of REQUIRED_DETAILS (str_of kind) of
             Some required \<Rightarrow>
               rconcat
                 [Inr (concat (map (\<lambda>r. diag (\<not> has_key details r) ''REQUIRED_DETAIL'' (''details.'' @ r)
                                     (''required for '' @ str_of kind)) required)),
                  kind_details (str_of kind) v details]
           | None \<Rightarrow> Inr [])
      | d \<Rightarrow> Inr (require_object d ''details''))"

definition digest_diagnostics :: "dict \<Rightarrow> diagnostic list" where
  "digest_diagnostics v =
     diag (dget v ''contentDigest'' \<noteq> JNull \<and> \<not> valid_digest (dget v ''contentDigest'')) ''INVALID_DIGEST''
       ''contentDigest'' ''must be a sha256: digest''"

text \<open>The last step of both validators: only a value without diagnostics is hashed.\<close>

definition with_own_digest :: "dict \<Rightarrow> diagnostic list \<Rightarrow> diagnostic list" where
  "with_own_digest v ds =
     (if ds \<noteq> [] then ds
      else diag (dget v ''contentDigest'' \<noteq> JNull \<and> dget v ''contentDigest'' \<noteq> JStr (canonical_digest v))
             ''DIGEST_MISMATCH'' ''contentDigest'' (''expected '' @ canonical_digest v))"

definition record_checks :: "dict \<Rightarrow> diagnostic list res" where
  "record_checks v =
     rconcat
       [Inr (check_keys v record_keys ''<root>''),
        Inr (diag (\<not> protocol_known (dget v ''apiVersion'')) ''UNSUPPORTED_API_VERSION'' ''apiVersion''
               (''expected '' @ API_VERSION)),
        require_member (dget v ''kind'') record_kinds ''UNKNOWN_RECORD_KIND'' ''kind'' ''record kind is not supported'',
        Inr (digest_diagnostics v),
        Inr (require_fields v required_record_fields),
        common_record_checks v,
        check_details (dget v ''kind'') v]"

definition validate_record :: "json \<Rightarrow> diagnostic list res" where
  "validate_record value =
     (case value of
        JObj v \<Rightarrow> rbind (record_checks v) (\<lambda>ds. Inr (with_own_digest v ds))
      | _ \<Rightarrow> Inr (require_object value ''<root>''))"

section \<open>Events\<close>

definition check_target :: "json \<Rightarrow> diagnostic list" where
  "check_target v =
     (case v of
        JObj d \<Rightarrow>
          require_string (dget d ''contentDigest'') ''target.contentDigest'' @
          diag (\<not> valid_digest (dget d ''contentDigest'')) ''INVALID_DIGEST'' ''target.contentDigest''
            ''must be a sha256: digest''
      | _ \<Rightarrow> require_object v ''target'')"

definition check_transition :: "json \<Rightarrow> diagnostic list res" where
  "check_transition v =
     (case v of
        JObj d \<Rightarrow>
          rconcat
            [require_member (dget d ''from'') lifecycle_states ''INVALID_STATE'' ''transition.from''
               ''unknown lifecycle state'',
             require_member (dget d ''to'') lifecycle_states ''INVALID_STATE'' ''transition.to''
               ''unknown lifecycle state'']
      | _ \<Rightarrow> Inr (require_object v ''transition''))"

definition check_authority :: "json \<Rightarrow> diagnostic list" where
  "check_authority v =
     (case v of
        JObj d \<Rightarrow>
          concat (map (\<lambda>k. require_string (dget d k) (''authority.'' @ k)) [''domain'', ''actor'', ''rationale''])
      | _ \<Rightarrow> require_object v ''authority'')"

definition event_checks :: "dict \<Rightarrow> diagnostic list res" where
  "event_checks v =
     rconcat
       [Inr (check_keys v event_keys ''<root>''),
        Inr (diag (\<not> protocol_known (dget v ''apiVersion'')) ''UNSUPPORTED_API_VERSION'' ''apiVersion''
               (''expected '' @ API_VERSION)),
        Inr (diag (dget v ''kind'' \<noteq> JStr EVENT_KIND) ''INVALID_EVENT_KIND'' ''kind'' (''expected '' @ EVENT_KIND)),
        Inr (require_fields v [''metadata'', ''target'', ''transition'', ''authority'', ''evidence'']),
        Inr (check_metadata (dget v ''metadata'')),
        Inr (check_target (dget v ''target'')),
        check_transition (dget v ''transition''),
        Inr (check_authority (dget v ''authority'')),
        check_evidence (dget v ''evidence'') ''evidence'',
        Inr (digest_diagnostics v)]"

definition validate_event :: "json \<Rightarrow> diagnostic list res" where
  "validate_event value =
     (case value of
        JObj v \<Rightarrow> rbind (event_checks v) (\<lambda>ds. Inr (with_own_digest v ds))
      | _ \<Rightarrow> Inr (require_object value ''<root>''))"

section \<open>What acceptance means\<close>

declare rconcat.simps(2) [simp del]

lemma diag_Nil [simp]: "diag b c p m = [] \<longleftrightarrow> \<not> b"
  by (simp add: diag_def)

lemma check_keys_Nil: "check_keys d ks p = [] \<longleftrightarrow> set (map fst d) \<subseteq> set ks"
  by (auto simp: check_keys_def)

lemma require_string_Nil: "require_string v p = [] \<longleftrightarrow> is_text v"
  by (simp add: require_string_def)

lemma require_object_Nil: "require_object v p = [] \<longleftrightarrow> is_obj v"
  by (simp add: require_object_def)

lemma check_timestamp_Nil: "check_timestamp v p = [] \<longleftrightarrow> is_text v \<and> is_timestamp (str_of v)"
  by (auto simp: check_timestamp_def require_string_Nil)

lemma require_member_Nil: "require_member v names c p m = Inr [] \<longleftrightarrow> (\<exists>s \<in> set names. v = JStr s)"
  by (auto simp: require_member_def rbind_eq_Inr in_set_True)

lemma with_own_digest_Nil:
  "with_own_digest v ds = [] \<longleftrightarrow> ds = [] \<and> (dget v ''contentDigest'' = JNull \<or> dget v ''contentDigest'' = JStr (canonical_digest v))"
  by (auto simp: with_own_digest_def)

lemmas nil_simps = check_keys_Nil require_string_Nil require_object_Nil check_timestamp_Nil require_member_Nil
  with_own_digest_Nil rconcat_eq_Nil

lemma is_obj_iff: "is_obj v \<longleftrightarrow> (\<exists>d. v = JObj d)"
  by (cases v) auto

lemma check_security_Nil:
  "check_security v = Inr [] \<Longrightarrow> \<exists>d. v = JObj d \<and> dget d ''instructionsAreUntrusted'' = JBool True \<and>
     (\<exists>s \<in> set SENSITIVITIES. dget d ''sensitivity'' = JStr s)"
  by (cases v) (auto simp: check_security_def nil_simps)

lemma check_lifecycle_Nil:
  "check_lifecycle v = [] \<Longrightarrow> \<exists>d. v = JObj d \<and> dget d ''initialState'' = JStr ''proposed''"
  by (cases v) (auto simp: check_lifecycle_def nil_simps)

lemma check_metadata_Nil:
  "check_metadata v = [] \<Longrightarrow> \<exists>d. v = JObj d \<and> is_timestamp (str_of (dget d ''createdAt'')) \<and>
     (has_key d ''revision'' \<longrightarrow> (\<exists>n \<ge> 1. dget d ''revision'' = JInt n))"
  by (cases v) (auto simp: check_metadata_def nil_simps Let_def revision_number_def split: json.splits)

text \<open>
  C29. A record the validator accepts has a known kind, no unknown field, an object of details, a
  timestamp with a timezone, instructions marked untrusted and the initial state proposed; a
  digest it carries is the digest of its own content.
\<close>

theorem accepted_record_sound:
  assumes "validate_record (JObj v) = Inr []"
  shows "(\<exists>k \<in> set record_kinds. dget v ''kind'' = JStr k) \<and>
    (dget v ''contentDigest'' = JNull \<or> dget v ''contentDigest'' = JStr (canonical_digest v)) \<and>
    (\<exists>sec. dget v ''security'' = JObj sec \<and> dget sec ''instructionsAreUntrusted'' = JBool True) \<and>
    (\<exists>l. dget v ''lifecycle'' = JObj l \<and> dget l ''initialState'' = JStr ''proposed'') \<and>
    (\<exists>m. dget v ''metadata'' = JObj m \<and> is_timestamp (str_of (dget m ''createdAt''))) \<and>
    (\<exists>d. dget v ''details'' = JObj d) \<and> set (map fst v) \<subseteq> set record_keys"
proof -
  obtain ds where ds: "record_checks v = Inr ds" "with_own_digest v ds = []"
    using assms by (auto simp: validate_record_def rbind_eq_Inr)
  then have checks: "record_checks v = Inr []" by (simp add: with_own_digest_Nil)
  then have common: "common_record_checks v = Inr []"
    by (simp add: record_checks_def rconcat_eq_Nil)
  have "check_metadata (dget v ''metadata'') = []" "check_security (dget v ''security'') = Inr []"
    "check_lifecycle (dget v ''lifecycle'') = []"
    using common by (simp_all add: common_record_checks_def rconcat_eq_Nil)
  moreover have "check_details (dget v ''kind'') v = Inr []" using checks by (simp add: record_checks_def rconcat_eq_Nil)
  then have "\<exists>d. dget v ''details'' = JObj d"
    by (cases "dget v ''details''") (auto simp: check_details_def require_object_Nil)
  moreover have "\<exists>k \<in> set record_kinds. dget v ''kind'' = JStr k" "set (map fst v) \<subseteq> set record_keys"
    using checks by (simp_all add: record_checks_def nil_simps)
  ultimately show ?thesis
    using check_metadata_Nil check_security_Nil check_lifecycle_Nil ds(2)[unfolded with_own_digest_Nil] by blast
qed

text \<open>
  An event the validator accepts names a digest as its target, two known states, a domain and
  an actor, and carries no digest other than its own.
\<close>

theorem accepted_event_sound:
  assumes "validate_event (JObj e) = Inr []"
  shows "dget e ''kind'' = JStr EVENT_KIND \<and>
    (\<exists>t. dget e ''target'' = JObj t \<and> valid_digest (dget t ''contentDigest'')) \<and>
    (\<exists>t. dget e ''transition'' = JObj t \<and>
       (\<exists>a \<in> set lifecycle_states. \<exists>b \<in> set lifecycle_states. dget t ''from'' = JStr a \<and> dget t ''to'' = JStr b)) \<and>
    (\<exists>a. dget e ''authority'' = JObj a \<and> is_text (dget a ''domain'') \<and> is_text (dget a ''actor'')) \<and>
    (dget e ''contentDigest'' = JNull \<or> dget e ''contentDigest'' = JStr (canonical_digest e))"
proof -
  obtain ds where ds: "event_checks e = Inr ds" "with_own_digest e ds = []"
    using assms by (auto simp: validate_event_def rbind_eq_Inr)
  then have checks: "event_checks e = Inr []" by (simp add: with_own_digest_Nil)
  then have parts: "dget e ''kind'' = JStr EVENT_KIND" "check_target (dget e ''target'') = []"
    "check_transition (dget e ''transition'') = Inr []" "check_authority (dget e ''authority'') = []"
    by (simp_all add: event_checks_def rconcat_eq_Nil)
  have "\<exists>t. dget e ''target'' = JObj t \<and> valid_digest (dget t ''contentDigest'')"
    using parts(2) by (cases "dget e ''target''") (auto simp: check_target_def nil_simps)
  moreover have "\<exists>t. dget e ''transition'' = JObj t \<and>
       (\<exists>a \<in> set lifecycle_states. \<exists>b \<in> set lifecycle_states. dget t ''from'' = JStr a \<and> dget t ''to'' = JStr b)"
    using parts(3) by (cases "dget e ''transition''") (auto simp: check_transition_def nil_simps)
  moreover have "\<exists>a. dget e ''authority'' = JObj a \<and> is_text (dget a ''domain'') \<and> is_text (dget a ''actor'')"
    using parts(4) by (cases "dget e ''authority''") (auto simp: check_authority_def nil_simps)
  ultimately show ?thesis using parts(1) ds(2) by (simp add: with_own_digest_Nil)
qed

text \<open>
  The validator raises instead of reporting when the kind of a record is a list or an object:
  such a value cannot be looked up in the set of kinds.
\<close>

theorem unhashable_kind_raises:
  assumes "\<not> hashable (dget v ''kind'')"
  shows "validate_record (JObj v) = Inl TypeError"
  using assms by (simp add: validate_record_def record_checks_def require_member_def in_set_def
      rconcat.simps)

section \<open>Constructors and the validator\<close>

lemma py_strip_empty: "py_strip s = [] \<longleftrightarrow> (\<forall>c \<in> set s. is_space c)"
proof
  assume "\<forall>c \<in> set s. is_space c"
  then show "py_strip s = []" by (simp add: py_strip_def dropWhile_eq_Nil_conv [THEN iffD2])
next
  assume "py_strip s = []"
  then have "\<forall>c \<in> set (dropWhile is_space s). is_space c" by (simp add: py_strip_def dropWhile_eq_Nil_conv)
  then show "\<forall>c \<in> set s. is_space c"
    by (metis hd_dropWhile hd_in_set dropWhile_eq_Nil_conv)
qed

lemma is_text_str: "is_text (JStr s) \<longleftrightarrow> (\<exists>c \<in> set s. \<not> is_space c)"
  by (auto simp: is_text_def py_strip_empty)

lemma is_text_append: "is_text (JStr s) \<Longrightarrow> is_text (JStr (t @ s))" "is_text (JStr s) \<Longrightarrow> is_text (JStr (s @ t))"
  by (auto simp: is_text_str)

lemma family_text_is_text: "family_text v f n = Inr s \<Longrightarrow> is_text (JStr s)"
  by (auto simp: family_text_def is_text_def split: json.splits if_splits)

lemma timestamp_is_timestamp: "timestamp s = Inr t \<Longrightarrow> t = s \<and> is_timestamp s"
  by (auto simp: timestamp_def is_timestamp_def split: option.splits if_splits)

lemma check_each_Nil: "check_each f xs = Inr [] \<longleftrightarrow> (\<forall>i < length xs. f i (xs ! i) = Inr [])"
proof -
  have "(\<forall>p \<in> set (enumerate 0 xs). f (fst p) (snd p) = Inr []) \<longleftrightarrow> (\<forall>i < length xs. f i (xs ! i) = Inr [])"
  proof (intro iffI allI impI)
    fix i assume all: "\<forall>p \<in> set (enumerate 0 xs). f (fst p) (snd p) = Inr []" and "i < length xs"
    then have "(i, xs ! i) \<in> set (enumerate 0 xs)" by (simp add: in_set_enumerate_eq)
    with all show "f i (xs ! i) = Inr []" by fastforce
  qed (auto simp: in_set_enumerate_eq)
  then show ?thesis by (auto simp: check_each_def rconcat_eq_Nil case_prod_beta)
qed

definition edge_ok :: "string \<Rightarrow> edge \<Rightarrow> bool" where
  "edge_ok record_id e =
     ((fst e \<in> set relation_types \<or> is_extension (JStr (fst e))) \<and> is_text (JStr (snd e)) \<and> snd e \<noteq> record_id)"

lemma check_edges:
  assumes "list_all (edge_ok record_id) edges"
  shows "check_relationships (JArr (map edge_json edges)) (JStr record_id) = Inr []"
proof -
  have "check_relationship (JStr record_id) i (edge_json e) = Inr []" if "edge_ok record_id e" for i e
    using that by (auto simp: check_relationship_def edge_json_def edge_ok_def Let_def require_string_Nil)
  with assms show ?thesis by (simp add: check_relationships_def check_each_Nil list_all_iff)
qed

lemma labelled_metadata_ok:
  assumes "is_text (JStr created)" and "is_timestamp created" and "is_text (JStr producer)"
  shows "check_metadata (JObj (labelled_metadata record_id created producer labels)) = []"
proof -
  have "is_text (JStr ''producer'')" by (simp add: is_text_str is_space_def of_char_def)
  with assms show ?thesis
    by (simp add: check_metadata_def labelled_metadata_def nil_simps producer_json_def Let_def string_array_def list_all_iff)
qed

lemma envelope_valid:
  assumes "kind \<in> set record_kinds" and "check_metadata (JObj metadata) = []"
    and "dget metadata ''recordId'' = JStr record_id"
    and "is_text (JStr stype)" and "is_text (JStr subj)" and "is_text (JStr summary)"
    and "check_evidence (JArr evidence) ''evidence'' = Inr []" and "is_text (JStr producer)"
    and "is_text (JStr rationale)" and "sensitivity \<in> set SENSITIVITIES"
    and "list_all (edge_ok record_id) edges"
    and "check_details (JStr kind) (envelope kind metadata stype subj ctx lim summary evidence producer sources rationale
           sensitivity authority edges details) = Inr []"
  shows "validate_record (JObj (envelope kind metadata stype subj ctx lim summary evidence producer sources rationale
           sensitivity authority edges details)) = Inr []"
proof -
  let ?r = "envelope kind metadata stype subj ctx lim summary evidence producer sources rationale
           sensitivity authority edges details"
  have p: "is_text (JStr ''producer'')" by (simp add: is_text_str is_space_def of_char_def)
  have "common_record_checks ?r = Inr []"
    unfolding common_record_checks_def rconcat_eq_Nil
    using assms p check_edges [OF assms(11)]
    by (simp add: envelope_def check_party_def check_scope_def check_statement_def check_provenance_def producer_json_def
        check_confidence_def check_security_def check_lifecycle_def check_reproduction_def nil_simps string_array_def
        CONFIDENCE_def)
  moreover have "check_keys ?r record_keys ''<root>'' = []" "require_fields ?r required_record_fields = []"
    by (simp_all add: check_keys_Nil envelope_def record_keys_def require_fields_def required_record_fields_def)
  moreover have "dget ?r ''kind'' = JStr kind" "dget ?r ''contentDigest'' = JNull" "protocol_known (dget ?r ''apiVersion'')"
    by (simp_all add: envelope_def protocol_known_def API_VERSION_def)
  ultimately have "record_checks ?r = Inr []"
    unfolding record_checks_def rconcat_eq_Nil using assms(1,12)
    by (simp add: require_member_Nil digest_diagnostics_def)
  then show ?thesis using \<open>dget ?r ''contentDigest'' = JNull\<close> by (simp add: validate_record_def with_own_digest_Nil)
qed

lemma normal_reference_valid: "normal_reference r \<Longrightarrow> check_family_reference (JObj r) p = Inr []"
  by (simp add: normal_reference_def check_family_reference_def)

lemma stable_id_text: "normalize_producer_reference v = Inr r \<Longrightarrow> is_text (JStr (stable_id r))"
  by (erule normalize_Inr) (simp add: stable_id_def family_text_is_text)

lemma entry_texts:
  assumes "reference_entries values = Inr (entries, edges)" and "e \<in> set entries"
  shows "is_text (JStr (fst e))" "is_text (JStr (stable_id (snd e)))" "normal_reference (snd e)"
proof -
  from reference_entries_Inr [OF assms(1)] assms(2) obtain v where "offers_reference v (fst e) (snd e)"
    and n: "normal_reference (snd e)" by (auto simp: list_all_iff)
  then show "is_text (JStr (fst e))" "is_text (JStr (stable_id (snd e)))" "normal_reference (snd e)"
    by (auto simp: offers_reference_def dest: family_text_is_text stable_id_text)
qed

lemma edge_type_known: "edge_type rel \<in> set relation_types"
  by (simp add: edge_type_def relation_types_def)

text \<open>
  A replication record passes the validator, whatever its outcome and its references, when its
  producer is named and neither its target nor a reference is the record itself.
\<close>

theorem replication_record_valid:
  assumes "make_replication_record rid created target_record outcome independence references summary producer = Inr rec"
    and "is_text (JStr producer)" and "py_strip target_record \<noteq> py_strip rid"
    and "\<And>v rel r. v \<in> set references \<Longrightarrow> offers_reference v rel r \<Longrightarrow> stable_id r \<noteq> py_strip rid"
  shows "validate_record (JObj rec) = Inr []"
proof -
  obtain record_id target created0 created' entries edges body where
    rid: "family_text (JStr rid) ''replication_id'' 256 = Inr record_id"
    and target: "family_text (JStr target_record) ''target_record'' 256 = Inr target"
    and created: "family_text (JStr created) ''created_at'' 128 = Inr created0" "timestamp created0 = Inr created'"
    and outcome: "outcome \<in> {''PASS'', ''FAIL'', ''UNKNOWN''}" and ind: "is_obj independence"
    and refs: "reference_entries references = Inr (entries, edges)"
    and summ: "family_text (JStr summary) ''summary'' 20000 = Inr body"
    and rec: "rec = envelope ''Replication''
              (labelled_metadata record_id created' producer [''replication'', ''family-record-spine''])
              ''experiment'' target [(''targetRecord'', JStr target)]
              (''coordination status only; producer references retain native semantics '' @
               ''and no assurance or conformance verdict is inferred'')
              body [] producer (source_records entries) ''replication envelope does not infer confidence''
              ''public'' False (sort (replication_edges outcome target @ edges))
              [(''schema'', JStr REPLICATION_SCHEMA), (''targetRecord'', JStr target), (''outcome'', JStr outcome),
               (''independence'', independence), (''references'', JArr (map entry_json entries)),
               (''authorityBoundary'', JStr
                 (''describes the replication attempt and its exact evidence references; '' @
                  ''publication is not verification and no subsystem becomes an authority '' @
                  ''over language semantics, Fabric execution, Forge evaluation, or MNCS '' @ ''conformance''))]"
    using assms(1) unfolding make_replication_record_def Let_def
    by (clarsimp simp: rbind_eq_Inr simp del: append_Cons append.simps split: prod.splits)
  have ids: "record_id = py_strip rid" "target = py_strip target_record"
    using rid target by (auto simp: family_text_def split: if_splits)
  note e = reference_entries_Inr [OF refs]
  have "edge_ok record_id (edge_type (fst x), stable_id (snd x))" if "x \<in> set entries" for x
    using e that entry_texts [OF refs that] assms(4) ids(1) edge_type_known by (fastforce simp: edge_ok_def)
  moreover have "edge_ok record_id x" if "x \<in> set (replication_edges outcome target)" for x
    using that assms(3) ids family_text_is_text [OF target]
    by (auto simp: edge_ok_def replication_edges_def relation_types_def split: if_splits)
  ultimately have edges: "list_all (edge_ok record_id) (sort (replication_edges outcome target @ edges))"
    using e by (auto simp: list_all_iff)
  have entries: "check_each check_entry (map entry_json entries) = Inr []"
    using entry_texts [OF refs] normal_reference_valid
    by (auto simp: check_each_Nil check_entry_def entry_json_def Let_def nil_simps)
  show ?thesis unfolding rec
  proof (rule envelope_valid [where record_id = record_id])
    show "check_metadata (JObj (labelled_metadata record_id created' producer [''replication'', ''family-record-spine''])) = []"
      using timestamp_is_timestamp [OF created(2)] family_text_is_text [OF created(1)] assms(2)
      by (intro labelled_metadata_ok) simp_all
  qed (use assms(2) edges entries outcome ind family_text_is_text [OF target] family_text_is_text [OF summ] in
      \<open>auto simp: record_kinds_def SENSITIVITIES_def labelled_metadata_def check_evidence_def check_each_def
        is_text_str is_space_def of_char_def check_details_def REQUIRED_DETAILS_def kind_details_def
        check_replication_def check_or_empty_def nil_simps result_statuses_def\<close>)
qed


lemma health_text_is_text: "health_text v f n = Inr s \<Longrightarrow> is_text (JStr s)"
  by (auto simp: health_text_def is_text_def split: json.splits if_splits)

lemma health_texts_is_text: "health_texts v f n = Inr xs \<Longrightarrow> x \<in> set xs \<Longrightarrow> is_text (JStr x)"
  by (cases v) (auto simp: health_texts_def split: if_splits dest!: rmapM_Inr_set health_text_is_text)

lemma optional_health_is_text: "optional_health_text v f n = Inr (Some s) \<Longrightarrow> is_text (JStr s)"
  by (auto simp: optional_health_text_def rbind_eq_Inr split: if_splits dest: health_text_is_text)

lemma normalize_health_texts:
  assumes "normalize_health_observation v = Inr h"
  shows "is_text (JStr (h_repository h))" "is_text (JStr (h_source h))" "is_text (JStr (h_sourceIdentity h))"
    "h_outcome h \<in> set health_outcomes" "\<exists>raw. normalize_health_instant raw = Inr (h_observedAt h)"
    "\<forall>run. h_runIdentity h = Some run \<longrightarrow> is_text (JStr run)" "\<forall>x \<in> set (h_evidence h). is_text (JStr x)"
proof -
  obtain a b c d e f g where
    h: "health_text a ''repository'' 512 = Inr (h_repository h)" "h_outcome h \<in> set health_outcomes"
      "normalize_health_instant b = Inr (h_observedAt h)" "health_text c ''source'' 512 = Inr (h_source h)"
      "health_text d ''sourceIdentity'' 1024 = Inr (h_sourceIdentity h)"
      "health_texts e ''evidence'' 1024 = Inr (h_evidence h)"
      "optional_health_text f ''runIdentity'' 1024 = Inr (h_runIdentity h)"
    using assms by (auto simp: normalize_health_observation_def rbind_eq_Inr Let_def)
  show "is_text (JStr (h_repository h))" "is_text (JStr (h_source h))" "is_text (JStr (h_sourceIdentity h))"
    "h_outcome h \<in> set health_outcomes" "\<exists>raw. normalize_health_instant raw = Inr (h_observedAt h)"
    "\<forall>run. h_runIdentity h = Some run \<longrightarrow> is_text (JStr run)" "\<forall>x \<in> set (h_evidence h). is_text (JStr x)"
    using h health_text_is_text health_texts_is_text [OF h(6)] optional_health_is_text by auto
qed

lemma health_instant_text:
  assumes "normalize_health_instant raw = Inr w"
  shows "is_text (JStr w)" "is_timestamp w"
proof -
  obtain u where u: "w = offset_to_z (isoformat_utc u)" and p: "parse_health_instant raw = Inr u"
    using assms by (auto simp: normalize_health_instant_def rbind_eq_Inr)
  have strip: "py_strip w = w" unfolding u by (rule py_strip_no_space) (rule offset_to_z_no_space)
  have "w \<noteq> []" by (simp add: u offset_to_z_utc)
  then show "is_text (JStr w)" using strip by (simp add: is_text_def)
  obtain t where "fromisoformat (z_to_offset w) = Some t" "tz_offset t \<noteq> None"
    using normalize_fixpoint [OF assms] strip parse_health_instant_Inr [of w]
    by (auto simp: normalize_health_instant_def rbind_eq_Inr)
  then show "is_timestamp w" by (simp add: is_timestamp_def)
qed

lemma evidence_item_ok:
  "is_text (JStr x) \<Longrightarrow> status \<in> set result_statuses \<Longrightarrow> check_evidence_item p i (evidence_item x rel status) = Inr []"
  by (simp add: check_evidence_item_def evidence_item_def Let_def nil_simps)

lemma health_record_checks:
  assumes "health_observation_record v = Inr (r, h)"
  shows "record_checks r = Inr [] \<and> dget r ''contentDigest'' = JNull"
proof -
  have n: "normalize_health_observation v = Inr h" and r: "r = health_record h"
    using assms by (auto simp: health_observation_record_def rbind_eq_Inr)
  note h = normalize_health_texts [OF n]
  obtain raw where raw: "normalize_health_instant raw = Inr (h_observedAt h)" using h(5) by blast
  have status: "h_outcome h \<in> set result_statuses" using h(4) by (simp add: health_outcomes_def result_statuses_def)
  have "check_evidence_item ''evidence'' i x = Inr []" if "x \<in> set (health_evidence h)" for i x
    using that h(3,6,7) status by (auto simp: health_evidence_def evidence_item_ok split: option.splits)
  then have evidence: "check_evidence (JArr (health_evidence h)) ''evidence'' = Inr []"
    by (simp add: check_evidence_def check_each_Nil)
  have plain: "is_text (JStr ''health-scanner'')" "is_text (JStr ''repository'')"
    "is_text (JStr ''scanner output is an untrusted observation at a declared time'')"
    by (simp_all add: is_text_str is_space_def of_char_def)
  have summary: "is_text (JStr (''Family health observation for '' @ h_repository h))"
    using h(1) by (rule is_text_append)
  have "common_record_checks r = Inr []"
    unfolding common_record_checks_def rconcat_eq_Nil
    using h(1,2) evidence plain summary health_instant_text [OF raw]
    by (simp add: r health_record_def check_metadata_def check_party_def check_scope_def check_statement_def Let_def
        check_provenance_def check_confidence_def check_security_def check_lifecycle_def check_relationships_def
        check_each_def check_reproduction_def nil_simps string_array_def CONFIDENCE_def SENSITIVITIES_def)
  moreover have "check_details (JStr ''Observation'') r = Inr []"
    using status
    by (simp add: r check_details_def health_record_def health_details_def REQUIRED_DETAILS_def kind_details_def nil_simps)
  moreover have "check_keys r record_keys ''<root>'' = []" "require_fields r required_record_fields = []"
    by (simp_all add: r check_keys_Nil health_record_def record_keys_def require_fields_def required_record_fields_def)
  moreover have "dget r ''kind'' = JStr ''Observation''" "dget r ''contentDigest'' = JNull" "protocol_known (dget r ''apiVersion'')"
    by (simp_all add: r health_record_def protocol_known_def API_VERSION_def)
  ultimately show ?thesis
    unfolding record_checks_def rconcat_eq_Nil by (simp add: nil_simps digest_diagnostics_def record_kinds_def)
qed


lemma checks_validate: "record_checks r = Inr [] \<and> dget r ''contentDigest'' = JNull \<Longrightarrow> validate_record (JObj r) = Inr []"
  by (simp add: validate_record_def with_own_digest_Nil)

text \<open>
  Every health observation the intake accepts becomes a record the validator accepts.
\<close>

theorem health_record_valid:
  assumes "health_observation_record v = Inr (r, h)"
  shows "validate_record (JObj r) = Inr []"
  using health_record_checks [OF assms] by (rule checks_validate)

section \<open>Witnesses\<close>

theorem health_record_valid_witness:
  "\<exists>r h. health_observation_record sample_observation = Inr (r, h) \<and> validate_record (JObj r) = Inr []"
proof -
  obtain r h where rh: "health_observation_record sample_observation = Inr (r, h)" using sample_observation_ok by blast
  from health_record_valid [OF rh] rh show ?thesis by blast
qed

theorem accepted_record_sound_witness:
  "\<exists>r sec. validate_record (JObj r) = Inr [] \<and> dget r ''security'' = JObj sec \<and> dget sec ''instructionsAreUntrusted'' = JBool True"
proof -
  obtain r h where "health_observation_record sample_observation = Inr (r, h)" using sample_observation_ok by blast
  then have r: "validate_record (JObj r) = Inr []" using health_record_checks by (intro checks_validate)
  from accepted_record_sound [OF r] r show ?thesis by blast
qed

theorem replication_record_valid_witness:
  "\<exists>rec. sample_replication ''UNKNOWN'' [] = Inr rec \<and> validate_record (JObj rec) = Inr []"
proof -
  obtain rec where rec: "sample_replication ''UNKNOWN'' [] = Inr rec" using sample_replication_ok by blast
  have "is_text (JStr ''lab'')" "py_strip ''exp1'' \<noteq> py_strip ''rep1''"
    by (simp_all add: is_text_str py_strip_def is_space_def of_char_def)
  with replication_record_valid [OF rec] rec show ?thesis by auto
qed

theorem unhashable_kind_raises_witness: "validate_record (JObj [(''kind'', JArr [])]) = Inl TypeError"
  by (rule unhashable_kind_raises) simp

definition sample_event :: dict where
  "sample_event =
     [(''apiVersion'', JStr API_VERSION), (''kind'', JStr EVENT_KIND),
      (''metadata'', JObj (labelled_metadata ''e1'' ''2026-01-02T03:04:05Z'' ''lab'' [])),
      (''target'', JObj [(''contentDigest'', JStr (''sha256:'' @ replicate 64 CHR ''a''))]),
      (''transition'', JObj [(''from'', JStr ''proposed''), (''to'', JStr ''reproduced'')]),
      (''authority'', JObj [(''domain'', JStr ''local''), (''actor'', JStr ''a''), (''rationale'', JStr ''seen'')]),
      (''evidence'', JArr [])]"

lemma sample_event_valid: "validate_event (JObj sample_event) = Inr []"
proof -
  have t: "is_text (JStr ''2026-01-02T03:04:05Z'')" "is_timestamp ''2026-01-02T03:04:05Z''"
    using timestamp_is_timestamp [OF sample_timestamp] by (simp_all add: is_text_str is_space_def of_char_def)
  have m: "check_metadata (JObj (labelled_metadata ''e1'' ''2026-01-02T03:04:05Z'' ''lab'' [])) = []"
    using t by (rule labelled_metadata_ok) (simp add: is_text_str is_space_def of_char_def)
  have d: "valid_digest (JStr (''sha256:'' @ replicate 64 CHR ''a''))"
    by (simp add: valid_digest_def is_hex_def list_all_iff starts_with_def)
  have "event_checks sample_event = Inr []"
    unfolding event_checks_def rconcat_eq_Nil using m d
    by (simp add: sample_event_def check_keys_Nil event_keys_def protocol_known_def require_fields_def check_target_def
        check_transition_def check_authority_def check_evidence_def check_each_def digest_diagnostics_def nil_simps
        is_text_str is_space_def of_char_def lifecycle_states_def)
  then show ?thesis by (simp add: validate_event_def with_own_digest_Nil sample_event_def)
qed

theorem accepted_event_sound_witness: "dget sample_event ''kind'' = JStr EVENT_KIND"
  using accepted_event_sound [OF sample_event_valid] by blast

end
