(* ===== verification/Store.thy ===== *)
theory Store
  imports Validation Semantic Lifecycle
begin

text \<open>
  The store (store.py): a ledger of hash-linked rows, one content file per record or event, a
  cached tail of the ledger, and a directory of transactions that are under way. The state
  holds what is on disk. Writers hold a lock from the first read to the last write, so that each
  operation here is one step of the store; what a crash in the middle leaves behind is the
  subject of the theory \<open>Crash\<close>, which runs the same writes one at a time.

  Bytes are lists of numbers. A text is decoded when it is UTF-8 of the code points the model
  covers.
\<close>

section \<open>Bounds and state\<close>

definition MAX_LEDGER_LINE_BYTES :: nat where
  "MAX_LEDGER_LINE_BYTES = 8 * 1024 * 1024"

definition MAX_LEDGER_BYTES :: nat where
  "MAX_LEDGER_BYTES = 64 * 1024 * 1024"

definition MAX_LEDGER_ROWS :: nat where
  "MAX_LEDGER_ROWS = 100000"

definition MAX_TRANSACTION_BYTES :: nat where
  "MAX_TRANSACTION_BYTES = 16 * 1024 * 1024"

definition TRANSACTION_VERSION :: int where
  "TRANSACTION_VERSION = 1"

definition MAX_SYNC_ENTRIES :: int where
  "MAX_SYNC_ENTRIES = 1000"

type_synonym bytes = "nat list"
type_synonym files = "(string \<times> bytes) list"

record store =
  s_root :: string
  s_ready :: bool
  s_ledger :: bytes
  s_tail :: "bytes option"
  s_files :: files
  s_pending :: "(string \<times> files) list"

record ledger_tail =
  t_sequence :: int
  t_digest :: json
  t_bytes :: int

text \<open>An operation returns the state it leaves, also when it raises.\<close>

type_synonym 'a op = "store \<times> 'a res"

definition sbind :: "'a op \<Rightarrow> (store \<Rightarrow> 'a \<Rightarrow> 'b op) \<Rightarrow> 'b op" where
  "sbind m f = (case m of (s, Inl e) \<Rightarrow> (s, Inl e) | (s, Inr x) \<Rightarrow> f s x)"

definition sread :: "store \<Rightarrow> 'a res \<Rightarrow> 'a op" where
  "sread s r = (s, r)"

definition require_initialized :: "store \<Rightarrow> unit res" where
  "require_initialized s = guard (s_ready s) (StoreError ''store is not initialized'')"

definition require_no_pending :: "store \<Rightarrow> unit res" where
  "require_no_pending s =
     guard (s_pending s = []) (StoreError ''pending transaction requires explicit store recover'')"

section \<open>Reading the ledger\<close>

definition decode_utf8 :: "bytes \<Rightarrow> string option" where
  "decode_utf8 b = (let t = utf8_decode b in if utf8 t = b then Some t else None)"

definition json_loads :: "bytes \<Rightarrow> json option" where
  "json_loads b = Option.bind (decode_utf8 b) loads"

text \<open>The lines of a file opened for reading bytes, with their ends.\<close>

fun split_lines :: "bytes \<Rightarrow> bytes \<Rightarrow> bytes list" where
  "split_lines acc [] = (if acc = [] then [] else [acc])"
| "split_lines acc (b # bs) =
     (if b = 10 then (acc @ [10]) # split_lines [] bs else split_lines (acc @ [b]) bs)"

definition blank_byte :: "nat \<Rightarrow> bool" where
  "blank_byte b = ((9 \<le> b \<and> b \<le> 13) \<or> b = 32)"

definition row_of_line :: "nat \<Rightarrow> bytes \<Rightarrow> dict res" where
  "row_of_line n raw =
     (let line = ''ledger line '' @ nat_str n in
      rbind (guard (length raw \<le> MAX_LEDGER_LINE_BYTES) (StoreError (line @ '' exceeds bounded read limit''))) (\<lambda>_.
      rbind (guard (\<not> list_all blank_byte raw) (StoreError (line @ '' is blank''))) (\<lambda>_.
        case json_loads raw of
          None \<Rightarrow> Inl (StoreError (line @ '' is invalid JSON''))
        | Some (JObj row) \<Rightarrow> Inr row
        | Some _ \<Rightarrow> Inl (StoreError (line @ '' is not an object'')))))"

fun read_rows :: "nat \<Rightarrow> nat \<Rightarrow> bytes list \<Rightarrow> dict list res" where
  "read_rows n used [] = Inr []"
| "read_rows n used (raw # lines) =
     (let used' = used + length raw in
      rbind (guard (used' \<le> MAX_LEDGER_BYTES \<and> n \<le> MAX_LEDGER_ROWS)
               (StoreError ''ledger exceeds bounded storage read limit'')) (\<lambda>_.
      rbind (row_of_line n raw) (\<lambda>row.
      rbind (read_rows (n + 1) used' lines) (\<lambda>rows. Inr (row # rows)))))"

definition ledger_rows :: "bytes \<Rightarrow> dict list res" where
  "ledger_rows b = read_rows 1 0 (split_lines [] b)"

definition rows :: "store \<Rightarrow> dict list res" where
  "rows s = rbind (require_initialized s) (\<lambda>_. ledger_rows (s_ledger s))"

definition payloads :: "dict list \<Rightarrow> string \<Rightarrow> dict list" where
  "payloads rws entry_type =
     concat (map (\<lambda>row. case dget row ''payload'' of
                          JObj p \<Rightarrow> if dget row ''entryType'' = JStr entry_type then [p] else []
                        | _ \<Rightarrow> []) rws)"

section \<open>The tail\<close>

definition tail_json :: "json \<Rightarrow> json \<Rightarrow> nat \<Rightarrow> bytes" where
  "tail_json sequence digest ledger_size =
     canonical_json (JObj [(''sequence'', sequence), (''entryDigest'', digest), (''ledgerBytes'', JInt (int ledger_size))])"

definition tail_from_rows :: "store \<Rightarrow> dict list \<Rightarrow> ledger_tail" where
  "tail_from_rows s rws =
     \<lparr>t_sequence = int (length rws),
      t_digest = (if rws = [] then JNull else JStr (py_str (dget (last rws) ''entryDigest''))),
      t_bytes = int (length (s_ledger s))\<rparr>"

text \<open>The last of \<open>splitlines()\<close>: one line end is dropped, then the rest is cut at the last one.\<close>

definition last_line :: "bytes \<Rightarrow> bytes option" where
  "last_line b =
     (if b = [] then None
      else
        let r = rev b;
            r' = (if r \<noteq> [] \<and> hd r = 10 then (if tl r \<noteq> [] \<and> hd (tl r) = 13 then tl (tl r) else tl r)
                  else if hd r = 13 then tl r else r)
        in Some (rev (takeWhile (\<lambda>x. x \<noteq> 10 \<and> x \<noteq> 13) r')))"

definition tail_of_value :: "json \<Rightarrow> ledger_tail option" where
  "tail_of_value v =
     (case v of
        JObj d \<Rightarrow>
          if \<not> has_key d ''sequence'' \<or> \<not> has_key d ''ledgerBytes'' then None
          else (case (py_int (dget d ''sequence''), py_int (dget d ''ledgerBytes'')) of
                  (Inr n, Inr k) \<Rightarrow> Some \<lparr>t_sequence = n, t_digest = dget d ''entryDigest'', t_bytes = k\<rparr>
                | _ \<Rightarrow> None)
      | _ \<Rightarrow> None)"

definition last_row_matches :: "bytes \<Rightarrow> ledger_tail \<Rightarrow> bool" where
  "last_row_matches ledger t =
     (case Option.bind (last_line (drop (length ledger - MAX_LEDGER_LINE_BYTES) ledger)) json_loads of
        Some (JObj row) \<Rightarrow>
          py_eq (dget row ''sequence'') (JInt (t_sequence t)) \<and> py_eq (dget row ''entryDigest'') (t_digest t)
      | _ \<Rightarrow> False)"

text \<open>The cached tail, when it can be trusted; every failure in reading it falls through.\<close>

definition cached_tail :: "store \<Rightarrow> ledger_tail option" where
  "cached_tail s =
     (case s_tail s of
        None \<Rightarrow> None
      | Some raw \<Rightarrow>
          if length raw > MAX_TRANSACTION_BYTES then None
          else
            (case Option.bind (json_loads raw) tail_of_value of
               None \<Rightarrow> None
             | Some t \<Rightarrow>
                 if t_bytes t = int (length (s_ledger s)) \<and> t_sequence t \<ge> 0 \<and>
                    ((t_sequence t = 0 \<and> t_digest t = JNull) \<or> last_row_matches (s_ledger s) t)
                 then Some t else None))"

definition write_tail :: "json \<Rightarrow> json \<Rightarrow> store \<Rightarrow> store" where
  "write_tail sequence digest s = s\<lparr>s_tail := Some (tail_json sequence digest (length (s_ledger s)))\<rparr>"

definition rebuild_tail :: "store \<Rightarrow> ledger_tail op" where
  "rebuild_tail s =
     sbind (sread s (rows s)) (\<lambda>s rws.
       let t = tail_from_rows s rws in (write_tail (JInt (t_sequence t)) (t_digest t) s, Inr t))"

definition load_tail :: "store \<Rightarrow> ledger_tail op" where
  "load_tail s =
     sbind (sread s (require_initialized s)) (\<lambda>s _.
       case cached_tail s of Some t \<Rightarrow> (s, Inr t) | None \<Rightarrow> rebuild_tail s)"

section \<open>Rows and transactions\<close>

text \<open>\<open>_with_digest\<close>: the canonical form of a document with its own digest.\<close>

definition reload :: "dict \<Rightarrow> dict res" where
  "reload v =
     (case json_loads (canonical_json (JObj v)) of
        Some (JObj d) \<Rightarrow> Inr d
      | Some _ \<Rightarrow> Inl TypeError
      | None \<Rightarrow> Inl (ValueError ''invalid JSON''))"

definition with_digest :: "dict \<Rightarrow> dict res" where
  "with_digest v =
     rbind (reload v) (\<lambda>r. reload (dset ''contentDigest'' (JStr (canonical_digest r)) r))"

definition content_path :: "string \<Rightarrow> string \<Rightarrow> string" where
  "content_path entry_type digest =
     (if entry_type = ''record'' then ''records/'' else ''events/'') @ remove_prefix digest ''sha256:'' @ ''.json''"

definition row_body :: "json \<Rightarrow> json \<Rightarrow> json \<Rightarrow> json \<Rightarrow> dict" where
  "row_body sequence entry_type previous payload =
     [(''sequence'', sequence), (''entryType'', entry_type), (''previousDigest'', previous), (''payload'', payload)]"

definition make_ledger_row :: "string \<Rightarrow> dict \<Rightarrow> ledger_tail \<Rightarrow> dict" where
  "make_ledger_row entry_type payload tail =
     (let body = row_body (JInt (t_sequence tail + 1)) (JStr entry_type) (t_digest tail) (JObj payload)
      in body @ [(''entryDigest'', JStr (canonical_digest_unprojected body))])"

definition encoded_row :: "dict \<Rightarrow> bytes" where
  "encoded_row row = canonical_json (JObj row) @ [10]"

definition append_row :: "dict \<Rightarrow> store \<Rightarrow> store" where
  "append_row row s = s\<lparr>s_ledger := s_ledger s @ encoded_row row\<rparr>"

definition journal_of :: "string \<Rightarrow> dict \<Rightarrow> string \<Rightarrow> dict \<Rightarrow> ledger_tail \<Rightarrow> store \<Rightarrow> dict" where
  "journal_of entry_type payload path row tail s =
     [(''version'', JInt TRANSACTION_VERSION), (''entryType'', JStr entry_type),
      (''contentDigest'', dget payload ''contentDigest''), (''contentPath'', JStr path),
      (''content'', JStr (dumps (canonicalize [] (JObj payload)))), (''ledgerRow'', JObj row),
      (''ledgerRowBytesDigest'', JStr (canonical_digest_unprojected row)),
      (''previousEntryDigest'', t_digest tail), (''sequence'', JInt (t_sequence tail + 1)),
      (''ledgerBytesAfter'', JInt (int (length (s_ledger s) + length (encoded_row row))))]"

text \<open>The writes of a transaction, one by one.\<close>

definition open_transaction :: "string \<Rightarrow> store \<Rightarrow> store" where
  "open_transaction name s = s\<lparr>s_pending := AList.update name [] (s_pending s)\<rparr>"

definition stage_file :: "string \<Rightarrow> string \<Rightarrow> bytes \<Rightarrow> store \<Rightarrow> store" where
  "stage_file name file data s =
     s\<lparr>s_pending := AList.update name
         (AList.update file data (case map_of (s_pending s) name of None \<Rightarrow> [] | Some fs \<Rightarrow> fs)) (s_pending s)\<rparr>"

definition publish :: "string \<Rightarrow> bytes \<Rightarrow> store \<Rightarrow> store" where
  "publish path data s =
     (if map_of (s_files s) path = None then s\<lparr>s_files := AList.update path data (s_files s)\<rparr> else s)"

definition close_transaction :: "string \<Rightarrow> store \<Rightarrow> store" where
  "close_transaction name s = s\<lparr>s_pending := AList.delete name (s_pending s)\<rparr>"

definition row_tail :: "dict \<Rightarrow> store \<Rightarrow> store" where
  "row_tail row = write_tail (dget row ''sequence'') (dget row ''entryDigest'')"

definition staged :: "store \<Rightarrow> string \<Rightarrow> string \<Rightarrow> bytes option" where
  "staged s name file = Option.bind (map_of (s_pending s) name) (\<lambda>fs. map_of fs file)"

definition stage_transaction ::
  "string \<Rightarrow> string \<Rightarrow> dict \<Rightarrow> string \<Rightarrow> dict \<Rightarrow> ledger_tail \<Rightarrow> store \<Rightarrow> unit op" where
  "stage_transaction name entry_type payload path row tail s =
     (let journal = canonical_json (JObj (journal_of entry_type payload path row tail s))
      in if length journal > MAX_TRANSACTION_BYTES
         then (close_transaction name (open_transaction name s),
               Inl (StoreError ''transaction exceeds bounded journal size''))
         else (stage_file name ''content.json'' (canonical_json (JObj payload))
                 (stage_file name ''journal.json'' journal (open_transaction name s)), Inr ()))"

text \<open>A path as \<open>pathlib\<close> reads it: the parts between slashes, without empty ones and dots.\<close>

definition path_parts :: "string \<Rightarrow> string list" where
  "path_parts p = filter (\<lambda>x. x \<noteq> [] \<and> x \<noteq> ''.'') (split_char (CHR ''/'') p)"

definition file_key :: "string \<Rightarrow> string" where
  "file_key p = join ''/'' (path_parts p)"

definition read_staged_object :: "store \<Rightarrow> string \<Rightarrow> string \<Rightarrow> json res" where
  "read_staged_object s name file =
     (case staged s name file of
        None \<Rightarrow> Inl OSError
      | Some raw \<Rightarrow> (case json_loads raw of None \<Rightarrow> Inl (ValueError ''invalid JSON'') | Some v \<Rightarrow> Inr v))"

definition collides :: "store \<Rightarrow> string \<Rightarrow> bytes \<Rightarrow> bool" where
  "collides s path data = (case map_of (s_files s) path of None \<Rightarrow> False | Some b \<Rightarrow> b \<noteq> data)"

definition commit_content :: "string \<Rightarrow> bytes \<Rightarrow> dict \<Rightarrow> store \<Rightarrow> store" where
  "commit_content path data row s = row_tail row (append_row row (publish path data s))"

definition finish_transaction :: "string \<Rightarrow> dict \<Rightarrow> store \<Rightarrow> unit op" where
  "finish_transaction name row s =
     sbind (sread s (read_staged_object s name ''journal.json'')) (\<lambda>s v.
     sbind (sread s (case staged s name ''content.json'' of None \<Rightarrow> Inl OSError | Some b \<Rightarrow> Inr b)) (\<lambda>s content.
     case v of
       JObj journal \<Rightarrow>
         let path = file_key (py_str (dget journal ''contentPath'')) in
         if collides s path content
         then (s, Inl (StoreError (''content path collision for '' @ py_str (dget journal ''contentDigest''))))
         else (close_transaction name (commit_content path content row s), Inr ())
     | _ \<Rightarrow> (s, Inl TypeError)))"

text \<open>The name of the transaction directory is chosen by the system.\<close>

definition commit :: "string \<Rightarrow> string \<Rightarrow> dict \<Rightarrow> store \<Rightarrow> unit op" where
  "commit name entry_type payload s =
     sbind (load_tail s) (\<lambda>s tail.
     let row = make_ledger_row entry_type payload tail in
     sbind (stage_transaction name entry_type payload
              (content_path entry_type (py_str (dget payload ''contentDigest''))) row tail s) (\<lambda>s _.
       finish_transaction name row s))"

section \<open>Adding records and events\<close>

definition messages :: "diagnostic list \<Rightarrow> string" where
  "messages ds = join ''; '' (map message ds)"

definition candidate_of :: "dict \<Rightarrow> dict res" where
  "candidate_of v = (if has_key v ''contentDigest'' then Inr v else with_digest v)"

definition ledger_has :: "dict list \<Rightarrow> string \<Rightarrow> string \<Rightarrow> bool res" where
  "ledger_has rws entry_type digest =
     rfoldM (\<lambda>found row.
       if found \<or> dget row ''entryType'' \<noteq> JStr entry_type then Inr found
       else rbind (attr_get (dget_default row ''payload'' (JObj [])) ''contentDigest'' JNull) (\<lambda>d.
              Inr (d = JStr digest))) False rws"

definition record_candidate :: "dict \<Rightarrow> store \<Rightarrow> (dict \<times> bool) res" where
  "record_candidate value s =
     rbind (require_initialized s) (\<lambda>_.
     rbind (require_no_pending s) (\<lambda>_.
     rbind (candidate_of value) (\<lambda>candidate.
     rbind (validate_record (JObj candidate)) (\<lambda>report.
     rbind (guard (report_valid report) (StoreError (''record rejected: '' @ messages report))) (\<lambda>_.
     let digest = py_str (dget candidate ''contentDigest'') in
     rbind (guard (\<not> collides s (content_path ''record'' digest) (canonical_json (JObj candidate)))
              (StoreError (''record path collision for '' @ digest))) (\<lambda>_.
     rbind (rows s) (\<lambda>rws.
     rbind (record_semantic_diagnostics candidate (payloads rws ''record'')) (\<lambda>semantic.
     rbind (guard (semantic = []) (StoreError (''record rejected: '' @ messages semantic))) (\<lambda>_.
     rbind (ledger_has rws ''record'' digest) (\<lambda>known. Inr (candidate, known)))))))))))"

definition add_record :: "string \<Rightarrow> dict \<Rightarrow> store \<Rightarrow> (dict \<times> string) op" where
  "add_record name value s =
     sbind (sread s (record_candidate value s)) (\<lambda>s (candidate, known).
     let r = (candidate, py_str (dget candidate ''contentDigest'')) in
     if known then (s, Inr r) else sbind (commit name ''record'' candidate s) (\<lambda>s _. (s, Inr r)))"

definition event_target :: "dict \<Rightarrow> dict list \<Rightarrow> dict res" where
  "event_target candidate rws =
     (case dget candidate ''target'' of
        JObj t \<Rightarrow>
          (case filter (\<lambda>item. dget item ''contentDigest'' = JStr (py_str (dget t ''contentDigest'')))
                  (payloads rws ''record'') of
             target # _ \<Rightarrow> Inr target
           | [] \<Rightarrow> Inl (StoreError ''lifecycle event target is not present locally''))
      | _ \<Rightarrow> Inl TypeError)"

definition stated_domain :: "dict \<Rightarrow> string" where
  "stated_domain candidate =
     (case dget_default candidate ''authority'' (JObj []) of
        JObj a \<Rightarrow> py_str (dget_default a ''domain'' (JStr [])) | _ \<Rightarrow> [])"

definition event_transition :: "dict \<Rightarrow> dict list \<Rightarrow> unit res" where
  "event_transition candidate rws =
     rbind (event_target candidate rws) (\<lambda>target.
     rbind (derive_lifecycle target (payloads rws ''event'') (Some (stated_domain candidate))) (\<lambda>current.
     case dget candidate ''transition'' of
       JObj t \<Rightarrow>
         let report = validate_transition (transition_state current) (py_str (dget t ''to'')) candidate in
         guard (report_valid report) (StoreError (''event transition rejected: '' @ messages report))
     | _ \<Rightarrow> Inl TypeError))"

definition event_candidate :: "dict \<Rightarrow> store \<Rightarrow> (dict \<times> bool) res" where
  "event_candidate value s =
     rbind (require_initialized s) (\<lambda>_.
     rbind (require_no_pending s) (\<lambda>_.
     rbind (candidate_of value) (\<lambda>candidate.
     rbind (validate_event (JObj candidate)) (\<lambda>report.
     rbind (guard (report_valid report) (StoreError (''event rejected: '' @ messages report))) (\<lambda>_.
     rbind (rows s) (\<lambda>rws.
     rbind (ledger_has rws ''event'' (py_str (dget candidate ''contentDigest''))) (\<lambda>known.
     if known then Inr (candidate, True)
     else rbind (event_transition candidate rws) (\<lambda>_. Inr (candidate, False)))))))))"

definition add_event :: "string \<Rightarrow> dict \<Rightarrow> store \<Rightarrow> (dict \<times> string) op" where
  "add_event name value s =
     sbind (sread s (event_candidate value s)) (\<lambda>s (candidate, known).
     let r = (candidate, py_str (dget candidate ''contentDigest'')) in
     if known then (s, Inr r) else sbind (commit name ''event'' candidate s) (\<lambda>s _. (s, Inr r)))"

definition add_snapshot :: "dict \<Rightarrow> store \<Rightarrow> dict op" where
  "add_snapshot payload s =
     sbind (sread s (rbind (require_initialized s) (\<lambda>_. require_no_pending s))) (\<lambda>s _.
     sbind (load_tail s) (\<lambda>s tail.
       let row = make_ledger_row ''snapshot'' payload tail in (row_tail row (append_row row s), Inr row)))"

text \<open>The ledger of a store that has none on disk is empty.\<close>

definition init :: "store \<Rightarrow> store" where
  "init s =
     (let s1 = s\<lparr>s_ready := True\<rparr>
      in if s_tail s1 = None then s1\<lparr>s_tail := Some (tail_json (JInt 0) JNull 0)\<rparr> else s1)"

section \<open>Reading\<close>

definition records :: "store \<Rightarrow> dict list res" where
  "records s = rbind (rows s) (\<lambda>rws. Inr (payloads rws ''record''))"

definition events :: "store \<Rightarrow> dict list res" where
  "events s = rbind (rows s) (\<lambda>rws. Inr (payloads rws ''event''))"

definition store_identity :: "store \<Rightarrow> string" where
  "store_identity s = canonical_digest_unprojected [(''storePath'', JStr (s_root s))]"

definition cursor_for :: "store \<Rightarrow> int \<Rightarrow> json \<Rightarrow> dict" where
  "cursor_for s sequence digest =
     [(''storeId'', JStr (store_identity s)), (''sequence'', JInt sequence), (''entryDigest'', digest)]"

definition current_cursor :: "store \<Rightarrow> dict op" where
  "current_cursor s = sbind (load_tail s) (\<lambda>s t. (s, Inr (cursor_for s (t_sequence t) (t_digest t))))"

record usage =
  u_entries :: int
  u_contentBytes :: nat
  u_contentFiles :: nat
  u_ledgerBytes :: nat

text \<open>\<open>directory.glob("*.json")\<close>: the names of the files, without the ending, and their data.\<close>

definition content_files :: "string \<Rightarrow> store \<Rightarrow> (string \<times> bytes) list" where
  "content_files directory s =
     List.map_filter (\<lambda>(path, data).
       case split_char (CHR ''/'') path of
         [d, file] \<Rightarrow>
           if d = directory \<and> drop (length file - 5) file = ''.json'' \<and> length file \<ge> 5
           then Some (take (length file - 5) file, data) else None
       | _ \<Rightarrow> None) (s_files s)"

definition storage_usage :: "store \<Rightarrow> usage op" where
  "storage_usage s =
     sbind (load_tail s) (\<lambda>s t.
       let content = content_files ''records'' s @ content_files ''events'' s in
       (s, Inr \<lparr>u_entries = t_sequence t, u_contentBytes = sum_list (map (length \<circ> snd) content),
               u_contentFiles = length content, u_ledgerBytes = length (s_ledger s)\<rparr>))"

record sync_page =
  p_entries :: "dict list"
  p_cursor :: dict
  p_more :: bool
  p_truncated :: bool

definition cursor_position :: "store \<Rightarrow> dict list \<Rightarrow> dict option \<Rightarrow> int res" where
  "cursor_position s rws cursor =
     (case cursor of
        None \<Rightarrow> Inr 0
      | Some c \<Rightarrow>
          rbind (guard (dget c ''storeId'' = JStr (store_identity s))
                   (StoreError ''INVALID_CURSOR: cursor belongs to another store'')) (\<lambda>_.
          rbind (case py_int (dget_default c ''sequence'' (JInt (-1))) of
                   Inr n \<Rightarrow> Inr n
                 | Inl _ \<Rightarrow> Inl (StoreError ''INVALID_CURSOR: sequence is not an integer'')) (\<lambda>n.
          rbind (guard (0 \<le> n \<and> n \<le> int (length rws))
                   (StoreError ''STALE_CURSOR: cursor sequence is outside the ledger'')) (\<lambda>_.
          rbind (guard (\<not> (n = 0 \<and> dget c ''entryDigest'' \<noteq> JNull))
                   (StoreError ''INVALID_CURSOR: empty cursor must not have an entry digest'')) (\<lambda>_.
          rbind (guard (n = 0 \<or> py_eq (dget (rws ! nat (n - 1)) ''entryDigest'') (dget c ''entryDigest''))
                   (StoreError ''STALE_CURSOR: cursor entry digest does not match ledger'')) (\<lambda>_. Inr n))))))"

text \<open>The loop over the rows after the cursor: what is selected, and the sequence scanned last.\<close>

fun scan_rows :: "string option \<Rightarrow> int \<Rightarrow> int \<Rightarrow> dict list \<Rightarrow> (dict list \<times> int) res" where
  "scan_rows kind limit scanned [] = Inr ([], scanned)"
| "scan_rows kind limit scanned (row # rws) =
     rbind (py_int (dget_default row ''sequence'' (JInt (scanned + 1)))) (\<lambda>n.
     if (case kind of
           None \<Rightarrow> True
         | Some k \<Rightarrow> is_obj (dget row ''payload'') \<and> dget (obj_of (dget row ''payload'')) ''kind'' = JStr k)
     then (if limit \<le> 1 then Inr ([row], n)
           else rbind (scan_rows kind (limit - 1) n rws) (\<lambda>(sel, m). Inr (row # sel, m)))
     else scan_rows kind limit n rws)"

text \<open>\<open>rows[scanned - 1]\<close>: a negative index counts from the end, one out of range raises.\<close>

definition row_before :: "dict list \<Rightarrow> int \<Rightarrow> dict res" where
  "row_before rws scanned =
     (let i = scanned - 1; j = (if i < 0 then i + int (length rws) else i)
      in if 0 \<le> j \<and> j < int (length rws) then Inr (rws ! nat j) else Inl IndexError)"

definition sync_since :: "dict option \<Rightarrow> int \<Rightarrow> string option \<Rightarrow> store \<Rightarrow> sync_page res" where
  "sync_since cursor limit kind s =
     rbind (require_initialized s) (\<lambda>_.
     rbind (guard (1 \<le> limit \<and> limit \<le> MAX_SYNC_ENTRIES)
              (StoreError (''sync limit must be between 1 and '' @ int_str MAX_SYNC_ENTRIES))) (\<lambda>_.
     rbind (rows s) (\<lambda>rws.
     rbind (cursor_position s rws cursor) (\<lambda>sequence.
     rbind (scan_rows kind limit sequence (drop (nat sequence) rws)) (\<lambda>(selected, scanned).
     rbind (if scanned = 0 then Inr JNull
            else rbind (row_before rws scanned) (\<lambda>row. Inr (JStr (py_str (dget row ''entryDigest''))))) (\<lambda>digest.
       Inr \<lparr>p_entries = selected, p_cursor = cursor_for s scanned digest, p_more = scanned < int (length rws),
            p_truncated = int (length selected) \<ge> limit \<and> scanned < int (length rws)\<rparr>))))))"

definition find_record :: "string \<Rightarrow> store \<Rightarrow> dict res" where
  "find_record digest s =
     rbind (records s) (\<lambda>rs.
       case filter (\<lambda>item. dget item ''contentDigest'' = JStr digest) rs of
         r # _ \<Rightarrow> Inr r
       | [] \<Rightarrow> Inl (StoreError (''record not found: '' @ digest)))"

definition lifecycle :: "string \<Rightarrow> string option \<Rightarrow> store \<Rightarrow> lifecycle_view res" where
  "lifecycle digest domain s =
     rbind (find_record digest s) (\<lambda>rec. rbind (events s) (\<lambda>es. derive_lifecycle rec es domain))"

definition store_domain_views :: "string \<Rightarrow> store \<Rightarrow> (string \<times> lifecycle_view) list res" where
  "store_domain_views digest s =
     rbind (find_record digest s) (\<lambda>rec. rbind (events s) (\<lambda>es. domain_views rec es))"

end
