(* ===== verification/Query.thy ===== *)
theory Query
  imports Store Work_History
begin

text \<open>
  Filters over stored records (query.py, first half) and the query operation of the store: which
  records a filter selects, how a record's declared scope compares with a context, and whether a
  review is due. A test stops at the first condition that fails, so that an exception further on
  is raised only when every condition before it holds.
\<close>

section \<open>Tests that may raise\<close>

fun all_of :: "bool res list \<Rightarrow> bool res" where
  "all_of [] = Inr True"
| "all_of (m # ms) = rbind m (\<lambda>b. if b then all_of ms else Inr False)"

fun any_of :: "('a \<Rightarrow> bool res) \<Rightarrow> 'a list \<Rightarrow> bool res" where
  "any_of p [] = Inr False"
| "any_of p (x # xs) = rbind (p x) (\<lambda>b. if b then Inr True else any_of p xs)"

text \<open>\<open>if query.f and not test: return False\<close>: an absent or empty text asks for nothing.\<close>

definition asked :: "string option \<Rightarrow> (string \<Rightarrow> bool res) \<Rightarrow> bool res" where
  "asked f test = (case f of None \<Rightarrow> Inr True | Some s \<Rightarrow> if s = [] then Inr True else test s)"

definition given :: "string option \<Rightarrow> bool" where
  "given f = (f \<noteq> None \<and> f \<noteq> Some [])"

text \<open>\<open>s in {v, w, ...}\<close>: the elements of a set are hashable.\<close>

definition one_of :: "string \<Rightarrow> json list \<Rightarrow> bool res" where
  "one_of s vs = (if list_all hashable vs then Inr (JStr s \<in> set vs) else Inl TypeError)"

text \<open>\<open>s in v\<close>: an element of a list, a part of a text, a key of an object.\<close>

definition text_in :: "string \<Rightarrow> string \<Rightarrow> bool" where
  "text_in s t = list_ex (\<lambda>i. take (length s) (drop i t) = s) [0..<Suc (length t)]"

fun py_contains :: "json \<Rightarrow> string \<Rightarrow> bool res" where
  "py_contains (JArr xs) s = Inr (JStr s \<in> set xs)"
| "py_contains (JStr t) s = Inr (text_in s t)"
| "py_contains (JObj d) s = Inr (has_key d s)"
| "py_contains _ s = Inl TypeError"

text \<open>\<open>(v or {}).get(k)\<close>.\<close>

definition or_get :: "json \<Rightarrow> string \<Rightarrow> json res" where
  "or_get v k = attr_get (if truthy v then v else JObj []) k JNull"

section \<open>Scope and review\<close>

datatype scope_assessment = COMPATIBLE | INCOMPATIBLE | REVIEW_REQUIRED | UNKNOWN

text \<open>Two timestamps compare when both have a zone or neither has one.\<close>

definition time_le :: "datetime \<Rightarrow> datetime \<Rightarrow> bool res" where
  "time_le a b =
     (if (tz_offset a = None) = (tz_offset b = None) then Inr (instant a \<le> instant b) else Inl TypeError)"

definition parse_timestamp :: "string \<Rightarrow> datetime option" where
  "parse_timestamp v = fromisoformat (z_to_offset v)"

fun compare_context :: "dict \<Rightarrow> dict \<Rightarrow> scope_assessment option" where
  "compare_context current [] = None"
| "compare_context current ((key, expected) # declared) =
     (case map_of current key of
        None \<Rightarrow> Some UNKNOWN
      | Some v \<Rightarrow> if py_eq v expected then compare_context current declared else Some INCOMPATIBLE)"

definition declared_scope :: "dict \<Rightarrow> dict \<Rightarrow> bool \<Rightarrow> scope_assessment" where
  "declared_scope scope current clock_unknown =
     (case dget scope ''context'' of
        JObj declared \<Rightarrow>
          if declared = [] then UNKNOWN
          else (case compare_context current declared of
                  Some a \<Rightarrow> a
                | None \<Rightarrow> if clock_unknown then UNKNOWN else COMPATIBLE)
      | _ \<Rightarrow> UNKNOWN)"

definition assess_scope :: "dict \<Rightarrow> dict \<Rightarrow> datetime option \<Rightarrow> scope_assessment res" where
  "assess_scope rec current now =
     (case dget rec ''scope'' of
        JObj scope \<Rightarrow>
          if truthy (dget scope ''reviewAt'') then
            (case parse_timestamp (py_str (dget scope ''reviewAt'')) of
               None \<Rightarrow> Inr UNKNOWN
             | Some moment \<Rightarrow>
                 (case now of
                    Some t \<Rightarrow>
                      if tz_offset t = None then Inr (declared_scope scope current True)
                      else rbind (time_le moment t) (\<lambda>due.
                             Inr (if due then REVIEW_REQUIRED else declared_scope scope current False))
                  | None \<Rightarrow> Inr (declared_scope scope current True)))
          else Inr (declared_scope scope current False)
      | _ \<Rightarrow> Inr UNKNOWN)"

definition review_required :: "dict \<Rightarrow> datetime option \<Rightarrow> bool res" where
  "review_required rec now =
     rbind (attr_get (dget_default rec ''scope'' (JObj [])) ''reviewAt'' JNull) (\<lambda>review_at.
       case now of
         Some t \<Rightarrow>
           if truthy review_at
           then (case parse_timestamp (py_str review_at) of None \<Rightarrow> Inr False | Some moment \<Rightarrow> time_le moment t)
           else Inr False
       | None \<Rightarrow> Inr False)"

section \<open>Filters\<close>

record query_filter =
  q_kind :: "string option"
  q_state :: "string option"
  q_subject :: "string option"
  q_contract :: "string option"
  q_artifact :: "string option"
  q_related :: "string option"
  q_domain :: "string option"
  q_open_work :: bool
  q_institutional :: bool
  q_needs_review :: bool
  q_now :: "datetime option"
  q_concept :: "string option"
  q_profile :: "string option"
  q_backend :: "string option"
  q_participant :: "string option"
  q_failure :: "string option"
  q_status :: "string option"

definition any_record :: query_filter where
  "any_record = \<lparr>q_kind = None, q_state = None, q_subject = None, q_contract = None, q_artifact = None,
     q_related = None, q_domain = None, q_open_work = False, q_institutional = False, q_needs_review = False,
     q_now = None, q_concept = None, q_profile = None, q_backend = None, q_participant = None,
     q_failure = None, q_status = None\<rparr>"

definition institutional_kinds :: "string list" where
  "institutional_kinds =
     [''Finding'', ''Question'', ''Hypothesis'', ''FailedApproach'', ''Handoff'', ''ArtifactReference'',
      ''Thread'', ''Decision'']"

definition experiment_filter :: "query_filter \<Rightarrow> bool" where
  "experiment_filter q =
     list_ex given [q_concept q, q_profile q, q_backend q, q_participant q, q_failure q, q_status q]"

definition field_is :: "dict \<Rightarrow> string \<Rightarrow> string \<Rightarrow> bool res" where
  "field_is d k s = Inr (dget d k = JStr s)"

text \<open>The entries of a list field that are objects, with a further test.\<close>

definition objects_in :: "json \<Rightarrow> (dict \<Rightarrow> bool) \<Rightarrow> dict list res" where
  "objects_in v p = rbind (or_empty v) (\<lambda>xs. Inr (filter p (map obj_of (filter is_obj xs))))"

definition backend_entry :: "string \<Rightarrow> dict \<Rightarrow> bool res" where
  "backend_entry s item =
     (if dget item ''relation'' = JStr ''backend'' then
        let ref = obj_of (dget item ''reference'') in
        rbind (or_get (dget ref ''scope'') ''backend'') (\<lambda>backend.
          one_of s [dget ref ''stableId'', dget ref ''recordKind'', backend])
      else Inr False)"

definition actor_named :: "string \<Rightarrow> dict \<Rightarrow> bool res" where
  "actor_named s actor =
     rbind (or_get (dget actor ''reference'') ''stableId'') (\<lambda>stable.
     rbind (or_get (dget actor ''reference'') ''producer'') (\<lambda>producer.
       one_of s [dget actor ''model'', dget actor ''provider'', dget actor ''worker'', dget actor ''route'',
                 stable, producer]))"

definition experiment_matches :: "dict \<Rightarrow> query_filter \<Rightarrow> string list \<Rightarrow> bool res" where
  "experiment_matches rec q failure_experiments =
     (if \<not> experiment_filter q then Inr True
      else if dget rec ''kind'' \<noteq> JStr ''ConceptExperiment'' then Inr False
      else case dget rec ''details'' of
             JObj details \<Rightarrow>
               all_of
                 [asked (q_concept q) (field_is details ''conceptId''),
                  asked (q_profile q) (field_is details ''languageProfile''),
                  asked (q_status q) (field_is details ''experimentStatus''),
                  rbind (objects_in (dget details ''references'') (\<lambda>item. is_obj (dget item ''reference''))) (\<lambda>references.
                    asked (q_backend q) (\<lambda>s. any_of (backend_entry s) references)),
                  asked (q_participant q) (\<lambda>s.
                    rbind (objects_in (dget details ''actors'') (\<lambda>_. True)) (any_of (actor_named s))),
                  asked (q_failure q) (\<lambda>_.
                    rbind (attr_get (dget_default rec ''subject'' (JObj [])) ''identity'' (JStr [])) (\<lambda>identity.
                      Inr (py_str identity \<in> set failure_experiments)))]
           | _ \<Rightarrow> Inr False)"

definition subject_matches :: "dict \<Rightarrow> string \<Rightarrow> bool res" where
  "subject_matches rec s =
     (case dget_default rec ''subject'' (JObj []) of
        JObj subject \<Rightarrow> one_of s [dget subject ''identity'', dget subject ''type'']
      | _ \<Rightarrow> Inr False)"

definition contract_matches :: "dict \<Rightarrow> string \<Rightarrow> bool res" where
  "contract_matches rec s =
     (let subject_contracts =
            (case dget_default rec ''subject'' (JObj []) of
               JObj subject \<Rightarrow> dget_default subject ''contracts'' (JArr [])
             | _ \<Rightarrow> JArr [])
      in rbind (py_contains (dget_default rec ''affectedContracts'' (JArr [])) s) (\<lambda>direct.
           if direct then Inr True else py_contains subject_contracts s))"

definition artifact_matches :: "dict \<Rightarrow> string \<Rightarrow> bool res" where
  "artifact_matches rec s =
     rbind (py_iter (dget_default rec ''evidence'' (JArr []))) (\<lambda>items.
     rbind (one_of s (map (\<lambda>item. dget (obj_of item) ''id'') (filter is_obj items))) (\<lambda>direct.
       if direct then Inr True
       else rbind (attr_get (dget_default rec ''subject'' (JObj [])) ''identity'' JNull) (\<lambda>identity.
              Inr (identity = JStr s))))"

definition related_matches :: "dict \<Rightarrow> string \<Rightarrow> bool res" where
  "related_matches rec s =
     rbind (py_iter (dget_default rec ''relationships'' (JArr []))) (\<lambda>items.
       Inr (list_ex (\<lambda>item. is_obj item \<and> dget (obj_of item) ''target'' = JStr s) items))"

definition open_request :: "dict \<Rightarrow> string option \<Rightarrow> bool res" where
  "open_request rec state =
     (let request_state = (case dget rec ''details'' of JObj d \<Rightarrow> dget d ''requestState'' | _ \<Rightarrow> JNull)
      in if dget rec ''kind'' \<noteq> JStr ''WorkRequest'' then Inr False
         else if \<not> hashable request_state then Inl TypeError
         else Inr (request_state \<in> {JNull, JStr ''open'', JStr ''claimed'', JStr ''responded''} \<and>
                   state \<in> {Some ''proposed'', Some ''reproduced'', Some ''disputed'', Some ''domain-scoped''}))"

definition record_matches :: "dict \<Rightarrow> query_filter \<Rightarrow> string option \<Rightarrow> string list \<Rightarrow> bool res" where
  "record_matches rec q state failure_experiments =
     all_of
       [experiment_matches rec q failure_experiments,
        if q_institutional q then in_set (dget rec ''kind'') institutional_kinds else Inr True,
        asked (q_kind q) (field_is rec ''kind''),
        asked (q_state q) (\<lambda>s. Inr (state = Some s)),
        asked (q_subject q) (subject_matches rec),
        asked (q_contract q) (contract_matches rec),
        asked (q_artifact q) (artifact_matches rec),
        asked (q_related q) (related_matches rec),
        if q_open_work q then open_request rec state else Inr True]"

section \<open>Selection\<close>

definition failed_experiments :: "string option \<Rightarrow> dict list \<Rightarrow> string list" where
  "failed_experiments f values =
     (if \<not> given f then []
      else concat (map (\<lambda>rec.
             case (dget rec ''details'', dget rec ''subject'') of
               (JObj details, JObj subject) \<Rightarrow>
                 (case dget subject ''identity'' of
                    JStr identity \<Rightarrow>
                      if dget rec ''kind'' = JStr ''FailureClassification'' \<and>
                         Some (dget details ''classification'') = map_option JStr f
                      then [identity] else []
                  | _ \<Rightarrow> [])
             | _ \<Rightarrow> []) values))"

text \<open>The latest revision of each work request; \<open>isinstance(revision, int)\<close> holds of truth values.\<close>

definition request_key :: "dict \<Rightarrow> (string \<times> int) option" where
  "request_key rec =
     (case dget rec ''metadata'' of
        JObj metadata \<Rightarrow>
          (case dget metadata ''recordId'' of
             JStr record_id \<Rightarrow>
               if is_int (dget metadata ''revision'') then Some (record_id, int_of (dget metadata ''revision'')) else None
           | _ \<Rightarrow> None)
      | _ \<Rightarrow> None)"

definition keep_latest :: "(string \<times> dict) list \<Rightarrow> dict \<Rightarrow> (string \<times> dict) list" where
  "keep_latest latest rec =
     (case request_key rec of
        None \<Rightarrow> latest
      | Some (record_id, revision) \<Rightarrow>
          (case Option.bind (map_of latest record_id) request_key of
             None \<Rightarrow> AList.update record_id rec latest
           | Some (_, current) \<Rightarrow> if revision > current then AList.update record_id rec latest else latest))"

definition current_requests :: "dict list \<Rightarrow> dict list" where
  "current_requests values =
     (let requests = filter (\<lambda>rec. dget rec ''kind'' = JStr ''WorkRequest'') values
      in filter (\<lambda>rec. request_key rec = None) requests @ map snd (foldl keep_latest [] requests))"

definition record_order :: "dict \<Rightarrow> (string \<times> string) res" where
  "record_order item =
     rbind (attr_get (dget_default item ''metadata'' (JObj [])) ''createdAt'' (JStr [])) (\<lambda>created.
       Inr (py_str created, py_str (dget_default item ''contentDigest'' (JStr []))))"

text \<open>\<open>sorted(xs, key=f)\<close> where \<open>f\<close> may raise: every key is computed first.\<close>

definition sorted_by :: "('a \<Rightarrow> 'k::linorder res) \<Rightarrow> 'a list \<Rightarrow> 'a list res" where
  "sorted_by f xs = rbind (rmapM (\<lambda>x. rbind (f x) (\<lambda>k. Inr (k, x))) xs) (\<lambda>ps. Inr (map snd (sort_key fst ps)))"

definition records_for :: "dict list \<Rightarrow> query_filter \<Rightarrow> (string \<times> string) list \<Rightarrow> dict list res" where
  "records_for values q states =
     (let failures = failed_experiments (q_failure q) values;
          considered = (if q_open_work q then current_requests values else values)
      in rbind (rfilterM (\<lambda>rec. record_matches rec q (map_of states (py_str (dget rec ''contentDigest''))) failures)
                  considered)
           (sorted_by record_order))"

definition unresolved_relationships :: "dict \<Rightarrow> string list \<Rightarrow> dict list res" where
  "unresolved_relationships rec known =
     rbind (py_iter (dget_default rec ''relationships'' (JArr []))) (\<lambda>items.
       rfilterM (\<lambda>r. rbind (in_set (dget r ''target'') known) (\<lambda>b. Inr (\<not> b))) (map obj_of (filter is_obj items)))"

definition state_matches :: "string \<Rightarrow> query_filter \<Rightarrow> string list \<Rightarrow> bool" where
  "state_matches state q domain_values =
     (if \<not> given (q_state q) then True
      else if given (q_domain q) then Some state = q_state q
      else q_state q \<in> Some ` set domain_values \<or> Some state = q_state q)"

section \<open>The query of a store\<close>

definition query_state :: "query_filter \<Rightarrow> lifecycle_view \<Rightarrow> string" where
  "query_state q view =
     (case q_state q of
        Some s \<Rightarrow>
          if s \<noteq> [] \<and> \<not> given (q_domain q) \<and> s \<in> set (map snd (domain_states view)) then s else current_state view
      | None \<Rightarrow> current_state view)"

definition query :: "query_filter \<Rightarrow> store \<Rightarrow> dict list res" where
  "query q s =
     rbind (records s) (\<lambda>rs.
     rbind (rmapM (\<lambda>rec.
              let digest = py_str (dget rec ''contentDigest'') in
              rbind (lifecycle digest (q_domain q) s) (\<lambda>view. Inr (digest, view))) rs) (\<lambda>views.
     let latest = foldl (\<lambda>d (digest, view). AList.update digest view d) [] views in
     rbind (records_for rs q (map (\<lambda>(digest, view). (digest, query_state q view)) latest)) (\<lambda>result.
       rfilterM (\<lambda>rec.
         let digest = py_str (dget rec ''contentDigest'') in
         rbind (lifecycle digest (q_domain q) s) (\<lambda>view.
           if state_matches (current_state view) q
                (case map_of latest digest of None \<Rightarrow> [] | Some v \<Rightarrow> map snd (domain_states v))
           then (if q_needs_review q then review_required rec (q_now q) else Inr True)
           else Inr False)) result)))"

section \<open>Open work requests\<close>

text \<open>For each record identity, a record with the greatest revision among those seen.\<close>

fun best :: "dict list \<Rightarrow> string \<Rightarrow> dict option \<Rightarrow> bool" where
  "best past k None = (\<forall>r \<in> set past. \<forall>n. request_key r \<noteq> Some (k, n))"
| "best past k (Some r) =
     (r \<in> set past \<and> (\<exists>n. request_key r = Some (k, n) \<and>
        (\<forall>r' \<in> set past. \<forall>n'. request_key r' = Some (k, n') \<longrightarrow> n' \<le> n)))"

definition latest_ok :: "dict list \<Rightarrow> (string \<times> dict) list \<Rightarrow> bool" where
  "latest_ok past latest = (distinct (map fst latest) \<and> (\<forall>k. best past k (map_of latest k)))"

lemma best_other: "best past k m \<Longrightarrow> (\<And>n. request_key rec \<noteq> Some (k, n)) \<Longrightarrow> best (past @ [rec]) k m"
  by (cases m) auto

lemma best_less: "best past k (Some r) \<Longrightarrow> request_key r = Some (k, m) \<Longrightarrow> request_key rec = Some (k, n) \<Longrightarrow> n \<le> m \<Longrightarrow>
  best (past @ [rec]) k (Some r)"
  by auto

lemma best_more: "best past k (Some r) \<Longrightarrow> request_key r = Some (k, m) \<Longrightarrow> request_key rec = Some (k, n) \<Longrightarrow> m < n \<Longrightarrow>
  best (past @ [rec]) k (Some rec)"
  by fastforce

lemma best_new: "best past k None \<Longrightarrow> request_key rec = Some (k, n) \<Longrightarrow> best (past @ [rec]) k (Some rec)"
  by auto

lemma keep_latest_at:
  assumes "best past k (map_of latest k)"
  shows "best (past @ [rec]) k (map_of (keep_latest latest rec) k)"
proof (cases "\<exists>n. request_key rec = Some (k, n)")
  case False
  have "map_of (keep_latest latest rec) k = map_of latest k"
    using False by (auto simp: keep_latest_def update_conv split: option.splits)
  with False assms best_other show ?thesis by simp
next
  case True
  then obtain n where n: "request_key rec = Some (k, n)" by blast
  show ?thesis
  proof (cases "map_of latest k")
    case None
    then have "map_of (keep_latest latest rec) k = Some rec" using n by (simp add: keep_latest_def update_conv)
    with None assms best_new [OF _ n] show ?thesis by simp
  next
    case (Some r)
    with assms obtain m where m: "request_key r = Some (k, m)" by auto
    then have "map_of (keep_latest latest rec) k = Some (if n > m then rec else r)"
      using n Some by (simp add: keep_latest_def update_conv)
    with Some assms m n best_less best_more show ?thesis by (cases "n > m") (simp_all del: best.simps)
  qed
qed

lemma keep_latest_ok: "latest_ok past latest \<Longrightarrow> latest_ok (past @ [rec]) (keep_latest latest rec)"
  using keep_latest_at unfolding latest_ok_def
  by (auto simp: keep_latest_def distinct_update split: option.splits)

lemma foldl_latest_ok: "latest_ok vs (foldl keep_latest [] vs)"
proof (induction vs rule: rev_induct)
  case Nil
  show ?case by (simp add: latest_ok_def)
next
  case (snoc rec vs)
  then show ?case using keep_latest_ok by simp
qed

lemma latest_member:
  assumes "latest_ok past latest" and "(k, r) \<in> set latest"
  shows "best past k (Some r)"
  using assms unfolding latest_ok_def by (metis map_of_eq_Some_iff)

lemma current_request_latest:
  assumes "rec \<in> set (current_requests vs)" and "request_key rec = Some (k, n)"
    and "r \<in> set vs" and "dget r ''kind'' = JStr ''WorkRequest''" and "request_key r = Some (k, n')"
  shows "n' \<le> n"
proof -
  let ?w = "filter (\<lambda>rec. dget rec ''kind'' = JStr ''WorkRequest'') vs"
  let ?l = "foldl keep_latest [] ?w"
  from assms(1,2) obtain j where "(j, rec) \<in> set ?l" by (auto simp: current_requests_def Let_def)
  from latest_member [OF foldl_latest_ok this] assms show ?thesis by auto
qed

lemma sorted_by_set: "sorted_by f xs = Inr ys \<Longrightarrow> set ys = set xs"
proof -
  assume "sorted_by f xs = Inr ys"
  then obtain ps where ps: "rmapM (\<lambda>x. rbind (f x) (\<lambda>k. Inr (k, x))) xs = Inr ps" "ys = map snd (sort_key fst ps)"
    by (auto simp: sorted_by_def rbind_eq_Inr)
  have "map snd ps = xs" using ps(1) by (induction xs arbitrary: ps) (auto simp: rbind_eq_Inr)
  with ps(2) show ?thesis by (metis set_map set_sort)
qed

lemma all_of_True: "all_of ms = Inr True \<longleftrightarrow> (\<forall>m \<in> set ms. m = Inr True)"
  by (induction ms) (auto simp: rbind_eq_Inr split: if_splits)


definition sample_request :: "string \<Rightarrow> int \<Rightarrow> dict" where
  "sample_request digest n =
     [(''kind'', JStr ''WorkRequest''), (''contentDigest'', JStr digest),
      (''metadata'', JObj [(''recordId'', JStr ''w''), (''revision'', JInt n), (''createdAt'', JStr ''2026-01-01T00:00:00Z'')])]"

lemma sample_open:
  "records_for [sample_request ''a'' 1, sample_request ''b'' 2] (any_record\<lparr>q_open_work := True\<rparr>)
     [(''a'', ''proposed''), (''b'', ''proposed'')] = Inr [sample_request ''b'' 2]"
  by code_simp


end
