(* ===== verification/Graph_Query.thy ===== *)
theory Graph_Query
  imports Query
begin

text \<open>
  Walks over the relationships of stored records (query.py, second half): the bounded graph around
  some roots, the graph of one experiment, the lineage of a development record, and the summary of
  the replications of a record.
\<close>

section \<open>The bounded graph\<close>

record graph_edge =
  e_source :: string
  e_target :: string
  e_type :: string

record graph_traversal =
  g_records :: "dict list"
  g_edges :: "graph_edge list"
  g_unresolved :: "string list"
  g_truncated :: bool

definition digest_str :: "dict \<Rightarrow> string" where
  "digest_str rec = py_str (dget rec ''contentDigest'')"

definition add_references :: "(string \<times> dict) list \<Rightarrow> dict \<Rightarrow> (string \<times> dict) list" where
  "add_references by_ref rec =
     (let by_digest = AList.update (digest_str rec) rec by_ref
      in case dget rec ''metadata'' of
           JObj metadata \<Rightarrow>
             if truthy (dget metadata ''recordId'')
             then AList.update (py_str (dget metadata ''recordId'')) rec by_digest else by_digest
         | _ \<Rightarrow> by_digest)"

definition references :: "dict list \<Rightarrow> (string \<times> dict) list" where
  "references values = foldl add_references [] values"

definition record_relations :: "dict \<Rightarrow> graph_edge list res" where
  "record_relations rec =
     rbind (py_iter (dget_default rec ''relationships'' (JArr []))) (\<lambda>items.
       Inr (map (\<lambda>item. let r = obj_of item in
              \<lparr>e_source = digest_str rec, e_target = py_str (dget_default r ''target'' (JStr [])),
               e_type = py_str (dget_default r ''type'' (JStr []))\<rparr>) (filter is_obj items)))"

definition edge_rows :: "dict list \<Rightarrow> graph_edge list res" where
  "edge_rows values = rbind (rmapM record_relations values) (\<lambda>rows. Inr (concat rows))"

text \<open>Both directions of the edges whose target is known; the neighbours of a node are a set.\<close>

definition links :: "(string \<times> dict) list \<Rightarrow> graph_edge list \<Rightarrow> (string \<times> string) list" where
  "links by_ref edges =
     concat (map (\<lambda>e. case map_of by_ref (e_target e) of
                        None \<Rightarrow> []
                      | Some rec \<Rightarrow> [(e_source e, digest_str rec), (digest_str rec, e_source e)]) edges)"

definition neighbours :: "(string \<times> string) list \<Rightarrow> string \<Rightarrow> string list" where
  "neighbours ls node = sorted_set (map snd (filter (\<lambda>p. fst p = node) ls))"

text \<open>
  The loop over the queue. A node is seen exactly when it is selected, so that one list serves for
  both. Each round either drops an entry of the queue or selects a node, and at most \<open>nodes\<close> are
  selected.
\<close>

function walk_queue ::
  "nat \<Rightarrow> nat \<Rightarrow> (string \<Rightarrow> string list) \<Rightarrow> (string \<times> nat) list \<Rightarrow> string list \<Rightarrow> string list \<times> bool" where
  "walk_queue depth nodes adj [] selected = (selected, False)"
| "walk_queue depth nodes adj ((node, d) # queue) selected =
     (if node \<in> set selected then walk_queue depth nodes adj queue selected
      else if length selected \<ge> nodes then (selected, True)
      else walk_queue depth nodes adj
             (queue @ (if d < depth then map (\<lambda>m. (m, Suc d)) (adj node) else [])) (selected @ [node]))"
  by pat_completeness auto
termination
  by (relation "measures [\<lambda>(depth, nodes, adj, queue, selected). nodes - length selected,
                         \<lambda>(depth, nodes, adj, queue, selected). length queue]") auto

definition edge_order :: "graph_edge \<Rightarrow> string \<times> string \<times> string" where
  "edge_order e = (e_source e, e_type e, e_target e)"

definition look_up :: "(string \<times> dict) list \<Rightarrow> string \<Rightarrow> dict res" where
  "look_up by_ref node = (case map_of by_ref node of None \<Rightarrow> Inl (KeyError node) | Some rec \<Rightarrow> Inr rec)"

definition root_digests :: "(string \<times> dict) list \<Rightarrow> string list \<Rightarrow> string list" where
  "root_digests by_ref roots = sorted_set (map digest_str (List.map_filter (map_of by_ref) roots))"

definition bounded_graph :: "dict list \<Rightarrow> string list \<Rightarrow> int \<Rightarrow> int \<Rightarrow> graph_traversal res" where
  "bounded_graph values roots max_depth max_nodes =
     rbind (guard (0 \<le> max_depth \<and> 1 \<le> max_nodes)
              (ValueError ''graph bounds must be non-negative depth and positive node count'')) (\<lambda>_.
     let by_ref = references values in
     rbind (edge_rows values) (\<lambda>edges.
     let unresolved = filter (\<lambda>t. map_of by_ref t = None) (map e_target edges);
         (selected, truncated) =
           walk_queue (nat max_depth) (nat max_nodes) (neighbours (links by_ref edges))
             (map (\<lambda>r. (r, 0)) (root_digests by_ref roots)) []
     in
     rbind (rmapM (look_up by_ref) selected) (\<lambda>found.
       Inr \<lparr>g_records = sort_key (\<lambda>r. py_str (dget_default r ''contentDigest'' (JStr []))) found,
            g_edges = filter (\<lambda>e. e_source e \<in> set selected \<or>
                                (e_target e \<in> set selected \<and> map_of by_ref (e_target e) \<noteq> None))
                        (sort_key edge_order edges),
            g_unresolved = sorted_set unresolved, g_truncated = truncated\<rparr>)))"

section \<open>The graph of an experiment\<close>

definition sub_get :: "dict \<Rightarrow> string \<Rightarrow> string \<Rightarrow> json \<Rightarrow> json res" where
  "sub_get rec k f v0 = attr_get (dget_default rec k (JObj [])) f v0"

definition names_record :: "string \<Rightarrow> dict \<Rightarrow> string \<times> string \<Rightarrow> bool res" where
  "names_record root rec kf = rbind (sub_get rec (fst kf) (snd kf) JNull) (\<lambda>v. Inr (v = JStr root))"

definition experiment_candidate :: "string \<Rightarrow> dict \<Rightarrow> bool res" where
  "experiment_candidate root rec =
     (if dget rec ''kind'' \<noteq> JStr ''ConceptExperiment'' then Inr False
      else if dget rec ''contentDigest'' = JStr root then Inr True
      else any_of (names_record root rec) [(''metadata'', ''recordId''), (''subject'', ''identity'')])"

definition revision_of :: "dict \<Rightarrow> int res" where
  "revision_of item = rbind (sub_get item ''metadata'' ''revision'' (JInt 1)) py_int"

definition revision_order :: "dict \<Rightarrow> (int \<times> string) res" where
  "revision_order item =
     rbind (revision_of item) (\<lambda>n.
     rbind (sub_get item ''metadata'' ''createdAt'' (JStr [])) (\<lambda>created. Inr (n, py_str created)))"

text \<open>\<open>max(xs, key=f)\<close>: the first of the greatest.\<close>

fun first_max :: "('k::linorder \<times> 'a) \<Rightarrow> ('k \<times> 'a) list \<Rightarrow> 'a" where
  "first_max p [] = snd p"
| "first_max p (q # qs) = first_max (if fst q > fst p then q else p) qs"

definition max_by :: "('a \<Rightarrow> 'k::linorder res) \<Rightarrow> 'a list \<Rightarrow> 'a res" where
  "max_by f xs =
     rbind (rmapM (\<lambda>x. rbind (f x) (\<lambda>k. Inr (k, x))) xs) (\<lambda>ps.
       case ps of [] \<Rightarrow> Inl (ValueError ''max() arg is an empty sequence'') | p # qs \<Rightarrow> Inr (first_max p qs))"

definition add_reference :: "(string \<times> dict list) list \<Rightarrow> dict \<Rightarrow> (string \<times> dict list) list" where
  "add_reference direct entry =
     (let k = py_str (dget entry ''relation''); r = obj_of (dget entry ''reference'')
      in AList.update k ((case map_of direct k of None \<Rightarrow> [] | Some rs \<Rightarrow> rs) @ [r]) direct)"

definition direct_references :: "dict \<Rightarrow> (string \<times> dict list) list res" where
  "direct_references details =
     rbind (objects_in (dget details ''references'') (\<lambda>entry. is_obj (dget entry ''reference''))) (\<lambda>entries.
       Inr (sort_key fst (map (\<lambda>(k, rs). (k, sort_key (\<lambda>r. py_str (dget_default r ''stableId'' (JStr []))) rs))
              (foldl add_reference [] entries))))"

record experiment_graph =
  x_experiment :: dict
  x_revisions :: "dict list"
  x_references :: "(string \<times> dict list) list"
  x_actors :: "json list"
  x_lineage :: "dict list"
  x_related :: "dict list"
  x_graph :: graph_traversal

definition lineage_types :: "string list" where
  "lineage_types = [''rerun_of'', ''predecessor'', ''supersedes'', ''derived_from'']"

definition concept_experiment_graph :: "dict list \<Rightarrow> string \<Rightarrow> int \<Rightarrow> int \<Rightarrow> experiment_graph res" where
  "concept_experiment_graph values root max_depth max_nodes =
     rbind (rfilterM (experiment_candidate root) values) (\<lambda>candidates.
     rbind (guard (candidates \<noteq> []) (ValueError ''concept experiment was not found'')) (\<lambda>_.
     rbind (max_by revision_order candidates) (\<lambda>experiment.
     rbind (bounded_graph values [digest_str experiment] max_depth max_nodes) (\<lambda>graph.
     let details = dget experiment ''details'' in
     rbind (case details of JObj d \<Rightarrow> direct_references d | _ \<Rightarrow> Inr []) (\<lambda>direct.
     rbind (sorted_by revision_of candidates) (\<lambda>revisions.
     rbind (or_empty (dget experiment ''relationships'')) (\<lambda>relationships.
     rbind (rfilterM (\<lambda>r. in_set (dget r ''type'') lineage_types) (map obj_of (filter is_obj relationships))) (\<lambda>lineage.
     rbind (case details of JObj d \<Rightarrow> or_empty (dget d ''actors'') | _ \<Rightarrow> Inr []) (\<lambda>actors.
       Inr \<lparr>x_experiment = experiment, x_revisions = revisions, x_references = direct, x_actors = actors,
            x_lineage = lineage,
            x_related = filter (\<lambda>r. \<not> py_eq (dget r ''contentDigest'') (dget experiment ''contentDigest'')) (g_records graph),
            x_graph = graph\<rparr>)))))))))"

section \<open>The lineage of a development record\<close>

definition development_candidate :: "string \<Rightarrow> dict \<Rightarrow> bool res" where
  "development_candidate root rec =
     (if dget rec ''kind'' \<noteq> JStr ''DevelopmentRecord'' then Inr False
      else if dget rec ''contentDigest'' = JStr root then Inr True
      else rbind (names_record root rec (''metadata'', ''recordId'')) (\<lambda>b.
             if b then Inr True
             else rbind (or_get (dget_default rec ''details'' (JObj [])) ''recordId'') (\<lambda>v. Inr (v = JStr root))))"

definition supersession_of :: "dict \<Rightarrow> (string \<times> string) list res" where
  "supersession_of rec =
     rbind (py_iter (dget_default rec ''relationships'' (JArr []))) (\<lambda>items.
       rmapM (\<lambda>item.
         rbind (attr_get (if truthy (dget_default rec ''details'' (JObj [])) then dget_default rec ''details'' (JObj []) else JObj [])
                  ''recordId'' (JStr [])) (\<lambda>successor.
           Inr (py_str successor, py_str (dget_default (obj_of item) ''target'' (JStr [])))))
         (filter (\<lambda>item. is_obj item \<and> dget (obj_of item) ''type'' = JStr ''supersedes'') items))"

record development_view =
  d_record :: dict
  d_status :: json
  d_supersession :: "(string \<times> string) list"
  d_experiments :: "dict list"
  d_related :: "dict list"
  d_graph :: graph_traversal

definition development_lineage :: "dict list \<Rightarrow> string \<Rightarrow> int \<Rightarrow> int \<Rightarrow> development_view res" where
  "development_lineage values root max_depth max_nodes =
     rbind (rfilterM (development_candidate root) values) (\<lambda>candidates.
     rbind (guard (candidates \<noteq> []) (ValueError ''development record was not found'')) (\<lambda>_.
     rbind (bounded_graph values (map digest_str candidates) max_depth max_nodes) (\<lambda>graph.
     let primary = hd candidates; of_kind = (\<lambda>k. filter (\<lambda>r. dget r ''kind'' = JStr k) values) in
     rbind (rmapM supersession_of (of_kind ''DevelopmentRecord'')) (\<lambda>supersession.
       Inr \<lparr>d_record = primary,
            d_status = (case dget primary ''details'' of
                          JObj d \<Rightarrow> dget_default d ''computedStatus'' (JStr ''UNKNOWN'')
                        | _ \<Rightarrow> JStr ''UNKNOWN''),
            d_supersession = sort (concat supersession),
            d_experiments = sort_key (\<lambda>r. py_str (dget_default r ''contentDigest'' (JStr []))) (of_kind ''ConceptExperiment''),
            d_related = filter (\<lambda>r. \<not> py_eq (dget r ''contentDigest'') (dget primary ''contentDigest'')) (g_records graph),
            d_graph = graph\<rparr>))))"

section \<open>Replications of a record\<close>

definition json_key :: "json \<Rightarrow> string" where
  "json_key v = (if is_obj v \<or> is_arr v then dumps v else py_str v)"

definition replication_dimensions :: "string list" where
  "replication_dimensions =
     [''modelFamily'', ''promptSource'', ''harness'', ''compiler'', ''machine'', ''provider'',
      ''artifactAncestry'', ''verifierImplementation'']"

definition replicates_target :: "string \<Rightarrow> dict \<Rightarrow> bool res" where
  "replicates_target target rec =
     (if dget rec ''kind'' \<noteq> JStr ''Replication'' then Inr False
      else
        rbind (py_iter (dget_default rec ''relationships'' (JArr []))) (\<lambda>items.
        rbind (any_of (\<lambda>r. rbind (in_set (dget r ''type'') [''replicates'', ''failed_to_replicate'']) (\<lambda>b.
                        Inr (b \<and> dget r ''target'' = JStr target))) (map obj_of (filter is_obj items))) (\<lambda>linked.
          Inr ((case dget rec ''details'' of JObj d \<Rightarrow> dget d ''targetRecord'' = JStr target | _ \<Rightarrow> False) \<or> linked))))"

definition outcome_of :: "dict \<Rightarrow> string" where
  "outcome_of rec =
     (case dget rec ''details'' of
        JObj d \<Rightarrow> py_str (dget_default d ''outcome'' (JStr ''UNKNOWN''))
      | _ \<Rightarrow> ''UNKNOWN'')"

definition count_outcome :: "(string \<times> int) list \<Rightarrow> dict \<Rightarrow> (string \<times> int) list" where
  "count_outcome outcomes rec =
     AList.update (outcome_of rec) ((case map_of outcomes (outcome_of rec) of None \<Rightarrow> 0 | Some n \<Rightarrow> n) + 1) outcomes"

definition independence_of :: "dict \<Rightarrow> dict" where
  "independence_of rec =
     (case dget rec ''details'' of
        JObj d \<Rightarrow> obj_of (dget_default d ''independence'' (JObj []))
      | _ \<Rightarrow> [])"

text \<open>The values a dimension takes over the replications, and who shares each.\<close>

definition add_member :: "string \<Rightarrow> (string \<times> string list) list \<Rightarrow> dict \<Rightarrow> (string \<times> string list) list" where
  "add_member dimension values rec =
     (case map_of (independence_of rec) dimension of
        None \<Rightarrow> values
      | Some v \<Rightarrow>
          AList.update (json_key v)
            ((case map_of values (json_key v) of None \<Rightarrow> [] | Some ids \<Rightarrow> ids) @ [digest_str rec]) values)"

definition shared_members :: "string \<Rightarrow> dict list \<Rightarrow> (string \<times> string list) list" where
  "shared_members dimension replications =
     map (\<lambda>(k, ids). (k, sort ids))
       (filter (\<lambda>(k, ids). length ids > 1) (foldl (add_member dimension) [] replications))"

record correlation =
  c_target :: string
  c_replications :: "dict list"
  c_outcomes :: "(string \<times> int) list"
  c_shared :: "(string \<times> (string \<times> string list) list) list"

text \<open>The dimensions that replications state, in the order of their first mention.\<close>

definition stated_dimensions :: "dict list \<Rightarrow> string list" where
  "stated_dimensions replications =
     rev (remdups (rev (concat (map (\<lambda>rec. filter (has_key (independence_of rec)) replication_dimensions) replications))))"

definition replication_correlation :: "dict list \<Rightarrow> string \<Rightarrow> correlation res" where
  "replication_correlation values target =
     rbind (rfilterM (replicates_target target) values) (\<lambda>replications.
       Inr \<lparr>c_target = target, c_replications = replications, c_outcomes = foldl count_outcome [] replications,
            c_shared = map (\<lambda>k. (k, shared_members k replications)) (stated_dimensions replications)\<rparr>)"

section \<open>What the walk selects\<close>

text \<open>The nodes at most \<open>k\<close> steps away from some nodes.\<close>

primrec within :: "(string \<Rightarrow> string list) \<Rightarrow> nat \<Rightarrow> string set \<Rightarrow> string set" where
  "within adj 0 R = R"
| "within adj (Suc k) R = within adj k R \<union> (\<Union>n \<in> within adj k R. set (adj n))"

lemma within_mono: "j \<le> k \<Longrightarrow> within adj j R \<subseteq> within adj k R"
  by (induction k) (auto simp: le_Suc_eq)

lemma walk_bound:
  "walk_queue D N adj queue sel = (out, t) \<Longrightarrow> length sel \<le> N \<Longrightarrow> distinct sel \<Longrightarrow>
   length out \<le> N \<and> distinct out \<and> (t \<longrightarrow> length out = N)"
  by (induction D N adj queue sel arbitrary: out t rule: walk_queue.induct) (auto split: if_splits)

lemma walk_sound:
  assumes "walk_queue D N adj queue sel = (out, t)"
    and "\<forall>(n, d) \<in> set queue. d \<le> D \<and> n \<in> within adj d R" and "set sel \<subseteq> within adj D R"
  shows "set out \<subseteq> within adj D R"
  using assms
proof (induction D N adj queue sel arbitrary: out t rule: walk_queue.induct)
  case (2 D N adj node d queue sel)
  have node: "node \<in> within adj d R" "d \<le> D" using "2.prems"(2) by auto
  then have "node \<in> within adj D R" using within_mono by blast
  moreover have "\<forall>(n, d) \<in> set (queue @ (if d < D then map (\<lambda>m. (m, Suc d)) (adj node) else [])). d \<le> D \<and> n \<in> within adj d R"
    using "2.prems"(2) node by auto
  ultimately show ?case using 2 by (auto split: if_splits)
qed auto

text \<open>
  The queue is in order of depth; \<open>dep\<close> is the depth at which a node was selected, and no entry of
  the queue is less deep than a selected node.
\<close>

definition walk_inv :: "nat \<Rightarrow> (string \<Rightarrow> string list) \<Rightarrow> string set \<Rightarrow> (string \<times> nat) list \<Rightarrow> string list \<Rightarrow> (string \<Rightarrow> nat) \<Rightarrow> bool" where
  "walk_inv D adj R queue sel dep =
     (sorted (map snd queue) \<and>
      (\<forall>x \<in> set queue. \<forall>y \<in> set queue. snd y \<le> Suc (snd x)) \<and>
      (\<forall>n \<in> set sel. \<forall>x \<in> set queue. dep n \<le> snd x) \<and>
      (\<forall>n \<in> set sel. dep n < D \<longrightarrow> (\<forall>m \<in> set (adj n).
         m \<in> set sel \<and> dep m \<le> Suc (dep n) \<or> (\<exists>d \<le> Suc (dep n). (m, d) \<in> set queue))) \<and>
      (\<forall>r \<in> R. r \<in> set sel \<and> dep r = 0 \<or> (r, 0) \<in> set queue))"

lemma walk_inv_skip:
  assumes "walk_inv D adj R ((node, d) # queue) sel dep" and "node \<in> set sel"
  shows "walk_inv D adj R queue sel dep"
  unfolding walk_inv_def
proof (intro conjI)
  have le: "dep node \<le> d" using assms by (auto simp: walk_inv_def)
  have at0: "d = 0 \<Longrightarrow> dep node = 0" using le by simp
  show "sorted (map snd queue)" "\<forall>x \<in> set queue. \<forall>y \<in> set queue. snd y \<le> Suc (snd x)"
    "\<forall>n \<in> set sel. \<forall>x \<in> set queue. dep n \<le> snd x"
    using assms(1) by (simp_all add: walk_inv_def)
  show "\<forall>n \<in> set sel. dep n < D \<longrightarrow> (\<forall>m \<in> set (adj n).
      m \<in> set sel \<and> dep m \<le> Suc (dep n) \<or> (\<exists>d \<le> Suc (dep n). (m, d) \<in> set queue))"
  proof (intro ballI impI)
    fix n m assume n: "n \<in> set sel" "dep n < D" "m \<in> set (adj n)"
    then consider "m \<in> set sel" "dep m \<le> Suc (dep n)" | d' where "d' \<le> Suc (dep n)" "(m, d') \<in> set ((node, d) # queue)"
      using assms(1) unfolding walk_inv_def by blast
    then show "m \<in> set sel \<and> dep m \<le> Suc (dep n) \<or> (\<exists>d \<le> Suc (dep n). (m, d) \<in> set queue)"
      using le assms(2) by cases auto
  qed
  show "\<forall>r \<in> R. r \<in> set sel \<and> dep r = 0 \<or> (r, 0) \<in> set queue"
    using assms at0 unfolding walk_inv_def by auto
qed

lemma walk_inv_select:
  assumes "walk_inv D adj R ((node, d) # queue) sel dep" and "node \<notin> set sel"
  shows "walk_inv D adj R (queue @ (if d < D then map (\<lambda>m. (m, Suc d)) (adj node) else [])) (sel @ [node]) (dep(node := d))"
    (is "walk_inv D adj R (queue @ ?new) _ ?dep")
  unfolding walk_inv_def
proof (intro conjI)
  have s: "sorted (map snd queue)" "\<forall>x \<in> set queue. d \<le> snd x" "\<forall>x \<in> set queue. snd x \<le> Suc d"
    and n: "\<forall>n \<in> set sel. dep n \<le> d"
    using assms(1) by (auto simp: walk_inv_def)
  have new: "\<forall>x \<in> set ?new. snd x = Suc d" by auto
  have "map snd ?new = replicate (length ?new) (Suc d)" using new by (simp add: map_replicate_const [symmetric] map_eq_conv)
  then show "sorted (map snd (queue @ ?new))" using s by (auto simp: sorted_append)
  show "\<forall>x \<in> set (queue @ ?new). \<forall>y \<in> set (queue @ ?new). snd y \<le> Suc (snd x)"
  proof (intro ballI)
    fix x y assume "x \<in> set (queue @ ?new)" "y \<in> set (queue @ ?new)"
    then have "d \<le> snd x" "snd y \<le> Suc d" using s(2,3) new by (auto split: if_splits)
    then show "snd y \<le> Suc (snd x)" by simp
  qed
  show "\<forall>n \<in> set (sel @ [node]). \<forall>x \<in> set (queue @ ?new). ?dep n \<le> snd x"
    using s n new by (auto intro: le_trans)
  show "\<forall>n \<in> set (sel @ [node]). ?dep n < D \<longrightarrow> (\<forall>m \<in> set (adj n).
      m \<in> set (sel @ [node]) \<and> ?dep m \<le> Suc (?dep n) \<or> (\<exists>d \<le> Suc (?dep n). (m, d) \<in> set (queue @ ?new)))"
  proof (intro ballI impI)
    fix k m assume k: "k \<in> set (sel @ [node])" "?dep k < D" "m \<in> set (adj k)"
    show "m \<in> set (sel @ [node]) \<and> ?dep m \<le> Suc (?dep k) \<or> (\<exists>d \<le> Suc (?dep k). (m, d) \<in> set (queue @ ?new))"
    proof (cases "k = node")
      case True
      with k have "(m, Suc d) \<in> set (queue @ ?new)" by auto
      with True show ?thesis by auto
    next
      case False
      with k have "k \<in> set sel" "dep k < D" by auto
      then consider "m \<in> set sel" "dep m \<le> Suc (dep k)" | d' where "d' \<le> Suc (dep k)" "(m, d') \<in> set ((node, d) # queue)"
        using assms(1) k(3) unfolding walk_inv_def by blast
      then show ?thesis using False assms(2) by cases auto
    qed
  qed
  show "\<forall>r \<in> R. r \<in> set (sel @ [node]) \<and> ?dep r = 0 \<or> (r, 0) \<in> set (queue @ ?new)"
    using assms unfolding walk_inv_def by auto
qed

lemma walk_closed:
  assumes "walk_queue D N adj queue sel = (out, False)" and "walk_inv D adj R queue sel dep"
  shows "\<exists>dep'. walk_inv D adj R [] out dep'"
  using assms
proof (induction D N adj queue sel arbitrary: out dep rule: walk_queue.induct)
  case (1 D N adj sel)
  then show ?case by auto
next
  case (2 D N adj node d queue sel)
  show ?case
  proof (cases "node \<in> set sel")
    case True
    with 2 walk_inv_skip show ?thesis by (metis walk_queue.simps(2))
  next
    case False
    moreover from False "2.prems"(1) have "\<not> N \<le> length sel" by auto
    ultimately show ?thesis using "2.IH"(2) "2.prems" walk_inv_select [OF "2.prems"(2) False] by simp
  qed
qed

lemma walk_complete:
  assumes "walk_inv D adj R [] out dep"
  shows "k \<le> D \<Longrightarrow> n \<in> within adj k R \<Longrightarrow> n \<in> set out \<and> dep n \<le> k"
proof (induction k arbitrary: n)
  case 0
  then show ?case using assms by (auto simp: walk_inv_def)
next
  case (Suc k)
  show ?case
  proof (cases "n \<in> within adj k R")
    case True
    with Suc show ?thesis by (simp add: le_SucI)
  next
    case False
    with Suc.prems obtain p where p: "p \<in> within adj k R" "n \<in> set (adj p)" by auto
    with Suc have "p \<in> set out" "dep p \<le> k" by simp_all
    with assms p(2) Suc.prems(1) have "n \<in> set out" "dep n \<le> Suc (dep p)" by (auto simp: walk_inv_def)
    with \<open>dep p \<le> k\<close> show ?thesis by simp
  qed
qed

text \<open>A walk that is not cut short selects exactly the nodes within the depth.\<close>

lemma walk_exact:
  assumes "walk_queue D N adj (map (\<lambda>r. (r, 0)) roots) [] = (out, False)"
  shows "set out = within adj D (set roots)"
proof
  show "set out \<subseteq> within adj D (set roots)"
    by (rule walk_sound [OF assms]) auto
  have "walk_inv D adj (set roots) (map (\<lambda>r. (r, 0)) roots) [] (\<lambda>_. 0)"
    by (auto simp: walk_inv_def comp_def map_replicate_const)
  from walk_closed [OF assms this] walk_complete show "within adj D (set roots) \<subseteq> set out" by blast
qed

lemma look_up_set:
  assumes "rmapM (look_up by_ref) nodes = Inr found"
  shows "set found = {rec. \<exists>n \<in> set nodes. map_of by_ref n = Some rec} \<and> length found = length nodes"
  using assms
proof (induction nodes arbitrary: found)
  case (Cons n nodes)
  then obtain r rs where r: "look_up by_ref n = Inr r" "rmapM (look_up by_ref) nodes = Inr rs" "found = r # rs"
    by (auto simp: rbind_eq_Inr)
  from r(1) have "map_of by_ref n = Some r" by (simp add: look_up_def split: option.splits)
  with Cons.IH [OF r(2)] r(3) show ?case by auto
qed simp

text \<open>
  C20. The bounded graph is exact. Whatever the relationships are, cyclic or not, the traversal returns at most the bound of records, each of them within the depth of a root along relationships followed in both directions; when it is cut short it returns exactly the bound, and otherwise it returns every record within the depth.
\<close>

theorem bounded_graph_exact:
  assumes "bounded_graph values roots max_depth max_nodes = Inr g" and "edge_rows values = Inr edges"
  shows "(let by_ref = references values;
              near = within (neighbours (links by_ref edges)) (nat max_depth) (set (root_digests by_ref roots))
          in int (length (g_records g)) \<le> max_nodes \<and>
             set (g_records g) \<subseteq> {rec. \<exists>n \<in> near. map_of by_ref n = Some rec} \<and>
             (if g_truncated g then int (length (g_records g)) = max_nodes
              else set (g_records g) = {rec. \<exists>n \<in> near. map_of by_ref n = Some rec}))"
proof -
  let ?b = "references values"
  let ?adj = "neighbours (links ?b edges)"
  let ?q = "map (\<lambda>r. (r, 0)) (root_digests ?b roots)"
  obtain sel t where w: "walk_queue (nat max_depth) (nat max_nodes) ?adj ?q [] = (sel, t)" by fastforce
  from assms w obtain found where f: "rmapM (look_up ?b) sel = Inr found" "1 \<le> max_nodes"
      "set (g_records g) = set found" "length (g_records g) = length found" "g_truncated g = t"
    by (auto simp: bounded_graph_def Let_def rbind_eq_Inr)
  have bd: "length sel \<le> nat max_nodes \<and> distinct sel \<and> (t \<longrightarrow> length sel = nat max_nodes)"
    by (rule walk_bound [OF w]) simp_all
  have sound: "set sel \<subseteq> within ?adj (nat max_depth) (set (root_digests ?b roots))"
    by (rule walk_sound [OF w]) auto
  have "\<not> t \<Longrightarrow> set sel = within ?adj (nat max_depth) (set (root_digests ?b roots))"
    using w by (intro walk_exact) simp
  with f bd sound look_up_set [OF f(1)] show ?thesis by (auto simp: Let_def)
qed

definition sample_graph :: "dict list" where
  "sample_graph =
     [[(''contentDigest'', JStr ''a''), (''relationships'', JArr [JObj [(''type'', JStr ''cites''), (''target'', JStr ''b'')]])],
      [(''contentDigest'', JStr ''b''), (''relationships'', JArr [JObj [(''type'', JStr ''cites''), (''target'', JStr ''c'')]])],
      [(''contentDigest'', JStr ''c'')]]"

lemma sample_graph_edges: "edge_rows sample_graph = Inr [\<lparr>e_source = ''a'', e_target = ''b'', e_type = ''cites''\<rparr>, \<lparr>e_source = ''b'', e_target = ''c'', e_type = ''cites''\<rparr>]"
  by code_simp

lemma sample_graph_ok: "\<exists>g. bounded_graph sample_graph [''a''] 1 10 = Inr g \<and> g_records g = take 2 sample_graph \<and> \<not> g_truncated g"
  by (rule exI [of _ "projr (bounded_graph sample_graph [''a''] 1 10)"]) code_simp

theorem bounded_graph_exact_witness:
  "\<exists>g. bounded_graph sample_graph [''a''] 1 10 = Inr g \<and> int (length (g_records g)) \<le> 10 \<and> g_records g = take 2 sample_graph"
proof -
  obtain g where g: "bounded_graph sample_graph [''a''] 1 10 = Inr g" "g_records g = take 2 sample_graph"
    using sample_graph_ok by blast
  with bounded_graph_exact [OF g(1) sample_graph_edges] show ?thesis by (auto simp: Let_def)
qed

end
