(* ===== verification/Ledger.thy ===== *)
theory Ledger
  imports Store
begin

text \<open>
  What the bytes of a ledger mean. A store \<open>represents\<close> a list of rows when its ledger is the
  canonical text of those rows, one to a line, the rows are linked by their digests, and the
  cached tail was written after one of them. The lemmas show that reading gives back exactly
  the rows, that the tail which is loaded is always the tail of the ledger, whatever the cache
  holds, and that appending a row extends the list by one linked row.
\<close>

section \<open>Lines\<close>

lemma utf8_append: "utf8 (s @ t) = utf8 s @ utf8 t"
  by (simp add: utf8_def)

lemma utf8_line: "CHR 0x0A \<notin> set s \<Longrightarrow> 10 \<notin> set (utf8 s)"
proof -
  have c: "10 \<in> set (utf8_char c) \<Longrightarrow> c = CHR 0x0A" for c
  proof -
    assume "10 \<in> set (utf8_char c)"
    then have "of_char c = (10 :: nat)" by (auto simp: utf8_char_def Let_def split: if_splits)
    then have "char_of (of_char c :: nat) = (char_of (10 :: nat) :: char)" by simp
    moreover have "(char_of (10 :: nat) :: char) = CHR 0x0A" by code_simp
    ultimately show "c = CHR 0x0A" by simp
  qed
  assume "CHR 0x0A \<notin> set s" then show ?thesis using c by (auto simp: utf8_def)
qed

lemma decode_utf8_utf8 [simp]: "decode_utf8 (utf8 s) = Some s"
  by (simp add: decode_utf8_def)

lemma json_loads_utf8 [simp]: "json_loads (utf8 s) = loads s"
  by (simp add: json_loads_def)

lemma utf8_newline: "utf8 [CHR 0x0A] = [10]"
  by (simp add: utf8_def utf8_char_def)

text \<open>The form in which a document is read back from its canonical text.\<close>

definition norm :: "dict \<Rightarrow> dict" where
  "norm d = obj_of (key_sorted (canonicalize [] (JObj d)))"

lemma JObj_norm: "JObj (norm d) = key_sorted (canonicalize [] (JObj d))"
  by (simp add: norm_def)

lemma encoded_row_utf8: "encoded_row r = utf8 (dumps (canonicalize [] (JObj r)) @ [CHR 0x0A])"
  by (simp only: encoded_row_def canonical_json_def encode_def utf8_append utf8_newline)

lemma canonical_json_norm: "canonical_json (JObj (norm r)) = canonical_json (JObj r)"
proof -
  have "dumps (canonicalize [] (key_sorted (canonicalize [] (JObj r)))) = dumps (canonicalize [] (JObj r))"
    by (simp only: dumps_canonicalize_key_sorted canonicalize_idem)
  then show ?thesis unfolding canonical_json_def encode_def JObj_norm by simp
qed

lemma encoded_row_norm: "encoded_row (norm r) = encoded_row r"
  by (simp add: encoded_row_def canonical_json_norm)

lemma json_wf_norm: "json_wf (JObj r) \<Longrightarrow> json_wf (JObj (norm r))"
  unfolding JObj_norm by (intro json_wf_key_sorted json_wf_canonicalize)

lemma json_loads_canonical: "json_wf (JObj r) \<Longrightarrow> json_loads (canonical_json (JObj r)) = Some (JObj (norm r))"
  unfolding canonical_json_def encode_def json_loads_utf8 JObj_norm
  by (intro loads_dumps_sorted json_wf_canonicalize)

lemma norm_norm: "json_wf (JObj r) \<Longrightarrow> norm (norm r) = norm r"
  using json_loads_canonical [of r] json_loads_canonical [of "norm r"] json_wf_norm [of r]
  by (simp add: canonical_json_norm)

lemma json_loads_row:
  assumes "json_wf (JObj r)"
  shows "json_loads (encoded_row r) = Some (JObj (norm r))"
proof -
  obtain d where d: "canonicalize [] (JObj r) = JObj d" by simp
  have "skip_ws [CHR 0x0A] = []" by (simp add: skip_ws_def is_ws_def)
  moreover have "json_wf (JObj d)" using json_wf_canonicalize [OF assms, of "[]"] d by simp
  ultimately show ?thesis unfolding encoded_row_utf8 json_loads_utf8 JObj_norm d
    by (simp only: loads_obj if_True simp_thms)
qed

lemma encoded_row_line:
  assumes "json_wf (JObj r)"
  shows "\<exists>l. encoded_row r = l @ [10] \<and> 10 \<notin> set l"
  unfolding encoded_row_utf8 utf8_append utf8_newline
  using utf8_line dumps_line json_wf_canonicalize [OF assms] by blast

lemma encoded_row_not_blank: "\<not> list_all blank_byte (encoded_row r)"
proof -
  have "encoded_row r = 123 # tl (encoded_row r)"
    by (simp add: encoded_row_def canonical_json_def encode_def utf8_def utf8_char_def)
  then have "123 \<in> set (encoded_row r)" by (metis list.set_intros(1))
  then show ?thesis by (auto simp: blank_byte_def list_all_iff intro!: bexI [of _ 123])
qed

lemma split_lines_line: "10 \<notin> set l \<Longrightarrow> split_lines acc (l @ 10 # b) = (acc @ l @ [10]) # split_lines [] b"
  by (induction l arbitrary: acc) auto

definition encoded_rows :: "dict list \<Rightarrow> bytes" where
  "encoded_rows rws = concat (map encoded_row rws)"

lemma split_lines_rows:
  "list_all (\<lambda>r. json_wf (JObj r)) rws \<Longrightarrow> split_lines [] (encoded_rows rws) = map encoded_row rws"
proof (induction rws)
  case (Cons r rws)
  from encoded_row_line [of r] Cons.prems obtain l where "encoded_row r = l @ [10]" "10 \<notin> set l" by auto
  with Cons show ?case by (simp add: encoded_rows_def split_lines_line)
qed (simp add: encoded_rows_def)

definition row_ok :: "dict \<Rightarrow> bool" where
  "row_ok r = (json_wf (JObj r) \<and> norm r = r \<and> length (encoded_row r) \<le> MAX_LEDGER_LINE_BYTES)"

lemma read_rows_encoded:
  assumes "list_all row_ok rws" and "used + length (encoded_rows rws) \<le> MAX_LEDGER_BYTES"
    and "n + length rws \<le> Suc MAX_LEDGER_ROWS"
  shows "read_rows n used (map encoded_row rws) = Inr rws"
  using assms
proof (induction rws arbitrary: n used)
  case (Cons r rws)
  then have ok: "row_ok r" "used + length (encoded_row r) \<le> MAX_LEDGER_BYTES" "n \<le> MAX_LEDGER_ROWS"
    by (auto simp: encoded_rows_def)
  then have "row_of_line n (encoded_row r) = Inr r"
    by (simp add: row_of_line_def row_ok_def json_loads_row encoded_row_not_blank guard_def)
  moreover have "read_rows (n + 1) (used + length (encoded_row r)) (map encoded_row rws) = Inr rws"
    using Cons.prems by (intro Cons.IH) (auto simp: encoded_rows_def)
  ultimately show ?case using ok by (simp add: guard_def)
qed simp

lemma ledger_rows_encoded:
  assumes "list_all row_ok rws" and "length (encoded_rows rws) \<le> MAX_LEDGER_BYTES"
    and "length rws \<le> MAX_LEDGER_ROWS"
  shows "ledger_rows (encoded_rows rws) = Inr rws"
  unfolding ledger_rows_def
  using assms read_rows_encoded [of rws 0 1] split_lines_rows [of rws]
  by (simp add: list_all_iff row_ok_def)

section \<open>The rows a store holds\<close>

fun chained :: "json \<Rightarrow> int \<Rightarrow> dict list \<Rightarrow> bool" where
  "chained previous n [] = True"
| "chained previous n (r # rws) =
     (dget r ''sequence'' = JInt n \<and> dget r ''previousDigest'' = previous \<and>
      dget r ''entryDigest'' = JStr (canonical_digest_unprojected
        (row_body (JInt n) (dget r ''entryType'') previous (dget r ''payload''))) \<and>
      chained (dget r ''entryDigest'') (n + 1) rws)"

definition last_digest :: "dict list \<Rightarrow> json" where
  "last_digest rws = (if rws = [] then JNull else dget (last rws) ''entryDigest'')"

definition tail_of :: "dict list \<Rightarrow> ledger_tail" where
  "tail_of rws =
     \<lparr>t_sequence = int (length rws), t_digest = last_digest rws, t_bytes = int (length (encoded_rows rws))\<rparr>"

definition tail_text :: "dict list \<Rightarrow> bytes" where
  "tail_text rws = tail_json (JInt (int (length rws))) (last_digest rws) (length (encoded_rows rws))"

text \<open>The tail on disk is absent or was written after one of the rows.\<close>

definition tail_known :: "store \<Rightarrow> dict list \<Rightarrow> bool" where
  "tail_known s rws = (s_tail s = None \<or> (\<exists>k \<in> {.. length rws}. s_tail s = Some (tail_text (take k rws))))"

definition represents :: "store \<Rightarrow> dict list \<Rightarrow> bool" where
  "represents s rws =
     (s_ready s \<and> s_ledger s = encoded_rows rws \<and> list_all row_ok rws \<and> chained JNull 1 rws \<and>
      length (encoded_rows rws) \<le> MAX_LEDGER_BYTES \<and> length rws \<le> MAX_LEDGER_ROWS \<and>
      tail_known s rws)"

lemma tail_known_snoc: "tail_known s rws \<Longrightarrow> s_tail s' = s_tail s \<Longrightarrow> tail_known s' (rws @ [r])"
  unfolding tail_known_def
proof (elim disjE bexE)
  fix k assume "k \<in> {..length rws}" "s_tail s = Some (tail_text (take k rws))" "s_tail s' = s_tail s"
  then show "s_tail s' = None \<or> (\<exists>k \<in> {.. length (rws @ [r])}. s_tail s' = Some (tail_text (take k (rws @ [r]))))"
    by (intro disjI2 bexI [of _ k]) auto
qed simp

lemma tail_known_current: "s_tail s = Some (tail_text rws) \<Longrightarrow> tail_known s rws"
  by (auto simp: tail_known_def intro!: bexI [of _ "length rws"])

lemma rows_represents: "represents s rws \<Longrightarrow> rows s = Inr rws"
  by (simp add: represents_def rows_def require_initialized_def guard_def ledger_rows_encoded)

lemma chained_snoc:
  "chained p n (rws @ [r]) \<longleftrightarrow>
     chained p n rws \<and> chained (if rws = [] then p else last_digest rws) (n + int (length rws)) [r]"
  by (induction rws arbitrary: p n) (auto simp: last_digest_def algebra_simps)

lemma last_digest_str: "chained p n rws \<Longrightarrow> rws \<noteq> [] \<Longrightarrow> \<exists>h. last_digest rws = JStr h"
  by (induction rws arbitrary: p n) (auto simp: last_digest_def)

lemma encoded_row_ne: "encoded_row r \<noteq> []"
  by (simp add: encoded_row_def)

lemma length_encoded_rows_take:
  "k \<le> length rws \<Longrightarrow> length (encoded_rows (take k rws)) = length (encoded_rows rws) \<Longrightarrow> k = length rws"
proof (rule ccontr)
  assume k: "k \<le> length rws" and eq: "length (encoded_rows (take k rws)) = length (encoded_rows rws)"
    and "k \<noteq> length rws"
  then have "drop k rws \<noteq> []" by simp
  then have "encoded_rows (drop k rws) \<noteq> []"
    by (cases "drop k rws") (auto simp: encoded_rows_def encoded_row_ne)
  moreover have "encoded_rows rws = encoded_rows (take k rws) @ encoded_rows (drop k rws)"
    by (simp add: encoded_rows_def flip: concat_append map_append)
  ultimately show False using eq by simp
qed

lemma map_of_norm:
  assumes "dict_wf d"
  shows "map_of (norm d) k = map_option (\<lambda>v. key_sorted (canonicalize [k] v)) (map_of d k)"
proof -
  let ?c = "map (\<lambda>kv. (fst kv, canonicalize [fst kv] (snd kv))) d"
  have "dict_wf ?c" using assms by (simp add: dict_wf_def comp_def)
  moreover have "norm d = obj_of (key_sorted (JObj ?c))" by (simp add: norm_def)
  ultimately show ?thesis
    using map_of_map_text [of "\<lambda>k. canonicalize [k]" d k]
    by (simp only: map_of_key_sorted option.map_comp comp_def)
qed

lemma dget_norm: "dict_wf d \<Longrightarrow> dget (norm d) k = key_sorted (canonicalize [k] (dget d k))"
  by (simp add: dget_def map_of_norm split: option.splits)

lemma has_key_norm: "dict_wf d \<Longrightarrow> has_key (norm d) k = has_key d k"
  by (simp add: has_key_def map_of_norm)

lemma dict_wf_norm: "dict_wf d \<Longrightarrow> dict_wf (norm d)"
  unfolding norm_def canonicalize.simps
  by (rule dict_wf_key_sorted) (simp add: dict_wf_def comp_def)

lemma tail_of_text:
  assumes "dg = JNull \<or> (\<exists>h. dg = JStr h)"
  shows "Option.bind (json_loads (tail_json (JInt n) dg m)) tail_of_value
    = Some \<lparr>t_sequence = n, t_digest = dg, t_bytes = int m\<rparr>"
proof -
  let ?d = "[(''sequence'', JInt n), (''entryDigest'', dg), (''ledgerBytes'', JInt (int m))]"
  have wf: "dict_wf ?d" "json_wf (JObj ?d)" using assms by (auto simp: dict_wf_def)
  then show ?thesis unfolding tail_json_def json_loads_canonical [OF wf(2)]
    using assms by (auto simp: tail_of_value_def has_key_norm dget_norm)
qed

lemma last_digest_scalar: "chained JNull 1 rws \<Longrightarrow> last_digest rws = JNull \<or> (\<exists>h. last_digest rws = JStr h)"
  using last_digest_str by (cases "rws = []") (auto simp: last_digest_def)

lemma chained_take: "chained p n rws \<Longrightarrow> chained p n (take k rws)"
  by (induction rws arbitrary: p n k) (auto simp: take_Cons split: nat.splits)

lemma tail_from_represents: "represents s rws \<Longrightarrow> tail_from_rows s rws = tail_of rws"
  using last_digest_str [of JNull 1 rws]
  by (auto simp: represents_def tail_from_rows_def tail_of_def last_digest_def)

text \<open>A cached tail that is trusted is the tail of the ledger.\<close>

lemma cached_tail_represents:
  assumes "represents s rws" and "cached_tail s = Some t"
  shows "t = tail_of rws"
proof -
  obtain k where k: "k \<le> length rws" "s_tail s = Some (tail_text (take k rws))"
    using assms by (auto simp: represents_def tail_known_def cached_tail_def)
  have c: "chained JNull 1 (take k rws)" using assms(1) chained_take by (simp add: represents_def)
  have "Option.bind (json_loads (tail_text (take k rws))) tail_of_value = Some (tail_of (take k rws))"
    unfolding tail_text_def tail_of_text [OF last_digest_scalar [OF c]] by (simp add: tail_of_def)
  with assms(2) k have t: "t = tail_of (take k rws)" "t_bytes t = int (length (s_ledger s))"
    by (auto simp: cached_tail_def split: if_splits)
  then have "k = length rws"
    using assms(1) k by (intro length_encoded_rows_take) (auto simp: tail_of_def represents_def)
  with t show ?thesis by simp
qed

text \<open>Loading the tail: what is on disk may lag behind the ledger, or be absent.\<close>

lemma load_tail_represents:
  assumes "represents s rws"
  obtains t where "load_tail s = (s\<lparr>s_tail := t\<rparr>, Inr (tail_of rws))" and "represents (s\<lparr>s_tail := t\<rparr>) rws"
proof (cases "cached_tail s")
  case (Some t)
  with cached_tail_represents [OF assms] assms have "load_tail s = (s\<lparr>s_tail := s_tail s\<rparr>, Inr (tail_of rws))"
    by (simp add: load_tail_def sbind_def sread_def require_initialized_def represents_def guard_def)
  then show ?thesis using assms by (intro that [of "s_tail s"]) simp_all
next
  case None
  let ?t = "Some (tail_text rws)"
  have "load_tail s = (s\<lparr>s_tail := ?t\<rparr>, Inr (tail_of rws))"
    using None assms rows_represents [OF assms] tail_from_represents [OF assms]
    by (simp add: load_tail_def sbind_def sread_def require_initialized_def represents_def guard_def
        rebuild_tail_def write_tail_def tail_text_def tail_of_def Let_def)
  moreover have "represents (s\<lparr>s_tail := ?t\<rparr>) rws"
    using assms by (auto simp: represents_def intro!: tail_known_current)
  ultimately show ?thesis by (rule that)
qed

section \<open>Adding a row\<close>

definition next_row :: "string \<Rightarrow> dict \<Rightarrow> dict list \<Rightarrow> dict" where
  "next_row entry_type payload rws = norm (make_ledger_row entry_type payload (tail_of rws))"

definition room_for :: "dict \<Rightarrow> dict list \<Rightarrow> bool" where
  "room_for row rws =
     (length (encoded_row row) \<le> MAX_LEDGER_LINE_BYTES \<and> length rws < MAX_LEDGER_ROWS \<and>
      length (encoded_rows rws) + length (encoded_row row) \<le> MAX_LEDGER_BYTES)"

lemma make_ledger_row_wf:
  assumes "json_wf (JObj payload)" and "json_wf (t_digest t)"
  shows "json_wf (JObj (make_ledger_row entry_type payload t))"
  using assms by (simp add: make_ledger_row_def row_body_def dict_wf_def Let_def)

lemma digest_cong:
  "dumps (canonicalize [] (JObj a)) = dumps (canonicalize [] (JObj b)) \<Longrightarrow>
   canonical_digest_unprojected a = canonical_digest_unprojected b"
  by (simp only: canonical_digest_unprojected_def encode_def)

lemma row_body_norm:
  "canonical_digest_unprojected (row_body n e p (key_sorted (canonicalize [''payload''] v)))
   = canonical_digest_unprojected (row_body n e p v)"
  unfolding row_body_def canonicalize.simps
  by (intro digest_cong, unfold canonicalize.simps, intro dumps_obj_cong)
    (simp_all add: dict_wf_def)

lemma next_row_fields:
  assumes "json_wf (JObj payload)" and "chained JNull 1 rws"
  shows "dget (next_row e payload rws) ''sequence'' = JInt (int (length rws) + 1)"
    and "dget (next_row e payload rws) ''entryType'' = JStr e"
    and "dget (next_row e payload rws) ''previousDigest'' = last_digest rws"
    and "dget (next_row e payload rws) ''payload'' = key_sorted (canonicalize [''payload''] (JObj payload))"
    and "dget (next_row e payload rws) ''entryDigest'' = JStr (canonical_digest_unprojected
          (row_body (JInt (int (length rws) + 1)) (JStr e) (last_digest rws) (JObj payload)))"
  using last_digest_scalar [OF assms(2)]
  by (auto simp: next_row_def dget_norm make_ledger_row_def row_body_def dict_wf_def tail_of_def Let_def)

lemma next_row_chained:
  assumes "json_wf (JObj payload)" and "chained JNull 1 rws"
  shows "chained JNull 1 (rws @ [next_row e payload rws])"
  using assms next_row_fields [OF assms]
  by (simp add: chained_snoc row_body_norm last_digest_def add.commute [of 1] del: canonicalize.simps key_sorted.simps)

lemma encoded_rows_snoc: "encoded_rows (rws @ [r]) = encoded_rows rws @ encoded_row r"
  by (simp add: encoded_rows_def)

lemma append_represents:
  assumes s: "represents s rws" and wf: "json_wf (JObj payload)"
    and room: "room_for (next_row e payload rws) rws"
  shows "represents (append_row (make_ledger_row e payload (tail_of rws)) s) (rws @ [next_row e payload rws])"
proof -
  let ?m = "make_ledger_row e payload (tail_of rws)"
  have c: "chained JNull 1 rws" using s by (simp add: represents_def)
  have m: "json_wf (JObj ?m)"
    using wf last_digest_scalar [OF c] by (intro make_ledger_row_wf) (auto simp: tail_of_def)
  have enc: "encoded_row ?m = encoded_row (next_row e payload rws)"
    by (simp add: next_row_def encoded_row_norm)
  have "row_ok (next_row e payload rws)"
    using m room json_wf_norm [OF m] norm_norm [OF m] by (simp add: row_ok_def next_row_def room_for_def)
  then show ?thesis
    using s room next_row_chained [OF wf c] enc tail_known_snoc [of s rws "append_row ?m s"]
    by (auto simp: represents_def append_row_def encoded_rows_snoc room_for_def)
qed

lemma row_tail_represents:
  assumes "represents s (rws @ [next_row e payload rws])" and "json_wf (JObj payload)"
  shows "represents (row_tail (make_ledger_row e payload (tail_of rws)) s) (rws @ [next_row e payload rws])"
    (is "represents ?s ?r")
proof -
  have "chained JNull 1 rws" using assms(1) by (simp add: represents_def chained_snoc)
  from next_row_fields(1,5) [OF assms(2) this]
  have "s_tail ?s = Some (tail_text ?r)"
    using assms(1)
    by (simp add: row_tail_def write_tail_def tail_text_def last_digest_def represents_def
        make_ledger_row_def row_body_def tail_of_def Let_def add.commute)
  with tail_known_current [OF this] assms(1) show ?thesis
    by (simp add: represents_def row_tail_def write_tail_def)
qed

lemma represents_other:
  "represents s rws \<Longrightarrow> s_ready s' = s_ready s \<Longrightarrow> s_ledger s' = s_ledger s \<Longrightarrow> s_tail s' = s_tail s \<Longrightarrow>
   represents s' rws"
  by (simp add: represents_def tail_known_def)

end
