(* ===== verification/Recovery.thy ===== *)
theory Recovery
  imports Ledger
begin

text \<open>
  Verification and recovery of a store (store.py). Recovery replays a transaction whose writes
  were interrupted; verification recomputes every link, digest and content file. A generation that
  verifies replaces the content of a store.
\<close>

section \<open>Verification of a journal\<close>

text \<open>
  A digest that begins with a slash would name an absolute path, outside the store; taking the
  path relative to the store then raises.
\<close>

definition expected_parts :: "string \<Rightarrow> string \<Rightarrow> string list res" where
  "expected_parts entry_type digest =
     (if starts_with (remove_prefix digest ''sha256:'') ''/'' then Inl (ValueError ''path is not in the subpath'')
      else Inr (path_parts (content_path entry_type digest)))"

definition safe_parts :: "string \<Rightarrow> bool" where
  "safe_parts p =
     (\<not> starts_with p ''/'' \<and> ''..'' \<notin> set (path_parts p) \<and> take 1 (path_parts p) \<in> {[''records''], [''events'']})"

definition read_journal :: "store \<Rightarrow> string \<Rightarrow> dict res" where
  "read_journal s name =
     (case staged s name ''journal.json'' of
        None \<Rightarrow> Inl OSError
      | Some raw \<Rightarrow>
          rbind (guard (length raw \<le> MAX_TRANSACTION_BYTES)
                   (StoreError (''transaction journal exceeds bounded read limit: '' @ name))) (\<lambda>_.
          case json_loads raw of
            None \<Rightarrow> Inl (ValueError ''invalid JSON'')
          | Some (JObj v) \<Rightarrow>
              if py_eq (dget v ''version'') (JInt TRANSACTION_VERSION) then Inr v
              else Inl (StoreError (''unsupported transaction journal: '' @ name))
          | Some _ \<Rightarrow> Inl (StoreError (''unsupported transaction journal: '' @ name))))"

text \<open>\<open>value["content"].encode("utf-8")\<close>, and the document it holds.\<close>

definition journal_content :: "dict \<Rightarrow> bytes res" where
  "journal_content v = (case dget v ''content'' of JStr t \<Rightarrow> Inr (utf8 t) | _ \<Rightarrow> Inl AttributeError)"

definition journal_payload :: "string \<Rightarrow> dict \<Rightarrow> bytes \<Rightarrow> (dict \<times> dict) res" where
  "journal_payload name v content =
     (case json_loads content of
        None \<Rightarrow> Inl (ValueError ''invalid JSON'')
      | Some p \<Rightarrow>
          (case (p, dget v ''ledgerRow'') of
             (JObj payload, JObj row) \<Rightarrow> Inr (payload, row)
           | _ \<Rightarrow> Inl (StoreError (''invalid transaction payload: '' @ name))))"

definition verify_journal :: "store \<Rightarrow> string \<Rightarrow> dict res" where
  "verify_journal s name =
     rbind (read_journal s name) (\<lambda>v.
     rbind (guard (list_all (has_key v) [''entryType'', ''contentDigest'', ''contentPath'', ''content'', ''ledgerRow''])
              (StoreError (''incomplete transaction journal: '' @ name))) (\<lambda>_.
     rbind (journal_content v) (\<lambda>content.
     rbind (journal_payload name v content) (\<lambda>(payload, row).
     rbind (in_set (dget v ''entryType'') [''record'', ''event'']) (\<lambda>known.
     rbind (guard known (StoreError (''invalid transaction entry type: '' @ name))) (\<lambda>_.
     rbind (guard (safe_parts (py_str (dget v ''contentPath'')))
              (StoreError (''unsafe transaction content path: '' @ name))) (\<lambda>_.
     rbind (expected_parts (py_str (dget v ''entryType'')) (py_str (dget v ''contentDigest''))) (\<lambda>expected.
     rbind (guard (path_parts (py_str (dget v ''contentPath'')) = expected)
              (StoreError (''transaction content path mismatch: '' @ name))) (\<lambda>_.
     rbind (guard (canonical_json (JObj payload) = content \<and> py_eq (dget payload ''contentDigest'') (dget v ''contentDigest''))
              (StoreError (''transaction content identity mismatch: '' @ name))) (\<lambda>_.
     rbind (guard (dget v ''contentDigest'' = JStr (canonical_digest payload))
              (StoreError (''transaction content digest mismatch: '' @ name))) (\<lambda>_.
     rbind (guard (dget v ''ledgerRowBytesDigest'' = JStr (canonical_digest_unprojected row))
              (StoreError (''transaction ledger identity mismatch: '' @ name))) (\<lambda>_.
     rbind (guard (py_eq (dget row ''entryType'') (dget v ''entryType'') \<and> py_eq (dget row ''payload'') (JObj payload))
              (StoreError (''transaction ledger payload mismatch: '' @ name))) (\<lambda>_.
       Inr v)))))))))))))"

section \<open>Recovery\<close>

definition previous_digest :: "dict list \<Rightarrow> json" where
  "previous_digest rws = (if rws = [] then JNull else dget (last rws) ''entryDigest'')"

text \<open>A row that is not in the ledger yet: its content is published, then it is appended.\<close>

definition replay_row :: "string \<Rightarrow> dict \<Rightarrow> dict \<Rightarrow> dict list \<Rightarrow> store \<Rightarrow> unit op" where
  "replay_row name journal row rws s =
     (let path = file_key (py_str (dget journal ''contentPath''));
          content = utf8 (str_of (dget journal ''content''))
      in
      sbind (sread s (guard (py_eq (previous_digest rws) (dget journal ''previousEntryDigest'') \<and>
                             py_eq (dget row ''sequence'') (JInt (int (length rws) + 1)))
                        (StoreError (''transaction cannot be safely recovered: '' @ name)))) (\<lambda>s _.
      sbind (sread s (guard (\<not> collides s path content)
                        (StoreError (''transaction content collision: '' @ name)))) (\<lambda>s _.
      let s1 = append_row row (publish path content s) in
      if has_key row ''entryDigest'' then (row_tail row s1, Inr ()) else (s1, Inl (KeyError ''entryDigest'')))))"

definition recover_one :: "string \<Rightarrow> store \<Rightarrow> unit op" where
  "recover_one name s =
     sbind (sread s (verify_journal s name)) (\<lambda>s journal.
     sbind (sread s (rows s)) (\<lambda>s rws.
     let row = obj_of (dget journal ''ledgerRow'');
         path = file_key (py_str (dget journal ''contentPath''));
         content = utf8 (str_of (dget journal ''content''))
     in
     sbind (case filter (\<lambda>item. py_eq (dget item ''entryDigest'') (dget row ''entryDigest'')) rws of
              item # _ \<Rightarrow>
                sread s (guard (py_eq (JObj item) (JObj row))
                           (StoreError (''transaction conflicts with committed ledger: '' @ name)))
            | [] \<Rightarrow> replay_row name journal row rws s) (\<lambda>s _.
     sbind (sread s (guard (map_of (s_files s) path = Some content)
                       (StoreError (''transaction content is not committed: '' @ name)))) (\<lambda>s _.
       (close_transaction name s, Inr ())))))"

text \<open>The exceptions that recovery reports; the text of a system error is left out.\<close>

fun caught :: "exn \<Rightarrow> string option" where
  "caught OSError = Some []"
| "caught (StoreError m) = Some m"
| "caught (ValueError m) = Some m"
| "caught _ = None"

fun recover_loop :: "string list \<Rightarrow> store \<Rightarrow> diagnostic list op" where
  "recover_loop [] s = (s, Inr [])"
| "recover_loop (name # names) s =
     (case recover_one name s of
        (s', Inr _) \<Rightarrow> recover_loop names s'
      | (s', Inl e) \<Rightarrow>
          (case caught e of
             Some m \<Rightarrow> (s', Inr [Diagnostic ''RECOVERY_FAILED'' name m])
           | None \<Rightarrow> (s', Inl e)))"

definition pending_transactions :: "store \<Rightarrow> string list" where
  "pending_transactions s = sort (map fst (s_pending s))"

section \<open>Verification of a store\<close>

record sweep =
  w_previous :: json
  w_records :: "string list"
  w_events :: "string list"
  w_diags :: "diagnostic list"

definition entry_path :: "nat \<Rightarrow> string" where
  "entry_path n = ''ledger.jsonl['' @ nat_str n @ '']''"

definition link_diags :: "nat \<Rightarrow> json \<Rightarrow> dict \<Rightarrow> diagnostic list" where
  "link_diags n previous row =
     (let expected = canonical_digest_unprojected
            (row_body (dget row ''sequence'') (dget row ''entryType'') (dget row ''previousDigest'') (dget row ''payload''))
      in (if py_eq (dget row ''sequence'') (JInt (int n)) then []
          else [Diagnostic ''SEQUENCE_MISMATCH'' (entry_path n) ''ledger sequence is not contiguous'']) @
         (if py_eq (dget row ''previousDigest'') previous then []
          else [Diagnostic ''PREVIOUS_DIGEST_MISMATCH'' (entry_path n) ''ledger hash link is broken'']) @
         (if dget row ''entryDigest'' = JStr expected then []
          else [Diagnostic ''ENTRY_DIGEST_MISMATCH'' (entry_path n) (''expected '' @ expected)]))"

definition content_diags :: "nat \<Rightarrow> string \<Rightarrow> dict \<Rightarrow> diagnostic list \<Rightarrow> store \<Rightarrow> diagnostic list" where
  "content_diags n entry_type payload report s =
     (let digest = dget payload ''contentDigest'';
          file = content_path entry_type (py_str digest);
          shown = s_root s @ ''/'' @ file
      in (if report_valid report then []
          else map (\<lambda>d. Diagnostic (code d) (entry_path n @ ''.'' @ dpath d) (message d)) report) @
         (if is_str digest \<and> JStr (canonical_digest payload) \<noteq> digest
          then [Diagnostic ''CONTENT_DIGEST_MISMATCH'' (entry_path n) (''content digest for '' @ entry_type @ '' is wrong'')]
          else []) @
         (case map_of (s_files s) file of
            None \<Rightarrow> [Diagnostic ''CONTENT_FILE_MISSING'' (entry_path n) shown]
          | Some b \<Rightarrow>
              if b \<noteq> canonical_json (JObj payload) then [Diagnostic ''CONTENT_FILE_MISMATCH'' (entry_path n) shown]
              else []))"

definition verify_row :: "store \<Rightarrow> nat \<Rightarrow> sweep \<Rightarrow> dict \<Rightarrow> sweep res" where
  "verify_row s n w row =
     (let w1 = w\<lparr>w_diags := w_diags w @ link_diags n (w_previous w) row, w_previous := dget row ''entryDigest''\<rparr>;
          note = (\<lambda>w ds. w\<lparr>w_diags := w_diags w @ ds\<rparr>)
      in case dget row ''payload'' of
           JObj payload \<Rightarrow>
             let digest = py_str (dget payload ''contentDigest'') in
             if dget row ''entryType'' = JStr ''snapshot'' then
               Inr (if dget payload ''schema_version'' = JStr ''commons.mncs.dev/store-snapshot/v0alpha1'' then w1
                    else note w1 [Diagnostic ''SNAPSHOT_INVALID'' (entry_path n) ''snapshot schema is unsupported''])
             else if dget row ''entryType'' = JStr ''record'' then
               rbind (validate_record (JObj payload)) (\<lambda>report.
                 Inr (note (w1\<lparr>w_records := digest # w_records w1\<rparr>) (content_diags n ''record'' payload report s)))
             else if dget row ''entryType'' = JStr ''event'' then
               rbind (validate_event (JObj payload)) (\<lambda>report.
                 Inr (note (w1\<lparr>w_events := digest # w_events w1\<rparr>) (content_diags n ''event'' payload report s)))
             else Inr (note w1 [Diagnostic ''UNKNOWN_ENTRY_TYPE'' (entry_path n)
                                  ''entry type must be record, event, or snapshot''])
         | _ \<Rightarrow> Inr (note w1 [Diagnostic ''PAYLOAD_INVALID'' (entry_path n) ''ledger payload must be an object'']))"

fun verify_rows :: "store \<Rightarrow> nat \<Rightarrow> sweep \<Rightarrow> dict list \<Rightarrow> sweep res" where
  "verify_rows s n w [] = Inr w"
| "verify_rows s n w (row # rws) = rbind (verify_row s n w row) (\<lambda>w'. verify_rows s (n + 1) w' rws)"

definition orphans :: "string \<Rightarrow> string \<Rightarrow> string list \<Rightarrow> store \<Rightarrow> diagnostic list" where
  "orphans directory name referenced s =
     List.map_filter (\<lambda>(stem, _).
       if ''sha256:'' @ stem \<in> set referenced then None
       else Some (Diagnostic name (s_root s @ ''/'' @ directory @ ''/'' @ stem @ ''.json'')
                    ''content file is not linked from ledger'')) (content_files directory s)"

definition verify :: "store \<Rightarrow> diagnostic list res" where
  "verify s =
     (case rows s of
        Inl (StoreError m) \<Rightarrow> Inr [Diagnostic ''LEDGER_READ_FAILED'' ''ledger.jsonl'' m]
      | Inl e \<Rightarrow> Inl e
      | Inr rws \<Rightarrow>
          let pending = map (\<lambda>name. Diagnostic ''PENDING_TRANSACTION'' name
                              ''transaction is recoverable or must be inspected explicitly'') (pending_transactions s)
          in rbind (verify_rows s 1 \<lparr>w_previous = JNull, w_records = [], w_events = [], w_diags = pending\<rparr> rws) (\<lambda>w.
               Inr (w_diags w @ orphans ''records'' ''ORPHAN_RECORD'' (w_records w) s
                              @ orphans ''events'' ''ORPHAN_EVENT'' (w_events w) s)))"

definition recover :: "store \<Rightarrow> diagnostic list op" where
  "recover s =
     sbind (sread s (require_initialized s)) (\<lambda>s _.
     sbind (recover_loop (pending_transactions s) s) (\<lambda>s ds.
       if ds \<noteq> [] then (s, Inr ds) else sread s (verify s)))"

text \<open>A generation replaces the ledger and the content of a store that is initialised; its tail
  is taken when it has one.\<close>

definition install_generation :: "store \<Rightarrow> store \<Rightarrow> unit op" where
  "install_generation staging s =
     sbind (sread s (verify staging)) (\<lambda>s ds.
       if ds \<noteq> [] then (s, Inl (StoreError ''refusing to install an invalid compaction generation''))
       else (s\<lparr>s_ledger := s_ledger staging,
               s_tail := (case s_tail staging of None \<Rightarrow> s_tail s | Some t \<Rightarrow> Some t),
               s_files := s_files staging\<rparr>, Inr ()))"

end
