(* ===== verification/Crash.thy ===== *)
theory Crash
  imports Recovery
begin

text \<open>
  A commit runs as a sequence of writes, and a crash may come between any two of them. The theory
  relates the states in between to the rows they represent, shows that a commit that is not
  interrupted extends the ledger by one linked row, and that recovery completes one that was
  interrupted once its journal was written.
\<close>

section \<open>A commit, one write at a time\<close>

text \<open>
  The writes of a commit in their order. A crash may come after any of them, and leaves what
  the writes up to it have done.
\<close>

definition journal_bytes :: "string \<Rightarrow> dict \<Rightarrow> ledger_tail \<Rightarrow> store \<Rightarrow> bytes" where
  "journal_bytes entry_type payload tail s =
     canonical_json (JObj (journal_of entry_type payload
       (content_path entry_type (py_str (dget payload ''contentDigest'')))
       (make_ledger_row entry_type payload tail) tail s))"

definition commit_writes :: "string \<Rightarrow> string \<Rightarrow> dict \<Rightarrow> ledger_tail \<Rightarrow> store \<Rightarrow> (store \<Rightarrow> store) list" where
  "commit_writes name entry_type payload tail s =
     (let row = make_ledger_row entry_type payload tail;
          file = content_path entry_type (py_str (dget payload ''contentDigest''));
          content = canonical_json (JObj payload)
      in [open_transaction name,
          stage_file name ''journal.json'' (journal_bytes entry_type payload tail s),
          stage_file name ''content.json'' content,
          publish file content,
          append_row row,
          row_tail row,
          close_transaction name])"

definition after_writes :: "nat \<Rightarrow> string \<Rightarrow> string \<Rightarrow> dict \<Rightarrow> ledger_tail \<Rightarrow> store \<Rightarrow> store" where
  "after_writes k name entry_type payload tail s = fold (\<lambda>w. w) (take k (commit_writes name entry_type payload tail s)) s"

section \<open>Paths\<close>

lemma split_char_plain: "c \<notin> set s \<Longrightarrow> split_char c s = [s]"
  by (induction s) auto

lemma split_char_join: "c \<notin> set s \<Longrightarrow> split_char c (s @ c # t) = s # split_char c t"
  by (induction s) auto

definition directory_of :: "string \<Rightarrow> string" where
  "directory_of entry_type = (if entry_type = ''record'' then ''records'' else ''events'')"

lemma content_path_digest:
  "content_path e (canonical_digest p) =
   directory_of e @ CHR ''/'' # sha256_hexdigest (encode (JObj (identity_projection p))) @ ''.json''"
  unfolding content_path_def canonical_digest_def digest_of_bytes_def remove_prefix_append directory_of_def
  by simp

lemma hexdigest_no_slash: "CHR ''/'' \<notin> set (sha256_hexdigest m)"
  using set_sha256_hexdigest [of "CHR ''/''" m] by auto

lemma path_parts_content:
  "path_parts (content_path e (canonical_digest p)) =
   [directory_of e, sha256_hexdigest (encode (JObj (identity_projection p))) @ ''.json'']"
proof -
  let ?h = "sha256_hexdigest (encode (JObj (identity_projection p))) @ ''.json''"
  have "split_char (CHR ''/'') ?h = [?h]" "?h \<noteq> ''.''"
    using hexdigest_no_slash by (auto intro!: split_char_plain)
  then show ?thesis
    unfolding path_parts_def content_path_digest
    by (subst split_char_join) (auto simp: directory_of_def)
qed

lemma file_key_content: "file_key (content_path e (canonical_digest p)) = content_path e (canonical_digest p)"
  unfolding file_key_def path_parts_content by (simp add: content_path_digest)

lemma safe_content: "safe_parts (content_path e (canonical_digest p))"
proof -
  let ?h = "sha256_hexdigest (encode (JObj (identity_projection p))) @ ''.json''"
  have "length ?h \<noteq> length ''..''" by (simp add: length_sha256_hexdigest)
  then have "?h \<noteq> ''..''" by metis
  then show ?thesis
    unfolding safe_parts_def path_parts_content
    by (simp add: content_path_digest directory_of_def starts_with_def)
qed

lemma expected_content: 
  "expected_parts e (canonical_digest p) = Inr (path_parts (content_path e (canonical_digest p)))"
proof -
  have "\<not> starts_with (sha256_hexdigest m) ''/''" for m
    using hexdigest_no_slash [of m] by (cases "sha256_hexdigest m") (auto simp: starts_with_def)
  then show ?thesis
    unfolding expected_parts_def by (simp only: canonical_digest_def digest_of_bytes_def remove_prefix_append if_False)
qed

section \<open>Documents outside the unordered paths\<close>

lemma canonicalize_elsewhere:
  assumes "p \<noteq> []" and "hd p \<notin> hd ` set unordered_array_paths"
  shows "canonicalize p v = v"
  using assms
proof (induction p v rule: canonicalize.induct)
  case (1 p d)
  then show ?case by (auto intro!: map_idI)
next
  case (2 p xs)
  then have "p \<notin> set unordered_array_paths" by blast
  with 2 show ?case by (auto intro!: map_idI)
qed simp_all

lemma elsewhere:
  "canonicalize [''payload''] v = v" "canonicalize [''ledgerRow''] v = v" "canonicalize [''sequence''] v = v"
  "canonicalize [''entryType''] v = v" "canonicalize [''previousDigest''] v = v" "canonicalize [''entryDigest''] v = v"
  by (rule canonicalize_elsewhere; simp add: unordered_array_paths_def)+

lemma canonicalize_row:
  "canonicalize [] (JObj (make_ledger_row e payload t)) = JObj (make_ledger_row e payload t)"
  unfolding make_ledger_row_def row_body_def Let_def canonicalize.simps by (simp add: elsewhere del: canonicalize.simps)

lemma next_row_sorted:
  "JObj (next_row e payload rws) = key_sorted (JObj (make_ledger_row e payload (tail_of rws)))"
  unfolding next_row_def JObj_norm canonicalize_row by (rule refl)

lemma append_row_norm: "append_row (norm r) = append_row r"
  by (rule ext) (simp add: append_row_def encoded_row_norm)

lemma row_tail_next:
  assumes "json_wf (JObj payload)" and "chained JNull 1 rws"
  shows "row_tail (next_row e payload rws) = row_tail (make_ledger_row e payload (tail_of rws))"
  unfolding row_tail_def next_row_fields(1,5) [OF assms]
  by (simp add: make_ledger_row_def row_body_def tail_of_def Let_def)

lemma digest_norm: "canonical_digest_unprojected (norm r) = canonical_digest_unprojected r"
  using canonical_json_norm [of r] by (simp only: canonical_digest_unprojected_def canonical_json_def)

section \<open>The journal\<close>

definition committable :: "string \<Rightarrow> dict \<Rightarrow> bool" where
  "committable entry_type payload =
     (entry_type \<in> {''record'', ''event''} \<and> json_wf (JObj payload) \<and>
      dget payload ''contentDigest'' = JStr (canonical_digest payload))"

abbreviation journal_for :: "string \<Rightarrow> dict \<Rightarrow> ledger_tail \<Rightarrow> store \<Rightarrow> dict" where
  "journal_for e payload t s \<equiv>
     journal_of e payload (content_path e (py_str (dget payload ''contentDigest''))) (make_ledger_row e payload t) t s"

lemma journal_wf:
  assumes "json_wf (JObj payload)" and "json_wf (t_digest t)"
  shows "json_wf (JObj (journal_for e payload t s))"
proof -
  have "json_wf (dget payload k)" for k
    using assms(1) json_wf_field [of payload k] by (auto simp: dget_def split: option.splits)
  moreover have "json_wf (JObj (make_ledger_row e payload t))" by (rule make_ledger_row_wf [OF assms])
  ultimately show ?thesis using assms(2)
    by (simp add: journal_of_def dict_wf_def)
qed

lemma journal_loads:
  assumes "json_wf (JObj payload)" and "json_wf (t_digest t)"
  shows "json_loads (journal_bytes e payload t s) = Some (JObj (norm (journal_for e payload t s)))"
  unfolding journal_bytes_def by (rule json_loads_canonical [OF journal_wf [OF assms]])

lemma dict_wf_journal: "dict_wf (journal_of e payload f row t s)"
  by (simp add: journal_of_def dict_wf_def)

lemma digest_next:
  "canonical_digest_unprojected (next_row e payload rws) =
   canonical_digest_unprojected (make_ledger_row e payload (tail_of rws))"
  by (simp add: next_row_def digest_norm)

lemma t_digest_tail_of: "t_digest (tail_of rws) = last_digest rws"
  by (simp add: tail_of_def)

lemma journal_fields:
  fixes s rws e payload
  defines "v \<equiv> norm (journal_for e payload (tail_of rws) s)"
  assumes "committable e payload" and "chained JNull 1 rws"
  shows "dget v ''version'' = JInt TRANSACTION_VERSION" and "dget v ''entryType'' = JStr e"
    and "dget v ''contentDigest'' = JStr (canonical_digest payload)"
    and "dget v ''contentPath'' = JStr (content_path e (canonical_digest payload))"
    and "dget v ''content'' = JStr (dumps (canonicalize [] (JObj payload)))"
    and "dget v ''ledgerRow'' = JObj (next_row e payload rws)"
    and "dget v ''ledgerRowBytesDigest'' = JStr (canonical_digest_unprojected (next_row e payload rws))"
    and "dget v ''previousEntryDigest'' = last_digest rws"
  using assms(2) last_digest_scalar [OF assms(3)] unfolding v_def dget_norm [OF dict_wf_journal]
  by (auto simp: journal_of_def elsewhere next_row_sorted committable_def digest_next t_digest_tail_of
      simp del: canonicalize.simps(1,2) key_sorted.simps(1,2))

lemma journal_keys:
  "list_all (has_key (norm (journal_of e payload f row t s)))
     [''entryType'', ''contentDigest'', ''contentPath'', ''content'', ''ledgerRow'']"
  by (simp add: has_key_norm dict_wf_journal) (simp add: journal_of_def)

text \<open>A payload whose unordered arrays are in canonical order is read back as it was.\<close>

lemma canonical_digest_norm:
  assumes "json_wf (JObj payload)" and "canonicalize [] (JObj payload) = JObj payload"
  shows "canonical_digest (norm payload) = canonical_digest payload"
  unfolding norm_def assms(2) by (rule canonical_digest_key_sorted [OF assms(1)])

lemma verify_journal_staged:
  assumes s: "staged s name ''journal.json'' = Some (journal_bytes e payload (tail_of rws) s0)"
    and p: "committable e payload" and canon: "canonicalize [] (JObj payload) = JObj payload"
    and c: "chained JNull 1 rws" and fits: "length (journal_bytes e payload (tail_of rws) s0) \<le> MAX_TRANSACTION_BYTES"
  shows "verify_journal s name = Inr (norm (journal_for e payload (tail_of rws) s0))"
proof -
  let ?v = "norm (journal_for e payload (tail_of rws) s0)" and ?r = "next_row e payload rws"
  note f = journal_fields [OF p c, where s = s0]
  have wf: "json_wf (JObj payload)" "json_wf (t_digest (tail_of rws))"
    using p last_digest_scalar [OF c] by (auto simp: committable_def tail_of_def)
  have "read_journal s name = Inr ?v"
    using s fits f(1) by (simp add: read_journal_def journal_loads [OF wf] guard_def)
  moreover have "journal_content ?v = Inr (canonical_json (JObj payload))"
    by (simp add: journal_content_def f(5) canonical_json_def encode_def del: canonicalize.simps)
  moreover have "journal_payload name ?v (canonical_json (JObj payload)) = Inr (norm payload, ?r)"
    by (simp add: journal_payload_def json_loads_canonical [OF wf(1)] f(6))
  moreover have "dget (norm payload) ''contentDigest'' = JStr (canonical_digest payload)"
    using p by (simp add: dget_norm committable_def)
  moreover have "dget ?r ''payload'' = JObj (norm payload)"
    using next_row_fields(4) [OF wf(1) c] by (simp only: elsewhere JObj_norm canon)
  moreover have "py_eq (JObj (norm payload)) (JObj (norm payload))"
    by (rule py_eq_refl [OF json_wf_norm [OF wf(1)]])
  moreover have "e \<in> set [''record'', ''event'']" using p by (auto simp: committable_def)
  ultimately show ?thesis
    using f journal_keys [of e payload _ _ _ s0]
    by (simp add: verify_journal_def guard_def safe_content expected_content canonical_json_norm
        canonical_digest_norm [OF wf(1) canon] next_row_fields(2) [OF wf(1) c] del: py_eq.simps)
qed

section \<open>Replaying a transaction\<close>

lemma publish_other [simp]:
  "s_ready (publish f c s) = s_ready s" "s_ledger (publish f c s) = s_ledger s" "s_tail (publish f c s) = s_tail s"
  "s_pending (publish f c s) = s_pending s" "s_root (publish f c s) = s_root s"
  by (simp_all add: publish_def)

lemma append_row_other [simp]:
  "s_ready (append_row r s) = s_ready s" "s_files (append_row r s) = s_files s" "s_tail (append_row r s) = s_tail s"
  "s_pending (append_row r s) = s_pending s"
  by (simp_all add: append_row_def)

lemma row_tail_other [simp]:
  "s_ready (row_tail r s) = s_ready s" "s_files (row_tail r s) = s_files s" "s_ledger (row_tail r s) = s_ledger s"
  "s_pending (row_tail r s) = s_pending s"
  by (simp_all add: row_tail_def write_tail_def)

lemma published: "\<not> collides s f c \<Longrightarrow> map_of (s_files (publish f c s)) f = Some c"
  by (auto simp: collides_def publish_def update_conv split: option.splits)

text \<open>What a commit that got as far as its journal still has to do, when its row is missing.\<close>

lemma recover_one_missing:
  assumes s: "represents s rws" "staged s name ''journal.json'' = Some (journal_bytes e payload (tail_of rws) s0)"
    and p: "committable e payload" and canon: "canonicalize [] (JObj payload) = JObj payload"
    and fits: "length (journal_bytes e payload (tail_of rws) s0) \<le> MAX_TRANSACTION_BYTES"
    and fresh: "\<forall>r \<in> set rws. dget r ''entryDigest'' \<noteq> dget (next_row e payload rws) ''entryDigest''"
    and free: "\<not> collides s (content_path e (canonical_digest payload)) (canonical_json (JObj payload))"
  shows "recover_one name s =
    (close_transaction name (commit_content (content_path e (canonical_digest payload)) (canonical_json (JObj payload))
       (make_ledger_row e payload (tail_of rws)) s), Inr ())"
proof -
  have c: "chained JNull 1 rws" using s by (simp add: represents_def)
  have wf: "json_wf (JObj payload)" using p by (simp add: committable_def)
  note f = journal_fields [OF p c, where s = s0] and n = next_row_fields [OF wf c, where e = e]
  let ?r = "next_row e payload rws" and ?v = "norm (journal_for e payload (tail_of rws) s0)"
  have none: "filter (\<lambda>item. py_eq (dget item ''entryDigest'') (dget ?r ''entryDigest'')) rws = []"
    using fresh by (simp add: n(5) filter_empty_conv)
  have key: "has_key ?r ''entryDigest''"
    using n(5) by (auto simp: has_key_def dget_def split: option.splits)
  have prev: "previous_digest rws = last_digest rws" by (simp add: previous_digest_def last_digest_def)
  have content: "utf8 (dumps (canonicalize [] (JObj payload))) = canonical_json (JObj payload)"
    by (simp only: canonical_json_def encode_def)
  have "py_eq (last_digest rws) (last_digest rws)" using last_digest_scalar [OF c] by auto
  then have "replay_row name ?v ?r rws s =
      (commit_content (content_path e (canonical_digest payload)) (canonical_json (JObj payload))
         (make_ledger_row e payload (tail_of rws)) s, Inr ())"
    using free key n(1)
    by (simp add: replay_row_def f(4,5,8) content file_key_content sbind_def sread_def guard_def prev commit_content_def
        row_tail_next [OF wf c] append_row_norm next_row_def [of e payload rws, THEN arg_cong [of _ _ append_row]]
        del: canonicalize.simps dumps.simps)
  then show ?thesis
    using verify_journal_staged [OF s(2) p canon c fits] rows_represents [OF s(1)] published [OF free]
    by (simp add: recover_one_def sbind_def sread_def f(4,5,6) none file_key_content content commit_content_def guard_def
        del: canonicalize.simps dumps.simps)
qed

text \<open>When the row is there, only the transaction is left to remove.\<close>

lemma recover_one_committed:
  assumes s: "represents s (rws @ [next_row e payload rws])"
    "staged s name ''journal.json'' = Some (journal_bytes e payload (tail_of rws) s0)"
    and p: "committable e payload" and canon: "canonicalize [] (JObj payload) = JObj payload"
    and fits: "length (journal_bytes e payload (tail_of rws) s0) \<le> MAX_TRANSACTION_BYTES"
    and fresh: "\<forall>r \<in> set rws. dget r ''entryDigest'' \<noteq> dget (next_row e payload rws) ''entryDigest''"
    and there: "map_of (s_files s) (content_path e (canonical_digest payload)) = Some (canonical_json (JObj payload))"
  shows "recover_one name s = (close_transaction name s, Inr ())"
proof -
  have c: "chained JNull 1 rws" using s by (simp add: represents_def chained_snoc)
  have wf: "json_wf (JObj payload)" using p by (simp add: committable_def)
  note f = journal_fields [OF p c, where s = s0] and n = next_row_fields [OF wf c, where e = e]
  let ?r = "next_row e payload rws"
  have "row_ok ?r" using s(1) by (simp add: represents_def)
  then have refl: "py_eq (JObj ?r) (JObj ?r)" by (intro py_eq_refl) (simp add: row_ok_def)
  have "filter (\<lambda>item. py_eq (dget item ''entryDigest'') (dget ?r ''entryDigest'')) rws = []"
    using fresh by (simp add: n(5) filter_empty_conv)
  then have one: "filter (\<lambda>item. py_eq (dget item ''entryDigest'') (dget ?r ''entryDigest'')) (rws @ [?r]) = [?r]"
    by (simp add: n(5))
  have content: "utf8 (dumps (canonicalize [] (JObj payload))) = canonical_json (JObj payload)"
    by (simp only: canonical_json_def encode_def)
  show ?thesis
    using verify_journal_staged [OF s(2) p canon c fits] rows_represents [OF s(1)] there refl
    by (simp add: recover_one_def sbind_def sread_def f(4,5,6) one file_key_content content guard_def
        del: canonicalize.simps dumps.simps py_eq.simps filter_append)
qed

section \<open>Crashes\<close>

lemmas write_defs = open_transaction_def stage_file_def publish_def append_row_def row_tail_def write_tail_def
  close_transaction_def

abbreviation staged_state :: "string \<Rightarrow> string \<Rightarrow> dict \<Rightarrow> ledger_tail \<Rightarrow> store \<Rightarrow> store" where
  "staged_state name e payload t s \<equiv>
     stage_file name ''journal.json'' (journal_bytes e payload t s) (open_transaction name s)"

lemma after_writes_eqs:
  assumes "committable e payload"
  shows "after_writes 1 name e payload t s = open_transaction name s"
    and "after_writes 2 name e payload t s = staged_state name e payload t s"
    and "after_writes 3 name e payload t s =
      stage_file name ''content.json'' (canonical_json (JObj payload)) (after_writes 2 name e payload t s)"
    and "after_writes 4 name e payload t s =
      publish (content_path e (canonical_digest payload)) (canonical_json (JObj payload)) (after_writes 3 name e payload t s)"
    and "after_writes 5 name e payload t s = append_row (make_ledger_row e payload t) (after_writes 4 name e payload t s)"
    and "after_writes 6 name e payload t s = row_tail (make_ledger_row e payload t) (after_writes 5 name e payload t s)"
    and "after_writes 7 name e payload t s = close_transaction name (after_writes 6 name e payload t s)"
  using assms by (simp_all add: after_writes_def commit_writes_def Let_def committable_def)

lemma stage_other [simp]:
  "s_ready (stage_file n f b s) = s_ready s" "s_ledger (stage_file n f b s) = s_ledger s"
  "s_tail (stage_file n f b s) = s_tail s" "s_files (stage_file n f b s) = s_files s"
  by (simp_all add: stage_file_def)

lemma open_other [simp]:
  "s_ready (open_transaction n s) = s_ready s" "s_ledger (open_transaction n s) = s_ledger s"
  "s_tail (open_transaction n s) = s_tail s" "s_files (open_transaction n s) = s_files s"
  by (simp_all add: open_transaction_def)

lemma close_other [simp]:
  "s_ready (close_transaction n s) = s_ready s" "s_ledger (close_transaction n s) = s_ledger s"
  "s_tail (close_transaction n s) = s_tail s" "s_files (close_transaction n s) = s_files s"
  by (simp_all add: close_transaction_def)

text \<open>The transaction is the only one, and its journal is there, from the second write to the last but one.\<close>

lemma pending_journal:
  assumes "committable e payload" and "s_pending s = []" and k: "k \<in> {2, 3, 4, 5, 6}"
  shows "\<exists>fs. s_pending (after_writes k name e payload t s) = [(name, (''journal.json'', journal_bytes e payload t s) # fs)]"
proof -
  let ?c = "\<lambda>k. after_writes k name e payload t s"
  note eqs = after_writes_eqs [OF assms(1), of name t s]
  have 2: "s_pending (?c 2) = [(name, [(''journal.json'', journal_bytes e payload t s)])]"
    using assms(2) by (simp add: eqs(2) stage_file_def open_transaction_def)
  then have "\<exists>fs. s_pending (?c 3) = [(name, (''journal.json'', journal_bytes e payload t s) # fs)]"
    by (simp add: eqs(3) stage_file_def)
  moreover have "s_pending (?c 4) = s_pending (?c 3)" "s_pending (?c 5) = s_pending (?c 4)" "s_pending (?c 6) = s_pending (?c 5)"
    by (simp_all only: eqs publish_other append_row_other row_tail_other)
  ultimately show ?thesis using 2 k by (simp only: insert_iff empty_iff) (elim disjE; simp)
qed

lemma recover_single:
  assumes "s_ready c" and "s_pending c = [(name, fs)]" and "recover_one name c = (s', Inr ())"
  shows "recover c = (s', verify s')"
  using assms by (simp add: recover_def sbind_def sread_def require_initialized_def guard_def pending_transactions_def)

lemma publish_twice: "publish f b (publish f b s) = publish f b s"
  by (simp add: publish_def)

text \<open>What is staged does not matter to what is published and appended.\<close>

lemma close_commit_staged:
  "close_transaction name (commit_content f b r (stage_file name g d s)) = close_transaction name (commit_content f b r s)"
  by (simp add: commit_content_def write_defs delete_update_same)

lemma commit_content_published: "commit_content f b r (publish f b s) = commit_content f b r s"
  by (simp add: commit_content_def publish_twice)

text \<open>
  A commit can go through: nothing is pending, the content path is free or holds the same bytes, and
  the row and the journal are within the bounds.
\<close>

definition commit_ready :: "string \<Rightarrow> dict \<Rightarrow> dict list \<Rightarrow> store \<Rightarrow> bool" where
  "commit_ready e payload rws s =
     (represents s rws \<and> s_pending s = [] \<and> committable e payload \<and> room_for (next_row e payload rws) rws \<and>
      length (journal_bytes e payload (tail_of rws) s) \<le> MAX_TRANSACTION_BYTES \<and>
      \<not> collides s (content_path e (canonical_digest payload)) (canonical_json (JObj payload)))"

text \<open>
  It can be replayed: the unordered arrays of the payload are in canonical order, and no earlier row
  has the digest of the new one.
\<close>

definition replayable :: "string \<Rightarrow> dict \<Rightarrow> dict list \<Rightarrow> bool" where
  "replayable e payload rws =
     (canonicalize [] (JObj payload) = JObj payload \<and>
      list_all (\<lambda>r. dget r ''entryDigest'' \<noteq> dget (next_row e payload rws) ''entryDigest'') rws)"

lemma crash_represents:
  assumes "commit_ready e payload rws s"
  shows "k \<in> {2, 3, 4} \<Longrightarrow> represents (after_writes k name e payload (tail_of rws) s) rws"
    and "k \<in> {5, 6, 7} \<Longrightarrow> represents (after_writes k name e payload (tail_of rws) s) (rws @ [next_row e payload rws])"
proof -
  let ?c = "\<lambda>k. after_writes k name e payload (tail_of rws) s"
  have p: "committable e payload" and wf: "json_wf (JObj payload)" and s: "represents s rws"
    and room: "room_for (next_row e payload rws) rws"
    using assms by (auto simp: commit_ready_def committable_def)
  note eqs = after_writes_eqs [OF p, of name "tail_of rws" s]
  have 2: "represents (?c 2) rws" by (rule represents_other [OF s]) (simp_all add: eqs(2))
  have 3: "represents (?c 3) rws" by (rule represents_other [OF 2]) (simp_all add: eqs(3))
  have 4: "represents (?c 4) rws" by (rule represents_other [OF 3]) (simp_all add: eqs(4))
  show "k \<in> {2, 3, 4} \<Longrightarrow> represents (?c k) rws" using 2 3 4 by blast
  have 5: "represents (?c 5) (rws @ [next_row e payload rws])"
    unfolding eqs(5) by (rule append_represents [OF 4 wf room])
  have 6: "represents (?c 6) (rws @ [next_row e payload rws])"
    unfolding eqs(6) by (rule row_tail_represents [OF 5 wf])
  have 7: "represents (?c 7) (rws @ [next_row e payload rws])"
    by (rule represents_other [OF 6]) (simp_all add: eqs(7))
  show "k \<in> {5, 6, 7} \<Longrightarrow> represents (?c k) (rws @ [next_row e payload rws])" using 5 6 7 by blast
qed

lemma crash_files:
  assumes "commit_ready e payload rws s"
  shows "k \<in> {2, 3, 4} \<Longrightarrow> \<not> collides (after_writes k name e payload (tail_of rws) s)
      (content_path e (canonical_digest payload)) (canonical_json (JObj payload))"
    and "k \<in> {4, 5, 6, 7} \<Longrightarrow> map_of (s_files (after_writes k name e payload (tail_of rws) s))
      (content_path e (canonical_digest payload)) = Some (canonical_json (JObj payload))"
proof -
  let ?c = "\<lambda>k. after_writes k name e payload (tail_of rws) s"
  let ?f = "content_path e (canonical_digest payload)" and ?b = "canonical_json (JObj payload)"
  have p: "committable e payload" and free: "\<not> collides s ?f ?b" using assms by (simp_all add: commit_ready_def)
  note eqs = after_writes_eqs [OF p, of name "tail_of rws" s]
  have same: "s_files (?c 2) = s_files s" "s_files (?c 3) = s_files s" by (simp_all add: eqs(2,3))
  then have 3: "\<not> collides (?c 2) ?f ?b" "\<not> collides (?c 3) ?f ?b" using free by (simp_all add: collides_def)
  have 4: "map_of (s_files (?c 4)) ?f = Some ?b" unfolding eqs(4) by (rule published [OF 3(2)])
  then have "\<not> collides (?c 4) ?f ?b" by (simp add: collides_def)
  with 3 show "k \<in> {2, 3, 4} \<Longrightarrow> \<not> collides (?c k) ?f ?b" by blast
  have "s_files (?c 5) = s_files (?c 4)" "s_files (?c 6) = s_files (?c 5)" "s_files (?c 7) = s_files (?c 6)"
    by (simp_all add: eqs(5,6,7))
  with 4 show "k \<in> {4, 5, 6, 7} \<Longrightarrow> map_of (s_files (?c k)) ?f = Some ?b" by auto
qed

text \<open>Replaying ends where the commit would have ended, apart from the cached tail.\<close>

lemma recover_one_crash:
  assumes r: "commit_ready e payload rws s" and replay: "replayable e payload rws" and k: "k \<in> {2, 3, 4, 5, 6}"
  shows "\<exists>t. recover_one name (after_writes k name e payload (tail_of rws) s) =
               ((after_writes 7 name e payload (tail_of rws) s)\<lparr>s_tail := t\<rparr>, Inr ()) \<and>
             represents ((after_writes 7 name e payload (tail_of rws) s)\<lparr>s_tail := t\<rparr>) (rws @ [next_row e payload rws])"
proof -
  let ?c = "\<lambda>k. after_writes k name e payload (tail_of rws) s" and ?rws = "rws @ [next_row e payload rws]"
  have p: "committable e payload" and canon: "canonicalize [] (JObj payload) = JObj payload"
    and none: "s_pending s = []"
    and fits: "length (journal_bytes e payload (tail_of rws) s) \<le> MAX_TRANSACTION_BYTES"
    and fresh: "\<forall>r \<in> set rws. dget r ''entryDigest'' \<noteq> dget (next_row e payload rws) ''entryDigest''"
    using r replay by (simp_all add: commit_ready_def replayable_def list_all_iff)
  note eqs = after_writes_eqs [OF p, of name "tail_of rws" s]
  have j: "staged (?c k) name ''journal.json'' = Some (journal_bytes e payload (tail_of rws) s)"
    using pending_journal [OF p none k, of name "tail_of rws"] by (auto simp: staged_def)
  let ?cc = "commit_content (content_path e (canonical_digest payload)) (canonical_json (JObj payload))
    (make_ledger_row e payload (tail_of rws))"
  have done7: "?c 7 = close_transaction name (?cc (?c 3))" by (simp add: eqs(4-7) commit_content_def)
  have same: "s'\<lparr>s_tail := s_tail s'\<rparr> = s'" for s' :: store by simp
  show ?thesis
  proof (cases "k \<in> {2, 3, 4}")
    case True
    have "recover_one name (?c k) = (close_transaction name (?cc (?c k)), Inr ())"
      by (rule recover_one_missing [OF crash_represents(1) [OF r True] j p canon fits fresh crash_files(1) [OF r True]])
    moreover have "close_transaction name (?cc (?c k)) = ?c 7"
      using True unfolding done7 by (auto simp: eqs(3,4) close_commit_staged commit_content_published)
    ultimately show ?thesis
      using crash_represents(2) [OF r, of 7] by (intro exI [of _ "s_tail (?c 7)"]) (simp add: same)
  next
    case False
    with k have k5: "k \<in> {5, 6, 7}" and k4: "k \<in> {4, 5, 6, 7}" and k6: "k = 5 \<or> k = 6" by auto
    have "recover_one name (?c k) = (close_transaction name (?c k), Inr ())"
      by (rule recover_one_committed [OF crash_represents(2) [OF r k5] j p canon fits fresh crash_files(2) [OF r k4]])
    moreover have "close_transaction name (?c k) = (?c 7)\<lparr>s_tail := s_tail (?c k)\<rparr>"
      using k6 by (auto simp: eqs(6,7) close_transaction_def row_tail_def write_tail_def)
    moreover have "represents (close_transaction name (?c k)) ?rws"
      by (rule represents_other [OF crash_represents(2) [OF r k5]]) simp_all
    ultimately show ?thesis by (intro exI [of _ "s_tail (?c k)"]) simp
  qed
qed

lemma commit_completes:
  assumes r: "commit_ready e payload rws s"
  shows "\<exists>t. commit name e payload s = (after_writes 7 name e payload (tail_of rws) (s\<lparr>s_tail := t\<rparr>), Inr ()) \<and>
             commit_ready e payload rws (s\<lparr>s_tail := t\<rparr>)"
proof -
  have s: "represents s rws" and p: "committable e payload" and none: "s_pending s = []"
    and wf: "json_wf (JObj payload)"
    using r by (simp_all add: commit_ready_def committable_def)
  obtain t where t: "load_tail s = (s\<lparr>s_tail := t\<rparr>, Inr (tail_of rws))" "represents (s\<lparr>s_tail := t\<rparr>) rws"
    using load_tail_represents [OF s] .
  let ?s = "s\<lparr>s_tail := t\<rparr>" and ?row = "make_ledger_row e payload (tail_of rws)"
  let ?f = "content_path e (canonical_digest payload)" and ?b = "canonical_json (JObj payload)"
  have r': "commit_ready e payload rws ?s"
    using r t(2) by (simp add: commit_ready_def journal_bytes_def journal_of_def collides_def)
  have c: "chained JNull 1 rws" using s by (simp add: represents_def)
  have d: "py_str (dget payload ''contentDigest'') = canonical_digest payload" using p by (simp add: committable_def)
  note eqs = after_writes_eqs [OF p, of name "tail_of rws" ?s]
  let ?c3 = "after_writes 3 name e payload (tail_of rws) ?s"
  have stage: "stage_transaction name e payload (content_path e (py_str (dget payload ''contentDigest''))) ?row (tail_of rws) ?s
      = (?c3, Inr ())"
    using r' by (simp add: stage_transaction_def journal_bytes_def commit_ready_def eqs(2,3))
  have "json_wf (t_digest (tail_of rws))" using last_digest_scalar [OF c] by (auto simp: tail_of_def)
  note j = journal_loads [OF wf this, of e ?s]
  have st: "staged ?c3 name ''journal.json'' = Some (journal_bytes e payload (tail_of rws) ?s)"
    "staged ?c3 name ''content.json'' = Some ?b"
    using none by (simp_all add: eqs(2,3) staged_def stage_file_def open_transaction_def)
  have "\<not> collides ?c3 ?f ?b" using crash_files(1) [OF r', of 3] by simp
  then have "finish_transaction name ?row ?c3 = (close_transaction name (commit_content ?f ?b ?row ?c3), Inr ())"
    using journal_fields(4) [OF p c, of ?s]
    by (simp add: finish_transaction_def sbind_def sread_def read_staged_object_def st j Let_def file_key_content)
  then have "commit name e payload s = (after_writes 7 name e payload (tail_of rws) ?s, Inr ())"
    using t(1) stage by (simp add: commit_def sbind_def Let_def eqs(4-7) commit_content_def)
  with r' show ?thesis by blast
qed

section \<open>The length of a text\<close>

fun text_bound :: "json \<Rightarrow> nat" where
  "text_bound JNull = 4"
| "text_bound (JBool b) = 5"
| "text_bound (JInt n) = length (int_str n)"
| "text_bound (JFloat t) = length t"
| "text_bound (JStr s) = 6 * length s + 2"
| "text_bound (JArr xs) = 2 + sum_list (map (\<lambda>x. text_bound x + 1) xs)"
| "text_bound (JObj d) = 2 + sum_list (map (\<lambda>kv. 6 * length (fst kv) + 4 + text_bound (snd kv)) d)"

lemma length_quote: "length (quote s) \<le> 6 * length s + 2"
proof -
  have "length (esc_char c) \<le> 6" for c by (simp add: esc_char_def)
  then have "length (concat (map esc_char s)) \<le> 6 * length s"
    by (induction s) (auto intro: add_mono)
  then show ?thesis by (simp add: quote_def)
qed

lemma length_join_comma: "length (join '','' xs) \<le> sum_list (map (\<lambda>x. length x + 1) xs)"
  by (induction "'',''" xs rule: join.induct) auto

lemma length_dumps: "length (dumps v) \<le> text_bound v"
proof (induction v)
  case (JStr s)
  show ?case using length_quote by simp
next
  case (JArr xs)
  have "sum_list (map (\<lambda>x. length (dumps x) + 1) xs) \<le> sum_list (map (\<lambda>x. text_bound x + 1) xs)"
    using JArr by (intro sum_list_mono) auto
  with length_join_comma [of "map dumps xs"] show ?case by (simp add: comp_def)
next
  case (JObj d)
  have "length (member_text kv) + 1 \<le> 6 * length (fst kv) + 4 + text_bound (snd kv)" if "kv \<in> set d" for kv
    using JObj.IH [of kv "snd kv"] that length_quote [of "fst kv"] by (auto simp: member_text_def snds.simps)
  then have "sum_list (map (\<lambda>kv. length (member_text kv) + 1) d)
      \<le> sum_list (map (\<lambda>kv. 6 * length (fst kv) + 4 + text_bound (snd kv)) d)"
    by (intro sum_list_mono) auto
  moreover have "sum_list (map f (sort_key fst d)) = sum_list (map f d)" for f :: "_ \<Rightarrow> nat"
    using sum_mset_sum_list [of "map f (sort_key fst d)"] sum_mset_sum_list [of "map f d"] by simp
  ultimately show ?case using length_join_comma [of "map member_text (sort_key fst d)"]
    unfolding dumps_obj by (simp add: comp_def)
qed simp_all

lemma length_encode: "length (encode v) \<le> 2 * text_bound v"
proof -
  have "length (utf8 s) \<le> 2 * length s" for s
    by (induction s) (auto simp: utf8_def utf8_char_def Let_def)
  then show ?thesis using length_dumps [of v] unfolding encode_def by (meson le_trans mult_le_mono2)
qed

lemma length_canonical_digest: "length (canonical_digest p) = 71" "length (canonical_digest_unprojected p) = 71"
  by (simp_all add: canonical_digest_def canonical_digest_unprojected_def digest_of_bytes_def length_sha256_hexdigest)

section \<open>Commit and recovery\<close>

lemma publish_files: "f' \<noteq> f \<Longrightarrow> map_of (s_files (publish f b s)) f' = map_of (s_files s) f'"
  by (simp add: publish_def update_conv)

lemma completed_state:
  assumes "commit_ready e payload rws s"
  shows "s_pending (after_writes 7 name e payload (tail_of rws) s) = []"
    and "f \<noteq> content_path e (canonical_digest payload) \<Longrightarrow>
      map_of (s_files (after_writes 7 name e payload (tail_of rws) s)) f = map_of (s_files s) f"
proof -
  have p: "committable e payload" and none: "s_pending s = []" using assms by (simp_all add: commit_ready_def)
  note eqs = after_writes_eqs [OF p, of name "tail_of rws" s]
  have "s_pending (after_writes 6 name e payload (tail_of rws) s) = [] \<or>
      (\<exists>fs. s_pending (after_writes 6 name e payload (tail_of rws) s) = [(name, fs)])"
    using pending_journal [OF p none, of 6 name "tail_of rws"] by auto
  then show "s_pending (after_writes 7 name e payload (tail_of rws) s) = []"
    by (auto simp: eqs(7) close_transaction_def)
  assume "f \<noteq> content_path e (canonical_digest payload)"
  then show "map_of (s_files (after_writes 7 name e payload (tail_of rws) s)) f = map_of (s_files s) f"
    by (simp add: eqs publish_files)
qed

text \<open>
  C1. Committing refines appending to an abstract ledger. When the store represents a list of rows, nothing is pending, the content path is free or holds the same bytes, and the new row and its journal are within the bounds, the commit succeeds; afterwards the store represents the same rows followed by one linked row for the payload, reading the ledger gives exactly those rows, no transaction is left, and the content file is the only file that changed.
\<close>

theorem commit_extends_ledger:
  assumes "commit_ready e payload rws s"
  shows "\<exists>s'. commit name e payload s = (s', Inr ()) \<and> represents s' (rws @ [next_row e payload rws]) \<and>
    rows s' = Inr (rws @ [next_row e payload rws]) \<and> s_pending s' = [] \<and>
    map_of (s_files s') = (map_of (s_files s))(content_path e (canonical_digest payload) \<mapsto> canonical_json (JObj payload))"
proof -
  obtain t where t: "commit name e payload s = (after_writes 7 name e payload (tail_of rws) (s\<lparr>s_tail := t\<rparr>), Inr ())"
    "commit_ready e payload rws (s\<lparr>s_tail := t\<rparr>)" using commit_completes [OF assms] by blast
  let ?s = "after_writes 7 name e payload (tail_of rws) (s\<lparr>s_tail := t\<rparr>)"
  have "represents ?s (rws @ [next_row e payload rws])" using crash_represents(2) [OF t(2), of 7] by simp
  moreover have "map_of (s_files ?s) f = ((map_of (s_files s))(content_path e (canonical_digest payload) \<mapsto> canonical_json (JObj payload))) f" for f
    using crash_files(2) [OF t(2), of 7 name] completed_state(2) [OF t(2), of f name] by auto
  ultimately show ?thesis
    using t(1) completed_state(1) [OF t(2)] rows_represents by blast
qed


text \<open>
  C39. A transaction directory without a journal, which a crash between the creation of the directory and the write of the journal leaves behind, stays: recovery reports a failure and changes nothing, and every writer refuses to work.
\<close>

theorem journal_less_transaction_stuck:
  assumes "s_ready s" and "s_pending s = [(name, fs)]" and "map_of fs ''journal.json'' = None"
  shows "recover s = (s, Inr [Diagnostic ''RECOVERY_FAILED'' name []]) \<and>
    add_record n v s = (s, Inl (StoreError ''pending transaction requires explicit store recover'')) \<and>
    add_event n v s = (s, Inl (StoreError ''pending transaction requires explicit store recover'')) \<and>
    add_snapshot v s = (s, Inl (StoreError ''pending transaction requires explicit store recover''))"
proof -
  have "recover s = (s, Inr [Diagnostic ''RECOVERY_FAILED'' name []])"
    using assms by (simp add: recover_def sbind_def sread_def require_initialized_def guard_def
      pending_transactions_def recover_one_def verify_journal_def read_journal_def staged_def)
  then show ?thesis
    using assms by (simp add: sbind_def sread_def require_initialized_def guard_def require_no_pending_def
      add_record_def record_candidate_def add_event_def event_candidate_def add_snapshot_def)
qed

definition empty_store :: store where
  "empty_store = \<lparr>s_root = ''/srv/commons'', s_ready = True, s_ledger = [], s_tail = None, s_files = [], s_pending = []\<rparr>"

definition sample_payload :: dict where
  "sample_payload = [(''kind'', JStr ''claim''), (''contentDigest'', JStr (canonical_digest [(''kind'', JStr ''claim'')]))]"

lemma sample_payload_digest: "canonical_digest sample_payload = canonical_digest [(''kind'', JStr ''claim'')]"
  using canonical_digest_set_contentDigest [of "[(''kind'', JStr ''claim'')]" "JStr (canonical_digest [(''kind'', JStr ''claim'')])"]
  by (simp add: sample_payload_def dict_wf_def)

lemma length_nat_str: "length (nat_str n) \<le> Suc n"
proof (induction n rule: nat_str.induct)
  case (1 n)
  then show ?case by (cases "n < 10") (auto simp: nat_str.simps [of n])
qed

lemma sample_row_bound: "text_bound (JObj (make_ledger_row ''record'' sample_payload (tail_of []))) \<le> 5000"
  by (simp add: make_ledger_row_def row_body_def tail_of_def last_digest_def sample_payload_def
      length_canonical_digest int_str_def nat_str.simps)

lemma sample_row_length: "length (encoded_row (make_ledger_row ''record'' sample_payload (tail_of []))) \<le> 10001"
  using length_encode [of "JObj (make_ledger_row ''record'' sample_payload (tail_of []))"] sample_row_bound
  unfolding encoded_row_def canonical_json_def canonicalize_row by simp

lemma sample_room: "room_for (next_row ''record'' sample_payload []) []"
proof -
  have "length (encoded_row (next_row ''record'' sample_payload [])) \<le> 10001"
    using sample_row_length by (simp only: next_row_def encoded_row_norm)
  then show ?thesis
    by (simp add: room_for_def MAX_LEDGER_LINE_BYTES_def MAX_LEDGER_BYTES_def MAX_LEDGER_ROWS_def encoded_rows_def)
qed

lemma sample_committable: "committable ''record'' sample_payload"
  unfolding committable_def sample_payload_digest by (simp add: sample_payload_def dict_wf_def)

lemma sample_canonical: "canonicalize [] (JObj sample_payload) = JObj sample_payload"
  by (simp add: sample_payload_def)

lemma text_bound_obj:
  "text_bound (JObj []) = 2"
  "text_bound (JObj ((k, v) # d)) = 6 * length k + 4 + text_bound v + text_bound (JObj d)"
  by simp_all

lemma t_sequence_tail_of: "t_sequence (tail_of rws) = int (length rws)"
  by (simp add: tail_of_def)

lemma sample_journal:
  "length (journal_bytes ''record'' sample_payload (tail_of []) empty_store) \<le> MAX_TRANSACTION_BYTES"
proof -
  let ?m = "make_ledger_row ''record'' sample_payload (tail_of [])"
  let ?j = "journal_for ''record'' sample_payload (tail_of []) empty_store"
  have p: "length (dumps (canonicalize [] (JObj sample_payload))) \<le> 1000"
    using length_dumps [of "JObj sample_payload"] unfolding sample_canonical
    by (rule le_trans) (simp add: sample_payload_def length_canonical_digest)
  have path: "length (content_path ''record'' (canonical_digest sample_payload)) = 77"
    by (simp add: content_path_digest directory_of_def length_sha256_hexdigest)
  have d: "dget sample_payload ''contentDigest'' = JStr (canonical_digest sample_payload)"
    using sample_committable by (simp add: committable_def)
  have n: "length (int_str (int (length (s_ledger empty_store) + length (encoded_row ?m)))) \<le> 10002"
    using length_nat_str [of "length (encoded_row ?m)"] sample_row_length
    by (simp add: empty_store_def int_str_def)
  have "canonicalize [] (JObj ?j) = JObj ?j"
    by (subst canonicalize.simps(1)) (simp add: journal_of_def elsewhere d t_digest_tail_of last_digest_def
        del: canonicalize.simps(1,2))
  then have "length (journal_bytes ''record'' sample_payload (tail_of []) empty_store) \<le> 2 * text_bound (JObj ?j)"
    using length_encode [of "JObj ?j"] by (simp only: journal_bytes_def canonical_json_def)
  also have "\<dots> \<le> 100000"
    using p path n sample_row_bound
    by (simp add: journal_of_def d t_digest_tail_of t_sequence_tail_of last_digest_def length_canonical_digest
        text_bound_obj TRANSACTION_VERSION_def int_str_def [of 1] nat_str.simps [of "Suc 0"]
        del: text_bound.simps(7) canonicalize.simps)
  finally show ?thesis by (simp add: MAX_TRANSACTION_BYTES_def)
qed

lemma sample_ready: "commit_ready ''record'' sample_payload [] empty_store"
  unfolding commit_ready_def
  using sample_journal sample_room sample_committable
  by (simp add: empty_store_def represents_def encoded_rows_def MAX_LEDGER_BYTES_def MAX_LEDGER_ROWS_def
      tail_known_def collides_def)

lemma sample_replayable: "replayable ''record'' sample_payload []"
  by (simp add: replayable_def sample_canonical del: canonicalize.simps)

theorem commit_extends_ledger_witness:
  "\<exists>s'. commit ''txn-1'' ''record'' sample_payload empty_store = (s', Inr ()) \<and>
     rows s' = Inr [next_row ''record'' sample_payload []]"
  using commit_extends_ledger [OF sample_ready, of "''txn-1''"] by auto


theorem journal_less_transaction_stuck_witness:
  "s_pending (after_writes 1 ''txn-1'' ''record'' sample_payload (tail_of []) empty_store) = [(''txn-1'', [])] \<and>
   recover (after_writes 1 ''txn-1'' ''record'' sample_payload (tail_of []) empty_store) =
     (after_writes 1 ''txn-1'' ''record'' sample_payload (tail_of []) empty_store,
      Inr [Diagnostic ''RECOVERY_FAILED'' ''txn-1'' []])"
proof -
  let ?s = "after_writes 1 ''txn-1'' ''record'' sample_payload (tail_of []) empty_store"
  have "s_ready ?s" "s_pending ?s = [(''txn-1'', [])]"
    unfolding after_writes_eqs(1) [OF sample_committable] by (simp_all add: open_transaction_def empty_store_def)
  then show ?thesis using journal_less_transaction_stuck [of ?s "''txn-1''" "[]"] by simp
qed

end
