(* ===== verification/Sync.thy ===== *)
theory Sync
  imports Crash
begin

text \<open>
  Reading the ledger in pages (\<open>sync_since\<close> of store.py): what a page holds, the cursor it hands
  out, and that following the cursors reads every row once.
\<close>

section \<open>Reading in pages\<close>

definition selects :: "string option \<Rightarrow> dict \<Rightarrow> bool" where
  "selects kind row =
     (case kind of
        None \<Rightarrow> True
      | Some k \<Rightarrow> is_obj (dget row ''payload'') \<and> dget (obj_of (dget row ''payload'')) ''kind'' = JStr k)"

text \<open>The cursor after the first \<open>k\<close> rows.\<close>

definition cursor_at :: "store \<Rightarrow> dict list \<Rightarrow> nat \<Rightarrow> dict" where
  "cursor_at s rws k = cursor_for s (int k) (last_digest (take k rws))"

lemma chained_append:
  "chained p n (xs @ ys) \<longleftrightarrow>
     chained p n xs \<and> chained (if xs = [] then p else last_digest xs) (n + int (length xs)) ys"
  by (induction xs arbitrary: p n) (auto simp: last_digest_def algebra_simps)

lemma chained_drop: "chained p n rws \<Longrightarrow> \<exists>p'. chained p' (n + int k) (drop k rws)"
proof (cases "k \<le> length rws")
  case True
  assume "chained p n rws"
  then have "chained p n (take k rws @ drop k rws)" by simp
  with True show ?thesis unfolding chained_append by auto
next
  case False
  then show ?thesis by simp
qed

lemma dget_default_given: "dget d k = v \<Longrightarrow> v \<noteq> JNull \<Longrightarrow> dget_default d k v0 = v"
  by (auto simp: dget_def dget_default_def split: option.splits)

lemma scan_rows_chained:
  assumes "chained p (n + 1) rws" and "1 \<le> limit"
  shows "\<exists>j \<le> length rws. scan_rows kind limit n rws = Inr (filter (selects kind) (take j rws), n + int j) \<and>
    int (length (filter (selects kind) (take j rws))) \<le> limit \<and>
    (rws \<noteq> [] \<longrightarrow> 1 \<le> j) \<and> (j < length rws \<longrightarrow> int (length (filter (selects kind) (take j rws))) = limit)"
  using assms
proof (induction rws arbitrary: p n limit)
  case Nil
  then show ?case by simp
next
  case (Cons r rws)
  have num: "py_int (dget_default r ''sequence'' (JInt (n + 1))) = Inr (n + 1)"
    using Cons.prems(1) by (simp add: dget_default_given [of r "''sequence''" "JInt (n + 1)"])
  have c: "chained (dget r ''entryDigest'') (n + 1 + 1) rws" using Cons.prems(1) unfolding chained.simps by blast
  have sel: "(case kind of None \<Rightarrow> True
      | Some k \<Rightarrow> is_obj (dget r ''payload'') \<and> dget (obj_of (dget r ''payload'')) ''kind'' = JStr k) = selects kind r"
    by (simp add: selects_def)
  show ?case
  proof (cases "selects kind r \<and> limit \<le> 1")
    case True
    then have "scan_rows kind limit n (r # rws) = Inr ([r], n + 1)" using num sel by simp
    with True Cons.prems(2) show ?thesis by (intro exI [of _ 1]) auto
  next
    case False
    let ?l = "if selects kind r then limit - 1 else limit"
    have "1 \<le> ?l" using False Cons.prems(2) by auto
    from Cons.IH [OF c this] obtain j where j: "j \<le> length rws"
      "scan_rows kind ?l (n + 1) rws = Inr (filter (selects kind) (take j rws), n + 1 + int j)"
      "int (length (filter (selects kind) (take j rws))) \<le> ?l"
      "j < length rws \<longrightarrow> int (length (filter (selects kind) (take j rws))) = ?l" by blast
    have "scan_rows kind limit n (r # rws) = Inr (filter (selects kind) (take (Suc j) (r # rws)), n + int (Suc j))"
      using False num sel j(2) by (cases "selects kind r") auto
    with j show ?thesis by (intro exI [of _ "Suc j"]) (auto split: if_splits)
  qed
qed

lemma last_digest_take:
  "0 < j \<Longrightarrow> j \<le> length rws \<Longrightarrow> last_digest (take j rws) = dget (rws ! (j - 1)) ''entryDigest''"
  by (cases "take j rws = []") (auto simp: last_digest_def last_conv_nth)

lemma cursor_position_at:
  assumes "represents s rws" and "k \<le> length rws"
  shows "cursor_position s rws (Some (cursor_at s rws k)) = Inr (int k)"
proof (cases "k = 0")
  case True
  then show ?thesis by (simp add: cursor_position_def cursor_at_def cursor_for_def last_digest_def guard_def)
next
  case False
  have c: "chained JNull 1 (take k rws)" using assms(1) chained_take by (simp add: represents_def)
  have "take k rws \<noteq> []" using False assms(2) by auto
  then obtain h where h: "last_digest (take k rws) = JStr h" using last_digest_str [OF c] by blast
  then have "dget (rws ! (k - 1)) ''entryDigest'' = JStr h" using last_digest_take [of k rws] False assms(2) by simp
  with False assms(2) h show ?thesis
    by (simp add: cursor_position_def cursor_at_def cursor_for_def guard_def nat_diff_distrib)
qed

text \<open>
  C24. Reading in pages neither skips nor repeats. From a cursor after the first rows of the ledger, a
  page holds the rows of the kind asked for out of the next rows, up to some row, and at most as
  many as the limit; its cursor is the one after that row, which the next call accepts; there is
  more exactly when rows are left, then the page is full; and while rows are left the cursor
  advances.
\<close>

theorem sync_pages_cover:
  assumes "represents s rws" and "1 \<le> limit" and "limit \<le> MAX_SYNC_ENTRIES" and "k \<le> length rws"
    and "c = Some (cursor_at s rws k) \<or> c = None \<and> k = 0"
  shows "\<exists>p j. sync_since c limit kind s = Inr p \<and> k \<le> j \<and> j \<le> length rws \<and>
    p_entries p = filter (selects kind) (take (j - k) (drop k rws)) \<and> int (length (p_entries p)) \<le> limit \<and>
    p_cursor p = cursor_at s rws j \<and> p_more p = (j < length rws) \<and> (p_more p \<longrightarrow> int (length (p_entries p)) = limit) \<and>
    (k < length rws \<longrightarrow> k < j)"
proof -
  have chain: "chained JNull 1 rws" and ready: "s_ready s" using assms(1) by (simp_all add: represents_def)
  have pos: "cursor_position s rws c = Inr (int k)"
    using assms(5) cursor_position_at [OF assms(1,4)] by (auto simp: cursor_position_def)
  obtain p' where "chained p' (int k + 1) (drop k rws)" using chained_drop [OF chain, of k] by (auto simp: add.commute)
  from scan_rows_chained [OF this assms(2)] obtain i where i: "i \<le> length (drop k rws)"
      "scan_rows kind limit (int k) (drop k rws) = Inr (filter (selects kind) (take i (drop k rws)), int k + int i)"
      "int (length (filter (selects kind) (take i (drop k rws)))) \<le> limit" "drop k rws \<noteq> [] \<longrightarrow> 1 \<le> i"
      "i < length (drop k rws) \<longrightarrow> int (length (filter (selects kind) (take i (drop k rws)))) = limit" by blast
  let ?j = "k + i"
  have j: "?j \<le> length rws" using i(1) assms(4) by simp
  have dig: "(if int ?j = 0 then Inr JNull
      else rbind (row_before rws (int ?j)) (\<lambda>row. Inr (JStr (py_str (dget row ''entryDigest''))))) = Inr (last_digest (take ?j rws))"
  proof (cases "?j = 0")
    case True
    then show ?thesis by (simp add: last_digest_def)
  next
    case False
    have "chained JNull 1 (take ?j rws)" using chain chained_take by blast
    moreover have "take ?j rws \<noteq> []" using False j by auto
    ultimately obtain h where h: "last_digest (take ?j rws) = JStr h" using last_digest_str by blast
    then have d: "dget (rws ! (?j - 1)) ''entryDigest'' = JStr h" using last_digest_take [of ?j rws] False j by simp
    have "row_before rws (int ?j) = Inr (rws ! (?j - 1))"
      using False j by (auto simp: row_before_def Let_def nat_diff_distrib' nat_int_add)
    with False h d show ?thesis by auto
  qed
  have "sync_since c limit kind s = Inr \<lparr>p_entries = filter (selects kind) (take i (drop k rws)),
      p_cursor = cursor_for s (int ?j) (last_digest (take ?j rws)), p_more = int ?j < int (length rws),
      p_truncated = int (length (filter (selects kind) (take i (drop k rws)))) \<ge> limit \<and> int ?j < int (length rws)\<rparr>"
    using assms(2,3) ready pos i(2) dig rows_represents [OF assms(1)]
    by (cases "int k + int i = 0") (simp_all add: sync_since_def require_initialized_def guard_def)
  with i j show ?thesis by (intro exI [of _ ?j] exI) (auto simp: cursor_at_def)
qed

theorem sync_pages_cover_witness:
  "\<exists>s rws p. represents s rws \<and> length rws = 1 \<and> sync_since None 10 None s = Inr p \<and> p_entries p = rws \<and>
     p_cursor p = cursor_at s rws 1"
proof -
  let ?rws = "[next_row ''record'' sample_payload []]"
  let ?s = "append_row (make_ledger_row ''record'' sample_payload (tail_of [])) empty_store"
  have "represents empty_store []" using sample_ready by (simp add: commit_ready_def)
  from append_represents [OF this _ sample_room] sample_committable
  have r: "represents ?s ?rws" by (simp add: committable_def)
  from sync_pages_cover [OF r, of 10 0 None None] obtain p j where
    "sync_since None 10 None ?s = Inr p" "j \<le> 1" "p_entries p = filter (selects None) (take j ?rws)"
    "p_cursor p = cursor_at ?s ?rws j" "0 < j" by (auto simp: MAX_SYNC_ENTRIES_def)
  with r show ?thesis by (intro exI [of _ ?s] exI [of _ ?rws] exI [of _ p]) (auto simp: selects_def le_Suc_eq)
qed

end
