(* ===== verification/Json_Reading.thy ===== *)
theory Json_Reading
  imports Json_Text
begin

text \<open>
  Every document that the JSON reader returns is well formed: its objects have distinct keys, and
  the text of a float is read back as that float.
\<close>

section \<open>What is read is well formed\<close>

lemma takeWhile_digits: "list_all is_digit ds \<Longrightarrow> (x = [] \<or> \<not> is_digit (hd x)) \<Longrightarrow>
  takeWhile is_digit (ds @ x) = ds \<and> dropWhile is_digit (ds @ x) = x"
  by (induction ds) (auto simp: neq_Nil_conv split: if_splits, (cases x; simp)+)

lemma take_int_again:
  assumes "take_int (ip @ x) = (ip, x)" and "ip \<noteq> []" and "y = [] \<or> \<not> is_digit (hd y)"
  shows "take_int (ip @ y) = (ip, y)"
proof (cases "starts_with ip ''0''")
  case True
  then have "starts_with (ip @ x) ''0''" "starts_with (ip @ y) ''0''" using assms(2) by (cases ip; simp)+
  with assms(1) show ?thesis using assms(2) by (cases ip) (auto simp: take_int_def)
next
  case False
  then have "\<not> starts_with (ip @ y) ''0''" "\<not> starts_with (ip @ x) ''0''" using assms(2) by (cases ip; simp)+
  moreover have "list_all is_digit ip" using take_int_parts [OF assms(1)] by simp
  ultimately show ?thesis using takeWhile_digits assms(3) by (simp add: take_int_def)
qed

lemma take_frac_hd: "take_frac x = (fp, y) \<Longrightarrow> fp \<noteq> [] \<Longrightarrow> \<exists>ds. fp = CHR ''.'' # ds \<and> ds \<noteq> [] \<and> list_all is_digit ds"
  by (auto simp: take_frac_def list_all_iff dest: set_takeWhileD split: if_splits)

lemma take_exp_hd:
  assumes "take_exp x = (ep, y)" and "ep \<noteq> []"
  shows "\<exists>c sg ds. ep = c # sg @ ds \<and> c \<in> {CHR ''e'', CHR ''E''} \<and> sg \<in> {[], ''+'', ''-''} \<and> ds \<noteq> [] \<and> list_all is_digit ds"
proof (cases x)
  case (Cons c cs)
  let ?ds = "takeWhile is_digit (drop (length (exp_sign cs)) cs)"
  have "exp_sign cs \<in> {[], ''+'', ''-''}" by (cases cs) (auto simp: exp_sign_def)
  moreover have "ep = c # exp_sign cs @ ?ds" "c \<in> {CHR ''e'', CHR ''E''}" "?ds \<noteq> []"
    using assms Cons by (auto simp: Let_def split: if_splits)
  moreover have "list_all is_digit ?ds" by (auto simp: list_all_iff dest: set_takeWhileD)
  ultimately show ?thesis by blast
qed (use assms in simp)

lemma take_exp_again:
  assumes "take_exp x = (ep, y)"
  shows "take_exp ep = (ep, [])"
proof (cases "ep = []")
  case False
  from take_exp_hd [OF assms False] obtain c sg ds where e: "ep = c # sg @ ds" "c \<in> {CHR ''e'', CHR ''E''}"
    "sg \<in> {[], ''+'', ''-''}" "ds \<noteq> []" "list_all is_digit ds" by blast
  have "exp_sign (sg @ ds) = sg" using e by (cases ds) (auto simp: exp_sign_def is_digit_of_char)
  moreover have "takeWhile is_digit ds = ds" "dropWhile is_digit ds = []"
    using takeWhile_digits [OF e(5), of "[]"] by simp_all
  ultimately show ?thesis using e(2,4) unfolding e(1) by (simp add: Let_def del: takeWhile_eq_all_conv dropWhile_eq_Nil_conv)
qed simp

lemma take_frac_again:
  assumes "take_frac x = (fp, y)" and "take_exp y = (ep, z)"
  shows "take_frac (fp @ ep) = (fp, ep)"
proof -
  have ep: "ep = [] \<or> hd ep \<in> {CHR ''e'', CHR ''E''}" using take_exp_hd [OF assms(2)] by (cases "ep = []") auto
  show ?thesis
  proof (cases "fp = []")
    case True
    with ep show ?thesis by (cases ep) (auto simp: take_frac_def)
  next
    case False
    from take_frac_hd [OF assms(1) False] obtain ds where ds: "fp = CHR ''.'' # ds" "ds \<noteq> []" "list_all is_digit ds" by blast
    have "ep = [] \<or> \<not> is_digit (hd ep)" using ep by (auto simp: is_digit_of_char)
    with ds takeWhile_digits [OF ds(3)] show ?thesis by (simp add: take_frac_def)
  qed
qed

lemma read_number_float:
  assumes "read_number s = Some (JFloat t, r)"
  shows "read_number t = Some (JFloat t, [])"
proof -
  let ?neg = "starts_with s ''-''"
  obtain ip r1 fp r2 ep r3 where p: "take_int (if ?neg then tl s else s) = (ip, r1)" "take_frac r1 = (fp, r2)" "take_exp r2 = (ep, r3)"
    by (metis surj_pair)
  then have ip: "ip \<noteq> []" and t: "t = (if ?neg then ''-'' else []) @ ip @ fp @ ep" and fe: "\<not> (fp = [] \<and> ep = [])"
    using assms by (auto simp: read_number_def Let_def split: if_splits)
  have "(if ?neg then tl s else s) = ip @ r1" using take_int_parts [OF p(1)] by simp
  with p(1) have i: "take_int (ip @ r1) = (ip, r1)" by simp
  have ep: "ep = [] \<or> \<not> is_digit (hd ep)" using take_exp_hd [OF p(3)] by (cases "ep = []") (auto simp: is_digit_of_char)
  have fp: "fp @ ep = [] \<or> \<not> is_digit (hd (fp @ ep))"
    using take_frac_hd [OF p(2)] ep by (cases "fp = []") (auto simp: is_digit_of_char)
  have "take_int (ip @ fp @ ep) = (ip, fp @ ep)" by (rule take_int_again [OF i ip fp])
  moreover have "\<not> starts_with ip ''-''"
    using take_int_parts [OF i] ip by (cases ip) (auto simp: is_digit_of_char)
  then have "\<not> starts_with (ip @ fp @ ep) ''-''" using ip by (cases ip) auto
  ultimately show ?thesis
    using t fe ip take_frac_again [OF p(2,3)] take_exp_again [OF p(3)]
    by (cases ?neg) (auto simp: read_number_def Let_def)
qed

lemma dict_of_pairs_wf:
  "dict_wf (dict_of_pairs ps) \<and> (list_all (\<lambda>kv. json_wf (snd kv)) ps \<longrightarrow> list_all (\<lambda>kv. json_wf (snd kv)) (dict_of_pairs ps))"
proof -
  have upd: "list_all (\<lambda>kv. json_wf (snd kv)) (AList.update k v d)"
    if "json_wf v" "list_all (\<lambda>kv. json_wf (snd kv)) d" for k v and d :: dict
    using that by (induction d) auto
  have "dict_wf d \<Longrightarrow> dict_wf (foldl (\<lambda>d kv. AList.update (fst kv) (snd kv) d) d ps)" for d :: dict
    by (induction ps arbitrary: d) (auto simp: dict_wf_dset)
  moreover have "list_all (\<lambda>kv. json_wf (snd kv)) d \<Longrightarrow> list_all (\<lambda>kv. json_wf (snd kv)) ps \<Longrightarrow>
      list_all (\<lambda>kv. json_wf (snd kv)) (foldl (\<lambda>d kv. AList.update (fst kv) (snd kv) d) d ps)" for d :: dict
    by (induction ps arbitrary: d) (auto simp: upd)
  ultimately show ?thesis unfolding dict_of_pairs_def by (simp add: dict_wf_def)
qed

lemma read_number_kind: "read_number s = Some (v, r) \<Longrightarrow> (\<exists>n. v = JInt n) \<or> (\<exists>t. v = JFloat t)"
  by (auto simp: read_number_def Let_def split: if_splits prod.splits)

lemma read_number_wf: "read_number s = Some (v, r) \<Longrightarrow> json_wf v"
  using read_number_kind [of s v r] read_number_float [of s _ r] by auto

lemma read_wf:
  "read_value n s = Some (v, r) \<Longrightarrow> json_wf v"
  "read_items n s = Some (xs, r) \<Longrightarrow> list_all json_wf xs"
  "read_members n s = Some (ps, r) \<Longrightarrow> list_all (\<lambda>kv. json_wf (snd kv)) ps"
proof (induction n s and n s and n s arbitrary: v r and xs r and ps r rule: read_value_read_items_read_members.induct)
  case (2 n s)
  then show ?case
    using dict_of_pairs_wf read_number_wf
    by (auto split: list.splits if_splits simp: dict_wf_def)
next
  case (4 n s)
  then show ?case by (fastforce split: option.splits list.splits if_splits)
next
  case (6 n s)
  then show ?case by (fastforce split: option.splits list.splits if_splits)
qed simp_all

lemma loads_wf: "loads t = Some v \<Longrightarrow> json_wf v"
  by (auto simp: loads_def dest: read_wf(1) split: option.splits if_splits simp del: read_value.simps)

end
