(* ===== verification/Verified.thy ===== *)
theory Verified
  imports Crash Json_Reading
begin

text \<open>
  What a clean verification of a store means: its rows are linked, its payloads are valid and have
  their content files, and the digest of the last row determines the whole history.
\<close>

section \<open>Rows that pass\<close>

definition body_of :: "dict \<Rightarrow> dict" where
  "body_of row = row_body (dget row ''sequence'') (dget row ''entryType'') (dget row ''previousDigest'') (dget row ''payload'')"

text \<open>A stored payload: validated, with its own digest, and with its content file.\<close>

definition stored :: "store \<Rightarrow> string \<Rightarrow> (json \<Rightarrow> diagnostic list res) \<Rightarrow> dict \<Rightarrow> bool" where
  "stored s entry_type check payload =
     (\<exists>report. check (JObj payload) = Inr report \<and> report_valid report \<and>
        (is_str (dget payload ''contentDigest'') \<longrightarrow> dget payload ''contentDigest'' = JStr (canonical_digest payload)) \<and>
        map_of (s_files s) (content_path entry_type (py_str (dget payload ''contentDigest''))) = Some (canonical_json (JObj payload)))"

definition row_clean :: "store \<Rightarrow> dict \<Rightarrow> bool" where
  "row_clean s row =
     (\<exists>payload. dget row ''payload'' = JObj payload \<and>
        (dget row ''entryType'' = JStr ''record'' \<and> stored s ''record'' validate_record payload \<or>
         dget row ''entryType'' = JStr ''event'' \<and> stored s ''event'' validate_event payload \<or>
         dget row ''entryType'' = JStr ''snapshot'' \<and>
           dget payload ''schema_version'' = JStr ''commons.mncs.dev/store-snapshot/v0alpha1''))"

fun linked :: "json \<Rightarrow> nat \<Rightarrow> dict list \<Rightarrow> bool" where
  "linked previous n [] = True"
| "linked previous n (row # rws) =
     (py_eq (dget row ''sequence'') (JInt (int n)) \<and> py_eq (dget row ''previousDigest'') previous \<and>
      dget row ''entryDigest'' = JStr (canonical_digest_unprojected (body_of row)) \<and>
      linked (dget row ''entryDigest'') (n + 1) rws)"

lemma content_diags_Nil:
  "check (JObj payload) = Inr report \<Longrightarrow> content_diags n e payload report s = [] \<Longrightarrow> stored s e check payload"
  by (auto simp: content_diags_def stored_def Let_def report_valid_def split: if_splits option.splits)

lemma verify_row_clean:
  assumes "verify_row s n w row = Inr w'" and "w_diags w' = []"
  shows "w_diags w = [] \<and> link_diags n (w_previous w) row = [] \<and> row_clean s row \<and> w_previous w' = dget row ''entryDigest''"
  using assms content_diags_Nil
  by (auto simp: verify_row_def Let_def rbind_eq_Inr row_clean_def split: json.splits if_splits)

lemma link_diags_Nil: "link_diags n previous row = [] \<Longrightarrow>
  py_eq (dget row ''sequence'') (JInt (int n)) \<and> py_eq (dget row ''previousDigest'') previous \<and>
  dget row ''entryDigest'' = JStr (canonical_digest_unprojected (body_of row))"
  by (auto simp: link_diags_def Let_def body_of_def split: if_splits)

lemma verify_rows_clean:
  assumes "verify_rows s n w rws = Inr w'" and "w_diags w' = []"
  shows "w_diags w = [] \<and> linked (w_previous w) n rws \<and> list_all (row_clean s) rws"
  using assms
proof (induction rws arbitrary: n w)
  case (Cons row rws)
  then obtain w1 where w1: "verify_row s n w row = Inr w1" "verify_rows s (n + 1) w1 rws = Inr w'"
    by (auto simp: rbind_eq_Inr)
  from Cons.IH [OF w1(2) Cons.prems(2)] verify_row_clean [OF w1(1)] link_diags_Nil show ?case by auto
qed simp

lemma verified_store_sound_rows:
  assumes "verify s = Inr []" and r: "rows s = Inr rws"
  shows "s_pending s = [] \<and> linked JNull 1 rws \<and> list_all (row_clean s) rws"
proof -
  let ?p = "map (\<lambda>name. Diagnostic ''PENDING_TRANSACTION'' name
    ''transaction is recoverable or must be inspected explicitly'') (pending_transactions s)"
  obtain w where w: "verify_rows s 1 \<lparr>w_previous = JNull, w_records = [], w_events = [], w_diags = ?p\<rparr> rws = Inr w" "w_diags w = []"
    using assms by (auto simp: verify_def Let_def rbind_eq_Inr)
  have "s_pending s = []" if "sort (map fst (s_pending s)) = []"
    using that by (metis Nil_is_map_conv set_empty set_sort)
  with verify_rows_clean [OF w] show ?thesis by (auto simp: pending_transactions_def)
qed

lemma verified_rows: "verify s = Inr [] \<Longrightarrow> \<exists>rws. rows s = Inr rws"
  by (auto simp: verify_def split: sum.splits exn.splits)

text \<open>
  C3. A store that verifies without a diagnostic has a ledger that can be read, no pending transaction, rows numbered from one and linked by recomputed digests, and for every row a supported snapshot, or a record or an event that the validator accepts, under its own digest, with exactly its canonical bytes in its content file.
\<close>

theorem verified_store_sound:
  assumes "verify s = Inr []"
  shows "\<exists>rws. rows s = Inr rws \<and> s_pending s = [] \<and> linked JNull 1 rws \<and> list_all (row_clean s) rws"
  using verified_rows [OF assms] verified_store_sound_rows [OF assms] by blast

section \<open>Tampering\<close>

lemma read_rows_wf: "read_rows n used ls = Inr rws \<Longrightarrow> list_all (\<lambda>r. json_wf (JObj r)) rws"
proof (induction n used ls arbitrary: rws rule: read_rows.induct)
  case (2 n used raw ls)
  then obtain r rs where r: "row_of_line n raw = Inr r" "read_rows (n + 1) (used + length raw) ls = Inr rs" "rws = r # rs"
    by (auto simp: rbind_eq_Inr Let_def)
  have "json_loads raw = Some (JObj r)"
    using r(1) by (auto simp: row_of_line_def Let_def rbind_eq_Inr split: option.splits json.splits)
  then have "json_wf (JObj r)" by (auto simp: json_loads_def bind_eq_Some_conv simp del: json_wf.simps intro: loads_wf)
  with 2 r show ?case by (auto simp: rbind_eq_Inr Let_def)
qed simp

lemma rows_wf: "rows s = Inr rws \<Longrightarrow> list_all (\<lambda>r. json_wf (JObj r)) rws"
  using read_rows_wf by (auto simp: rows_def ledger_rows_def rbind_eq_Inr)

definition body_text :: "dict \<Rightarrow> bytes" where
  "body_text row = encode (canonicalize [] (JObj (body_of row)))"

lemma linked_snoc:
  "linked p n (rws @ [r]) \<longleftrightarrow>
     linked p n rws \<and> linked (if rws = [] then p else last_digest rws) (n + length rws) [r]"
  by (induction rws arbitrary: p n) (auto simp: last_digest_def algebra_simps)

lemma linked_last: "linked p n rws \<Longrightarrow> rws \<noteq> [] \<Longrightarrow> last_digest rws = JStr (canonical_digest_unprojected (body_of (last rws)))"
  by (induction rws arbitrary: p n) (auto simp: last_digest_def)

lemma json_wf_get: "json_wf (JObj d) \<Longrightarrow> json_wf (dget d k)"
  using json_wf_field by (auto simp: dget_def split: option.splits)

lemma body_of_wf: "json_wf (JObj r) \<Longrightarrow> json_wf (JObj (body_of r))"
  using json_wf_get [of r] by (simp add: body_of_def row_body_def dict_wf_def)

lemma canonicalize_body: "canonicalize [] (JObj (body_of r)) = JObj (body_of r)"
  by (subst canonicalize.simps(1)) (simp add: body_of_def row_body_def elsewhere del: canonicalize.simps(1,2))

lemma body_text_inject:
  assumes "json_wf (JObj r)" and "json_wf (JObj r')" and "body_text r = body_text r'"
  shows "key_sorted (JObj (body_of r)) = key_sorted (JObj (body_of r'))"
  using assms(3) dumps_inject [OF body_of_wf [OF assms(1)] body_of_wf [OF assms(2)]]
  by (simp add: body_text_def canonicalize_body encode_inject del: canonicalize.simps key_sorted.simps dumps.simps)

lemma key_sorted_scalar: "v = JNull \<or> (\<exists>h. v = JStr h) \<Longrightarrow> key_sorted v = v"
  by auto

lemma body_previous:
  assumes "key_sorted (JObj (body_of r)) = key_sorted (JObj (body_of r'))"
  shows "key_sorted (dget r ''previousDigest'') = key_sorted (dget r' ''previousDigest'')"
proof -
  have wf: "dict_wf (body_of x)" for x by (simp add: body_of_def row_body_def dict_wf_def)
  have "map_of (obj_of (key_sorted (JObj (body_of x)))) ''previousDigest'' = Some (key_sorted (dget x ''previousDigest''))" for x
    unfolding map_of_key_sorted [OF wf] by (simp add: body_of_def row_body_def)
  then show ?thesis using assms by (metis option.inject)
qed

definition same_row :: "dict \<Rightarrow> dict \<Rightarrow> bool" where
  "same_row r r' = (key_sorted (JObj (body_of r)) = key_sorted (JObj (body_of r')) \<and>
     dget r ''entryDigest'' = dget r' ''entryDigest'')"

lemma linked_same:
  assumes "linked JNull 1 rws" and "linked JNull 1 rws'"
    and "list_all (\<lambda>r. json_wf (JObj r)) rws" and "list_all (\<lambda>r. json_wf (JObj r)) rws'"
    and "last_digest rws = last_digest rws'" and "inj_on sha256_hexdigest (body_text ` (set rws \<union> set rws'))"
  shows "list_all2 same_row rws rws'"
  using assms
proof (induction rws arbitrary: rws' rule: rev_induct)
  case Nil
  then have "rws' = []" using linked_last [of JNull 1 rws'] by (auto simp: last_digest_def split: if_splits)
  then show ?case by simp
next
  case (snoc r rws)
  have "rws' \<noteq> []" using snoc.prems(5) linked_last [OF snoc.prems(1)] by (auto simp: last_digest_def)
  then obtain qs q where q: "rws' = qs @ [q]" by (metis append_butlast_last_id)
  let ?p = "\<lambda>xs. if xs = [] then JNull else last_digest xs"
  have lr: "linked JNull 1 rws" "dget r ''previousDigest'' = last_digest rws"
    and lq: "linked JNull 1 qs" "dget q ''previousDigest'' = last_digest qs"
    using snoc.prems(1,2) linked_last [of JNull 1 rws] linked_last [of JNull 1 qs] unfolding q linked_snoc
    by (cases "rws = []"; cases "qs = []"; auto simp: last_digest_def)+
  have d: "dget r ''entryDigest'' = dget q ''entryDigest''"
    "dget r ''entryDigest'' = JStr (canonical_digest_unprojected (body_of r))"
    "dget q ''entryDigest'' = JStr (canonical_digest_unprojected (body_of q))"
    using snoc.prems(1,2,5) unfolding q linked_snoc by (auto simp: last_digest_def)
  then have "sha256_hexdigest (body_text r) = sha256_hexdigest (body_text q)"
    by (simp add: canonical_digest_unprojected_def digest_of_bytes_def body_text_def)
  then have "body_text r = body_text q" by (rule inj_onD [OF snoc.prems(6)]) (auto simp: q)
  then have same: "key_sorted (JObj (body_of r)) = key_sorted (JObj (body_of q))"
    using snoc.prems(3,4) unfolding q by (intro body_text_inject) simp_all
  have scalar: "last_digest xs = JNull \<or> (\<exists>h. last_digest xs = JStr h)" if "linked JNull 1 xs" for xs
    using linked_last [OF that] by (cases "xs = []") (auto simp: last_digest_def)
  have "last_digest rws = last_digest qs"
    using body_previous [OF same] key_sorted_scalar [OF scalar [OF lr(1)]] key_sorted_scalar [OF scalar [OF lq(1)]] lr(2) lq(2) by simp
  moreover have "inj_on sha256_hexdigest (body_text ` (set rws \<union> set qs))"
    using snoc.prems(6) unfolding q by (rule inj_on_subset) auto
  ultimately have "list_all2 same_row rws qs" using snoc.IH [OF lr(1) lq(1)] snoc.prems(3,4) unfolding q by simp
  moreover have "same_row r q" using same d(1) by (simp only: same_row_def)
  ultimately show ?case unfolding q by (intro list_all2_appendI) simp_all
qed

text \<open>
  C4. The digest of the last row commits to the whole history: two stores that verify without a diagnostic and end in the same digest hold the same rows, in number, sequence, type, link and payload, unless SHA-256 collides on two of their rows.
\<close>

theorem equal_tail_equal_history:
  assumes "verify s = Inr []" and "verify s' = Inr []" and "rows s = Inr rws" and "rows s' = Inr rws'"
    and "last_digest rws = last_digest rws'" and "inj_on sha256_hexdigest (body_text ` (set rws \<union> set rws'))"
  shows "list_all2 same_row rws rws'"
proof -
  have "linked JNull 1 rws" "linked JNull 1 rws'"
    using verified_store_sound_rows [OF assms(1,3)] verified_store_sound_rows [OF assms(2,4)] by simp_all
  then show ?thesis using linked_same rows_wf [OF assms(3)] rows_wf [OF assms(4)] assms(5,6) by blast
qed

section \<open>Instances\<close>

definition sample_snapshot :: dict where
  "sample_snapshot = [(''schema_version'', JStr ''commons.mncs.dev/store-snapshot/v0alpha1'')]"

definition snapshot_store :: store where
  "snapshot_store = append_row (make_ledger_row ''snapshot'' sample_snapshot (tail_of [])) empty_store"

abbreviation snapshot_row :: dict where
  "snapshot_row \<equiv> next_row ''snapshot'' sample_snapshot []"

lemma snapshot_wf: "json_wf (JObj sample_snapshot)"
  by (simp add: sample_snapshot_def dict_wf_def)

lemma snapshot_represents: "represents snapshot_store [snapshot_row]"
proof -
  let ?m = "make_ledger_row ''snapshot'' sample_snapshot (tail_of [])"
  have "text_bound (JObj ?m) \<le> 5000"
    by (simp add: make_ledger_row_def row_body_def tail_of_def last_digest_def sample_snapshot_def
        length_canonical_digest int_str_def nat_str.simps)
  then have "length (encoded_row ?m) \<le> 10001"
    using length_encode [of "JObj ?m"] unfolding encoded_row_def canonical_json_def canonicalize_row by simp
  then have "room_for snapshot_row []"
    by (simp only: next_row_def encoded_row_norm room_for_def)
      (simp add: MAX_LEDGER_LINE_BYTES_def MAX_LEDGER_BYTES_def MAX_LEDGER_ROWS_def encoded_rows_def)
  moreover have "represents empty_store []" using sample_ready by (simp add: commit_ready_def)
  ultimately show ?thesis unfolding snapshot_store_def using append_represents snapshot_wf by fastforce
qed

lemma snapshot_verifies: "verify snapshot_store = Inr []"
proof -
  have c: "chained JNull 1 []" by simp
  note f = next_row_fields [OF snapshot_wf c, of "''snapshot''"]
  have p: "dget snapshot_row ''payload'' = JObj sample_snapshot"
    unfolding f(4) by (simp add: sample_snapshot_def)
  have l: "link_diags 1 JNull snapshot_row = []"
    using f(1,2,3,5) p by (simp add: link_diags_def Let_def last_digest_def)
  have "verify_row snapshot_store 1 \<lparr>w_previous = JNull, w_records = [], w_events = [], w_diags = []\<rparr> snapshot_row
      = Inr \<lparr>w_previous = dget snapshot_row ''entryDigest'', w_records = [], w_events = [], w_diags = []\<rparr>"
    using p l f(2) by (simp add: verify_row_def Let_def) (simp add: sample_snapshot_def)
  moreover have "pending_transactions snapshot_store = []" "content_files d snapshot_store = []" for d
    by (simp_all add: pending_transactions_def content_files_def snapshot_store_def empty_store_def List.map_filter_def append_row_def)
  ultimately show ?thesis
    using rows_represents [OF snapshot_represents] by (simp add: verify_def Let_def orphans_def List.map_filter_def)
qed

theorem verified_store_sound_witness:
  "\<exists>rws. rows snapshot_store = Inr rws \<and> linked JNull 1 rws \<and> list_all (row_clean snapshot_store) rws \<and> rws \<noteq> []"
  using verified_store_sound [OF snapshot_verifies] rows_represents [OF snapshot_represents] by auto

theorem equal_tail_equal_history_witness:
  "list_all2 same_row [snapshot_row] [snapshot_row]"
  by (rule equal_tail_equal_history [OF snapshot_verifies snapshot_verifies rows_represents [OF snapshot_represents]
        rows_represents [OF snapshot_represents] refl]) simp

end
