(* ===== verification/Retention.thy ===== *)
theory Retention
  imports Query Recovery
begin

text \<open>
  Retention (retention.py): the class of a record, the records that knowledge still in use refers
  to, the plan of what may leave the store, and compaction, which rebuilds the store without it.
  The bundle that compaction writes first is made by a compression library and is a parameter:
  its identifiers, as \<open>create_archive\<close> reports them. A set of texts is a list without repetitions;
  the order in which Python walks a set does not show in what is computed here.
\<close>

section \<open>Classes\<close>

definition PROTECTED_KINDS :: "string list" where
  "PROTECTED_KINDS =
     [''ConceptExperiment'', ''FailureClassification'', ''Claim'', ''Decision'', ''Finding'', ''Question'',
      ''Hypothesis'', ''FailedApproach'', ''Handoff'', ''Thread'', ''Epoch'', ''EpochSummary'',
      ''ReplicationSeries'', ''ObservationSeries'']"

text \<open>\<open>str(v or default)\<close>.\<close>

definition str_or :: "json \<Rightarrow> string \<Rightarrow> string" where
  "str_or v s = (if truthy v then py_str v else s)"

definition observation_class :: "dict \<Rightarrow> string" where
  "observation_class rec =
     (case dget rec ''metadata'' of
        JObj metadata \<Rightarrow>
          (case dget metadata ''labels'' of
             JArr labels \<Rightarrow>
               if JStr ''canonical'' \<in> set labels then ''canonical''
               else if JStr ''evidence'' \<in> set labels then ''evidence''
               else ''ephemeral''
           | _ \<Rightarrow> ''ephemeral'')
      | _ \<Rightarrow> ''ephemeral'')"

definition classify_record :: "dict \<Rightarrow> string" where
  "classify_record rec =
     (let kind = str_or (dget rec ''kind'') []; details = obj_of (dget rec ''details'')
      in if kind \<in> set PROTECTED_KINDS then ''canonical''
         else if kind = ''WorkRequest'' then
           (if str_or (dget details ''requestState'') ''open'' \<in> {''open'', ''claimed'', ''responded''}
            then ''canonical'' else ''diagnostic'')
         else if kind = ''Advisory'' then ''diagnostic''
         else if kind = ''ArtifactReference'' then ''evidence''
         else if kind = ''Replication'' then
           (if str_or (dget details ''outcome'') [] = ''FAIL'' then ''evidence'' else ''ephemeral'')
         else if kind = ''Observation'' then
           (if str_or (dget details ''outcome'') [] \<in> {''FAIL'', ''UNKNOWN''} then ''diagnostic''
            else observation_class rec)
         else ''diagnostic'')"

section \<open>References\<close>

fun digest_text :: "json \<Rightarrow> string list" where
  "digest_text (JStr s) = (if starts_with s ''sha256:'' then [s] else [])"
| "digest_text _ = []"

definition digests_at :: "string list \<Rightarrow> json list \<Rightarrow> string list" where
  "digests_at ks items = concat (map (\<lambda>item. concat (map (\<lambda>k. digest_text (dget (obj_of item) k)) ks)) (filter is_obj items))"

definition detail_digests :: "dict \<Rightarrow> string list" where
  "detail_digests details =
     concat (map (\<lambda>k. case dget details k of JArr xs \<Rightarrow> concat (map digest_text xs) | v \<Rightarrow> digest_text v)
       [''targetRecord'', ''epochId'', ''sourceIdentities'', ''representativeEvidence'', ''notableFailures''])"

definition referenced_digests :: "dict \<Rightarrow> string list res" where
  "referenced_digests rec =
     rbind (or_empty (dget (obj_of (dget rec ''provenance'')) ''sourceRecords'')) (\<lambda>sources.
     rbind (or_empty (dget rec ''relationships'')) (\<lambda>relations.
       Inr (remdups (digest_text (dget rec ''contentDigest'') @ concat (map digest_text sources) @
              digests_at [''target'', ''contentDigest''] relations @
              detail_digests (obj_of (dget rec ''details'')) @
              digests_at [''id'', ''contentDigest''] (arr_of (dget rec ''evidence''))))))"

definition index_digests :: "dict list \<Rightarrow> (string \<times> dict) list" where
  "index_digests rs =
     foldl (\<lambda>d rec. case dget rec ''contentDigest'' of JStr digest \<Rightarrow> AList.update digest rec d | _ \<Rightarrow> d) [] rs"

definition protected_roots :: "(string \<times> dict) list \<Rightarrow> string list" where
  "protected_roots by_digest =
     map fst (filter (\<lambda>(digest, rec). classify_record rec = ''canonical'' \<or>
                py_str (dget rec ''kind'') \<in> set PROTECTED_KINDS) by_digest)"

definition refs_of :: "(string \<times> dict) list \<Rightarrow> string \<Rightarrow> string list" where
  "refs_of by_digest digest =
     (case map_of by_digest digest of
        None \<Rightarrow> []
      | Some rec \<Rightarrow> (case referenced_digests rec of Inl _ \<Rightarrow> [] | Inr rs \<Rightarrow> rs))"

definition all_refs :: "(string \<times> dict) list \<Rightarrow> string set" where
  "all_refs by_digest = (\<Union>d \<in> fst ` set by_digest. set (refs_of by_digest d))"

lemma all_refs_finite [simp]: "finite (all_refs by_digest)"
  by (simp add: all_refs_def)

lemma refs_in_all: "map_of by_digest c = Some rec \<Longrightarrow> referenced_digests rec = Inr rs \<Longrightarrow> set rs \<subseteq> all_refs by_digest"
proof -
  assume c: "map_of by_digest c = Some rec" "referenced_digests rec = Inr rs"
  then have "set rs = set (refs_of by_digest c)" by (simp add: refs_of_def)
  moreover have "c \<in> fst ` set by_digest" using c(1) by (force dest: map_of_SomeD)
  ultimately show ?thesis unfolding all_refs_def by blast
qed

text \<open>
  The loop over the stack: each round takes an entry, and adds the references that are not protected
  yet; only references of known records are added, so that the loop ends.
\<close>

function protect_loop :: "(string \<times> dict) list \<Rightarrow> string list \<Rightarrow> string list \<Rightarrow> string list res" where
  "protect_loop by_digest [] protected = Inr protected"
| "protect_loop by_digest (current # stack) protected =
     (case map_of by_digest current of
        None \<Rightarrow> protect_loop by_digest stack protected
      | Some rec \<Rightarrow>
          (case referenced_digests rec of
             Inl e \<Rightarrow> Inl e
           | Inr refs \<Rightarrow>
               let fresh = filter (\<lambda>r. r \<notin> set protected) refs
               in protect_loop by_digest (rev fresh @ stack) (protected @ fresh)))"
  by pat_completeness auto
termination
proof (relation "measures [\<lambda>(b, stack, protected). card (all_refs b - set protected), \<lambda>(b, stack, protected). length stack]")
  fix b and current :: string and stack protected :: "string list" and rec refs fresh
  assume rec: "map_of b current = Some rec" "referenced_digests rec = Inr refs"
    and fresh: "fresh = filter (\<lambda>r. r \<notin> set protected) refs"
  show "((b, rev fresh @ stack, protected @ fresh), b, current # stack, protected)
      \<in> measures [\<lambda>(b, stack, protected). card (all_refs b - set protected), \<lambda>(b, stack, protected). length stack]"
  proof (cases "fresh = []")
    case False
    then obtain r where "r \<in> set fresh" by (cases fresh) auto
    with fresh refs_in_all [OF rec] have "all_refs b - set (protected @ fresh) \<subset> all_refs b - set protected" by auto
    then have "card (all_refs b - set (protected @ fresh)) < card (all_refs b - set protected)"
      by (intro psubset_card_mono) simp_all
    then show ?thesis by simp
  qed simp
qed simp_all

definition protection_graph :: "dict list \<Rightarrow> string list res" where
  "protection_graph rs =
     (let by_digest = index_digests rs; roots = protected_roots by_digest
      in protect_loop by_digest (rev roots) roots)"

section \<open>Policy and pins\<close>

record retention_policy =
  soft_ledger_bytes :: int
  archive_pressure_bytes :: int
  emergency_ledger_bytes :: int
  hot_record_target :: int
  ephemeral_ttl_days :: int
  diagnostic_ttl_days :: int

definition policy_fields :: "(string \<times> int) list" where
  "policy_fields =
     [(''soft_ledger_bytes'', 32 * 1024 * 1024), (''archive_pressure_bytes'', 40 * 1024 * 1024),
      (''emergency_ledger_bytes'', 56 * 1024 * 1024), (''hot_record_target'', 4000),
      (''ephemeral_ttl_days'', 7), (''diagnostic_ttl_days'', 60)]"

definition policy_of :: "dict \<Rightarrow> retention_policy res" where
  "policy_of value =
     rbind (rmapM (\<lambda>(k, n). py_int (dget_default value k (JInt n))) policy_fields) (\<lambda>ns.
       Inr \<lparr>soft_ledger_bytes = ns ! 0, archive_pressure_bytes = ns ! 1, emergency_ledger_bytes = ns ! 2,
            hot_record_target = ns ! 3, ephemeral_ttl_days = ns ! 4, diagnostic_ttl_days = ns ! 5\<rparr>)"

text \<open>The files beside the store; \<open>None\<close> is a file that does not exist.\<close>

record retention =
  r_policy :: "bytes option"
  r_pins :: "bytes option"

definition policy :: "retention \<Rightarrow> retention_policy res" where
  "policy r =
     (case r_policy r of
        None \<Rightarrow> policy_of []
      | Some b \<Rightarrow>
          (case json_loads b of
             None \<Rightarrow> Inl (ValueError ''invalid JSON'')
           | Some (JObj value) \<Rightarrow> policy_of value
           | Some _ \<Rightarrow> Inl (StoreError ''retention policy is not an object'')))"

definition DEFAULT_POLICY :: dict where
  "DEFAULT_POLICY =
     (''schema_version'', JStr ''commons.mncs.dev/retention-policy/v0alpha1'') # map (\<lambda>(k, n). (k, JInt n)) policy_fields @
     [(''evidence_archive'', JBool True), (''canonical_permanent'', JBool True)]"

definition write_policy :: "dict \<Rightarrow> retention \<Rightarrow> retention" where
  "write_policy value r =
     (let payload = dset ''schema_version'' (JStr ''commons.mncs.dev/retention-policy/v0alpha1'')
                      (foldl (\<lambda>d (k, v). dset k v d) DEFAULT_POLICY value)
      in r\<lparr>r_policy := Some (canonical_json (JObj payload))\<rparr>)"

definition pins :: "retention \<Rightarrow> dict res" where
  "pins r =
     (case r_pins r of
        None \<Rightarrow> Inr []
      | Some b \<Rightarrow>
          (case json_loads b of
             None \<Rightarrow> Inl (ValueError ''invalid JSON'')
           | Some (JObj value) \<Rightarrow>
               (case dget value ''pins'' of JObj ps \<Rightarrow> Inr (filter (\<lambda>kv. is_obj (snd kv)) ps) | _ \<Rightarrow> Inr [])
           | Some _ \<Rightarrow> Inr []))"

definition pins_bytes :: "dict \<Rightarrow> bytes" where
  "pins_bytes ps =
     canonical_json (JObj [(''schema_version'', JStr ''commons.mncs.dev/retention-pins/v0alpha1''), (''pins'', JObj ps)])"

definition pin :: "string \<Rightarrow> string \<Rightarrow> string \<Rightarrow> retention \<Rightarrow> retention res" where
  "pin digest reason at r =
     rbind (guard (starts_with digest ''sha256:'') (StoreError ''pin target must be a content digest'')) (\<lambda>_.
     rbind (pins r) (\<lambda>ps.
       Inr (r\<lparr>r_pins := Some (pins_bytes (dset digest (JObj [(''pinnedAt'', JStr at), (''reason'', JStr reason)]) ps))\<rparr>)))"

definition unpin :: "string \<Rightarrow> retention \<Rightarrow> retention res" where
  "unpin digest r = rbind (pins r) (\<lambda>ps. Inr (r\<lparr>r_pins := Some (pins_bytes (AList.delete digest ps))\<rparr>))"

definition pressure_of :: "retention_policy \<Rightarrow> int \<Rightarrow> string" where
  "pressure_of p ledger_bytes =
     (if ledger_bytes \<ge> emergency_ledger_bytes p then ''emergency''
      else if ledger_bytes \<ge> archive_pressure_bytes p then ''archive''
      else if ledger_bytes \<ge> soft_ledger_bytes p then ''soft''
      else ''normal'')"

section \<open>The plan\<close>

text \<open>A time without a zone is taken as UTC; the conversion overflows at the ends of the calendar.\<close>

definition now_of :: "string \<Rightarrow> datetime res" where
  "now_of value =
     (case parse_timestamp value of
        None \<Rightarrow> Inl (ValueError ''Invalid isoformat string'')
      | Some t \<Rightarrow>
          if tz_offset t = None then Inr (t\<lparr>tz_offset := Some 0\<rparr>)
          else (case to_utc t of None \<Rightarrow> Inl OverflowError | Some u \<Rightarrow> Inr u))"

definition created_at :: "dict \<Rightarrow> datetime option res" where
  "created_at rec =
     (case dget rec ''metadata'' of
        JObj metadata \<Rightarrow>
          (case dget metadata ''createdAt'' of
             JStr raw \<Rightarrow>
               (case now_of raw of
                  Inr t \<Rightarrow> Inr (Some t)
                | Inl (ValueError _) \<Rightarrow> Inr None
                | Inl e \<Rightarrow> Inl e)
           | _ \<Rightarrow> Inr None)
      | _ \<Rightarrow> Inr None)"

definition age_days :: "datetime \<Rightarrow> datetime option \<Rightarrow> int" where
  "age_days current created =
     (case created of None \<Rightarrow> 0 | Some t \<Rightarrow> (instant current - instant t) div 86400000000)"

definition expired :: "retention_policy \<Rightarrow> string \<Rightarrow> int \<Rightarrow> bool" where
  "expired p retention_class age =
     (retention_class = ''ephemeral'' \<and> age \<ge> ephemeral_ttl_days p \<or>
      retention_class = ''diagnostic'' \<and> age \<ge> diagnostic_ttl_days p)"

record plan_entry =
  pe_digest :: string
  pe_kind :: json
  pe_class :: string
  pe_reason :: string
  pe_bytes :: nat

definition plan_reason :: "retention_policy \<Rightarrow> string list \<Rightarrow> string \<Rightarrow> string \<Rightarrow> int \<Rightarrow> bool \<times> string" where
  "plan_reason p protected digest retention_class age =
     (if digest \<in> set protected then (False, ''referenced-or-canonical'')
      else if retention_class = ''ephemeral'' \<and> age \<ge> ephemeral_ttl_days p then (True, ''ephemeral-ttl'')
      else if retention_class = ''diagnostic'' \<and> age \<ge> diagnostic_ttl_days p then (True, ''diagnostic-ttl'')
      else if retention_class = ''evidence'' then (False, ''evidence-archive-only'')
      else (False, ''protected''))"

definition plan_record :: "retention_policy \<Rightarrow> string list \<Rightarrow> datetime \<Rightarrow> dict \<Rightarrow> plan_entry list res" where
  "plan_record p protected current rec =
     rbind (created_at rec) (\<lambda>created.
       let digest = str_or (dget rec ''contentDigest'') []; c = classify_record rec;
           (eligible, reason) = plan_reason p protected digest c (age_days current created)
       in Inr (if eligible
               then [\<lparr>pe_digest = digest, pe_kind = dget rec ''kind'', pe_class = c, pe_reason = reason,
                     pe_bytes = length (canonical_json (JObj rec))\<rparr>] else []))"

record retention_plan =
  rp_usage :: usage
  rp_protected :: nat
  rp_count :: nat
  rp_reclaimable :: nat
  rp_candidates :: "plan_entry list"

definition protected_digests :: "dict list \<Rightarrow> retention \<Rightarrow> string list res" where
  "protected_digests rs r =
     rbind (protection_graph rs) (\<lambda>protected. rbind (pins r) (\<lambda>ps. Inr (remdups (protected @ map fst ps))))"

definition plan_entries :: "dict list \<Rightarrow> retention \<Rightarrow> string \<Rightarrow> plan_entry list res" where
  "plan_entries rs r now =
     rbind (policy r) (\<lambda>p. rbind (protected_digests rs r) (\<lambda>protected. rbind (now_of now) (\<lambda>current.
     rbind (rmapM (plan_record p protected current) rs) (\<lambda>entries. Inr (concat entries)))))"

definition plan :: "retention \<Rightarrow> string \<Rightarrow> store \<Rightarrow> retention_plan op" where
  "plan r now s =
     sbind (sread s (rbind (policy r) (\<lambda>_. records s))) (\<lambda>s rs.
     sbind (sread s (rbind (protected_digests rs r) (\<lambda>ps. rbind (plan_entries rs r now) (\<lambda>es. Inr (ps, es))))) (\<lambda>s (protected, entries).
     sbind (storage_usage s) (\<lambda>s u.
       (s, Inr \<lparr>rp_usage = u, rp_protected = length protected, rp_count = length entries,
               rp_reclaimable = sum_list (map pe_bytes entries), rp_candidates = take 200 entries\<rparr>))))"

record retention_status =
  rs_usage :: usage
  rs_pressure :: string
  rs_policy :: retention_policy
  rs_classes :: "(string \<times> nat) list"
  rs_pinned :: "string list"
  rs_protected :: nat

definition class_counts :: "dict list \<Rightarrow> (string \<times> nat) list" where
  "class_counts rs =
     map (\<lambda>c. (c, length (filter (\<lambda>rec. classify_record rec = c) rs))) [''canonical'', ''evidence'', ''diagnostic'', ''ephemeral'']"

definition status :: "retention \<Rightarrow> store \<Rightarrow> retention_status op" where
  "status r s =
     sbind (storage_usage s) (\<lambda>s u.
     sread s (
       rbind (records s) (\<lambda>rs. rbind (policy r) (\<lambda>p. rbind (protected_digests rs r) (\<lambda>protected. rbind (pins r) (\<lambda>ps.
         Inr \<lparr>rs_usage = u, rs_pressure = pressure_of p (int (u_ledgerBytes u)), rs_policy = p,
              rs_classes = class_counts rs, rs_pinned = sort (map fst ps), rs_protected = length protected\<rparr>))))))"

section \<open>Compaction\<close>

definition candidate :: "retention_policy \<Rightarrow> string list \<Rightarrow> datetime \<Rightarrow> dict \<Rightarrow> (string \<times> string) list res" where
  "candidate p protected current rec =
     rbind (created_at rec) (\<lambda>created.
       let digest = str_or (dget rec ''contentDigest'') []; c = classify_record rec
       in Inr (if digest \<in> set protected then []
               else if expired p c (age_days current created) then [(digest, c)] else []))"

definition all_candidates :: "dict list \<Rightarrow> retention \<Rightarrow> string \<Rightarrow> (string \<times> string) list res" where
  "all_candidates rs r now =
     rbind (policy r) (\<lambda>p. rbind (protected_digests rs r) (\<lambda>protected. rbind (now_of now) (\<lambda>current.
     rbind (rmapM (candidate p protected current) rs) (\<lambda>cs. Inr (concat cs)))))"

text \<open>A digest that is not a text is in no set of texts, and must be hashable to be looked up.\<close>

definition keep_records :: "string list \<Rightarrow> dict list \<Rightarrow> dict list res" where
  "keep_records ids rs = rfilterM (\<lambda>rec. rbind (in_set (dget rec ''contentDigest'') ids) (\<lambda>b. Inr (\<not> b))) rs"

definition keep_events :: "string list \<Rightarrow> dict list \<Rightarrow> dict list res" where
  "keep_events ids es =
     rfilterM (\<lambda>e. rbind (or_get (dget e ''target'') ''contentDigest'') (\<lambda>d. Inr (py_str d \<in> set ids))) es"

fun add_all :: "(string \<Rightarrow> dict \<Rightarrow> store \<Rightarrow> (dict \<times> string) op) \<Rightarrow> (string \<times> dict) list \<Rightarrow> store \<Rightarrow> unit op" where
  "add_all f [] s = (s, Inr ())"
| "add_all f ((name, v) # vs) s = sbind (f name v s) (\<lambda>s _. add_all f vs s)"

record archive_info =
  a_id :: json
  a_digest :: json

definition snapshot_payload :: "archive_info \<Rightarrow> int \<Rightarrow> nat \<Rightarrow> string \<Rightarrow> dict" where
  "snapshot_payload a entries hot now =
     [(''schema_version'', JStr ''commons.mncs.dev/store-snapshot/v0alpha1''), (''archiveId'', a_id a),
      (''archiveIdentity'', a_digest a), (''archivedThroughSequence'', JInt entries), (''hotRecordCount'', JInt (int hot)),
      (''createdAt'', JStr now), (''authority'', JStr ''operator-compaction''), (''executionAuthority'', JStr ''none'')]"

definition staging_store :: "string \<Rightarrow> store" where
  "staging_store root = init \<lparr>s_root = root @ ''/.compaction-staging'', s_ready = False, s_ledger = [], s_tail = None, s_files = [], s_pending = []\<rparr>"

definition named :: "(nat \<Rightarrow> string) \<Rightarrow> nat \<Rightarrow> dict list \<Rightarrow> (string \<times> dict) list" where
  "named names k vs = zip (map names [k..<k + length vs]) vs"

text \<open>The replacement: a snapshot, then what is kept, each under the name of its transaction.\<close>

definition build_generation :: "dict \<Rightarrow> (string \<times> dict) list \<Rightarrow> (string \<times> dict) list \<Rightarrow> store \<Rightarrow> unit op" where
  "build_generation snapshot rs es g =
     sbind (add_snapshot snapshot g) (\<lambda>g _.
     sbind (add_all add_record rs g) (\<lambda>g _.
     sbind (add_all add_event es g) (\<lambda>g _.
     sbind (sread g (verify g)) (\<lambda>g ds.
       sread g (guard (ds = []) (StoreError ''compaction staging store failed verification''))))))"

text \<open>The replacement is built in a directory of its own; an exception leaves the store as it was.\<close>

definition install_kept :: "dict \<Rightarrow> (string \<times> dict) list \<Rightarrow> (string \<times> dict) list \<Rightarrow> store \<Rightarrow> unit op" where
  "install_kept snapshot rs es s =
     (case build_generation snapshot rs es (staging_store (s_root s)) of
        (_, Inl e) \<Rightarrow> (s, Inl e)
      | (staging, Inr _) \<Rightarrow> install_generation staging s)"

datatype compaction = Dry_run retention_plan | Blocked retention_plan | Compacted retention_plan nat nat

definition hot_selection :: "retention \<Rightarrow> string \<Rightarrow> store \<Rightarrow> (string list \<times> dict list \<times> dict list) res" where
  "hot_selection r now s =
     rbind (records s) (\<lambda>rs. rbind (events s) (\<lambda>es. rbind (all_candidates rs r now) (\<lambda>cs.
       let ids = map fst cs
       in if ids = [] then Inr ([], rs, es)
          else rbind (keep_records ids rs) (\<lambda>keep.
               rbind (keep_events (map (\<lambda>rec. py_str (dget rec ''contentDigest'')) keep) es) (\<lambda>kept.
                 Inr (ids, keep, kept))))))"

definition compact_confirmed ::
  "string \<Rightarrow> archive_info \<Rightarrow> (nat \<Rightarrow> string) \<Rightarrow> retention \<Rightarrow> retention_plan \<Rightarrow> store \<Rightarrow> compaction op" where
  "compact_confirmed now a names r p s =
     sbind (sread s (hot_selection r now s)) (\<lambda>s (ids, keep, kept).
     if ids = [] then (s, Inr (Blocked p))
     else
       sbind (storage_usage s) (\<lambda>s u.
       sbind (install_kept (snapshot_payload a (u_entries u) (length keep) now)
                (named names 0 keep) (named names (length keep) kept) s) (\<lambda>s _.
         (s, Inr (Compacted p (length keep) (length (remdups ids)))))))"

definition compact ::
  "bool \<Rightarrow> bool \<Rightarrow> string \<Rightarrow> archive_info \<Rightarrow> (nat \<Rightarrow> string) \<Rightarrow> retention \<Rightarrow> store \<Rightarrow> compaction op" where
  "compact confirm dry_run now a names r s =
     sbind (plan r now s) (\<lambda>s p.
       if dry_run \<or> \<not> confirm then (s, Inr (Dry_run p)) else compact_confirmed now a names r p s)"

section \<open>What is protected\<close>

text \<open>One record mentions another.\<close>

definition mentions :: "(string \<times> dict) list \<Rightarrow> (string \<times> string) set" where
  "mentions by_digest = {(d, r). r \<in> set (refs_of by_digest d)}"

lemma protect_loop_mono: "protect_loop b stack prot = Inr P \<Longrightarrow> set prot \<subseteq> set P"
  by (induction b stack prot rule: protect_loop.induct) (auto simp: Let_def split: option.splits sum.splits)

lemma protect_loop_closed:
  assumes "protect_loop b stack prot = Inr P" and "set stack \<subseteq> set prot"
    and "\<And>d. d \<in> set prot \<Longrightarrow> d \<notin> set stack \<Longrightarrow> set (refs_of b d) \<subseteq> set prot"
  shows "d \<in> set P \<Longrightarrow> set (refs_of b d) \<subseteq> set P"
  using assms
proof (induction b stack prot rule: protect_loop.induct)
  case (2 b current stack prot)
  show ?case
  proof (cases "map_of b current")
    case None
    then have "refs_of b current = []" by (simp add: refs_of_def)
    with 2 None show ?thesis by fastforce
  next
    case (Some rec)
    then obtain refs where refs: "referenced_digests rec = Inr refs" using 2 by (auto split: sum.splits)
    then have "set (refs_of b current) = set refs" using Some by (simp add: refs_of_def)
    with 2(2) [OF Some refs refl] 2(3-) Some refs show ?thesis by (fastforce simp: Let_def)
  qed
qed simp

lemma protect_loop_reachable:
  assumes "protect_loop b stack prot = Inr P" and "set stack \<subseteq> set prot" and "set prot \<subseteq> (mentions b)\<^sup>* `` R"
  shows "set P \<subseteq> (mentions b)\<^sup>* `` R"
  using assms
proof (induction b stack prot rule: protect_loop.induct)
  case (2 b current stack prot)
  show ?case
  proof (cases "map_of b current")
    case None
    with 2 show ?thesis by auto
  next
    case (Some rec)
    then obtain refs where refs: "referenced_digests rec = Inr refs" using 2 by (auto split: sum.splits)
    then have "set refs \<subseteq> mentions b `` {current}" using Some by (auto simp: refs_of_def mentions_def)
    moreover have "current \<in> (mentions b)\<^sup>* `` R" using 2(4,5) by auto
    ultimately have "set refs \<subseteq> (mentions b)\<^sup>* `` R" by (blast intro: rtrancl_into_rtrancl)
    with 2(2) [OF Some refs refl] 2(3-) Some refs show ?thesis by (auto simp: Let_def)
  qed
qed simp

lemma closed_reaches: "(d, e) \<in> (mentions b)\<^sup>* \<Longrightarrow> d \<in> S \<Longrightarrow> (\<And>x. x \<in> S \<Longrightarrow> set (refs_of b x) \<subseteq> S) \<Longrightarrow> e \<in> S"
  by (induction rule: rtrancl_induct) (auto simp: mentions_def)

lemma protected_exactly:
  assumes "protection_graph rs = Inr P"
  shows "set P = (mentions (index_digests rs))\<^sup>* `` set (protected_roots (index_digests rs))"
proof -
  let ?b = "index_digests rs"
  have p: "protect_loop ?b (rev (protected_roots ?b)) (protected_roots ?b) = Inr P"
    using assms by (simp add: protection_graph_def Let_def)
  have "set P \<subseteq> (mentions ?b)\<^sup>* `` set (protected_roots ?b)" by (rule protect_loop_reachable [OF p]) auto
  moreover have "e \<in> set P" if "(d, e) \<in> (mentions ?b)\<^sup>*" "d \<in> set (protected_roots ?b)" for d e
    using closed_reaches [OF that(1)] protect_loop_closed [OF p] protect_loop_mono [OF p] that(2) by auto
  ultimately show ?thesis by auto
qed

lemma protect_loop_returns:
  assumes "\<And>d rec. map_of b d = Some rec \<Longrightarrow> \<exists>refs. referenced_digests rec = Inr refs"
  shows "\<exists>P. protect_loop b stack prot = Inr P"
  using assms
proof (induction b stack prot rule: protect_loop.induct)
  case (2 b current stack prot)
  show ?case
  proof (cases "map_of b current")
    case (Some rec)
    with "2.prems" obtain refs where refs: "referenced_digests rec = Inr refs" by blast
    from "2.IH"(2) [OF Some this refl] "2.prems" show ?thesis using Some refs by (simp add: Let_def)
  qed (use 2 in simp)
qed simp

lemma index_digests_records: "map_of (index_digests rs) d = Some rec \<Longrightarrow> rec \<in> set rs"
proof (induction rs rule: rev_induct)
  case (snoc r rs)
  then show ?case by (auto simp: index_digests_def update_conv split: json.splits if_splits)
qed (simp add: index_digests_def)

text \<open>
  C21. The search for protected records always ends: when the references of the stored records can be read, whatever they refer to and however they form cycles, it returns exactly the digests reachable from the canonical records along the references of stored records.
\<close>

theorem protection_graph_closure:
  assumes "\<forall>rec \<in> set rs. \<exists>refs. referenced_digests rec = Inr refs"
  shows "\<exists>P. protection_graph rs = Inr P \<and>
    set P = (mentions (index_digests rs))\<^sup>* `` set (protected_roots (index_digests rs))"
proof -
  have "\<exists>refs. referenced_digests rec = Inr refs" if "map_of (index_digests rs) d = Some rec" for d rec
    using assms index_digests_records [OF that] by blast
  then obtain P where "protection_graph rs = Inr P"
    unfolding protection_graph_def Let_def using protect_loop_returns by blast
  with protected_exactly show ?thesis by blast
qed

section \<open>What leaves the store\<close>

lemma all_candidates_member:
  assumes "all_candidates rs r now = Inr cs" and "(d, c) \<in> set cs"
  shows "\<exists>p protected current rec created. policy r = Inr p \<and> protected_digests rs r = Inr protected \<and>
    now_of now = Inr current \<and> rec \<in> set rs \<and> created_at rec = Inr created \<and> d = str_or (dget rec ''contentDigest'') [] \<and>
    c = classify_record rec \<and> d \<notin> set protected \<and> expired p c (age_days current created)"
proof -
  obtain p protected current css where 1: "policy r = Inr p" "protected_digests rs r = Inr protected"
      "now_of now = Inr current" "rmapM (candidate p protected current) rs = Inr css" "cs = concat css"
    using assms(1) by (auto simp: all_candidates_def rbind_eq_Inr)
  then obtain ds where "ds \<in> set css" "(d, c) \<in> set ds" using assms(2) by auto
  with rmapM_Inr_set [OF 1(4)] obtain rec where "rec \<in> set rs" "candidate p protected current rec = Inr ds" by blast
  with 1 \<open>(d, c) \<in> set ds\<close> show ?thesis by (auto simp: candidate_def rbind_eq_Inr Let_def split: if_splits)
qed

lemma rfilterM_keeps: "rfilterM p xs = Inr ys \<Longrightarrow> x \<in> set xs \<Longrightarrow> p x \<noteq> Inr False \<Longrightarrow> x \<in> set ys"
  by (induction xs arbitrary: ys) (auto simp: rbind_eq_Inr split: if_splits)

text \<open>
  C22. Compaction never drops knowledge in use: a record that does not stay has a digest that is neither protected nor pinned, and it is the digest of a stored record of the ephemeral or diagnostic class older than the policy allows.
\<close>

theorem compaction_keeps_knowledge:
  assumes "all_candidates rs r now = Inr cs" and "keep_records (map fst cs) rs = Inr keep"
    and "protection_graph rs = Inr P" and "pins r = Inr ps" and "rec \<in> set rs"
  shows "rec \<in> set keep \<or>
    (\<exists>d old created p current. dget rec ''contentDigest'' = JStr d \<and> d \<notin> set P \<and> d \<notin> fst ` set ps \<and>
       old \<in> set rs \<and> str_or (dget old ''contentDigest'') [] = d \<and> created_at old = Inr created \<and>
       policy r = Inr p \<and> now_of now = Inr current \<and>
       expired p (classify_record old) (age_days current created))"
proof (cases "rec \<in> set keep")
  case False
  let ?v = "dget rec ''contentDigest''"
  have "rbind (in_set ?v (map fst cs)) (\<lambda>b. Inr (\<not> b)) = Inr False"
    using rfilterM_keeps [OF assms(2) [unfolded keep_records_def] assms(5)] False by blast
  then have "in_set ?v (map fst cs) = Inr True" by (auto simp: rbind_eq_Inr)
  then obtain d c where d: "?v = JStr d" "(d, c) \<in> set cs" unfolding in_set_True by auto
  obtain p protected current old created where o: "policy r = Inr p" "protected_digests rs r = Inr protected"
      "now_of now = Inr current" "old \<in> set rs" "created_at old = Inr created"
      "d = str_or (dget old ''contentDigest'') []" "c = classify_record old" "d \<notin> set protected"
      "expired p c (age_days current created)"
    using all_candidates_member [OF assms(1) d(2)] by blast
  have "set protected = set P \<union> fst ` set ps" using o(2) assms(3,4) by (force simp: protected_digests_def)
  with o d show ?thesis by blast
qed simp


section \<open>Compaction\<close>

lemma content_diags_transfer:
  "content_diags n e p report s = [] \<Longrightarrow> s_files s' = s_files s \<Longrightarrow> content_diags n e p report s' = []"
  by (auto simp: content_diags_def Let_def split: if_splits option.splits)

lemma verify_row_transfer:
  assumes "verify_row s n w row = Inr w'" and "w_diags w' = []" and "s_files s' = s_files s"
  shows "verify_row s' n w row = Inr w'"
  using assms content_diags_transfer [OF _ assms(3)]
  by (auto simp: verify_row_def Let_def rbind_eq_Inr split: json.splits if_splits)

lemma verify_row_diags: "verify_row s n w row = Inr w' \<Longrightarrow> w_diags w' = [] \<Longrightarrow> w_diags w = []"
  by (auto simp: verify_row_def Let_def rbind_eq_Inr split: json.splits if_splits)

lemma verify_rows_diags: "verify_rows s n w rws = Inr w' \<Longrightarrow> w_diags w' = [] \<Longrightarrow> w_diags w = []"
  by (induction rws arbitrary: n w) (auto simp: rbind_eq_Inr dest: verify_row_diags)

lemma verify_rows_transfer:
  assumes "verify_rows s n w rws = Inr w'" and "w_diags w' = []" and "s_files s' = s_files s"
  shows "verify_rows s' n w rws = Inr w'"
  using assms
proof (induction rws arbitrary: n w)
  case (Cons row rws)
  then obtain w1 where w1: "verify_row s n w row = Inr w1" "verify_rows s (n + 1) w1 rws = Inr w'"
    by (auto simp: rbind_eq_Inr)
  with Cons verify_row_transfer [OF w1(1) verify_rows_diags [OF w1(2)]] show ?case by simp
qed simp

lemma orphans_Nil: "orphans d c refs s = [] \<longleftrightarrow> (\<forall>(stem, b) \<in> set (content_files d s). ''sha256:'' @ stem \<in> set refs)"
  by (auto simp: orphans_def List.map_filter_def filter_empty_conv split: if_splits)

lemma content_files_same: "s_files s' = s_files s \<Longrightarrow> content_files d s' = content_files d s"
  by (simp add: content_files_def)

lemma verify_transfer:
  assumes "verify s = Inr []" and "s_ledger s' = s_ledger s" and "s_files s' = s_files s"
    and "s_ready s'" and "s_pending s' = []"
  shows "verify s' = Inr []"
proof -
  obtain rws where rws: "rows s = Inr rws" using assms(1) by (auto simp: verify_def split: sum.splits exn.splits)
  obtain w where w: "verify_rows s 1 \<lparr>w_previous = JNull, w_records = [], w_events = [],
        w_diags = map (\<lambda>name. Diagnostic ''PENDING_TRANSACTION'' name
          ''transaction is recoverable or must be inspected explicitly'') (pending_transactions s)\<rparr> rws = Inr w"
      "w_diags w = []" "orphans ''records'' ''ORPHAN_RECORD'' (w_records w) s = []" "orphans ''events'' ''ORPHAN_EVENT'' (w_events w) s = []"
    using assms(1) rws by (auto simp: verify_def Let_def rbind_eq_Inr)
  have "pending_transactions s' = []" "pending_transactions s = []"
    using assms(5) verify_rows_diags [OF w(1,2)] by (simp_all add: pending_transactions_def)
  moreover have "rows s' = Inr rws"
    using rws assms(2,4) by (auto simp: rows_def require_initialized_def rbind_eq_Inr)
  ultimately show ?thesis
    using verify_rows_transfer [OF w(1,2) assms(3)] w(2-4) content_files_same [OF assms(3)]
    by (simp add: verify_def Let_def orphans_Nil)
qed

text \<open>The stores that differ in the cached tail only.\<close>

definition same_data :: "store \<Rightarrow> store \<Rightarrow> bool" where
  "same_data s s' = (s_root s' = s_root s \<and> s_ready s' = s_ready s \<and> s_ledger s' = s_ledger s \<and>
     s_files s' = s_files s \<and> s_pending s' = s_pending s)"

lemma load_tail_same: "load_tail s = (s', x) \<Longrightarrow> same_data s s'"
  by (auto simp: load_tail_def rebuild_tail_def write_tail_def same_data_def sbind_def sread_def Let_def
      split: option.splits sum.splits)

lemma storage_usage_same: "storage_usage s = (s', x) \<Longrightarrow> same_data s s'"
  using load_tail_same [of s] by (auto simp: storage_usage_def sbind_def Let_def split: prod.splits sum.splits)

lemma sbind_cases:
  assumes "sbind m f = (s', out)"
  obtains (raised) e where "m = (s', Inl e)" "out = Inl e" | (went_on) s1 x where "m = (s1, Inr x)" "f s1 x = (s', out)"
  using assms by (cases m; cases "snd m") (auto simp: sbind_def)

lemma plan_same: "plan r now s = (s', x) \<Longrightarrow> same_data s s'"
  using storage_usage_same [of s]
  by (auto simp: plan_def sbind_def sread_def same_data_def split: prod.splits sum.splits)

lemma plan_ready:
  assumes "plan r now s = (s', Inr p)"
  shows "s_ready s"
proof -
  obtain rs where "records s = Inr rs"
    using assms unfolding plan_def by (elim sbind_cases) (auto simp: sread_def rbind_eq_Inr)
  then show ?thesis by (auto simp: records_def rows_def require_initialized_def rbind_eq_Inr)
qed

lemma install_kept_same: "install_kept snapshot rs es s = (s', Inl e) \<Longrightarrow> s' = s"
  by (auto simp: install_kept_def install_generation_def sbind_def sread_def split: sum.splits if_splits prod.splits)

lemma install_kept_verifies:
  assumes "install_kept snapshot rs es s = (s', Inr u)" and "s_ready s"
  shows "s_pending s' = s_pending s \<and> (s_pending s = [] \<longrightarrow> verify s' = Inr [])"
proof -
  obtain g where "install_generation g s = (s', Inr u)"
    using assms(1) by (auto simp: install_kept_def split: sum.splits prod.splits)
  then have "verify g = Inr []" and s': "s' = s\<lparr>s_ledger := s_ledger g,
      s_tail := (case s_tail g of None \<Rightarrow> s_tail s | Some t \<Rightarrow> Some t), s_files := s_files g\<rparr>"
    by (auto simp: install_generation_def sbind_def sread_def split: sum.splits if_splits)
  then show ?thesis using verify_transfer [of g s'] assms(2) by simp
qed

definition compact_outcome :: "store \<Rightarrow> store \<Rightarrow> compaction res \<Rightarrow> bool" where
  "compact_outcome s s' out =
     (case out of
        Inr (Compacted p hot removed) \<Rightarrow> s_pending s' = s_pending s \<and> (s_pending s = [] \<longrightarrow> verify s' = Inr [])
      | _ \<Rightarrow> same_data s s')"

lemma compact_confirmed_outcome:
  assumes "compact_confirmed now a names r p s = (s', out)" and "s_ready s"
  shows "compact_outcome s s' out"
  using assms(1) unfolding compact_confirmed_def
proof (cases rule: sbind_cases)
  case (raised e)
  then show ?thesis by (simp add: sread_def compact_outcome_def same_data_def)
next
  case (went_on s1 x)
  obtain ids keep kept where x: "x = (ids, keep, kept)" by (cases x)
  have s1: "s1 = s" using went_on(1) by (simp add: sread_def)
  show ?thesis
  proof (cases "ids = []")
    case True
    then show ?thesis using went_on(2) x s1 by (auto simp: compact_outcome_def same_data_def)
  next
    case False
    with went_on(2) x s1 obtain s2 y where u: "storage_usage s = (s2, y)" by fastforce
    note s2 = storage_usage_same [OF u]
    have ready: "s_ready s2" using s2 assms(2) by (simp add: same_data_def)
    show ?thesis
    proof (cases y)
      case (Inl e)
      then show ?thesis using went_on(2) x s1 False u s2 by (auto simp: sbind_def compact_outcome_def)
    next
      case (Inr us)
      obtain s3 z where i: "install_kept (snapshot_payload a (u_entries us) (length keep) now)
          (named names 0 keep) (named names (length keep) kept) s2 = (s3, z)" by fastforce
      have o: "s' = s3 \<and> out = (case z of Inl e \<Rightarrow> Inl e | Inr _ \<Rightarrow> Inr (Compacted p (length keep) (length (remdups ids))))"
        using went_on(2) x s1 False u Inr i by (auto simp: sbind_def split: sum.splits)
      show ?thesis
      proof (cases z)
        case (Inl e)
        then show ?thesis using i o s2 by (auto simp: compact_outcome_def dest: install_kept_same)
      next
        case (Inr w)
        then show ?thesis using install_kept_verifies [of _ _ _ s2] i o s2 ready by (auto simp: compact_outcome_def same_data_def)
      qed
    qed
  qed
qed

lemma compact_outcome_trans: "same_data s s1 \<Longrightarrow> compact_outcome s1 s' out \<Longrightarrow> compact_outcome s s' out"
  by (auto simp: compact_outcome_def same_data_def split: sum.splits compaction.splits)


section \<open>Instances\<close>

definition sample_kept :: "string \<Rightarrow> string \<Rightarrow> json list \<Rightarrow> dict" where
  "sample_kept kind digest sources =
     [(''kind'', JStr kind), (''contentDigest'', JStr digest), (''provenance'', JObj [(''sourceRecords'', JArr sources)]),
      (''metadata'', JObj [(''createdAt'', JStr ''2026-02-01T00:00:00Z'')])]"

definition sample_records :: "dict list" where
  "sample_records =
     [sample_kept ''Observation'' ''sha256:a'' [], sample_kept ''Observation'' ''sha256:b'' [],
      sample_kept ''Claim'' ''sha256:c'' [JStr ''sha256:a'']]"

definition no_files :: retention where
  "no_files = \<lparr>r_policy = None, r_pins = None\<rparr>"

lemma sample_graph: "protection_graph sample_records = Inr [''sha256:c'', ''sha256:a'']"
  by code_simp

definition day :: "nat \<Rightarrow> datetime" where
  "day m = \<lparr>dt_year = 2026, dt_month = m, dt_day = 1, dt_hour = 0, dt_minute = 0, dt_second = 0, dt_micro = 0, tz_offset = Some 0\<rparr>"

lemma now_of_utc: "valid_datetime t \<Longrightarrow> tz_offset t = Some 0 \<Longrightarrow> now_of (offset_to_z (isoformat_utc t)) = Inr t"
  by (simp add: now_of_def parse_timestamp_def z_to_offset_isoformat fromisoformat_isoformat to_utc_def)

lemma now_of_day: "now_of ''2026-02-01T00:00:00Z'' = Inr (day 2)" "now_of ''2026-04-01T00:00:00Z'' = Inr (day 4)"
proof -
  have "valid_datetime (day 2)" "valid_datetime (day 4)" "tz_offset (day n) = Some 0" for n
    by (simp_all add: day_def valid_datetime_def valid_date_def days_in_month_def month_lengths_def)
  note w = this(1,2) [THEN now_of_utc, OF this(3)]
  have t: "offset_to_z (isoformat_utc (day 2)) = ''2026-02-01T00:00:00Z''"
    "offset_to_z (isoformat_utc (day 4)) = ''2026-04-01T00:00:00Z''"
    by (simp_all add: offset_to_z_utc utc_text_def time_text_def day_def pad_2 pad_4 digit_char_def char_of_def bit_0)
  show "now_of ''2026-02-01T00:00:00Z'' = Inr (day 2)" "now_of ''2026-04-01T00:00:00Z'' = Inr (day 4)"
    using w unfolding t by simp_all
qed

lemma no_policy: "policy no_files = Inr \<lparr>soft_ledger_bytes = 32 * 1024 * 1024, archive_pressure_bytes = 40 * 1024 * 1024,
    emergency_ledger_bytes = 56 * 1024 * 1024, hot_record_target = 4000, ephemeral_ttl_days = 7, diagnostic_ttl_days = 60\<rparr>"
  by code_simp

lemma no_pins: "pins no_files = Inr []"
  by code_simp

lemma age_two_months: "age_days (day 4) (Some (day 2)) = 59"
  by (simp add: age_days_def instant_def day_def ymd2ord_def days_before_year_def days_before_month_simps is_leap_def)

lemma sample_candidates:
  "all_candidates sample_records no_files ''2026-04-01T00:00:00Z'' = Inr [(''sha256:b'', ''ephemeral'')]"
proof -
  have c: "created_at (sample_kept k d xs) = Inr (Some (day 2))" for k d xs
    by (simp add: created_at_def sample_kept_def now_of_day)
  have k: "classify_record (sample_kept ''Observation'' d xs) = ''ephemeral''" for d xs
    by (simp add: classify_record_def sample_kept_def PROTECTED_KINDS_def str_or_def observation_class_def)
  have d: "str_or (dget (sample_kept k d xs) ''contentDigest'') [] = (if d = [] then [] else d)" for k d xs
    by (simp add: sample_kept_def str_or_def)
  show ?thesis
    unfolding all_candidates_def sample_records_def [symmetric]
    by (simp add: no_policy protected_digests_def sample_graph no_pins now_of_day)
      (simp add: sample_records_def candidate_def c k d age_two_months expired_def)
qed

lemma sample_keep:
  "keep_records (map fst [(''sha256:b'', ''ephemeral'')]) sample_records
     = Inr [sample_kept ''Observation'' ''sha256:a'' [], sample_kept ''Claim'' ''sha256:c'' [JStr ''sha256:a'']]"
  by code_simp

theorem protection_graph_closure_witness:
  "\<exists>P. protection_graph sample_records = Inr P \<and> ''sha256:a'' \<in> set P \<and>
     set P = (mentions (index_digests sample_records))\<^sup>* `` set (protected_roots (index_digests sample_records))"
proof -
  have "list_all (\<lambda>rec. \<not> isl (referenced_digests rec)) sample_records" by code_simp
  then have "\<forall>rec \<in> set sample_records. \<exists>refs. referenced_digests rec = Inr refs"
    unfolding list_all_iff by (metis isl_def sum.collapse(2) sum.exhaust)
  from protection_graph_closure [OF this] obtain P where P: "protection_graph sample_records = Inr P"
      "set P = (mentions (index_digests sample_records))\<^sup>* `` set (protected_roots (index_digests sample_records))" by blast
  moreover have "''sha256:a'' \<in> set P" using P(1) unfolding sample_graph by (simp only: sum.inject) auto
  ultimately show ?thesis by (intro exI [of _ P]) (simp only:)
qed

theorem compaction_keeps_knowledge_witness:
  "sample_records ! 0 \<in> set [sample_kept ''Observation'' ''sha256:a'' [], sample_kept ''Claim'' ''sha256:c'' [JStr ''sha256:a'']] \<and>
   (\<exists>d. dget (sample_records ! 1) ''contentDigest'' = JStr d \<and> d \<notin> {''sha256:c'', ''sha256:a''})"
proof -
  have "sample_records ! 0 \<in> set sample_records" "sample_records ! 1 \<in> set sample_records" by (simp_all add: sample_records_def)
  note w = this [THEN compaction_keeps_knowledge [OF sample_candidates sample_keep sample_graph no_pins]]
  show ?thesis using w by (auto simp: sample_records_def sample_kept_def)
qed

definition bare_store :: store where
  "bare_store = \<lparr>s_root = ''/srv/commons'', s_ready = True, s_ledger = [], s_tail = None, s_files = [], s_pending = []\<rparr>"

definition no_plan :: retention_plan where
  "no_plan = \<lparr>rp_usage = \<lparr>u_entries = 0, u_contentBytes = 0, u_contentFiles = 0, u_ledgerBytes = 0\<rparr>,
     rp_protected = 0, rp_count = 0, rp_reclaimable = 0, rp_candidates = []\<rparr>"

lemma bare_rows: "s_ready s \<Longrightarrow> s_ledger s = [] \<Longrightarrow> rows s = Inr []"
  by (simp add: rows_def require_initialized_def ledger_rows_def guard_def)

lemma bare_usage: "storage_usage bare_store = (write_tail (JInt 0) JNull bare_store, Inr (rp_usage no_plan))"
  by (simp add: storage_usage_def load_tail_def cached_tail_def rebuild_tail_def tail_from_rows_def bare_rows
      sbind_def sread_def guard_def require_initialized_def content_files_def List.map_filter_def bare_store_def no_plan_def write_tail_def)

lemma empty_protected: "protected_digests [] no_files = Inr []"
  by code_simp

lemma sample_compact:
  "compact True False ''2026-04-01T00:00:00Z'' \<lparr>a_id = JNull, a_digest = JNull\<rparr> (\<lambda>n. ''tx'') no_files bare_store
   = (write_tail (JInt 0) JNull bare_store, Inr (Blocked no_plan))"
proof -
  have r: "records s = Inr []" "events s = Inr []" if "s_ready s" "s_ledger s = []" for s
    using bare_rows [OF that] by (simp_all add: records_def events_def payloads_def)
  have b: "records bare_store = Inr []" "records (write_tail (JInt 0) JNull bare_store) = Inr []"
    "events (write_tail (JInt 0) JNull bare_store) = Inr []"
    by (rule r; simp add: bare_store_def write_tail_def)+
  have "plan no_files ''2026-04-01T00:00:00Z'' bare_store = (write_tail (JInt 0) JNull bare_store, Inr no_plan)"
    by (simp add: plan_def sbind_def sread_def b bare_usage no_policy empty_protected plan_entries_def now_of_day) (simp add: no_plan_def)
  then show ?thesis
    by (simp add: compact_def sbind_def sread_def compact_confirmed_def hot_selection_def b
        no_policy empty_protected all_candidates_def now_of_day)
qed


end
