(* ===== verification/Exchange.thy ===== *)
theory Exchange
  imports Validation
begin

text \<open>
  The boundary of an exchange (exchange.py): who takes part, the policy of a node, and the check of
  a record before it is published or taken in. An exchange error carries its code and its message;
  the diagnostics attached to it are those of the validator. The service descriptor, which only
  lists constants, is left out.
\<close>

section \<open>Participants\<close>

text \<open>The fields after the second are as the caller gave them, until they are checked.\<close>

record participant =
  p_id :: string
  p_implementation :: string
  p_software_version :: json
  p_model_provider :: json
  p_instance_id :: json
  p_capabilities :: "string list"
  p_namespace :: json
  p_model_identity :: json
  p_session_id :: json
  p_producer_identity :: json
  p_environment_identity :: json

definition stated_fields :: "participant \<Rightarrow> (string \<times> json) list" where
  "stated_fields p =
     [(''softwareVersion'', p_software_version p), (''modelProvider'', p_model_provider p),
      (''instanceId'', p_instance_id p), (''namespace'', p_namespace p), (''modelIdentity'', p_model_identity p),
      (''sessionId'', p_session_id p), (''producerIdentity'', p_producer_identity p),
      (''environmentIdentity'', p_environment_identity p)]"

definition participant_dict :: "participant \<Rightarrow> dict" where
  "participant_dict p =
     [(''participantId'', JStr (p_id p)), (''implementation'', JStr (p_implementation p)),
      (''identityAssurance'', JStr ''SELF_ASSERTED''),
      (''capabilities'', JArr (map JStr (sorted_set (p_capabilities p))))] @
     filter (\<lambda>kv. snd kv \<noteq> JNull) (stated_fields p)"

definition bounded_value :: "nat \<Rightarrow> json \<Rightarrow> bool" where
  "bounded_value maximum v = (is_str v \<and> py_strip (str_of v) \<noteq> [] \<and> length (str_of v) \<le> maximum)"

definition invalid_participant :: "string \<Rightarrow> exn" where
  "invalid_participant m = ExchangeError ''INVALID_PARTICIPANT'' m"

definition participant_field :: "string \<times> json \<Rightarrow> unit res" where
  "participant_field kv =
     guard (snd kv = JNull \<or> bounded_value 512 (snd kv))
       (invalid_participant (fst kv @ '' must be a bounded non-empty string''))"

definition validate_participant :: "participant option \<Rightarrow> unit res" where
  "validate_participant participant =
     (case participant of
        None \<Rightarrow> Inr ()
      | Some p \<Rightarrow>
          rbind (rmapM participant_field
                   ([(''participantId'', JStr (p_id p)), (''implementation'', JStr (p_implementation p))] @ stated_fields p)) (\<lambda>_.
            guard (length (p_capabilities p) \<le> 128 \<and> list_all (\<lambda>c. bounded_value 256 (JStr c)) (p_capabilities p))
              (invalid_participant ''capabilities must be bounded strings'')))"

definition participant_of :: "dict \<Rightarrow> participant res" where
  "participant_of value =
     (case dget_default value ''capabilities'' (JArr []) of
        JArr capabilities \<Rightarrow>
          let p = \<lparr>p_id = py_str (dget_default value ''participantId'' (JStr [])),
                   p_implementation = py_str (dget_default value ''implementation'' (JStr [])),
                   p_software_version = dget value ''softwareVersion'', p_model_provider = dget value ''modelProvider'',
                   p_instance_id = dget value ''instanceId'', p_capabilities = map py_str capabilities,
                   p_namespace = dget value ''namespace'', p_model_identity = dget value ''modelIdentity'',
                   p_session_id = dget value ''sessionId'', p_producer_identity = dget value ''producerIdentity'',
                   p_environment_identity = dget value ''environmentIdentity''\<rparr>
          in rbind (validate_participant (Some p)) (\<lambda>_. Inr p)
      | _ \<Rightarrow> Inl (invalid_participant ''capabilities must be a list''))"

section \<open>Policies\<close>

record exchange_policy =
  e_name :: string
  e_public :: bool
  e_allow_write :: bool
  e_allow_lifecycle_events :: bool
  e_max_record_bytes :: int
  e_max_query_results :: int
  e_max_sync_entries :: int
  e_max_conversation_nodes :: int
  e_max_relationships :: int
  e_max_evidence :: int

definition default_exchange :: exchange_policy where
  "default_exchange =
     \<lparr>e_name = ''local'', e_public = False, e_allow_write = True, e_allow_lifecycle_events = False,
      e_max_record_bytes = 1024 * 1024, e_max_query_results = 1000, e_max_sync_entries = 1000,
      e_max_conversation_nodes = 1000, e_max_relationships = 256, e_max_evidence = 256\<rparr>"

definition public_profile :: exchange_policy where
  "public_profile = default_exchange\<lparr>e_name := ''public-contribution'', e_public := True\<rparr>"

section \<open>The check of a record\<close>

fun py_len :: "json \<Rightarrow> int res" where
  "py_len (JArr xs) = Inr (int (length xs))"
| "py_len (JObj d) = Inr (int (length d))"
| "py_len (JStr s) = Inr (int (length s))"
| "py_len _ = Inl TypeError"

definition public_check :: "json \<Rightarrow> unit res" where
  "public_check security =
     rbind (attr_get security ''sensitivity'' JNull) (\<lambda>sensitivity.
     rbind (guard (sensitivity = JStr ''public'')
              (ExchangeError ''PUBLIC_POLICY_REJECTED'' ''public profile accepts public records only'')) (\<lambda>_.
     rbind (attr_get security ''executableAttachments'' JNull) (\<lambda>attachments.
     rbind (guard (attachments = JBool False)
              (ExchangeError ''PUBLIC_POLICY_REJECTED'' ''public profile rejects executable attachments'')) (\<lambda>_.
     rbind (attr_get security ''instructionsAreUntrusted'' JNull) (\<lambda>untrusted.
       guard (untrusted = JBool True)
         (ExchangeError ''PUBLIC_POLICY_REJECTED'' ''untrusted instruction marker is required''))))))"

definition validate_for_exchange :: "dict \<Rightarrow> exchange_policy \<Rightarrow> unit res" where
  "validate_for_exchange value p =
     rbind (guard (int (length (canonical_json (JObj value))) \<le> e_max_record_bytes p)
              (ExchangeError ''RECORD_TOO_LARGE'' ''record exceeds the exchange record-size limit'')) (\<lambda>_.
     rbind (in_set (dget value ''kind'') record_kinds) (\<lambda>known.
     rbind (guard known
              (ExchangeError ''UNSUPPORTED_RECORD_VERSION'' ''only Commons records can be published'')) (\<lambda>_.
     rbind (validate_record (JObj value)) (\<lambda>report.
     rbind (guard (report_valid report)
              (ExchangeError (if list_ex (\<lambda>d. code d = ''DIGEST_MISMATCH'') report then ''SEMANTIC_RECORD_ERROR''
                              else ''INVALID_RECORD'') ''record failed Commons validation'')) (\<lambda>_.
     rbind (py_len (dget_default value ''relationships'' (JArr []))) (\<lambda>relationships.
     rbind (guard (relationships \<le> e_max_relationships p)
              (ExchangeError ''RECORD_TOO_LARGE'' ''record has too many relationships'')) (\<lambda>_.
     rbind (py_len (dget_default value ''evidence'' (JArr []))) (\<lambda>evidence.
     rbind (guard (evidence \<le> e_max_evidence p)
              (ExchangeError ''RECORD_TOO_LARGE'' ''record has too many evidence references'')) (\<lambda>_.
       if e_public p then public_check (dget_default value ''security'' (JObj [])) else Inr ())))))))))"

section \<open>What is let through\<close>

lemma exchanged_valid:
  assumes "validate_for_exchange value p = Inr ()"
  shows "int (length (canonical_json (JObj value))) \<le> e_max_record_bytes p \<and>
    (\<exists>k \<in> set record_kinds. dget value ''kind'' = JStr k) \<and>
    (\<exists>report. validate_record (JObj value) = Inr report \<and> report_valid report)"
  using assms by (auto simp: validate_for_exchange_def rbind_eq_Inr in_set_True)

lemma participant_field_Inr: "participant_field (k, v) = Inr u \<longleftrightarrow> v = JNull \<or> bounded_value 512 v"
  by (simp add: participant_field_def)

end
