(* ===== verification/Interest.thy ===== *)
theory Interest
  imports Commons_Prelude
begin

text \<open>
  Interest filters of the mesh (mesh/interest.py): the subscription of a node, read from and written
  to a document, and the decision whether a record falls in it. The decision projects the record
  and the filter to truth values, and combines them by the law of the kernel.
\<close>

section \<open>Filters\<close>

definition INTEREST_VERSION :: string where
  "INTEREST_VERSION = ''commons.mncs.dev/interest/v0alpha1''"

definition MAX_DIMENSION_ENTRIES :: nat where
  "MAX_DIMENSION_ENTRIES = 64"

definition MAX_DIMENSION_STRING :: nat where
  "MAX_DIMENSION_STRING = 256"

definition MAX_RECORD_IDS :: nat where
  "MAX_RECORD_IDS = 1024"

definition invalid_interest :: "string \<Rightarrow> exn" where
  "invalid_interest m = MeshError ''INVALID_INTEREST'' m"

definition bounded_entry :: "json \<Rightarrow> bool" where
  "bounded_entry item = (is_str item \<and> py_strip (str_of item) \<noteq> [] \<and> length (str_of item) \<le> MAX_DIMENSION_STRING)"

definition bounded_tuple :: "json \<Rightarrow> string \<Rightarrow> nat \<Rightarrow> string list res" where
  "bounded_tuple value name maximum =
     (case value of
        JNull \<Rightarrow> Inr []
      | JArr items \<Rightarrow>
          rbind (guard (length items \<le> maximum)
                   (invalid_interest (name @ '' exceeds '' @ nat_str maximum @ '' entries''))) (\<lambda>_.
          rbind (guard (list_all bounded_entry items)
                   (invalid_interest (name @ '' entries must be bounded strings''))) (\<lambda>_.
            Inr (sorted_set (map str_of items))))
      | _ \<Rightarrow> Inl (invalid_interest (name @ '' must be a list of strings'')))"

record interest =
  i_kinds :: "string list"
  i_projects :: "string list"
  i_contracts :: "string list"
  i_producers :: "string list"
  i_outcomes :: "string list"
  i_states :: "string list"
  i_reltypes :: "string list"
  i_labels :: "string list"
  i_ids :: "string list"
  i_open_work :: bool
  i_promotion :: bool

definition match_all :: interest where
  "match_all = \<lparr>i_kinds = [], i_projects = [], i_contracts = [], i_producers = [], i_outcomes = [], i_states = [],
     i_reltypes = [], i_labels = [], i_ids = [], i_open_work = False, i_promotion = False\<rparr>"

definition is_empty_interest :: "interest \<Rightarrow> bool" where
  "is_empty_interest i = (i = match_all)"

definition texts :: "string list \<Rightarrow> json" where
  "texts ss = JArr (map JStr ss)"

definition interest_dict :: "interest \<Rightarrow> dict" where
  "interest_dict i =
     [(''interestVersion'', JStr INTEREST_VERSION), (''kinds'', texts (i_kinds i)), (''projects'', texts (i_projects i)),
      (''contracts'', texts (i_contracts i)), (''producers'', texts (i_producers i)), (''outcomes'', texts (i_outcomes i)),
      (''lifecycleStates'', texts (i_states i)), (''relationshipTypes'', texts (i_reltypes i)),
      (''labels'', texts (i_labels i)), (''recordIds'', texts (i_ids i)),
      (''openWorkOnly'', JBool (i_open_work i)), (''promotionRelevant'', JBool (i_promotion i))]"

definition interest_keys :: "string list" where
  "interest_keys =
     [''interestVersion'', ''kinds'', ''projects'', ''contracts'', ''producers'', ''outcomes'', ''lifecycleStates'',
      ''relationshipTypes'', ''labels'', ''recordIds'', ''openWorkOnly'', ''promotionRelevant'']"

definition flag_ok :: "dict \<Rightarrow> string \<Rightarrow> unit res" where
  "flag_ok d flag =
     guard (\<not> has_key d flag \<or> is_bool (dget d flag)) (invalid_interest (flag @ '' must be a boolean''))"

definition dimension :: "dict \<Rightarrow> string \<Rightarrow> string list res" where
  "dimension d name = bounded_tuple (dget d name) name MAX_DIMENSION_ENTRIES"

definition interest_of :: "json \<Rightarrow> interest res" where
  "interest_of value =
     (case value of
        JObj d \<Rightarrow>
          let unknown = sort (filter (\<lambda>k. k \<notin> set interest_keys) (map fst d));
              version = dget_default d ''interestVersion'' (JStr INTEREST_VERSION)
          in
          rbind (guard (unknown = [])
                   (MeshError ''UNKNOWN_INTEREST_DIMENSION'' (''unsupported interest dimensions: '' @ join '','' unknown))) (\<lambda>_.
          rbind (guard (version = JStr INTEREST_VERSION)
                   (MeshError ''UNSUPPORTED_INTEREST_VERSION'' (''interest '' @ py_repr version @ '' not supported''))) (\<lambda>_.
          rbind (flag_ok d ''openWorkOnly'') (\<lambda>_. rbind (flag_ok d ''promotionRelevant'') (\<lambda>_.
          rbind (dimension d ''kinds'') (\<lambda>kinds. rbind (dimension d ''projects'') (\<lambda>projects.
          rbind (dimension d ''contracts'') (\<lambda>contracts. rbind (dimension d ''producers'') (\<lambda>producers.
          rbind (dimension d ''outcomes'') (\<lambda>outcomes. rbind (dimension d ''lifecycleStates'') (\<lambda>states.
          rbind (dimension d ''relationshipTypes'') (\<lambda>reltypes. rbind (dimension d ''labels'') (\<lambda>labels.
          rbind (bounded_tuple (dget d ''recordIds'') ''recordIds'' MAX_RECORD_IDS) (\<lambda>ids.
            Inr \<lparr>i_kinds = kinds, i_projects = projects, i_contracts = contracts, i_producers = producers,
                 i_outcomes = outcomes, i_states = states, i_reltypes = reltypes, i_labels = labels, i_ids = ids,
                 i_open_work = truthy (dget_default d ''openWorkOnly'' (JBool False)),
                 i_promotion = truthy (dget_default d ''promotionRelevant'' (JBool False))\<rparr>)))))))))))))
      | _ \<Rightarrow> Inl (invalid_interest ''interest filter must be an object''))"

section \<open>Projections of a record\<close>

text \<open>The text of a field, when it is one and not empty.\<close>

definition text_at :: "dict \<Rightarrow> string \<Rightarrow> string list" where
  "text_at d k = (case dget d k of JStr s \<Rightarrow> if s = [] then [] else [s] | _ \<Rightarrow> [])"

definition strings_in :: "json \<Rightarrow> string list" where
  "strings_in v = (case v of JArr xs \<Rightarrow> map str_of (filter is_str xs) | _ \<Rightarrow> [])"

definition record_projects :: "dict \<Rightarrow> string list" where
  "record_projects rec =
     (case dget rec ''scope'' of
        JObj scope \<Rightarrow>
          (case dget scope ''context'' of
             JObj context \<Rightarrow> text_at context ''project'' @ text_at context ''repository''
           | _ \<Rightarrow> [])
      | _ \<Rightarrow> [])"

definition record_outcomes :: "dict \<Rightarrow> string list" where
  "record_outcomes rec =
     (case dget rec ''details'' of JObj details \<Rightarrow> text_at details ''outcome'' | _ \<Rightarrow> []) @
     (case dget rec ''evidence'' of
        JArr evidence \<Rightarrow> concat (map (\<lambda>entry. text_at (obj_of entry) ''status'') (filter is_obj evidence))
      | _ \<Rightarrow> [])"

definition record_relationship_types :: "dict \<Rightarrow> string list" where
  "record_relationship_types rec =
     (case dget rec ''relationships'' of
        JArr relationships \<Rightarrow>
          map str_of (filter is_str (map (\<lambda>item. dget (obj_of item) ''type'') (filter is_obj relationships)))
      | _ \<Rightarrow> [])"

definition record_labels :: "dict \<Rightarrow> string list" where
  "record_labels rec =
     (case dget rec ''metadata'' of JObj metadata \<Rightarrow> strings_in (dget metadata ''labels'') | _ \<Rightarrow> [])"

definition record_digest :: "dict \<Rightarrow> string option" where
  "record_digest rec = (case text_at rec ''contentDigest'' of [] \<Rightarrow> None | s # _ \<Rightarrow> Some s)"

definition is_open_work :: "dict \<Rightarrow> bool" where
  "is_open_work rec =
     (dget rec ''kind'' = JStr ''WorkRequest'' \<and>
      (case dget rec ''details'' of
         JObj details \<Rightarrow> dget_default details ''requestState'' (JStr ''open'') = JStr ''open''
       | _ \<Rightarrow> False))"

definition promotion_states :: "string list" where
  "promotion_states = [''reproduced'', ''verified'', ''accepted'']"

definition replication_relations :: "string list" where
  "replication_relations = [''replicates'', ''failed_to_replicate'', ''verifies'']"

definition meets :: "string list \<Rightarrow> string list \<Rightarrow> bool" where
  "meets xs ys = list_ex (\<lambda>x. x \<in> set ys) xs"

definition is_promotion_relevant :: "dict \<Rightarrow> string option \<Rightarrow> bool" where
  "is_promotion_relevant rec state =
     ((case state of Some s \<Rightarrow> s \<in> set promotion_states | None \<Rightarrow> False) \<or>
      meets (record_relationship_types rec) replication_relations)"

definition record_producer_id :: "dict \<Rightarrow> string option" where
  "record_producer_id rec =
     (case dget rec ''provenance'' of
        JObj provenance \<Rightarrow>
          (case dget provenance ''producer'' of
             JObj producer \<Rightarrow> (case dget producer ''id'' of JStr s \<Rightarrow> Some s | _ \<Rightarrow> None)
           | _ \<Rightarrow> None)
      | _ \<Rightarrow> None)"

definition record_contract_names :: "dict \<Rightarrow> string list" where
  "record_contract_names rec = strings_in (dget rec ''affectedContracts'')"

section \<open>The law of the kernel\<close>

definition KIND_ORDER :: "string list" where
  "KIND_ORDER = [''Finding'', ''Claim'', ''Replication'', ''Observation'', ''Question'', ''WorkRequest'']"

definition OUTCOME_ORDER :: "string list" where
  "OUTCOME_ORDER = [''PASS'', ''FAIL'', ''UNKNOWN'']"

definition KIND_DISCRIMINANTS :: "(string \<times> nat) list" where
  "KIND_DISCRIMINANTS =
     [(''Finding'', 0), (''Claim'', 1), (''Replication'', 2), (''Observation'', 3), (''Question'', 4), (''WorkRequest'', 5)]"

definition LIFECYCLE_DISCRIMINANTS :: "(string \<times> nat) list" where
  "LIFECYCLE_DISCRIMINANTS = [(''proposed'', 0), (''reproduced'', 1), (''verified'', 2), (''accepted'', 3)]"

definition code_in :: "(string \<times> nat) list \<Rightarrow> string \<Rightarrow> nat \<Rightarrow> nat" where
  "code_in table name other = (case map_of table name of None \<Rightarrow> other | Some n \<Rightarrow> n)"

definition lifecycle_rank :: "nat \<Rightarrow> nat" where
  "lifecycle_rank state = (if state \<le> 3 then state + 1 else 0)"

definition matches_discriminants :: "nat \<Rightarrow> nat \<Rightarrow> nat \<Rightarrow> bool list \<Rightarrow> bool list \<Rightarrow> nat \<Rightarrow> bool" where
  "matches_discriminants kind outcome state want_kinds want_outcomes min_rank =
     ((kind < 6 \<and> want_kinds ! kind) \<and> (outcome < 3 \<and> want_outcomes ! outcome) \<and> min_rank \<le> lifecycle_rank state)"

definition projected_outcome :: "dict \<Rightarrow> nat" where
  "projected_outcome rec =
     (let outcomes = set (record_outcomes rec)
      in if ''PASS'' \<in> outcomes then 0 else if ''FAIL'' \<in> outcomes then 1 else if ''UNKNOWN'' \<in> outcomes then 2 else 9)"

definition project_to_discriminants :: "dict \<Rightarrow> string option \<Rightarrow> nat \<times> nat \<times> nat" where
  "project_to_discriminants rec state =
     (code_in KIND_DISCRIMINANTS (py_str (dget rec ''kind'')) 6, projected_outcome rec,
      code_in LIFECYCLE_DISCRIMINANTS (case state of None \<Rightarrow> ''None'' | Some s \<Rightarrow> s) 5)"

definition mirror_kind_wanted :: "nat \<Rightarrow> bool list \<Rightarrow> bool" where
  "mirror_kind_wanted c want = (c < 6 \<and> want ! c)"

definition mirror_dim :: "bool \<Rightarrow> bool \<Rightarrow> bool" where
  "mirror_dim has_dimension satisfied = (\<not> has_dimension \<or> satisfied)"

text \<open>The arguments of the law, in its order.\<close>

record full_args =
  a_kind :: nat
  a_want_kinds :: "bool list"
  a_has_kinds :: bool
  a_dims :: "(bool \<times> bool) list"
  a_record_id_hit :: bool
  a_gates :: "(bool \<times> bool) list"

definition mirror_matches_full :: "full_args \<Rightarrow> bool" where
  "mirror_matches_full a =
     (if a_record_id_hit a then True
      else mirror_dim (a_has_kinds a) (mirror_kind_wanted (a_kind a) (a_want_kinds a)) \<and>
           list_all (\<lambda>(has, ok). mirror_dim has ok) (a_dims a) \<and>
           list_all (\<lambda>(has, ok). mirror_dim has ok) (a_gates a))"

definition listed :: "string option \<Rightarrow> string list \<Rightarrow> bool" where
  "listed s ss = (case s of None \<Rightarrow> False | Some t \<Rightarrow> t \<in> set ss)"

definition project_full_args :: "dict \<Rightarrow> interest \<Rightarrow> string option \<Rightarrow> full_args" where
  "project_full_args rec i state =
     \<lparr>a_kind = code_in KIND_DISCRIMINANTS (py_str (dget rec ''kind'')) 6,
      a_want_kinds = map (\<lambda>name. i_kinds i = [] \<or> name \<in> set (i_kinds i)) KIND_ORDER,
      a_has_kinds = (i_kinds i \<noteq> []),
      a_dims =
        [(i_projects i \<noteq> [], meets (record_projects rec) (i_projects i)),
         (i_contracts i \<noteq> [], meets (record_contract_names rec) (i_contracts i)),
         (i_producers i \<noteq> [], listed (record_producer_id rec) (i_producers i)),
         (i_outcomes i \<noteq> [], projected_outcome rec \<le> 2 \<and> OUTCOME_ORDER ! projected_outcome rec \<in> set (i_outcomes i)),
         (i_states i \<noteq> [], listed state (i_states i)),
         (i_reltypes i \<noteq> [], meets (record_relationship_types rec) (i_reltypes i)),
         (i_labels i \<noteq> [], meets (record_labels rec) (i_labels i))],
      a_record_id_hit = listed (record_digest rec) (i_ids i),
      a_gates = [(i_open_work i, is_open_work rec), (i_promotion i, is_promotion_relevant rec state)]\<rparr>"

definition matches :: "dict \<Rightarrow> interest \<Rightarrow> string option \<Rightarrow> bool" where
  "matches rec i state = mirror_matches_full (project_full_args rec i state)"

section \<open>Round trip\<close>

lemma sorted_set_idem [simp]: "sorted_set (sorted_set xs) = sorted_set xs"
  by (rule sorted_set_cong) simp

lemma length_sorted_set: "length (sorted_set xs) \<le> length xs"
  by (metis card_length distinct_card distinct_sorted_set set_sorted_set)

text \<open>What a dimension holds once it is read: distinct texts in order, bounded in number and size.\<close>

definition bounded_texts :: "nat \<Rightarrow> string list \<Rightarrow> bool" where
  "bounded_texts maximum ss =
     (sorted ss \<and> distinct ss \<and> length ss \<le> maximum \<and> (\<forall>s \<in> set ss. py_strip s \<noteq> [] \<and> length s \<le> MAX_DIMENSION_STRING))"

lemma bounded_tuple_bounded: "bounded_tuple v name m = Inr ss \<Longrightarrow> bounded_texts m ss"
  using length_sorted_set [of "map str_of (arr_of v)"]
  by (auto simp: bounded_tuple_def bounded_texts_def rbind_eq_Inr list_all_iff bounded_entry_def split: json.splits)

lemma bounded_tuple_texts: "bounded_texts m ss \<Longrightarrow> bounded_tuple (texts ss) name m = Inr ss"
proof -
  assume "bounded_texts m ss"
  then have b: "sorted ss" "distinct ss" "length ss \<le> m" "list_all bounded_entry (map JStr ss)"
    by (auto simp: bounded_texts_def bounded_entry_def list_all_iff)
  then have "sorted_set ss = ss" by (simp add: sorted_set_def sorted_sort_id)
  then show ?thesis using b by (simp add: bounded_tuple_def texts_def guard_def comp_def)
qed

definition interest_wf :: "interest \<Rightarrow> bool" where
  "interest_wf i =
     (list_all (bounded_texts MAX_DIMENSION_ENTRIES)
        [i_kinds i, i_projects i, i_contracts i, i_producers i, i_outcomes i, i_states i, i_reltypes i, i_labels i] \<and>
      bounded_texts MAX_RECORD_IDS (i_ids i))"

lemma interest_of_wf: "interest_of v = Inr i \<Longrightarrow> interest_wf i"
  using bounded_tuple_bounded
  by (auto simp: interest_of_def dimension_def rbind_eq_Inr Let_def interest_wf_def split: json.splits)

lemma interest_of_dict: "interest_wf i \<Longrightarrow> interest_of (JObj (interest_dict i)) = Inr i"
  by (simp add: interest_wf_def interest_of_def interest_dict_def dimension_def flag_ok_def guard_def bounded_tuple_texts
      interest_keys_def)

text \<open>
  C38. A subscription that is accepted is well formed: every dimension is sorted, free of repetitions and within its bounds; and its document is read back as the same subscription.
\<close>

theorem interest_roundtrip:
  assumes "interest_of v = Inr i"
  shows "interest_wf i \<and> interest_of (JObj (interest_dict i)) = Inr i"
  using interest_of_wf [OF assms] interest_of_dict by blast

section \<open>Wider subscriptions\<close>

text \<open>A dimension that is empty asks for nothing; otherwise more entries admit more records.\<close>

definition wider_dim :: "string list \<Rightarrow> string list \<Rightarrow> bool" where
  "wider_dim ss ts = (ts = [] \<or> ss \<noteq> [] \<and> set ss \<subseteq> set ts)"

definition wider :: "interest \<Rightarrow> interest \<Rightarrow> bool" where
  "wider i j =
     (list_all (\<lambda>f. wider_dim (f i) (f j))
        [i_kinds, i_projects, i_contracts, i_producers, i_outcomes, i_states, i_reltypes, i_labels] \<and>
      set (i_ids i) \<subseteq> set (i_ids j) \<and> (i_open_work j \<longrightarrow> i_open_work i) \<and> (i_promotion j \<longrightarrow> i_promotion i))"

lemma meets_mono: "meets xs ss \<Longrightarrow> set ss \<subseteq> set ts \<Longrightarrow> meets xs ts"
  by (auto simp: meets_def list_ex_iff)

lemma listed_mono: "listed s ss \<Longrightarrow> set ss \<subseteq> set ts \<Longrightarrow> listed s ts"
  by (auto simp: listed_def split: option.splits)

lemma mirror_dim_wider:
  assumes "wider_dim ss ts" and "mirror_dim (ss \<noteq> []) (p ss)" and "p ss \<Longrightarrow> set ss \<subseteq> set ts \<Longrightarrow> p ts"
  shows "mirror_dim (ts \<noteq> []) (p ts)"
  using assms by (auto simp: mirror_dim_def wider_dim_def)

lemmas meets_wider = mirror_dim_wider [where p = "meets xs" for xs, OF _ _ meets_mono]
lemmas listed_wider = mirror_dim_wider [where p = "listed s" for s, OF _ _ listed_mono]

lemma kind_wanted:
  "mirror_kind_wanted c (map (\<lambda>name. ss = [] \<or> name \<in> set ss) KIND_ORDER) \<longleftrightarrow> c < 6 \<and> (ss = [] \<or> KIND_ORDER ! c \<in> set ss)"
proof -
  have "length KIND_ORDER = 6" by (simp add: KIND_ORDER_def)
  then show ?thesis by (auto simp: mirror_kind_wanted_def)
qed

text \<open>The decision, with the projections written out.\<close>

definition kind_ok :: "dict \<Rightarrow> string list \<Rightarrow> bool" where
  "kind_ok rec ss =
     (let c = code_in KIND_DISCRIMINANTS (py_str (dget rec ''kind'')) 6 in c < 6 \<and> (ss = [] \<or> KIND_ORDER ! c \<in> set ss))"

definition outcome_ok :: "dict \<Rightarrow> string list \<Rightarrow> bool" where
  "outcome_ok rec ss = (projected_outcome rec \<le> 2 \<and> OUTCOME_ORDER ! projected_outcome rec \<in> set ss)"

lemma matches_iff:
  "matches rec i state \<longleftrightarrow>
     listed (record_digest rec) (i_ids i) \<or>
     mirror_dim (i_kinds i \<noteq> []) (kind_ok rec (i_kinds i)) \<and>
     mirror_dim (i_projects i \<noteq> []) (meets (record_projects rec) (i_projects i)) \<and>
     mirror_dim (i_contracts i \<noteq> []) (meets (record_contract_names rec) (i_contracts i)) \<and>
     mirror_dim (i_producers i \<noteq> []) (listed (record_producer_id rec) (i_producers i)) \<and>
     mirror_dim (i_outcomes i \<noteq> []) (outcome_ok rec (i_outcomes i)) \<and>
     mirror_dim (i_states i \<noteq> []) (listed state (i_states i)) \<and>
     mirror_dim (i_reltypes i \<noteq> []) (meets (record_relationship_types rec) (i_reltypes i)) \<and>
     mirror_dim (i_labels i \<noteq> []) (meets (record_labels rec) (i_labels i)) \<and>
     mirror_dim (i_open_work i) (is_open_work rec) \<and>
     mirror_dim (i_promotion i) (is_promotion_relevant rec state)"
  by (simp add: matches_def mirror_matches_full_def project_full_args_def kind_wanted kind_ok_def outcome_ok_def Let_def
      del: imp_disjL)

lemma kind_ok_mono: "kind_ok rec ss \<Longrightarrow> ss \<noteq> [] \<Longrightarrow> set ss \<subseteq> set ts \<Longrightarrow> kind_ok rec ts"
  by (auto simp: kind_ok_def Let_def)

lemma outcome_ok_mono: "outcome_ok rec ss \<Longrightarrow> set ss \<subseteq> set ts \<Longrightarrow> outcome_ok rec ts"
  by (auto simp: outcome_ok_def)

lemmas outcome_wider = mirror_dim_wider [where p = "outcome_ok rec" for rec, OF _ _ outcome_ok_mono]

text \<open>
  Subscriptions are monotone: lifting a dimension, adding entries to a restricted one, naming further records or dropping a gate never loses a record that matched. In particular the empty subscription matches every record, and a record named by its digest matches whatever else is asked.
\<close>

theorem wider_interest_matches:
  assumes "matches rec i state" and "wider i j"
  shows "matches rec j state"
proof (cases "listed (record_digest rec) (i_ids i)")
  case True
  then show ?thesis using assms(2) listed_mono [OF True] by (simp add: matches_iff wider_def)
next
  case False
  have w: "wider_dim (i_kinds i) (i_kinds j)" "wider_dim (i_projects i) (i_projects j)" "wider_dim (i_contracts i) (i_contracts j)"
    "wider_dim (i_producers i) (i_producers j)" "wider_dim (i_outcomes i) (i_outcomes j)" "wider_dim (i_states i) (i_states j)"
    "wider_dim (i_reltypes i) (i_reltypes j)" "wider_dim (i_labels i) (i_labels j)"
    and g: "i_open_work j \<longrightarrow> i_open_work i" "i_promotion j \<longrightarrow> i_promotion i"
    using assms(2) by (simp_all add: wider_def)
  from assms(1) False have m: "mirror_dim (i_kinds i \<noteq> []) (kind_ok rec (i_kinds i))"
     "mirror_dim (i_projects i \<noteq> []) (meets (record_projects rec) (i_projects i))"
     "mirror_dim (i_contracts i \<noteq> []) (meets (record_contract_names rec) (i_contracts i))"
     "mirror_dim (i_producers i \<noteq> []) (listed (record_producer_id rec) (i_producers i))"
     "mirror_dim (i_outcomes i \<noteq> []) (outcome_ok rec (i_outcomes i))"
     "mirror_dim (i_states i \<noteq> []) (listed state (i_states i))"
     "mirror_dim (i_reltypes i \<noteq> []) (meets (record_relationship_types rec) (i_reltypes i))"
     "mirror_dim (i_labels i \<noteq> []) (meets (record_labels rec) (i_labels i))"
     and b: "mirror_dim (i_open_work i) (is_open_work rec)" "mirror_dim (i_promotion i) (is_promotion_relevant rec state)"
    unfolding matches_iff by blast+
  have "mirror_dim (i_kinds j \<noteq> []) (kind_ok rec (i_kinds j))"
    using w(1) m(1) kind_ok_mono by (auto simp: wider_dim_def mirror_dim_def)
  moreover note meets_wider [OF w(2) m(2)] meets_wider [OF w(3) m(3)] listed_wider [OF w(4) m(4)] outcome_wider [OF w(5) m(5)]
    listed_wider [OF w(6) m(6)] meets_wider [OF w(7) m(7)] meets_wider [OF w(8) m(8)]
  moreover have "mirror_dim (i_open_work j) (is_open_work rec)" "mirror_dim (i_promotion j) (is_promotion_relevant rec state)"
    using g b by (auto simp: mirror_dim_def)
  ultimately show ?thesis unfolding matches_iff by simp
qed

section \<open>Instances\<close>

definition sample_interest :: interest where
  "sample_interest = match_all\<lparr>i_kinds := [''Claim''], i_ids := [''sha256:a'']\<rparr>"

theorem interest_roundtrip_witness:
  "interest_of (JObj (interest_dict (match_all\<lparr>i_kinds := [''Claim'', ''Finding'']\<rparr>))) = Inr (match_all\<lparr>i_kinds := [''Claim'', ''Finding'']\<rparr>)"
proof -
  have "interest_of (JObj [(''kinds'', JArr [JStr ''Finding'', JStr ''Claim'', JStr ''Finding''])])
      = Inr (match_all\<lparr>i_kinds := [''Claim'', ''Finding'']\<rparr>)" by code_simp
  from interest_roundtrip [OF this] show ?thesis by blast
qed

theorem wider_interest_matches_witness:
  "matches [(''kind'', JStr ''Claim'')] (match_all\<lparr>i_ids := [''sha256:a'']\<rparr>) None \<and> matches [(''contentDigest'', JStr ''sha256:a'')] sample_interest None"
proof -
  have m: "matches [(''kind'', JStr ''Claim'')] sample_interest None"
    "matches [(''contentDigest'', JStr ''sha256:a'')] sample_interest None" by code_simp+
  have "wider sample_interest (match_all\<lparr>i_ids := [''sha256:a'']\<rparr>)" by (simp add: wider_def wider_dim_def sample_interest_def match_all_def)
  from wider_interest_matches [OF m(1) this] m(2) show ?thesis by blast
qed

end
