(* ===== verification/Availability.thy ===== *)
theory Availability
  imports Commons_Prelude
begin

text \<open>
  Availability of evidence in the mesh (mesh/availability.py): the tiers of availability, ordered by
  how long a copy survives, the merge of what two nodes know, and references to evidence.
\<close>

section \<open>Tiers\<close>

datatype availability = UNAVAILABLE | SOURCE_AVAILABLE | LOCAL | MIRRORED | DURABLE | CANONICAL

fun RETENTION_PRIORITY :: "availability \<Rightarrow> nat" where
  "RETENTION_PRIORITY UNAVAILABLE = 0"
| "RETENTION_PRIORITY SOURCE_AVAILABLE = 1"
| "RETENTION_PRIORITY LOCAL = 2"
| "RETENTION_PRIORITY MIRRORED = 3"
| "RETENTION_PRIORITY DURABLE = 4"
| "RETENTION_PRIORITY CANONICAL = 5"

definition merge_availability :: "availability \<Rightarrow> availability \<Rightarrow> availability" where
  "merge_availability first second =
     (if RETENTION_PRIORITY first \<ge> RETENTION_PRIORITY second then first else second)"

fun availability_value :: "availability \<Rightarrow> string" where
  "availability_value UNAVAILABLE = ''UNAVAILABLE''"
| "availability_value SOURCE_AVAILABLE = ''SOURCE_AVAILABLE''"
| "availability_value LOCAL = ''LOCAL''"
| "availability_value MIRRORED = ''MIRRORED''"
| "availability_value DURABLE = ''DURABLE''"
| "availability_value CANONICAL = ''CANONICAL''"

definition tiers :: "availability list" where
  "tiers = [UNAVAILABLE, SOURCE_AVAILABLE, LOCAL, MIRRORED, DURABLE, CANONICAL]"

definition availability_of :: "string \<Rightarrow> availability option" where
  "availability_of s = List.find (\<lambda>a. availability_value a = s) tiers"

text \<open>The tiers are a chain, and the merge of two is the higher.\<close>

instantiation availability :: linorder
begin

definition less_eq_availability :: "availability \<Rightarrow> availability \<Rightarrow> bool" where
  "a \<le> b \<longleftrightarrow> RETENTION_PRIORITY a \<le> RETENTION_PRIORITY b"

definition less_availability :: "availability \<Rightarrow> availability \<Rightarrow> bool" where
  "a < b \<longleftrightarrow> RETENTION_PRIORITY a < RETENTION_PRIORITY b"

instance
proof
  fix a b c :: availability
  show "a < b \<longleftrightarrow> a \<le> b \<and> \<not> b \<le> a" by (auto simp: less_eq_availability_def less_availability_def)
  show "a \<le> a" by (simp add: less_eq_availability_def)
  show "a \<le> b \<Longrightarrow> b \<le> c \<Longrightarrow> a \<le> c" by (simp add: less_eq_availability_def)
  show "a \<le> b \<Longrightarrow> b \<le> a \<Longrightarrow> a = b" by (cases a; cases b) (simp_all add: less_eq_availability_def)
  show "a \<le> b \<or> b \<le> a" by (auto simp: less_eq_availability_def)
qed

end

lemma merge_max: "merge_availability a b = max a b"
proof (cases "b \<le> a")
  case True
  then show ?thesis by (simp add: merge_availability_def less_eq_availability_def max_absorb1)
next
  case False
  then show ?thesis by (simp add: merge_availability_def less_eq_availability_def max_def)
qed

lemma availability_of_value [simp]: "availability_of (availability_value a) = Some a"
  by (cases a) (simp_all add: availability_of_def tiers_def)

section \<open>References\<close>

definition MAX_DIGEST_LENGTH :: nat where
  "MAX_DIGEST_LENGTH = 256"

definition MAX_MEDIA_TYPE_LENGTH :: nat where
  "MAX_MEDIA_TYPE_LENGTH = 128"

definition MAX_PROVENANCE_LENGTH :: nat where
  "MAX_PROVENANCE_LENGTH = 512"

definition MAX_EVIDENCE_BYTES :: int where
  "MAX_EVIDENCE_BYTES = 1024 * 1024 * 1024"

definition bounded_text :: "json \<Rightarrow> string \<Rightarrow> nat \<Rightarrow> string res" where
  "bounded_text value name maximum =
     rbind (guard (is_str value \<and> py_strip (str_of value) \<noteq> [] \<and> length (str_of value) \<le> maximum)
              (MeshError ''INVALID_EVIDENCE_REFERENCE'' (name @ '' must be a bounded string''))) (\<lambda>_.
       Inr (str_of value))"

record evidence_reference =
  r_digest :: string
  r_availability :: availability
  r_media_type :: "string option"
  r_size_bytes :: "int option"
  r_provenance :: "string option"

definition some_field :: "string \<Rightarrow> ('a \<Rightarrow> json) \<Rightarrow> 'a option \<Rightarrow> dict" where
  "some_field k f v = (case v of None \<Rightarrow> [] | Some x \<Rightarrow> [(k, f x)])"

definition reference_dict :: "evidence_reference \<Rightarrow> dict" where
  "reference_dict r =
     [(''digest'', JStr (r_digest r)), (''availability'', JStr (availability_value (r_availability r)))] @
     some_field ''mediaType'' JStr (r_media_type r) @ some_field ''sizeBytes'' JInt (r_size_bytes r) @
     some_field ''provenance'' JStr (r_provenance r)"

definition optional :: "(json \<Rightarrow> 'a res) \<Rightarrow> json \<Rightarrow> 'a option res" where
  "optional f v = (if v = JNull then Inr None else rbind (f v) (\<lambda>x. Inr (Some x)))"

definition tier_of :: "json \<Rightarrow> availability res" where
  "tier_of raw =
     (case availability_of (py_str raw) of
        Some a \<Rightarrow> Inr a
      | None \<Rightarrow> Inl (MeshError ''UNKNOWN_AVAILABILITY''
                  (''availability '' @ py_repr raw @ '' is not supported; known: '' @ join '','' (map availability_value tiers))))"

definition size_of :: "json \<Rightarrow> int res" where
  "size_of v =
     (case v of
        JInt n \<Rightarrow> rbind (guard (0 \<le> n \<and> n \<le> MAX_EVIDENCE_BYTES)
                    (MeshError ''INVALID_EVIDENCE_REFERENCE'' ''sizeBytes must be a bounded integer'')) (\<lambda>_. Inr n)
      | _ \<Rightarrow> Inl (MeshError ''INVALID_EVIDENCE_REFERENCE'' ''sizeBytes must be a bounded integer''))"

definition reference_of :: "json \<Rightarrow> evidence_reference res" where
  "reference_of value =
     (case value of
        JObj d \<Rightarrow>
          rbind (bounded_text (dget d ''digest'') ''digest'' MAX_DIGEST_LENGTH) (\<lambda>digest.
          rbind (tier_of (dget_default d ''availability'' (JStr ''UNAVAILABLE''))) (\<lambda>tier.
          rbind (optional (\<lambda>v. bounded_text v ''mediaType'' MAX_MEDIA_TYPE_LENGTH) (dget d ''mediaType'')) (\<lambda>media.
          rbind (optional size_of (dget d ''sizeBytes'')) (\<lambda>size.
          rbind (optional (\<lambda>v. bounded_text v ''provenance'' MAX_PROVENANCE_LENGTH) (dget d ''provenance'')) (\<lambda>provenance.
            Inr \<lparr>r_digest = digest, r_availability = tier, r_media_type = media, r_size_bytes = size,
                 r_provenance = provenance\<rparr>)))))
      | _ \<Rightarrow> Inl (MeshError ''INVALID_EVIDENCE_REFERENCE'' ''evidence reference must be an object''))"

text \<open>The annotation of an evidence entry; an unknown or malformed one is no information.\<close>

definition annotation_size :: "json \<Rightarrow> int option option" where
  "annotation_size v =
     (case v of JNull \<Rightarrow> Some None | JInt n \<Rightarrow> if 0 \<le> n then Some (Some n) else None | _ \<Rightarrow> None)"

definition annotation_media :: "json \<Rightarrow> string option option" where
  "annotation_media v = (case v of JNull \<Rightarrow> Some None | JStr s \<Rightarrow> Some (Some s) | _ \<Rightarrow> None)"

definition annotation_from_evidence_entry :: "json \<Rightarrow> evidence_reference option" where
  "annotation_from_evidence_entry entry =
     (case entry of
        JObj d \<Rightarrow>
          if \<not> has_key d ''availability'' \<and> \<not> has_key d ''sizeBytes'' \<and> \<not> has_key d ''mediaType'' then None
          else
            Option.bind (availability_of (py_str (dget_default d ''availability'' (JStr ''UNAVAILABLE'')))) (\<lambda>tier.
            Option.bind (annotation_size (dget d ''sizeBytes'')) (\<lambda>size.
            Option.bind (annotation_media (dget d ''mediaType'')) (\<lambda>media.
              case dget d ''id'' of
                JStr s \<Rightarrow>
                  if s = [] then None
                  else Some \<lparr>r_digest = s, r_availability = tier, r_media_type = media, r_size_bytes = size,
                             r_provenance = None\<rparr>
              | _ \<Rightarrow> None)))
      | _ \<Rightarrow> None)"

section \<open>Lemmas\<close>

lemma bounded_text_Inr:
  "bounded_text v name m = Inr s \<longleftrightarrow> v = JStr s \<and> py_strip s \<noteq> [] \<and> length s \<le> m"
  by (cases v) (auto simp: bounded_text_def rbind_eq_Inr)

lemma size_of_Inr: "size_of v = Inr n \<longleftrightarrow> v = JInt n \<and> 0 \<le> n \<and> n \<le> MAX_EVIDENCE_BYTES"
  by (cases v) (auto simp: size_of_def rbind_eq_Inr)

lemma optional_Inr: "optional f v = Inr x \<longleftrightarrow> v = JNull \<and> x = None \<or> v \<noteq> JNull \<and> (\<exists>y. f v = Inr y \<and> x = Some y)"
  by (auto simp: optional_def rbind_eq_Inr)

lemma dget_some_field:
  "dget (some_field k f v @ d) k' = (if k' = k \<and> v \<noteq> None then f (the v) else dget d k')"
  "dget (some_field k f v) k' = (if k' = k \<and> v \<noteq> None then f (the v) else JNull)"
  by (auto simp: some_field_def split: option.splits)

text \<open>
  A reference to evidence is written and read back unchanged: the document of an accepted reference is accepted and gives the same reference, whose digest, media type, size and provenance are within their bounds.
\<close>

theorem evidence_reference_roundtrip:
  assumes "reference_of v = Inr r"
  shows "reference_of (JObj (reference_dict r)) = Inr r \<and> length (r_digest r) \<le> MAX_DIGEST_LENGTH \<and>
    (\<forall>n. r_size_bytes r = Some n \<longrightarrow> 0 \<le> n \<and> n \<le> MAX_EVIDENCE_BYTES)"
proof -
  obtain d where v: "v = JObj d" using assms by (auto simp: reference_of_def split: json.splits)
  obtain digest tier media size provenance where p:
      "bounded_text (dget d ''digest'') ''digest'' MAX_DIGEST_LENGTH = Inr digest"
      "optional (\<lambda>v. bounded_text v ''mediaType'' MAX_MEDIA_TYPE_LENGTH) (dget d ''mediaType'') = Inr media"
      "optional size_of (dget d ''sizeBytes'') = Inr size"
      "optional (\<lambda>v. bounded_text v ''provenance'' MAX_PROVENANCE_LENGTH) (dget d ''provenance'') = Inr provenance"
      "r = \<lparr>r_digest = digest, r_availability = tier, r_media_type = media, r_size_bytes = size, r_provenance = provenance\<rparr>"
    using assms unfolding v by (auto simp: reference_of_def rbind_eq_Inr)
  let ?d = "reference_dict r"
  have b: "bounded_text (dget ?d ''digest'') ''digest'' MAX_DIGEST_LENGTH = Inr digest"
      "optional (\<lambda>v. bounded_text v ''mediaType'' MAX_MEDIA_TYPE_LENGTH) (dget ?d ''mediaType'') = Inr media"
      "optional size_of (dget ?d ''sizeBytes'') = Inr size"
      "optional (\<lambda>v. bounded_text v ''provenance'' MAX_PROVENANCE_LENGTH) (dget ?d ''provenance'') = Inr provenance"
      "tier_of (dget_default ?d ''availability'' (JStr ''UNAVAILABLE'')) = Inr tier"
    using p by (auto simp: reference_dict_def dget_some_field bounded_text_Inr size_of_Inr optional_Inr tier_of_def)
  then show ?thesis using p by (simp add: reference_of_def) (auto simp: bounded_text_Inr size_of_Inr optional_Inr)
qed

theorem evidence_reference_roundtrip_witness:
  "reference_of (JObj [(''digest'', JStr ''sha256:a''), (''availability'', JStr ''LOCAL''), (''sizeBytes'', JInt 7)])
     = Inr \<lparr>r_digest = ''sha256:a'', r_availability = LOCAL, r_media_type = None, r_size_bytes = Some 7, r_provenance = None\<rparr>"
proof -
  have "reference_of (JObj [(''availability'', JStr ''LOCAL''), (''sizeBytes'', JInt 7), (''digest'', JStr ''sha256:a'')])
     = Inr \<lparr>r_digest = ''sha256:a'', r_availability = LOCAL, r_media_type = None, r_size_bytes = Some 7, r_provenance = None\<rparr>"
    by (simp add: reference_of_def bounded_text_def guard_def tier_of_def availability_of_def tiers_def optional_def
        size_of_def py_strip_def is_space_def MAX_DIGEST_LENGTH_def MAX_EVIDENCE_BYTES_def)
  from evidence_reference_roundtrip [OF this] show ?thesis by (simp add: reference_dict_def some_field_def)
qed

text \<open>
  What nodes know of a copy converges: the merge of availabilities is associative, commutative and idempotent, so that what is merged from any number of nodes depends neither on their order nor on how often each is heard, and it is the highest tier any of them reported.
\<close>

theorem availability_converges:
  assumes "set as = set bs"
  shows "fold merge_availability as a = fold merge_availability bs a \<and>
    fold merge_availability as a = Max (insert a (set as))"
proof -
  have "merge_availability = max" by (intro ext) (rule merge_max)
  then have "fold merge_availability xs a = Max (insert a (set xs))" for xs
    using Max.set_eq_fold [of a xs] by simp
  then show ?thesis using assms by simp
qed

theorem availability_converges_witness:
  "fold merge_availability [LOCAL, DURABLE, LOCAL] UNAVAILABLE = fold merge_availability [DURABLE, LOCAL] UNAVAILABLE"
  using availability_converges [of "[LOCAL, DURABLE, LOCAL]" "[DURABLE, LOCAL]" UNAVAILABLE] by auto

end
