(* ===== verification/Mesh_Node.thy ===== *)
theory Mesh_Node
  imports Exchange Interest Availability Store
begin

text \<open>
  A node of the mesh (mesh/node.py): its policy and what it advertises, the records it publishes and
  takes in, its frontier, its store of evidence blobs, and the two halves of a synchronisation. The
  mesh state file holds a document; its text is left out. The lookup in archives and the kernel
  executor are parameters: \<open>archived\<close> is what the archives hold of a digest, \<open>decide\<close> the verdicts of
  an executor that is available.
\<close>

section \<open>Policies\<close>

record mesh_policy =
  m_record_bytes :: int
  m_sync_records :: int
  m_cas_blob_bytes :: int
  m_relationships :: int
  m_evidence :: int
  m_hot_bytes :: int
  m_foreign_evidence :: int

definition default_mesh_policy :: mesh_policy where
  "default_mesh_policy =
     \<lparr>m_record_bytes = 1024 * 1024, m_sync_records = 1000, m_cas_blob_bytes = 64 * 1024 * 1024, m_relationships = 256,
      m_evidence = 256, m_hot_bytes = 256 * 1024 * 1024, m_foreign_evidence = 64 * 1024 * 1024\<rparr>"

definition mesh_policy_dict :: "mesh_policy \<Rightarrow> dict" where
  "mesh_policy_dict p =
     [(''maxRecordBytes'', JInt (m_record_bytes p)), (''maxSyncRecords'', JInt (m_sync_records p)),
      (''maxCasBlobBytes'', JInt (m_cas_blob_bytes p)), (''maxRelationships'', JInt (m_relationships p)),
      (''maxEvidence'', JInt (m_evidence p)), (''hotByteBudget'', JInt (m_hot_bytes p)),
      (''foreignEvidenceBudget'', JInt (m_foreign_evidence p))]"

definition policy_number :: "dict \<Rightarrow> string \<Rightarrow> int \<Rightarrow> int res" where
  "policy_number d key fallback =
     (case dget d key of
        JNull \<Rightarrow> Inr fallback
      | JInt n \<Rightarrow> rbind (guard (1 \<le> n) (MeshError ''INVALID_NODE'' (key @ '' must be a positive integer''))) (\<lambda>_. Inr n)
      | _ \<Rightarrow> Inl (MeshError ''INVALID_NODE'' (key @ '' must be a positive integer'')))"

definition mesh_policy_of :: "json \<Rightarrow> mesh_policy res" where
  "mesh_policy_of value =
     (case value of
        JNull \<Rightarrow> Inr default_mesh_policy
      | JObj d \<Rightarrow>
          rbind (policy_number d ''maxRecordBytes'' (m_record_bytes default_mesh_policy)) (\<lambda>a.
          rbind (policy_number d ''maxSyncRecords'' (m_sync_records default_mesh_policy)) (\<lambda>b.
          rbind (policy_number d ''maxCasBlobBytes'' (m_cas_blob_bytes default_mesh_policy)) (\<lambda>c.
          rbind (policy_number d ''maxRelationships'' (m_relationships default_mesh_policy)) (\<lambda>e.
          rbind (policy_number d ''maxEvidence'' (m_evidence default_mesh_policy)) (\<lambda>f.
          rbind (policy_number d ''hotByteBudget'' (m_hot_bytes default_mesh_policy)) (\<lambda>g.
          rbind (policy_number d ''foreignEvidenceBudget'' (m_foreign_evidence default_mesh_policy)) (\<lambda>h.
            Inr \<lparr>m_record_bytes = a, m_sync_records = b, m_cas_blob_bytes = c, m_relationships = e, m_evidence = f,
                 m_hot_bytes = g, m_foreign_evidence = h\<rparr>)))))))
      | _ \<Rightarrow> Inl (MeshError ''INVALID_NODE'' ''mesh policy must be an object''))"

section \<open>Descriptors\<close>

definition EXCHANGE_VERSION :: string where
  "EXCHANGE_VERSION = ''commons.mncs.dev/exchange/v0alpha1''"

definition SYNC_MODES :: "string list" where
  "SYNC_MODES = [''direct'', ''bundle'', ''relay'', ''http'', ''fabric'']"

definition TRANSPORTS :: "string list" where
  "TRANSPORTS = [''local-ipc'', ''bundle-file'', ''http'', ''fabric'', ''direct-peer'']"

record node_descriptor =
  d_node_id :: string
  d_domain :: string
  d_implementation :: string
  d_exchange_versions :: "string list"
  d_record_kinds :: "string list"
  d_relationships :: "string list"
  d_sync_modes :: "string list"
  d_transports :: "string list"
  d_roles :: "string list"
  d_assurance :: string
  d_policy :: mesh_policy

definition bounded_id :: "json \<Rightarrow> string \<Rightarrow> nat \<Rightarrow> string res" where
  "bounded_id value name maximum =
     rbind (guard (is_str value \<and> py_strip (str_of value) \<noteq> [] \<and> length (str_of value) \<le> maximum)
              (MeshError ''INVALID_NODE'' (name @ '' must be a bounded non-empty string''))) (\<lambda>_.
       Inr (str_of value))"

definition string_list :: "dict \<Rightarrow> string \<Rightarrow> string list option \<Rightarrow> string list res" where
  "string_list value key vocabulary =
     (case dget_default value key (JArr []) of
        JNull \<Rightarrow> Inr []
      | JArr raw \<Rightarrow>
          let items = map py_str raw in
          rbind (guard (length items \<le> 256 \<and> list_all (\<lambda>item. length item \<le> 256 \<and> item \<noteq> []) items)
                   (MeshError ''INVALID_NODE'' (key @ '' entries must be bounded strings''))) (\<lambda>_.
          let unknown = (case vocabulary of None \<Rightarrow> [] | Some ok \<Rightarrow> filter (\<lambda>item. item \<notin> set ok) items) in
          rbind (guard (unknown = [])
                   (MeshError ''UNKNOWN_NODE_VOCABULARY''
                      (key @ '' carries unsupported entries: '' @ join '','' (sort unknown)))) (\<lambda>_.
            Inr (sorted_set items)))
      | _ \<Rightarrow> Inl (MeshError ''INVALID_NODE'' (key @ '' must be a list'')))"

definition or_else :: "string list \<Rightarrow> string list \<Rightarrow> string list" where
  "or_else xs ys = (if xs = [] then ys else xs)"

definition descriptor_domain :: "dict \<Rightarrow> string res" where
  "descriptor_domain d =
     (case dget_default d ''domain'' (JStr ''local'') of
        JStr s \<Rightarrow> if length s \<le> 256 then Inr s else Inl (MeshError ''INVALID_NODE'' ''domain must be a bounded string'')
      | _ \<Rightarrow> Inl (MeshError ''INVALID_NODE'' ''domain must be a bounded string''))"

definition descriptor_of :: "json \<Rightarrow> node_descriptor res" where
  "descriptor_of value =
     (case value of
        JObj d \<Rightarrow>
          rbind (bounded_id (dget d ''nodeId'') ''nodeId'' 256) (\<lambda>node_id.
          rbind (descriptor_domain d) (\<lambda>domain.
          let implementation =
                (case dget d ''implementation'' of
                   JObj i \<Rightarrow> py_str (dget_default i ''name'' (JStr ''unknown'')) | _ \<Rightarrow> ''unknown'') in
          rbind (string_list d ''exchangeVersions'' None) (\<lambda>versions.
          rbind (string_list d ''recordKinds'' None) (\<lambda>kinds.
          rbind (string_list d ''relationshipVocabulary'' None) (\<lambda>relationships.
          rbind (string_list d ''syncModes'' (Some SYNC_MODES)) (\<lambda>modes.
          rbind (string_list d ''transports'' (Some TRANSPORTS)) (\<lambda>transports.
          rbind (string_list d ''roles'' None) (\<lambda>roles.
          rbind (mesh_policy_of (dget d ''retention'')) (\<lambda>policy.
            Inr \<lparr>d_node_id = node_id, d_domain = domain, d_implementation = implementation,
                 d_exchange_versions = or_else versions [EXCHANGE_VERSION],
                 d_record_kinds = or_else kinds (sort record_kinds),
                 d_relationships = or_else relationships (sort relation_types),
                 d_sync_modes = or_else modes [''direct''], d_transports = or_else transports [''direct-peer''],
                 d_roles = roles, d_assurance = py_str (dget_default d ''identityAssurance'' (JStr ''SELF_ASSERTED'')),
                 d_policy = policy\<rparr>)))))))))
      | _ \<Rightarrow> Inl (MeshError ''INVALID_NODE'' ''node descriptor must be an object''))"

record agreement =
  g_modes :: "string list"
  g_kinds :: "string list"
  g_inert :: "string list"
  g_max_record_bytes :: int
  g_versions :: "(string \<times> string \<times> json) list"
  g_can_exchange :: bool

definition negotiate :: "node_descriptor \<Rightarrow> json \<Rightarrow> agreement res" where
  "negotiate local remote =
     rbind (descriptor_of remote) (\<lambda>peer.
       let modes = filter (\<lambda>m. m \<in> set (d_sync_modes peer)) (d_sync_modes local);
           kinds = sorted_set (filter (\<lambda>k. k \<in> set (d_record_kinds peer)) (d_record_kinds local))
       in Inr \<lparr>g_modes = modes, g_kinds = kinds,
               g_inert = sorted_set (filter (\<lambda>r. r \<notin> set (d_relationships local)) (d_relationships peer)),
               g_max_record_bytes = min (m_record_bytes (d_policy local)) (m_record_bytes (d_policy peer)),
               g_versions =
                 [(''interest'', INTEREST_VERSION, dget (obj_of remote) ''interestVersion''),
                  (''availability'', ''commons.mncs.dev/availability/v0alpha1'', dget (obj_of remote) ''availabilityVersion''),
                  (''capsule'', ''commons.mncs.dev/capsule/v0alpha1'', dget (obj_of remote) ''capsuleVersion'')],
               g_can_exchange = (modes \<noteq> [] \<and> kinds \<noteq> [])\<rparr>)"

section \<open>The node\<close>

record node =
  n_id :: string
  n_domain :: string
  n_policy :: mesh_policy
  n_store :: store
  n_cas :: files
  n_meta :: "(string \<times> json) list"
  n_state :: "json option"

definition new_node :: "string \<Rightarrow> string \<Rightarrow> mesh_policy \<Rightarrow> store \<Rightarrow> node res" where
  "new_node node_id domain policy s =
     rbind (bounded_id (JStr node_id) ''nodeId'' 256) (\<lambda>i.
     rbind (bounded_id (JStr (if domain = [] then ''local'' else domain)) ''domain'' 256) (\<lambda>d.
       Inr \<lparr>n_id = i, n_domain = d, n_policy = policy, n_store = s, n_cas = [], n_meta = [], n_state = None\<rparr>))"

type_synonym 'a nop = "node \<times> 'a res"

definition nbind :: "'a nop \<Rightarrow> (node \<Rightarrow> 'a \<Rightarrow> 'b nop) \<Rightarrow> 'b nop" where
  "nbind m f = (case m of (n, Inl e) \<Rightarrow> (n, Inl e) | (n, Inr x) \<Rightarrow> f n x)"

definition on_store :: "node \<Rightarrow> 'a op \<Rightarrow> 'a nop" where
  "on_store n m = (n\<lparr>n_store := fst m\<rparr>, snd m)"

text \<open>The message of an unreadable file ends in the text of the system's error, which is left out.\<close>

definition read_state :: "node \<Rightarrow> dict res" where
  "read_state n =
     (case n_state n of
        None \<Rightarrow> Inl (MeshError ''MESH_STATE_UNREADABLE'' ''mesh state is unreadable'')
      | Some (JObj state) \<Rightarrow> Inr state
      | Some _ \<Rightarrow> Inl (MeshError ''MESH_STATE_INVALID'' ''mesh state must be an object''))"

definition write_state :: "dict \<Rightarrow> node \<Rightarrow> node" where
  "write_state state n = n\<lparr>n_state := Some (key_sorted (JObj state))\<rparr>"

definition node_init :: "node \<Rightarrow> node" where
  "node_init n =
     (let n1 = n\<lparr>n_store := init (n_store n)\<rparr>
      in if n_state n1 = None
         then write_state [(''nodeId'', JStr (n_id n)), (''peers'', JObj []), (''origins'', JObj [])] n1 else n1)"

definition mark_origin :: "string \<Rightarrow> string \<Rightarrow> node \<Rightarrow> unit nop" where
  "mark_origin digest origin n =
     (case read_state n of
        Inl e \<Rightarrow> (n, Inl e)
      | Inr state \<Rightarrow>
          let origins = obj_of (dget state ''origins'')
          in (write_state (dset ''origins'' (JObj (dset digest (JStr origin) origins)) state) n, Inr ()))"

definition origin_of :: "string \<Rightarrow> node \<Rightarrow> string option res" where
  "origin_of digest n =
     rbind (read_state n) (\<lambda>state.
       Inr (case dget (obj_of (dget state ''origins'')) digest of JStr s \<Rightarrow> Some s | _ \<Rightarrow> None))"

section \<open>Publishing and taking in\<close>

definition node_exchange :: "mesh_policy \<Rightarrow> exchange_policy" where
  "node_exchange p =
     default_exchange\<lparr>e_max_record_bytes := m_record_bytes p, e_max_relationships := m_relationships p,
       e_max_evidence := m_evidence p\<rparr>"

text \<open>\<open>except ExchangeError as error: raise MeshError(error.code, error.message)\<close>.\<close>

definition as_mesh :: "'a res \<Rightarrow> 'a res" where
  "as_mesh r = (case r of Inl (ExchangeError c m) \<Rightarrow> Inl (MeshError c m) | _ \<Rightarrow> r)"

record receipt =
  r_origin :: string
  r_content_digest :: string
  r_duplicate :: bool
  r_domain :: string

definition store_get :: "(string \<Rightarrow> dict option res) \<Rightarrow> string \<Rightarrow> store \<Rightarrow> dict option res" where
  "store_get archived digest s =
     rbind (records s) (\<lambda>rs. rbind (events s) (\<lambda>es.
       case filter (\<lambda>item. dget item ''contentDigest'' = JStr digest) (rs @ es) of
         item # _ \<Rightarrow> Inr (Some item)
       | [] \<Rightarrow> archived digest))"

definition take_in :: "string \<Rightarrow> dict \<Rightarrow> string \<Rightarrow> node \<Rightarrow> receipt nop" where
  "take_in name rec origin n =
     nbind (on_store n (add_record name rec (n_store n))) (\<lambda>n (_, digest).
     nbind (mark_origin digest origin n) (\<lambda>n _.
       (n, Inr \<lparr>r_origin = origin, r_content_digest = digest, r_duplicate = False, r_domain = n_domain n\<rparr>)))"

definition publish_local :: "string \<Rightarrow> dict \<Rightarrow> node \<Rightarrow> receipt nop" where
  "publish_local name rec n =
     nbind (n, as_mesh (validate_for_exchange rec (node_exchange (n_policy n)))) (\<lambda>n _. take_in name rec ''local'' n)"

definition ingest_foreign :: "(string \<Rightarrow> dict option res) \<Rightarrow> string \<Rightarrow> dict \<Rightarrow> string \<Rightarrow> node \<Rightarrow> receipt nop" where
  "ingest_foreign archived name rec source n =
     nbind (n, bounded_id (JStr source) ''source'' 256) (\<lambda>n _.
     let origin = ''foreign:'' @ source in
     nbind (n, as_mesh (validate_for_exchange rec (node_exchange (n_policy n)))) (\<lambda>n _.
     let digest = canonical_digest rec in
     nbind (n, store_get archived digest (n_store n)) (\<lambda>n held.
       if held \<noteq> None
       then (n, Inr \<lparr>r_origin = origin, r_content_digest = digest, r_duplicate = True, r_domain = n_domain n\<rparr>)
       else take_in name rec origin n)))"

section \<open>Frontiers and evidence\<close>

definition frontier :: "node \<Rightarrow> string list res" where
  "frontier n =
     rbind (records (n_store n)) (\<lambda>rs. rbind (events (n_store n)) (\<lambda>es.
       Inr (remdups (concat (map (\<lambda>item. text_at item ''contentDigest'') (rs @ es))))))"

definition missing_against :: "string list \<Rightarrow> node \<Rightarrow> string list res" where
  "missing_against remote n =
     rbind (frontier n) (\<lambda>own. Inr (sorted_set (filter (\<lambda>d. d \<notin> set own) remote)))"

definition blob_stem :: "string \<Rightarrow> string" where
  "blob_stem digest = py_replace '':'' ''_'' digest"

definition put_new :: "string \<Rightarrow> 'a \<Rightarrow> (string \<times> 'a) list \<Rightarrow> (string \<times> 'a) list" where
  "put_new k v d = (if map_of d k = None then d @ [(k, v)] else d)"

definition cas_put :: "bytes \<Rightarrow> string \<Rightarrow> node \<Rightarrow> string nop" where
  "cas_put data media_type n =
     (if int (length data) > m_cas_blob_bytes (n_policy n)
      then (n, Inl (MeshError ''EVIDENCE_TOO_LARGE'' ''evidence blob exceeds the node CAS limit''))
      else
        let digest = ''sha256:'' @ sha256_hexdigest data; stem = blob_stem digest;
            meta = JObj [(''digest'', JStr digest), (''mediaType'', JStr media_type), (''bytes'', JInt (int (length data)))]
        in (n\<lparr>n_cas := put_new (stem @ ''.blob'') data (n_cas n), n_meta := put_new (stem @ ''.json'') meta (n_meta n)\<rparr>,
            Inr digest))"

definition cas_has :: "string \<Rightarrow> node \<Rightarrow> bool" where
  "cas_has digest n = (map_of (n_cas n) (blob_stem digest @ ''.blob'') \<noteq> None)"

definition cas_get :: "string \<Rightarrow> node \<Rightarrow> bytes option" where
  "cas_get digest n = map_of (n_cas n) (blob_stem digest @ ''.blob'')"

definition evidence_availability :: "string \<Rightarrow> node \<Rightarrow> availability" where
  "evidence_availability evidence_id n = (if cas_has evidence_id n then LOCAL else UNAVAILABLE)"

definition note_peer_frontier :: "string \<Rightarrow> string list \<Rightarrow> string \<Rightarrow> node \<Rightarrow> unit nop" where
  "note_peer_frontier peer_id digests now n =
     nbind (n, bounded_id (JStr peer_id) ''peerId'' 256) (\<lambda>n peer.
     nbind (n, read_state n) (\<lambda>n state.
     let peers = obj_of (dget state ''peers'') in
     if 256 \<le> length peers \<and> \<not> has_key peers peer
     then (n, Inl (MeshError ''TOO_MANY_PEERS'' ''peer table is at its bound''))
     else
       let entry = JObj [(''frontier'', JArr (map JStr (take 10000 (sorted_set digests)))), (''notedAt'', JStr now)]
       in (write_state (dset ''peers'' (JObj (dset peer entry peers)) state) n, Inr ())))"

section \<open>Synchronisation\<close>

type_synonym kernel = "(dict \<times> interest \<times> string option) list \<Rightarrow> bool list"

text \<open>\<open>xs[:n]\<close>, where a negative bound counts from the end.\<close>

definition slice_to :: "int \<Rightarrow> 'a list \<Rightarrow> 'a list" where
  "slice_to n xs = (if 0 \<le> n then take (nat n) xs else take (length xs - nat (- n)) xs)"

fun select_loop :: "interest \<Rightarrow> int \<Rightarrow> dict list \<Rightarrow> (dict \<times> string option) list \<Rightarrow> dict list" where
  "select_loop i bound selected [] = selected"
| "select_loop i bound selected ((rec, state) # candidates) =
     (let selected' = (if matches rec i state then selected @ [rec] else selected)
      in if bound \<le> int (length selected') then selected' else select_loop i bound selected' candidates)"

definition sync_candidate :: "(string \<Rightarrow> dict option res) \<Rightarrow> node \<Rightarrow> string \<Rightarrow> (dict \<times> string option) list res" where
  "sync_candidate archived n digest =
     rbind (store_get archived digest (n_store n)) (\<lambda>held.
       case held of
         None \<Rightarrow> Inr []
       | Some rec \<Rightarrow>
           if dget rec ''kind'' = JStr EVENT_KIND then Inr []
           else Inr [(rec, case lifecycle digest (Some (n_domain n)) (n_store n) of
                             Inl _ \<Rightarrow> None | Inr view \<Rightarrow> Some (current_state view))])"

definition sync_candidates :: "(string \<Rightarrow> dict option res) \<Rightarrow> string list \<Rightarrow> node \<Rightarrow> (dict \<times> string option) list res" where
  "sync_candidates archived remote n =
     rbind (frontier n) (\<lambda>own.
     rbind (rmapM (sync_candidate archived n) (sorted_set (filter (\<lambda>d. d \<notin> set remote) own))) (\<lambda>cs. Inr (concat cs)))"

definition select_for_peer ::
  "(string \<Rightarrow> dict option res) \<Rightarrow> string list \<Rightarrow> interest \<Rightarrow> int option \<Rightarrow> kernel option \<Rightarrow> node \<Rightarrow> dict list res" where
  "select_for_peer archived remote i limit decide n =
     (let bound = min (case limit of None \<Rightarrow> m_sync_records (n_policy n) | Some l \<Rightarrow> l) 1000 in
      rbind (sync_candidates archived remote n) (\<lambda>candidates.
        case decide of
          Some run \<Rightarrow>
            let verdicts = run (map (\<lambda>(rec, state). (rec, i, state)) candidates) in
            rbind (guard (length verdicts = length candidates) (ValueError ''zip() arguments differ in length'')) (\<lambda>_.
              Inr (slice_to bound (map fst (map fst (filter snd (zip candidates verdicts))))))
        | None \<Rightarrow> Inr (select_loop i bound [] candidates)))"

record tally =
  t_received :: nat
  t_duplicates :: nat
  t_interest :: nat
  t_policy :: nat
  t_bytes_in :: nat
  t_notes :: "string list"

definition skip_policy :: "string \<Rightarrow> tally \<Rightarrow> tally" where
  "skip_policy note t = t\<lparr>t_policy := t_policy t + 1, t_notes := t_notes t @ [note]\<rparr>"

definition count_receipt :: "nat \<Rightarrow> receipt \<Rightarrow> tally \<Rightarrow> tally" where
  "count_receipt nbytes r t =
     (let t1 = t\<lparr>t_bytes_in := t_bytes_in t + nbytes\<rparr>
      in if r_duplicate r then t1\<lparr>t_duplicates := t_duplicates t1 + 1\<rparr> else t1\<lparr>t_received := t_received t1 + 1\<rparr>)"

text \<open>The gate: a record, its place in the batch, and the verdicts when a kernel decides.\<close>

definition gated :: "interest option \<Rightarrow> bool list option \<Rightarrow> nat \<Rightarrow> dict \<Rightarrow> bool" where
  "gated i verdicts index rec =
     (case i of
        None \<Rightarrow> False
      | Some f \<Rightarrow>
          (case verdicts of
             Some vs \<Rightarrow> \<not> (index < length vs \<and> vs ! index)
           | None \<Rightarrow> \<not> matches rec f None))"

fun receive_loop ::
  "(string \<Rightarrow> dict option res) \<Rightarrow> (nat \<Rightarrow> string) \<Rightarrow> string \<Rightarrow> interest option \<Rightarrow> bool list option \<Rightarrow>
   nat \<Rightarrow> json list \<Rightarrow> tally \<Rightarrow> node \<Rightarrow> tally nop" where
  "receive_loop archived names source i verdicts index [] t n = (n, Inr t)"
| "receive_loop archived names source i verdicts index (v # vs) t n =
     (let go = receive_loop archived names source i verdicts (index + 1) vs in
      case v of
        JObj rec \<Rightarrow>
          let nbytes = length (canonical_json (JObj rec)) in
          if int nbytes > m_record_bytes (n_policy n) then go (skip_policy ''OVERSIZE_RECORD_SKIPPED'' t) n
          else if gated i verdicts index rec then go (t\<lparr>t_interest := t_interest t + 1\<rparr>) n
          else
            (case ingest_foreign archived (names index) rec source n of
               (n', Inl (MeshError c m)) \<Rightarrow> go (skip_policy c t) n'
             | (n', Inl e) \<Rightarrow> (n', Inl e)
             | (n', Inr r) \<Rightarrow> go (count_receipt nbytes r t) n')
      | _ \<Rightarrow> go (skip_policy ''NON_RECORD_SKIPPED'' t) n)"

record sync_report =
  y_peer :: string
  y_offered :: nat
  y_tally :: tally

definition receive_records ::
  "(string \<Rightarrow> dict option res) \<Rightarrow> (nat \<Rightarrow> string) \<Rightarrow> json list \<Rightarrow> string \<Rightarrow> interest option \<Rightarrow> kernel option \<Rightarrow>
   node \<Rightarrow> sync_report nop" where
  "receive_records archived names vs source i decide n =
     (let verdicts = (case (i, decide) of
                        (Some f, Some run) \<Rightarrow> Some (run (map (\<lambda>v. (obj_of v, f, None)) vs))
                      | _ \<Rightarrow> None)
      in nbind (receive_loop archived names source i verdicts 0 (slice_to (m_sync_records (n_policy n)) vs)
                  \<lparr>t_received = 0, t_duplicates = 0, t_interest = 0, t_policy = 0, t_bytes_in = 0, t_notes = []\<rparr> n) (\<lambda>n t.
           (n, Inr \<lparr>y_peer = source, y_offered = length vs, y_tally = t\<lparr>t_notes := take 32 (t_notes t)\<rparr>\<rparr>)))"

section \<open>What a delivery changes\<close>

lemma nbind_cases:
  assumes "nbind m f = (n', out)"
  obtains (raised) e where "m = (n', Inl e)" "out = Inl e" | (went_on) n1 x where "m = (n1, Inr x)" "f n1 x = (n', out)"
  using assms by (cases m; cases "snd m") (auto simp: nbind_def)

lemma load_tail_ledger: "load_tail s = (s', x) \<Longrightarrow> s_ledger s' = s_ledger s"
  by (auto simp: load_tail_def rebuild_tail_def write_tail_def sbind_def sread_def Let_def split: option.splits sum.splits)

lemma stage_ledger: "stage_transaction name e p path row tail s = (s', x) \<Longrightarrow> s_ledger s' = s_ledger s"
  by (auto simp: stage_transaction_def open_transaction_def close_transaction_def stage_file_def Let_def split: if_splits)

lemma finish_ledger:
  "finish_transaction name row s = (s', out) \<Longrightarrow>
   s_ledger s' = (case out of Inl e \<Rightarrow> s_ledger s | Inr u \<Rightarrow> s_ledger s @ encoded_row row)"
  by (auto simp: finish_transaction_def sbind_def sread_def commit_content_def row_tail_def write_tail_def append_row_def
      publish_def close_transaction_def Let_def split: sum.splits json.splits if_splits option.splits)

text \<open>The ledger grows by one row, or stays as it was.\<close>

definition grown :: "(dict \<Rightarrow> bool) \<Rightarrow> store \<Rightarrow> store \<Rightarrow> bool" where
  "grown ok s s' = (\<exists>payload tail. ok payload \<and> s_ledger s' = s_ledger s @ encoded_row (make_ledger_row ''record'' payload tail))"

lemma commit_ledger:
  assumes "commit name e p s = (s', out)"
  shows "s_ledger s' = s_ledger s \<or> (\<exists>tail. s_ledger s' = s_ledger s @ encoded_row (make_ledger_row e p tail))"
proof -
  obtain s1 x where 1: "load_tail s = (s1, x)" by fastforce
  note l1 = load_tail_ledger [OF 1]
  show ?thesis
  proof (cases x)
    case (Inl err)
    then show ?thesis using assms 1 l1 by (simp add: commit_def sbind_def)
  next
    case (Inr tail)
    let ?row = "make_ledger_row e p tail"
    obtain s2 y where 2: "stage_transaction name e p (content_path e (py_str (dget p ''contentDigest''))) ?row tail s1 = (s2, y)"
      by fastforce
    note l2 = stage_ledger [OF 2]
    show ?thesis
    proof (cases y)
      case (Inl err)
      then show ?thesis using assms 1 2 Inr l1 l2 by (simp add: commit_def sbind_def)
    next
      case u: (Inr u)
      then have "finish_transaction name ?row s2 = (s', out)" using assms 1 2 Inr by (simp add: commit_def sbind_def)
      from finish_ledger [OF this] l1 l2 show ?thesis by (auto split: sum.splits)
    qed
  qed
qed

lemma add_record_ledger:
  assumes "add_record name rec s = (s', out)"
  shows "s_ledger s' = s_ledger s \<or>
    grown (\<lambda>payload. candidate_of rec = Inr payload \<and>
      (\<exists>report. validate_record (JObj payload) = Inr report \<and> report_valid report)) s s'"
proof (cases "record_candidate rec s")
  case (Inl e)
  then show ?thesis using assms by (simp add: add_record_def sbind_def sread_def)
next
  case (Inr ck)
  obtain payload known where ck: "ck = (payload, known)" by (cases ck)
  have ok: "candidate_of rec = Inr payload \<and> (\<exists>report. validate_record (JObj payload) = Inr report \<and> report_valid report)"
    using Inr unfolding ck record_candidate_def by (auto simp: rbind_eq_Inr Let_def)
  show ?thesis
  proof (cases known)
    case True
    then show ?thesis using assms Inr ck by (simp add: add_record_def sbind_def sread_def)
  next
    case False
    obtain s1 y where c: "commit name ''record'' payload s = (s1, y)" by fastforce
    then have "s1 = s'" using assms Inr ck False by (auto simp: add_record_def sbind_def sread_def split: sum.splits)
    with commit_ledger [OF c] ok show ?thesis by (auto simp: grown_def)
  qed
qed

lemma mark_origin_same: "mark_origin d origin n = (n', x) \<Longrightarrow> n_store n' = n_store n \<and> n_policy n' = n_policy n"
  by (auto simp: mark_origin_def write_state_def Let_def split: sum.splits)

lemma take_in_ledger:
  assumes "take_in name rec origin n = (n', out)"
  shows "n_policy n' = n_policy n \<and> (s_ledger (n_store n') = s_ledger (n_store n) \<or>
    grown (\<lambda>payload. candidate_of rec = Inr payload \<and>
      (\<exists>report. validate_record (JObj payload) = Inr report \<and> report_valid report)) (n_store n) (n_store n'))"
proof -
  obtain s1 y where a: "add_record name rec (n_store n) = (s1, y)" by fastforce
  have "n_policy n' = n_policy n \<and> n_store n' = s1"
    using assms unfolding take_in_def a on_store_def
    by (auto simp: nbind_def dest!: mark_origin_same split: sum.splits prod.splits)
  with add_record_ledger [OF a] show ?thesis by simp
qed

lemma ingest_ledger:
  assumes "ingest_foreign archived name rec source n = (n', out)"
  shows "n_policy n' = n_policy n \<and> (s_ledger (n_store n') = s_ledger (n_store n) \<or>
    grown (\<lambda>payload. candidate_of rec = Inr payload \<and>
      (\<exists>report. validate_record (JObj payload) = Inr report \<and> report_valid report)) (n_store n) (n_store n'))"
proof -
  have "n' = n \<or> take_in name rec (''foreign:'' @ source) n = (n', out)"
    using assms by (auto simp: ingest_foreign_def nbind_def Let_def split: sum.splits if_splits)
  with take_in_ledger show ?thesis by fastforce
qed

definition taken_from :: "json list \<Rightarrow> interest option \<Rightarrow> bool list option \<Rightarrow> mesh_policy \<Rightarrow> dict \<Rightarrow> bool" where
  "taken_from vs i verdicts p row =
     (\<exists>payload tail rec. row = make_ledger_row ''record'' payload tail \<and> JObj rec \<in> set vs \<and> candidate_of rec = Inr payload \<and>
        (\<exists>report. validate_record (JObj payload) = Inr report \<and> report_valid report) \<and>
        int (length (canonical_json (JObj rec))) \<le> m_record_bytes p \<and>
        (\<forall>f. i = Some f \<and> verdicts = None \<longrightarrow> matches rec f None))"

lemma receive_loop_ledger:
  assumes "receive_loop archived names source i verdicts index vs t n = (n', out)"
  shows "\<exists>rws. s_ledger (n_store n') = s_ledger (n_store n) @ concat (map encoded_row rws) \<and> length rws \<le> length vs \<and>
    list_all (taken_from vs i verdicts (n_policy n)) rws"
  using assms
proof (induction vs arbitrary: index t n)
  case Nil
  then show ?case by (intro exI [of _ "[]"]) simp
next
  case (Cons v vs)
  have wider: "list_all (taken_from (v # vs) i verdicts p) rws" if "list_all (taken_from vs i verdicts p) rws" for p rws
    using that unfolding taken_from_def list_all_iff by (meson list.set_intros(2))
  let ?go = "receive_loop archived names source i verdicts (index + 1) vs"
  have step: ?case if go: "?go t' n1 = (n', out)" and p: "n_policy n1 = n_policy n"
    and l: "s_ledger (n_store n1) = s_ledger (n_store n) @ concat (map encoded_row rs)" "length rs \<le> 1"
      "list_all (taken_from (v # vs) i verdicts (n_policy n)) rs" for t' n1 rs
  proof -
    obtain rws where rws: "s_ledger (n_store n') = s_ledger (n_store n1) @ concat (map encoded_row rws)"
        "length rws \<le> length vs" "list_all (taken_from vs i verdicts (n_policy n1)) rws"
      using Cons.IH [OF go] by blast
    show ?thesis
      by (rule exI [of _ "rs @ rws"]) (use rws l wider p in auto)
  qed
  show ?case
  proof (cases "\<exists>rec. v = JObj rec \<and> int (length (canonical_json (JObj rec))) \<le> m_record_bytes (n_policy n) \<and> \<not> gated i verdicts index rec")
    case False
    then obtain t' where "?go t' n = (n', out)"
      using Cons.prems by (auto simp: Let_def not_le split: json.splits if_splits)
    from step [OF this refl, of "[]"] show ?thesis by simp
  next
    case True
    then obtain rec where v: "v = JObj rec" and rec: "int (length (canonical_json (JObj rec))) \<le> m_record_bytes (n_policy n)"
      "\<not> gated i verdicts index rec" by blast
    obtain n1 r where g: "ingest_foreign archived (names index) rec source n = (n1, r)" by fastforce
    have gate: "i = Some f \<and> verdicts = None \<longrightarrow> matches rec f None" for f
      using rec(2) by (auto simp: gated_def)
    obtain rs where rs: "s_ledger (n_store n1) = s_ledger (n_store n) @ concat (map encoded_row rs)" "length rs \<le> 1"
        "list_all (taken_from (v # vs) i verdicts (n_policy n)) rs"
    proof (cases "s_ledger (n_store n1) = s_ledger (n_store n)")
      case True
      then show thesis using that [of "[]"] by simp
    next
      case False
      with ingest_ledger [OF g] obtain payload tail where "candidate_of rec = Inr payload"
          "\<exists>report. validate_record (JObj payload) = Inr report \<and> report_valid report"
          and l: "s_ledger (n_store n1) = s_ledger (n_store n) @ encoded_row (make_ledger_row ''record'' payload tail)"
        by (auto simp: grown_def)
      then have "taken_from (v # vs) i verdicts (n_policy n) (make_ledger_row ''record'' payload tail)"
        unfolding taken_from_def v using gate rec(1) by (intro exI [of _ payload] exI [of _ tail] exI [of _ rec]) simp
      then show thesis using that [of "[make_ledger_row ''record'' payload tail]"] l by simp
    qed
    have p: "n_policy n1 = n_policy n" using ingest_ledger [OF g] by blast
    show ?thesis
    proof (cases "\<exists>t'. ?go t' n1 = (n', out)")
      case True
      then show ?thesis using step [OF _ p rs] by blast
    next
      case False
      then have "n' = n1" using Cons.prems g rec unfolding v by (auto simp: Let_def split: sum.splits exn.splits)
      then show ?thesis using rs by (intro exI [of _ rs]) (auto intro: order_trans)
    qed
  qed
qed

lemma slice_to_set: "set (slice_to k xs) \<subseteq> set xs"
  by (auto simp: slice_to_def dest: in_set_takeD)


section \<open>The two lanes\<close>

lemma select_loop_take:
  assumes "int (length sel) < bound"
  shows "select_loop i bound sel cs = take (nat bound) (sel @ map fst (filter (\<lambda>(rec, state). matches rec i state) cs))"
  using assms
proof (induction cs arbitrary: sel)
  case (Cons c cs)
  obtain rec state where c: "c = (rec, state)" by (cases c)
  let ?sel = "if matches rec i state then sel @ [rec] else sel"
  show ?case
  proof (cases "bound \<le> int (length ?sel)")
    case True
    then have "matches rec i state \<and> nat bound = length (sel @ [rec])" using Cons.prems by (auto split: if_splits)
    then show ?thesis using True c by simp
  next
    case False
    then show ?thesis using Cons.IH [of ?sel] c by (auto simp: Let_def take_Cons')
  qed
qed simp

lemma zip_map_filter: "filter snd (zip xs (map f xs)) = map (\<lambda>x. (x, f x)) (filter f xs)"
  by (induction xs) auto


section \<open>Evidence blobs\<close>

definition cas_wf :: "node \<Rightarrow> bool" where
  "cas_wf n = (\<forall>(name, data) \<in> set (n_cas n). name = blob_stem (digest_of_bytes data) @ ''.blob'')"

lemma blob_stem_digest: "blob_stem (digest_of_bytes data) = ''sha256_'' @ sha256_hexdigest data"
proof -
  have "CHR '':'' \<notin> set (sha256_hexdigest data)" using set_sha256_hexdigest [of "CHR '':''" data] by auto
  then have "py_replace '':'' ''_'' (sha256_hexdigest data @ []) = sha256_hexdigest data @ py_replace '':'' ''_'' []"
    by (intro py_replace_skip) simp
  then have r: "py_replace '':'' ''_'' (sha256_hexdigest data) = sha256_hexdigest data" by simp
  have "py_replace '':'' ''_'' (''sha256'' @ '':'' @ sha256_hexdigest data) = ''sha256'' @ py_replace '':'' ''_'' ('':'' @ sha256_hexdigest data)"
    by (rule py_replace_skip) simp
  then show ?thesis using r by (simp add: blob_stem_def digest_of_bytes_def starts_with_def)
qed

text \<open>
  A blob put into the evidence store can be read back under its digest and is then reported as local, no blob held before is lost or changed, and every blob stays under the name of its own digest; unless SHA-256 collides on two blobs.
\<close>

theorem evidence_blob_kept:
  assumes "cas_put data media_type n = (n', Inr digest)" and "cas_wf n"
    and "inj_on sha256_hexdigest (insert data (snd ` set (n_cas n)))"
  shows "cas_wf n' \<and> digest = digest_of_bytes data \<and> cas_get digest n' = Some data \<and> evidence_availability digest n' = LOCAL \<and>
    (\<forall>d b. cas_get d n = Some b \<longrightarrow> cas_get d n' = Some b)"
proof -
  let ?name = "blob_stem (digest_of_bytes data) @ ''.blob''"
  have d: "digest = digest_of_bytes data" and c: "n_cas n' = put_new ?name data (n_cas n)"
    using assms(1) by (auto simp: cas_put_def digest_of_bytes_def Let_def split: if_splits)
  have held: "b = data" if "map_of (n_cas n) ?name = Some b" for b
  proof -
    from map_of_SomeD [OF that] have m: "(?name, b) \<in> set (n_cas n)" .
    then have "sha256_hexdigest b = sha256_hexdigest data" using assms(2) by (auto simp: cas_wf_def blob_stem_digest)
    then show ?thesis using inj_onD [OF assms(3)] m by force
  qed
  have g: "cas_get digest n' = Some data"
    using held by (cases "map_of (n_cas n) ?name") (auto simp: cas_get_def d c put_new_def map_add_def)
  moreover have "cas_wf n'" using assms(2) by (auto simp: cas_wf_def c put_new_def)
  moreover have "cas_get e n = Some b \<longrightarrow> cas_get e n' = Some b" for e b
    by (auto simp: cas_get_def c put_new_def map_add_def split: option.splits)
  ultimately show ?thesis using d by (simp add: evidence_availability_def cas_has_def cas_get_def)
qed

section \<open>A batch that is aborted\<close>

text \<open>
  Only mesh errors are caught for each record of a batch: a record whose kind is a list or an object
  raises a type error, which ends the batch and loses its report, whatever follows.
\<close>

theorem unhashable_kind_aborts_batch:
  assumes "\<not> hashable (dget rec ''kind'')" and "\<not> gated i None 0 rec"
    and "int (length (canonical_json (JObj rec))) \<le> m_record_bytes (n_policy n)" and "1 \<le> m_sync_records (n_policy n)"
    and "py_strip source \<noteq> []" and "length source \<le> 256"
  shows "receive_records archived names (JObj rec # vs) source i None n = (n, Inl TypeError)"
proof -
  have "validate_for_exchange rec (node_exchange (n_policy n)) = Inl TypeError"
    using assms(1,3) by (simp add: validate_for_exchange_def node_exchange_def guard_def in_set_def)
  then have "ingest_foreign archived (names 0) rec source n = (n, Inl TypeError)"
    using assms(5,6) by (simp add: ingest_foreign_def nbind_def bounded_id_def guard_def as_mesh_def)
  then have "receive_loop archived names source i None 0 (JObj rec # us) t n = (n, Inl TypeError)" for us t
    using assms(2,3) by (simp add: Let_def)
  moreover have "slice_to (m_sync_records (n_policy n)) (JObj rec # vs) = JObj rec # take (nat (m_sync_records (n_policy n)) - 1) vs"
    using assms(4) by (simp add: slice_to_def take_Cons')
  ultimately show ?thesis
    by (cases i) (simp_all add: receive_records_def nbind_def del: receive_loop.simps)
qed

section \<open>Instances\<close>

definition sample_node :: node where
  "sample_node =
     \<lparr>n_id = ''a'', n_domain = ''local'', n_policy = default_mesh_policy,
      n_store = \<lparr>s_root = ''/srv/a'', s_ready = True, s_ledger = [], s_tail = None, s_files = [], s_pending = []\<rparr>,
      n_cas = [], n_meta = [], n_state = Some (JObj [])\<rparr>"



theorem evidence_blob_kept_witness:
  "\<exists>n'. cas_put [1, 2, 3] ''text/plain'' sample_node = (n', Inr (digest_of_bytes [1, 2, 3])) \<and>
     cas_get (digest_of_bytes [1, 2, 3]) n' = Some [1, 2, 3]"
proof -
  have "\<exists>n'. cas_put [1, 2, 3] ''text/plain'' sample_node = (n', Inr (digest_of_bytes [1, 2, 3]))"
    by (simp add: cas_put_def sample_node_def default_mesh_policy_def digest_of_bytes_def Let_def)
  then obtain n' where p: "cas_put [1, 2, 3] ''text/plain'' sample_node = (n', Inr (digest_of_bytes [1, 2, 3]))" by blast
  have "cas_wf sample_node" "inj_on sha256_hexdigest (insert [1, 2, 3] (snd ` set (n_cas sample_node)))"
    by (simp_all add: cas_wf_def sample_node_def)
  from evidence_blob_kept [OF p this] p show ?thesis by blast
qed

theorem unhashable_kind_aborts_batch_witness:
  "receive_records (\<lambda>d. Inr None) (\<lambda>k. ''t'') [JObj [(''kind'', JArr [])], JObj [(''kind'', JStr ''Claim'')]] ''b''
     None None sample_node = (sample_node, Inl TypeError)"
proof (rule unhashable_kind_aborts_batch)
  have "length (canonical_json (JObj [(''kind'', JArr [])])) = 11" by code_simp
  then show "int (length (canonical_json (JObj [(''kind'', JArr [])]))) \<le> m_record_bytes (n_policy sample_node)"
    by (simp add: sample_node_def default_mesh_policy_def)
qed (simp_all add: gated_def sample_node_def default_mesh_policy_def py_strip_def is_space_def)

end
