(* ===== verification/Mesh_Relay.thy ===== *)
theory Mesh_Relay
  imports Mesh_Node
begin

text \<open>
  Capsules and relays of the mesh (mesh/capsule.py, mesh/relay.py): the envelope composed around a
  record, the triage of an envelope, and a relay that retains descriptors, compact records, capsules
  and hints of locations within bounds. Each file of a relay holds a document; the text in it is left
  out, and so are the texts of caught errors in messages.
\<close>

section \<open>Capsules\<close>

definition MAX_LIST_ENTRIES :: nat where
  "MAX_LIST_ENTRIES = 256"

definition CAPSULE_VERSION :: string where
  "CAPSULE_VERSION = ''commons.mncs.dev/capsule/v0alpha1''"

definition invalid_capsule :: "string \<Rightarrow> exn" where
  "invalid_capsule m = MeshError ''INVALID_CAPSULE'' m"

text \<open>What is known of a piece of evidence: a reference, or a claim in a document.\<close>

datatype evidence_view = Reference evidence_reference | Claimed dict

definition capsule_evidence :: "dict \<Rightarrow> string list" where
  "capsule_evidence rec =
     take MAX_LIST_ENTRIES (sorted_set
       (case dget rec ''evidence'' of
          JArr xs \<Rightarrow> map str_of (filter is_str (map (\<lambda>entry. dget (obj_of entry) ''id'') (filter is_obj xs)))
        | _ \<Rightarrow> []))"

definition capsule_relation :: "json \<Rightarrow> json list" where
  "capsule_relation item =
     (case (dget (obj_of item) ''type'', dget (obj_of item) ''target'') of
        (JStr k, JStr t) \<Rightarrow> [JObj [(''type'', JStr k), (''target'', JStr t)]]
      | _ \<Rightarrow> [])"

definition capsule_relations :: "dict \<Rightarrow> json list" where
  "capsule_relations rec =
     (case dget rec ''relationships'' of
        JArr xs \<Rightarrow> concat (map capsule_relation (filter is_obj (take MAX_LIST_ENTRIES xs)))
      | _ \<Rightarrow> [])"

definition provenance_root :: "dict \<Rightarrow> string list" where
  "provenance_root rec =
     (case dget rec ''provenance'' of
        JObj provenance \<Rightarrow>
          (case dget provenance ''sourceRecords'' of
             JArr sources \<Rightarrow> take MAX_LIST_ENTRIES (sorted_set (map py_str (filter truthy sources)))
           | _ \<Rightarrow> [])
      | _ \<Rightarrow> [])"

definition capsule_producer :: "dict \<Rightarrow> json \<Rightarrow> dict res" where
  "capsule_producer rec producer =
     (case producer of
        JNull \<Rightarrow> Inr (obj_of (dget (obj_of (dget rec ''provenance'')) ''producer''))
      | JObj p \<Rightarrow> Inr p
      | _ \<Rightarrow> Inl (invalid_capsule ''producer must be an object''))"

definition availability_view :: "(string \<times> evidence_view) list \<Rightarrow> string \<Rightarrow> json" where
  "availability_view known evidence_id =
     (case map_of known evidence_id of
        Some (Reference r) \<Rightarrow> JObj (reference_dict r)
      | Some (Claimed d) \<Rightarrow>
          JObj [(''digest'', JStr evidence_id),
                (''availability'', JStr (py_str (dget_default d ''availability'' (JStr ''UNAVAILABLE''))))]
      | None \<Rightarrow> JObj [(''digest'', JStr evidence_id), (''availability'', JStr ''UNAVAILABLE'')])"

fun stated_reproduction :: "dict \<Rightarrow> string list \<Rightarrow> json" where
  "stated_reproduction details [] = JNull"
| "stated_reproduction details (k # ks) =
     (case dget details k of
        JStr s \<Rightarrow> if s = [] then stated_reproduction details ks else JStr (take 1024 s)
      | JObj d \<Rightarrow> JObj (map (\<lambda>(k, v). (k, JStr (take 256 (py_str v)))) (take 16 d))
      | _ \<Rightarrow> stated_reproduction details ks)"

definition recipe_reference :: "dict \<Rightarrow> json" where
  "recipe_reference reproduction =
     JObj [(''hasProcedure'', JBool (truthy (dget reproduction ''procedure''))),
           (''expected'', JArr (case dget reproduction ''expected'' of
                                JArr xs \<Rightarrow> map (\<lambda>x. JStr (take 256 (py_str x))) (take 8 xs) | _ \<Rightarrow> [])),
           (''prerequisites'', JInt (case dget reproduction ''prerequisites'' of JArr xs \<Rightarrow> int (length xs) | _ \<Rightarrow> 0))]"

definition reproduction_reference :: "dict \<Rightarrow> json" where
  "reproduction_reference rec =
     (let stated = (case dget rec ''details'' of
                      JObj d \<Rightarrow> stated_reproduction d [''reproduction'', ''reproductionProcedure'', ''reproductionReference'']
                    | _ \<Rightarrow> JNull)
      in if stated \<noteq> JNull then stated
         else (case dget rec ''reproduction'' of JObj r \<Rightarrow> recipe_reference r | _ \<Rightarrow> JNull))"

definition capsule_scope :: "dict \<Rightarrow> json" where
  "capsule_scope scope =
     JObj [(''context'', JObj (obj_of (dget scope ''context''))), (''limitations'', JArr (arr_of (dget scope ''limitations'')))]"

definition capsule_security :: "json \<Rightarrow> json" where
  "capsule_security security =
     (case security of
        JObj d \<Rightarrow> JObj [(''sensitivity'', dget d ''sensitivity''),
                       (''instructionsAreUntrusted'', dget_default d ''instructionsAreUntrusted'' (JBool True))]
      | _ \<Rightarrow> JObj [(''sensitivity'', JNull), (''instructionsAreUntrusted'', JBool True)])"

definition compose_capsule ::
  "dict \<Rightarrow> dict \<Rightarrow> (string \<times> evidence_view) list \<Rightarrow> json \<Rightarrow> string option \<Rightarrow> dict res" where
  "compose_capsule rec disposition known producer protocol_version =
     (case (text_at rec ''contentDigest'', text_at rec ''kind'', dget rec ''subject'', dget rec ''scope'') of
        ([], _, _, _) \<Rightarrow> Inl (invalid_capsule ''record has no contentDigest'')
      | (_, [], _, _) \<Rightarrow> Inl (invalid_capsule ''record has no kind'')
      | (identity # _, kind # _, JObj subject, JObj scope) \<Rightarrow>
          rbind (capsule_producer rec producer) (\<lambda>record_producer.
            Inr [(''capsuleVersion'', JStr CAPSULE_VERSION), (''identity'', JStr identity), (''recordKind'', JStr kind),
                 (''subject'', JObj [(''type'', dget subject ''type''), (''identity'', dget subject ''identity'')]),
                 (''scope'', capsule_scope scope), (''provenanceRoot'', texts (provenance_root rec)),
                 (''evidenceRoot'', texts (capsule_evidence rec)), (''relationships'', JArr (capsule_relations rec)),
                 (''lifecycle'', JObj disposition), (''confidence'', JObj (obj_of (dget rec ''confidence''))),
                 (''availability'', JObj (map (\<lambda>e. (e, availability_view known e)) (capsule_evidence rec))),
                 (''producer'', JObj record_producer),
                 (''protocolVersion'', JStr (case protocol_version of
                     Some (c # v) \<Rightarrow> c # v | _ \<Rightarrow> py_str (dget_default rec ''apiVersion'' (JStr ''unknown'')))),
                 (''security'', capsule_security (dget rec ''security'')),
                 (''reproductionReference'', reproduction_reference rec)])
      | _ \<Rightarrow> Inl (invalid_capsule ''record needs subject and scope objects''))"

section \<open>Triage\<close>

definition pseudo_record :: "string \<Rightarrow> dict \<Rightarrow> dict" where
  "pseudo_record identity capsule =
     [(''kind'', dget capsule ''recordKind''), (''contentDigest'', JStr identity),
      (''scope'', dget_default capsule ''scope'' (JObj [])), (''subject'', dget_default capsule ''subject'' (JObj [])),
      (''affectedContracts'', JArr []), (''provenance'', JObj [(''producer'', dget_default capsule ''producer'' (JObj []))]),
      (''evidence'', JArr []), (''relationships'', dget_default capsule ''relationships'' (JArr [])),
      (''metadata'', JObj [(''labels'', JArr [])])]"

definition capsule_fields :: "string list" where
  "capsule_fields =
     [''identity'', ''recordKind'', ''subject'', ''scope'', ''provenanceRoot'', ''evidenceRoot'', ''relationships'',
      ''lifecycle'', ''availability'', ''producer'', ''protocolVersion'', ''security'']"

definition evidence_location :: "dict \<Rightarrow> string list \<Rightarrow> string \<Rightarrow> string" where
  "evidence_location known retained evidence_id =
     (let tier = (case dget known evidence_id of JObj e \<Rightarrow> dget e ''availability'' | _ \<Rightarrow> JNull)
      in if truthy tier then py_str tier
         else if evidence_id \<in> set retained then ''LOCAL'' else ''UNAVAILABLE'')"

record assessment =
  z_identity :: string
  z_understood :: bool
  z_unknown :: "string list"
  z_already_have :: bool
  z_relevant :: bool
  z_structure_valid :: bool
  z_provenance :: dict
  z_possessed :: "string list"
  z_missing :: "string list"
  z_locations :: "(string \<times> string) list"
  z_reproduction :: json
  z_retain :: bool

definition assess_capsule ::
  "dict \<Rightarrow> string list \<Rightarrow> string list \<Rightarrow> string list \<Rightarrow> string list \<Rightarrow> interest option \<Rightarrow> assessment res" where
  "assess_capsule capsule digests retained kinds reltypes i =
     (case dget capsule ''identity'' of
        JStr identity \<Rightarrow>
          rbind (guard (truthy (dget capsule ''recordKind'')) (invalid_capsule ''capsule needs identity and recordKind'')) (\<lambda>_.
          rbind (py_iter (dget_default capsule ''relationships'' (JArr []))) (\<lambda>items.
          rbind (in_set (dget capsule ''recordKind'') kinds) (\<lambda>known_kind.
            let unknown = sorted_set (filter (\<lambda>k. k \<notin> set reltypes)
                            (map (\<lambda>item. py_str (dget (obj_of item) ''type'')) (filter is_obj items)));
                relevant = (case i of None \<Rightarrow> True | Some f \<Rightarrow> matches (pseudo_record identity capsule) f None);
                structure = list_all (has_key capsule) capsule_fields;
                have_it = identity \<in> set digests;
                ids = (case dget capsule ''evidenceRoot'' of JArr xs \<Rightarrow> map py_str xs | _ \<Rightarrow> []);
                known = obj_of (dget capsule ''availability'')
            in Inr \<lparr>z_identity = identity, z_understood = (known_kind \<and> unknown = []), z_unknown = unknown,
                    z_already_have = have_it, z_relevant = relevant, z_structure_valid = structure,
                    z_provenance = obj_of (dget capsule ''producer''),
                    z_possessed = sorted_set (filter (\<lambda>e. e \<in> set retained) ids),
                    z_missing = sorted_set (filter (\<lambda>e. e \<notin> set retained) ids),
                    z_locations = foldl (\<lambda>d e. AList.update e (evidence_location known retained e) d) [] ids,
                    z_reproduction = dget capsule ''reproductionReference'',
                    z_retain = (relevant \<and> \<not> have_it \<and> structure)\<rparr>)))
      | _ \<Rightarrow> Inl (invalid_capsule ''capsule needs identity and recordKind''))"

section \<open>Relays\<close>

definition MAX_DESCRIPTORS :: nat where
  "MAX_DESCRIPTORS = 512"

definition MAX_CAPSULES :: nat where
  "MAX_CAPSULES = 10000"

definition MAX_LOCATIONS_PER_DIGEST :: nat where
  "MAX_LOCATIONS_PER_DIGEST = 64"

record relay =
  l_descriptors :: "json option"
  l_records :: "json option"
  l_capsules :: "json option"
  l_locations :: "json option"

type_synonym 'a rop = "relay \<times> 'a res"

definition or_new :: "json option \<Rightarrow> json option" where
  "or_new f = (if f = None then Some (JObj []) else f)"

definition relay_init :: "relay \<Rightarrow> relay" where
  "relay_init r =
     \<lparr>l_descriptors = or_new (l_descriptors r), l_records = or_new (l_records r),
      l_capsules = or_new (l_capsules r), l_locations = or_new (l_locations r)\<rparr>"

definition relay_load :: "json option \<Rightarrow> dict res" where
  "relay_load f =
     (case f of
        None \<Rightarrow> Inl (MeshError ''RELAY_UNREADABLE'' ''relay state unreadable'')
      | Some (JObj d) \<Rightarrow> Inr d
      | Some _ \<Rightarrow> Inl (MeshError ''RELAY_INVALID'' ''relay state must be an object''))"

text \<open>A table is saved in canonical form, and read back from that.\<close>

definition relay_save :: "dict \<Rightarrow> json option" where
  "relay_save d = Some (key_sorted (canonicalize [] (JObj d)))"

definition insert_bounded :: "nat \<Rightarrow> string \<Rightarrow> string \<Rightarrow> json \<Rightarrow> json option \<Rightarrow> json option res" where
  "insert_bounded bound full k v f =
     rbind (relay_load f) (\<lambda>d.
     rbind (guard (has_key d k \<or> length d < bound) (MeshError ''RELAY_FULL'' full)) (\<lambda>_.
       Inr (relay_save (dset k v d))))"

definition advertise :: "json \<Rightarrow> string \<Rightarrow> relay \<Rightarrow> string rop" where
  "advertise descriptor now r =
     (case descriptor of
        JObj d \<Rightarrow>
          (case text_at d ''nodeId'' of
             [] \<Rightarrow> (r, Inl (MeshError ''INVALID_DESCRIPTOR'' ''descriptor needs a bounded nodeId''))
           | node_id # _ \<Rightarrow>
               if length node_id > 256
               then (r, Inl (MeshError ''INVALID_DESCRIPTOR'' ''descriptor needs a bounded nodeId''))
               else (case insert_bounded MAX_DESCRIPTORS ''relay descriptor table is at its bound'' node_id
                            (JObj [(''descriptor'', JObj d), (''advertisedAt'', JStr now)]) (l_descriptors r) of
                       Inl e \<Rightarrow> (r, Inl e)
                     | Inr f \<Rightarrow> (r\<lparr>l_descriptors := f\<rparr>, Inr node_id)))
      | _ \<Rightarrow> (r, Inl (MeshError ''INVALID_DESCRIPTOR'' ''node descriptor must be an object'')))"

definition offered_identity :: "dict \<Rightarrow> string res" where
  "offered_identity rec =
     rbind (guard (dget rec ''kind'' \<noteq> JStr EVENT_KIND)
              (MeshError ''RELAY_NO_AUTHORITY'' ''relay never retains lifecycle events'')) (\<lambda>_.
     rbind (case validate_for_exchange rec default_exchange of
              Inl _ \<Rightarrow> Inl (MeshError ''INVALID_RECORD'' ''relay refuses invalid record'')
            | Inr u \<Rightarrow> Inr u) (\<lambda>_.
     case text_at rec ''contentDigest'' of
       [] \<Rightarrow> Inl (MeshError ''INVALID_RECORD'' ''record needs a contentDigest'')
     | identity # _ \<Rightarrow>
         rbind (guard (length (canonical_json (JObj rec)) \<le> 256 * 1024)
                  (MeshError ''RECORD_TOO_LARGE'' ''relay retains compact records only; use a capsule for discovery'')) (\<lambda>_.
           Inr identity)))"

definition offer_record :: "json \<Rightarrow> string \<Rightarrow> relay \<Rightarrow> string rop" where
  "offer_record value now r =
     (case value of
        JObj rec \<Rightarrow>
          (case rbind (offered_identity rec) (\<lambda>identity.
                  rbind (insert_bounded MAX_CAPSULES ''relay record table is at its bound'' identity
                           (JObj [(''record'', JObj rec), (''offeredAt'', JStr now)]) (l_records r)) (\<lambda>f. Inr (identity, f))) of
             Inl e \<Rightarrow> (r, Inl e)
           | Inr (identity, f) \<Rightarrow> (r\<lparr>l_records := f\<rparr>, Inr identity))
      | _ \<Rightarrow> (r, Inl (MeshError ''INVALID_RECORD'' ''record must be an object'')))"

definition add_locations :: "dict \<Rightarrow> dict \<Rightarrow> dict" where
  "add_locations locations entry =
     foldl (\<lambda>d (k, v). case v of JStr s \<Rightarrow> dset k (JStr (take 256 s)) d | _ \<Rightarrow> d) entry locations"

definition note_locations :: "string \<Rightarrow> dict \<Rightarrow> relay \<Rightarrow> unit rop" where
  "note_locations identity locations r =
     (case relay_load (l_locations r) of
        Inl e \<Rightarrow> (r, Inl e)
      | Inr known \<Rightarrow>
          let entry = add_locations locations (obj_of (dget known identity))
          in (r\<lparr>l_locations := relay_save (dset identity (JObj (take MAX_LOCATIONS_PER_DIGEST entry)) known)\<rparr>, Inr ()))"

definition publish_capsule :: "json \<Rightarrow> dict \<Rightarrow> string \<Rightarrow> relay \<Rightarrow> string rop" where
  "publish_capsule value locations now r =
     (case value of
        JObj capsule \<Rightarrow>
          (case text_at capsule ''identity'' of
             [] \<Rightarrow> (r, Inl (invalid_capsule ''capsule needs an identity''))
           | identity # _ \<Rightarrow>
               if length (canonical_json (JObj capsule)) > 256 * 1024
               then (r, Inl (MeshError ''CAPSULE_TOO_LARGE'' ''relay retains compact capsules only''))
               else (case insert_bounded MAX_CAPSULES ''relay capsule table is at its bound'' identity
                            (JObj [(''capsule'', JObj capsule), (''publishedAt'', JStr now)]) (l_capsules r) of
                       Inl e \<Rightarrow> (r, Inl e)
                     | Inr f \<Rightarrow>
                         let r1 = r\<lparr>l_capsules := f\<rparr> in
                         if locations = [] then (r1, Inr identity)
                         else (case note_locations identity locations r1 of
                                 (r2, Inl e) \<Rightarrow> (r2, Inl e)
                               | (r2, Inr _) \<Rightarrow> (r2, Inr identity))))
      | _ \<Rightarrow> (r, Inl (invalid_capsule ''capsule must be an object'')))"

definition locate :: "string \<Rightarrow> relay \<Rightarrow> (bool \<times> dict) res" where
  "locate digest r =
     rbind (relay_load (l_capsules r)) (\<lambda>capsules. rbind (relay_load (l_locations r)) (\<lambda>locations.
       Inr (has_key capsules digest, obj_of (dget locations digest))))"

definition relay_frontier :: "relay \<Rightarrow> string list res" where
  "relay_frontier r =
     rbind (relay_load (l_records r)) (\<lambda>rs. rbind (relay_load (l_capsules r)) (\<lambda>cs.
       Inr (remdups (map fst rs @ map fst cs))))"

definition relay_fetch :: "string list \<Rightarrow> int \<Rightarrow> relay \<Rightarrow> dict list res" where
  "relay_fetch digests limit r =
     rbind (relay_load (l_records r)) (\<lambda>rs.
       Inr (slice_to limit (concat (map (\<lambda>digest.
         case dget (obj_of (dget rs digest)) ''record'' of JObj rec \<Rightarrow> [rec] | _ \<Rightarrow> [])
         (sorted_set (slice_to limit digests))))))"

fun pull_loop :: "interest option \<Rightarrow> int \<Rightarrow> dict list \<Rightarrow> (string \<times> json) list \<Rightarrow> dict list" where
  "pull_loop i limit selected [] = selected"
| "pull_loop i limit selected ((digest, entry) # rest) =
     (case dget (obj_of entry) ''capsule'' of
        JObj capsule \<Rightarrow>
          if (case i of None \<Rightarrow> True | Some f \<Rightarrow> matches (pseudo_record digest capsule) f None)
          then (let selected' = selected @ [capsule]
                in if limit \<le> int (length selected') then selected' else pull_loop i limit selected' rest)
          else pull_loop i limit selected rest
      | _ \<Rightarrow> pull_loop i limit selected rest)"

definition relay_pull :: "interest option \<Rightarrow> int \<Rightarrow> relay \<Rightarrow> dict list res" where
  "relay_pull i limit r =
     rbind (relay_load (l_capsules r)) (\<lambda>capsules. Inr (pull_loop i limit [] (sort_key fst capsules)))"

section \<open>A relay stays within its bounds\<close>

text \<open>What clients may do to a relay, whatever each call returns.\<close>

inductive relay_step :: "relay \<Rightarrow> relay \<Rightarrow> bool" where
  init: "relay_step r (relay_init r)"
| advertise: "advertise v now r = (r', out) \<Longrightarrow> relay_step r r'"
| offer: "offer_record v now r = (r', out) \<Longrightarrow> relay_step r r'"
| publish: "publish_capsule v locations now r = (r', out) \<Longrightarrow> relay_step r r'"

definition new_relay :: relay where
  "new_relay = \<lparr>l_descriptors = None, l_records = None, l_capsules = None, l_locations = None\<rparr>"

definition table_ok :: "nat \<Rightarrow> (json \<Rightarrow> bool) \<Rightarrow> json option \<Rightarrow> bool" where
  "table_ok bound ok f = (\<forall>v. f = Some v \<longrightarrow> (\<exists>d. v = JObj d \<and> length d \<le> bound \<and> (\<forall>kv \<in> set d. ok (snd kv))))"

text \<open>A retained record is of a known record kind, so that it is no lifecycle event.\<close>

definition record_entry :: "json \<Rightarrow> bool" where
  "record_entry v =
     (\<exists>e rec k. v = JObj e \<and> (''record'', JObj rec) \<in> set e \<and> (''kind'', JStr k) \<in> set rec \<and> k \<in> set record_kinds)"

definition location_entry :: "json \<Rightarrow> bool" where
  "location_entry v = (\<exists>e. v = JObj e \<and> length e \<le> MAX_LOCATIONS_PER_DIGEST)"

text \<open>The shape of a document does not change when it is saved.\<close>

lemma saved_obj:
  "key_sorted (canonicalize p (JObj d)) = JObj (sort_key fst (map (\<lambda>kv. (fst kv, key_sorted (canonicalize (p @ [fst kv]) (snd kv)))) d))"
  by (simp add: comp_def)

lemma location_entry_saved: "location_entry v \<Longrightarrow> location_entry (key_sorted (canonicalize p v))"
  by (auto simp: location_entry_def saved_obj simp del: key_sorted.simps canonicalize.simps)

lemma record_entry_saved:
  assumes "record_entry v"
  shows "record_entry (key_sorted (canonicalize p v))"
proof -
  obtain e rec k where v: "v = JObj e" "(''record'', JObj rec) \<in> set e" "(''kind'', JStr k) \<in> set rec" "k \<in> set record_kinds"
    using assms by (auto simp: record_entry_def)
  let ?f = "\<lambda>q kv. (fst kv, key_sorted (canonicalize (q @ [fst kv]) (snd kv)))"
  let ?e = "sort_key fst (map (?f p) e)" and ?r = "sort_key fst (map (?f (p @ [''record''])) rec)"
  have "?f p (''record'', JObj rec) \<in> set ?e" unfolding set_sort set_map by (rule imageI [OF v(2)])
  then have "(''record'', JObj ?r) \<in> set ?e" by (simp only: fst_conv snd_conv saved_obj)
  moreover have "?f (p @ [''record'']) (''kind'', JStr k) \<in> set ?r" unfolding set_sort set_map by (rule imageI [OF v(3)])
  then have "(''kind'', JStr k) \<in> set ?r" by (simp only: fst_conv snd_conv canonicalize.simps key_sorted.simps)
  ultimately show ?thesis unfolding v(1) saved_obj record_entry_def using v(4) by blast
qed

lemma length_dset: "length (dset k v d) = (if has_key d k then length d else Suc (length d))"
  by (induction d) auto

lemma snd_dset: "kv \<in> set (dset k v d) \<Longrightarrow> snd kv = v \<or> kv \<in> set d"
  by (induction d) (auto split: if_splits)

lemma table_saved:
  assumes "table_ok bound ok f" and "relay_load f = Inr d" and "ok v" and "\<And>p v. ok v \<Longrightarrow> ok (key_sorted (canonicalize p v))"
    and "has_key d k \<or> length d < bound"
  shows "table_ok bound ok (relay_save (dset k v d))"
proof -
  have d: "f = Some (JObj d)" using assms(2) by (auto simp: relay_load_def split: option.splits json.splits)
  with assms(1) have old: "length d \<le> bound" "\<And>kv. kv \<in> set d \<Longrightarrow> ok (snd kv)" by (auto simp: table_ok_def)
  have "ok (snd kv)" if "kv \<in> set (dset k v d)" for kv using snd_dset [OF that] old(2) assms(3) by blast
  then show ?thesis using old(1) assms(4,5)
    by (auto simp: table_ok_def relay_save_def saved_obj length_dset simp del: key_sorted.simps canonicalize.simps)
qed

lemma insert_bounded_ok:
  assumes "insert_bounded bound full k v f = Inr f'" and "table_ok bound ok f" and "ok v"
    and "\<And>p v. ok v \<Longrightarrow> ok (key_sorted (canonicalize p v))"
  shows "table_ok bound ok f'"
  using assms(1) table_saved [OF assms(2) _ assms(3) assms(4)] by (auto simp: insert_bounded_def rbind_eq_Inr)

definition relay_ok :: "relay \<Rightarrow> bool" where
  "relay_ok r =
     (table_ok MAX_DESCRIPTORS (\<lambda>_. True) (l_descriptors r) \<and> table_ok MAX_CAPSULES record_entry (l_records r) \<and>
      table_ok MAX_CAPSULES (\<lambda>_. True) (l_capsules r) \<and>
      (\<forall>v. l_locations r = Some v \<longrightarrow> (\<exists>d. v = JObj d \<and> (\<forall>kv \<in> set d. location_entry (snd kv)))))"

lemma offered_kind: "offered_identity rec = Inr identity \<Longrightarrow> \<exists>k \<in> set record_kinds. (''kind'', JStr k) \<in> set rec"
proof -
  assume "offered_identity rec = Inr identity"
  then have "validate_for_exchange rec default_exchange = Inr ()"
    by (auto simp: offered_identity_def rbind_eq_Inr split: sum.splits)
  from exchanged_valid [OF this] obtain k where "k \<in> set record_kinds" "dget rec ''kind'' = JStr k" by blast
  then show ?thesis by (auto simp: dget_def split: option.splits dest: map_of_SomeD)
qed

lemma relay_ok_records: "relay_ok r \<Longrightarrow> offer_record v now r = (r', out) \<Longrightarrow> relay_ok r'"
proof (cases "r' = r")
  case False
  assume ok: "relay_ok r" and o: "offer_record v now r = (r', out)"
  from o False obtain rec identity f where f: "offered_identity rec = Inr identity" "r' = r\<lparr>l_records := f\<rparr>"
      "insert_bounded MAX_CAPSULES ''relay record table is at its bound'' identity
         (JObj [(''record'', JObj rec), (''offeredAt'', JStr now)]) (l_records r) = Inr f"
    by (auto simp: offer_record_def rbind_eq_Inr split: json.splits sum.splits)
  have "record_entry (JObj [(''record'', JObj rec), (''offeredAt'', JStr now)])"
    using offered_kind [OF f(1)] by (auto simp: record_entry_def)
  from insert_bounded_ok [OF f(3) _ this record_entry_saved] ok f(2) show "relay_ok r'" by (simp add: relay_ok_def)
qed simp

lemma relay_ok_advertise: "relay_ok r \<Longrightarrow> advertise v now r = (r', out) \<Longrightarrow> relay_ok r'"
  using insert_bounded_ok [where ok = "\<lambda>_. True"]
  by (auto simp: advertise_def relay_ok_def split: json.splits list.splits if_splits sum.splits)

lemma relay_ok_locations: "relay_ok r \<Longrightarrow> note_locations identity locations r = (r', out) \<Longrightarrow> relay_ok r'"
proof (cases "r' = r")
  case False
  assume ok: "relay_ok r" and o: "note_locations identity locations r = (r', out)"
  from o False obtain known e where l: "relay_load (l_locations r) = Inr known"
      "r' = r\<lparr>l_locations := relay_save (dset identity (JObj (take MAX_LOCATIONS_PER_DIGEST e)) known)\<rparr>"
    by (auto simp: note_locations_def Let_def split: sum.splits)
  have k: "l_locations r = Some (JObj known)" using l(1) by (auto simp: relay_load_def split: option.splits json.splits)
  have "location_entry (snd kv)" if "kv \<in> set (dset identity (JObj (take MAX_LOCATIONS_PER_DIGEST e)) known)" for kv
    using snd_dset [OF that] ok k by (auto simp: relay_ok_def location_entry_def)
  then show "relay_ok r'" using ok location_entry_saved
    by (auto simp: relay_ok_def l(2) relay_save_def saved_obj simp del: key_sorted.simps canonicalize.simps)
qed simp

lemma relay_ok_publish:
  assumes "relay_ok r" and "publish_capsule v locations now r = (r', out)"
  shows "relay_ok r'"
proof (cases "r' = r")
  case False
  from assms(2) False obtain identity capsule f where
      f: "insert_bounded MAX_CAPSULES ''relay capsule table is at its bound'' identity
        (JObj [(''capsule'', JObj capsule), (''publishedAt'', JStr now)]) (l_capsules r) = Inr f"
      "r' = r\<lparr>l_capsules := f\<rparr> \<or> (\<exists>x. note_locations identity locations (r\<lparr>l_capsules := f\<rparr>) = (r', x))"
    by (auto simp: publish_capsule_def Let_def split: json.splits list.splits if_splits sum.splits prod.splits)
  have "table_ok MAX_CAPSULES (\<lambda>_. True) f"
    using insert_bounded_ok [OF f(1), of "\<lambda>_. True"] assms(1) by (simp add: relay_ok_def)
  then have "relay_ok (r\<lparr>l_capsules := f\<rparr>)" using assms(1) by (simp add: relay_ok_def)
  with f(2) relay_ok_locations show ?thesis by blast
qed (use assms in simp)

lemma relay_ok_init: "relay_ok r \<Longrightarrow> relay_ok (relay_init r)"
  by (auto simp: relay_ok_def relay_init_def or_new_def table_ok_def split: if_splits)

lemma relay_step_ok: "relay_step r r' \<Longrightarrow> relay_ok r \<Longrightarrow> relay_ok r'"
  by (induction rule: relay_step.induct) (auto intro: relay_ok_init relay_ok_advertise relay_ok_records relay_ok_publish)

text \<open>
  C27. Whatever sequence of calls a relay serves, failed ones included, its tables stay within their bounds, every retained record is of a record kind and so never a lifecycle event, and no digest has more than the allowed number of locations.
\<close>

theorem relay_bounded:
  assumes "relay_step\<^sup>*\<^sup>* new_relay r"
  shows "table_ok MAX_DESCRIPTORS (\<lambda>_. True) (l_descriptors r) \<and> table_ok MAX_CAPSULES record_entry (l_records r) \<and>
    table_ok MAX_CAPSULES (\<lambda>_. True) (l_capsules r) \<and>
    (\<forall>v. l_locations r = Some v \<longrightarrow> (\<exists>d. v = JObj d \<and> (\<forall>kv \<in> set d. location_entry (snd kv))))"
proof -
  have "relay_ok new_relay" by (simp add: relay_ok_def new_relay_def table_ok_def)
  with assms have "relay_ok r" by (induction rule: rtranclp_induct) (auto intro: relay_step_ok)
  then show ?thesis by (simp add: relay_ok_def)
qed

theorem relay_bounded_witness:
  "\<exists>r. relay_step\<^sup>*\<^sup>* new_relay r \<and> l_descriptors r \<noteq> None \<and> table_ok MAX_DESCRIPTORS (\<lambda>_. True) (l_descriptors r)"
proof -
  let ?r = "relay_init new_relay"
  obtain r out where a: "advertise (JObj [(''nodeId'', JStr ''a'')]) ''t'' ?r = (r, out)" by fastforce
  then have "l_descriptors r \<noteq> None"
    by (auto simp: advertise_def text_at_def insert_bounded_def relay_load_def relay_init_def or_new_def new_relay_def guard_def
        relay_save_def MAX_DESCRIPTORS_def)
  moreover have s: "relay_step\<^sup>*\<^sup>* new_relay r"
    using relay_step.init [of new_relay] relay_step.advertise [OF a] by (meson converse_rtranclp_into_rtranclp r_into_rtranclp)
  ultimately show ?thesis using relay_bounded [OF s] by blast
qed

section \<open>A capsule does not oversell its record\<close>

lemma capsule_relation_types:
  "set (record_relationship_types [(''relationships'', JArr (capsule_relations rec))]) \<subseteq> set (record_relationship_types rec)"
proof
  fix k
  assume "k \<in> set (record_relationship_types [(''relationships'', JArr (capsule_relations rec))])"
  then obtain v where v: "v \<in> set (capsule_relations rec)" "dget (obj_of v) ''type'' = JStr k"
    by (auto simp: record_relationship_types_def elim: is_str.elims)
  then obtain xs item where x: "dget rec ''relationships'' = JArr xs" "item \<in> set xs" "is_obj item" "v \<in> set (capsule_relation item)"
    by (cases "dget rec ''relationships''") (auto simp: capsule_relations_def dest: in_set_takeD)
  then have "dget (obj_of item) ''type'' = JStr k" using v(2) by (auto simp: capsule_relation_def split: json.splits)
  then show "k \<in> set (record_relationship_types rec)" using x by (force simp: record_relationship_types_def)
qed

lemma meets_left: "meets xs ts \<Longrightarrow> set xs \<subseteq> set ys \<Longrightarrow> meets ys ts"
  by (auto simp: meets_def list_ex_iff)

lemma matches_weaker:
  assumes "matches p i None" and "record_digest rec = record_digest p" and "dget rec ''kind'' = dget p ''kind''"
    and "record_projects rec = record_projects p" and "record_contract_names p = []" and "record_labels p = []"
    and "record_producer_id rec = record_producer_id p" and "record_outcomes p = []" and "\<not> is_open_work p"
    and "set (record_relationship_types p) \<subseteq> set (record_relationship_types rec)"
  shows "matches rec i None"
proof -
  have n: "projected_outcome p = 9" using assms(8) by (simp add: projected_outcome_def)
  have r: "meets (record_relationship_types rec) ss" if "meets (record_relationship_types p) ss" for ss
    using meets_left [OF that assms(10)] .
  have q: "is_promotion_relevant rec None" if "is_promotion_relevant p None"
    using that r by (simp add: is_promotion_relevant_def)
  have k: "kind_ok rec ss = kind_ok p ss" for ss using assms(3) by (simp add: kind_ok_def)
  have e: "\<not> outcome_ok p ss" "\<not> meets [] ss" for ss by (simp_all add: outcome_ok_def n meets_def)
  from assms(1) show ?thesis
    unfolding matches_iff assms(2,4,5,6,7) k using r q e assms(9) by (auto simp: mirror_dim_def)
qed

text \<open>
  A capsule composed from a record keeps its identity and is structurally valid, and when the triage calls it relevant to a subscription, the record itself matches the subscription.
\<close>

theorem capsule_does_not_oversell:
  assumes "compose_capsule rec disposition known JNull version = Inr c"
    and "assess_capsule c digests retained kinds reltypes (Some i) = Inr z"
  shows "z_structure_valid z \<and> record_digest rec = Some (z_identity z) \<and> (z_relevant z \<longrightarrow> matches rec i None)"
proof -
  obtain identity kind subject scope where s: "dget rec ''contentDigest'' = JStr identity" "identity \<noteq> []"
      "dget rec ''kind'' = JStr kind" "dget rec ''subject'' = JObj subject" "dget rec ''scope'' = JObj scope" "kind \<noteq> []"
    using assms(1) by (auto simp: compose_capsule_def text_at_def split: json.splits list.splits if_splits)
  note c = assms(1) [unfolded compose_capsule_def capsule_producer_def, simplified s text_at_def, simplified]
  have f: "dget c ''identity'' = JStr identity" "dget c ''recordKind'' = JStr kind" "has_key c ''scope''" "dget c ''scope'' = capsule_scope scope"
    "dget c ''producer'' = JObj (obj_of (dget (obj_of (dget rec ''provenance'')) ''producer''))" "has_key c ''producer''"
    "dget c ''relationships'' = JArr (capsule_relations rec)" "has_key c ''relationships''" "list_all (has_key c) capsule_fields"
    using c s(2,6) by (auto simp: capsule_fields_def split: list.splits)
  let ?p = "pseudo_record identity c"
  have d: "dget_default c k v = dget c k" if "has_key c k" for k v
    using that by (auto simp: dget_default_def dget_def has_key_def split: option.splits)
  have p: "record_digest rec = record_digest ?p" "dget rec ''kind'' = dget ?p ''kind''" "record_contract_names ?p = []"
    "record_labels ?p = []" "record_outcomes ?p = []" "\<not> is_open_work ?p"
    using s f by (simp_all add: record_digest_def text_at_def pseudo_record_def record_contract_names_def strings_in_def
        record_labels_def record_outcomes_def is_open_work_def)
  have "record_projects rec = record_projects ?p"
    using s(5) f(4) d [OF f(3)]
    by (cases "dget scope ''context''") (simp_all add: record_projects_def pseudo_record_def capsule_scope_def text_at_def)
  moreover have "record_producer_id rec = record_producer_id ?p"
    using f(5) d [OF f(6)]
    by (cases "dget rec ''provenance''"; cases "dget (obj_of (dget rec ''provenance'')) ''producer''")
      (simp_all add: record_producer_id_def pseudo_record_def)
  moreover have "record_relationship_types ?p = record_relationship_types [(''relationships'', JArr (capsule_relations rec))]"
    using f(7) d [OF f(8)] by (simp add: record_relationship_types_def pseudo_record_def)
  ultimately have m: "matches ?p i None \<Longrightarrow> matches rec i None"
    using matches_weaker [of ?p i rec] p capsule_relation_types [of rec] by simp
  have "z_structure_valid z \<and> z_identity z = identity \<and> (z_relevant z \<longrightarrow> matches ?p i None)"
    using assms(2) f(1,9) by (auto simp: assess_capsule_def rbind_eq_Inr Let_def)
  then show ?thesis using m s(1,2) by (simp add: record_digest_def text_at_def)
qed

definition capsule_source :: dict where
  "capsule_source =
     [(''kind'', JStr ''Claim''), (''contentDigest'', JStr ''sha256:a''), (''subject'', JObj []), (''scope'', JObj [])]"

theorem capsule_does_not_oversell_witness:
  "\<exists>c z. compose_capsule capsule_source [] [] JNull None = Inr c \<and>
     assess_capsule c [] [] [''Claim''] [] (Some sample_interest) = Inr z \<and> z_relevant z \<and> matches capsule_source sample_interest None"
proof -
  let ?c = "projr (compose_capsule capsule_source [] [] JNull None)"
  let ?z = "projr (assess_capsule ?c [] [] [''Claim''] [] (Some sample_interest))"
  have c: "compose_capsule capsule_source [] [] JNull None = Inr ?c" by (rule sum.collapse(2) [symmetric]) code_simp
  have z: "assess_capsule ?c [] [] [''Claim''] [] (Some sample_interest) = Inr ?z" by (rule sum.collapse(2) [symmetric]) code_simp
  have r: "z_relevant ?z" by code_simp
  from capsule_does_not_oversell [OF c z] r have "matches capsule_source sample_interest None" by blast
  with c z r show ?thesis by blast
qed

end
