(* ===== verification/Contract_Tools.thy ===== *)
theory Contract_Tools
  imports Canonical
begin

text \<open>
  What the validators of the transport contracts share (verification_plan.py,
  obligation_plan.py, family_graph.py): arrays of non-empty texts, loops over the numbered
  entries of an array, and lower-case digests. The two plan contracts each have their own
  reader of an array of identities; \<open>identity_reader\<close> is what both promise, and the facts the
  contracts use about accepted arrays are proved from it once.
\<close>

section \<open>Definitions\<close>

text \<open>\<open>isinstance(value, list) and all(isinstance(item, str) and item for item in value)\<close>.\<close>

definition text_items :: "json \<Rightarrow> string list option" where
  "text_items v =
     (case v of
        JArr xs \<Rightarrow> if list_all (\<lambda>x. is_str x \<and> str_of x \<noteq> []) xs then Some (map str_of xs) else None
      | _ \<Rightarrow> None)"

text \<open>\<open>isinstance(value, str) and value\<close>.\<close>

definition full_text :: "json \<Rightarrow> bool" where
  "full_text v = (is_str v \<and> str_of v \<noteq> [])"

text \<open>\<open>[f(index, item) for index, item in enumerate(items)]\<close>.\<close>

definition each_entry :: "(nat \<Rightarrow> 'a \<Rightarrow> 'b res) \<Rightarrow> 'a list \<Rightarrow> 'b list res" where
  "each_entry f xs = rmapM (\<lambda>(i, x). f i x) (enumerate 0 xs)"

text \<open>\<open>value in ("a", "b", ...)\<close>: membership in a tuple of texts compares and does not hash.\<close>

definition json_among :: "json \<Rightarrow> string list \<Rightarrow> bool" where
  "json_among v ss = (is_str v \<and> str_of v \<in> set ss)"

definition lower_hex :: "string \<Rightarrow> bool" where
  "lower_hex s = list_all (\<lambda>c. c \<in> set ''0123456789abcdef'') s"

definition sha256_text :: "string \<Rightarrow> bool" where
  "sha256_text s = (length s = 64 \<and> lower_hex s)"

text \<open>\<open>isinstance(value, int) and not isinstance(value, bool)\<close>.\<close>

fun plain_int :: "json \<Rightarrow> bool" where
  "plain_int (JInt n) = True"
| "plain_int _ = False"

text \<open>The field at a path of keys; an absent one is null, as \<open>get\<close> gives it.\<close>

fun at_path :: "json \<Rightarrow> string list \<Rightarrow> json" where
  "at_path v [] = v"
| "at_path v (k # ks) = at_path (dget (obj_of v) k) ks"

section \<open>Facts\<close>

lemma text_items_Some: "text_items v = Some ss \<longleftrightarrow> v = JArr (map JStr ss) \<and> [] \<notin> set ss"
proof (cases v)
  case (JArr xs)
  have "list_all (\<lambda>x. is_str x \<and> str_of x \<noteq> []) xs \<and> map str_of xs = ss \<longleftrightarrow>
        xs = map JStr ss \<and> [] \<notin> set ss" (is "?L xs ss = ?R xs ss")
  proof (induction xs arbitrary: ss)
    case (Cons x xs)
    then show ?case by (cases x; cases ss) auto
  qed auto
  with JArr show ?thesis by (auto simp: text_items_def)
qed (auto simp: text_items_def)

lemma map_JStr_eq [simp]: "map JStr xs = map JStr ys \<longleftrightarrow> xs = ys"
  by (simp add: inj_map_eq_map inj_def)

lemma text_items_strs: "text_items (JArr (map JStr ss)) = (if [] \<in> set ss then None else Some ss)"
  by (auto simp: text_items_def list_all_iff comp_def)

lemma full_text_iff: "full_text v \<longleftrightarrow> (\<exists>s. v = JStr s \<and> s \<noteq> [])"
  by (cases v) (auto simp: full_text_def)

lemma json_among_iff: "json_among v ss \<longleftrightarrow> (\<exists>s \<in> set ss. v = JStr s)"
  by (cases v) (auto simp: json_among_def)

lemma plain_int_iff: "plain_int v \<longleftrightarrow> (\<exists>n. v = JInt n)"
  by (cases v) auto

lemma sha256_text_hexdigest [simp]: "sha256_text (sha256_hexdigest b)"
  using set_sha256_hexdigest [of _ b]
  by (simp add: sha256_text_def lower_hex_def length_sha256_hexdigest list_all_iff del: set_simps)

lemma is_bool_iff: "is_bool v \<longleftrightarrow> (\<exists>b. v = JBool b)"
  by (cases v) auto

text \<open>A case that only an array, or only an object, survives.\<close>

lemma case_arr_Inr:
  "(\<And>z. r \<noteq> Inr z) \<Longrightarrow>
   (case v of JArr xs \<Rightarrow> f xs | _ \<Rightarrow> r) = Inr y \<longleftrightarrow> (\<exists>xs. v = JArr xs \<and> f xs = Inr y)"
  by (cases v) auto

lemma case_obj_Inr:
  "(\<And>z. r \<noteq> Inr z) \<Longrightarrow>
   (case v of JObj d \<Rightarrow> f d | _ \<Rightarrow> r) = Inr y \<longleftrightarrow> (\<exists>d. v = JObj d \<and> f d = Inr y)"
  by (cases v) auto

lemma rmapM_all:
  assumes "rmapM f xs = Inr ys"
  shows "\<And>x. x \<in> set xs \<Longrightarrow> \<exists>y \<in> set ys. f x = Inr y"
  using assms
proof (induction xs arbitrary: ys)
  case (Cons z zs)
  from Cons.prems(2) obtain y ys' where "f z = Inr y" "rmapM f zs = Inr ys'" "ys = y # ys'"
    by (auto simp: rbind_eq_Inr)
  with Cons show ?case by auto
qed simp

lemma rmapM_list_all2: "rmapM f xs = Inr ys \<longleftrightarrow> list_all2 (\<lambda>x y. f x = Inr y) xs ys"
proof (induction xs arbitrary: ys)
  case (Cons x xs)
  then show ?case by (cases ys) (auto simp: rbind_eq_Inr)
qed auto

lemma each_entry_nth:
  assumes "each_entry f xs = Inr ys"
  shows "length ys = length xs" and "\<And>i. i < length xs \<Longrightarrow> f i (xs ! i) = Inr (ys ! i)"
  using assms
  by (auto simp: each_entry_def rmapM_list_all2 list_all2_conv_all_nth nth_enumerate_eq
           split: prod.splits)

lemma each_entry_source:
  assumes "each_entry f xs = Inr ys" and "y \<in> set ys"
  shows "\<exists>i < length xs. f i (xs ! i) = Inr y"
  using assms each_entry_nth [OF assms(1)] by (metis in_set_conv_nth)

lemma each_entry_result:
  assumes "each_entry f xs = Inr ys" and "x \<in> set xs"
  shows "\<exists>i. \<exists>y \<in> set ys. f i x = Inr y"
  using assms each_entry_nth [OF assms(1)] by (metis in_set_conv_nth)

lemma each_entry_total:
  "(\<And>i x. x \<in> set xs \<Longrightarrow> f i x = Inr (g x)) \<Longrightarrow> each_entry f xs = Inr (map g xs)"
  unfolding each_entry_def
  by (subst rmapM_total [where g = "\<lambda>(i, x). g x"])
     (auto simp: in_set_enumerate_eq map_snd_enumerate [symmetric] case_prod_unfold
       intro!: nth_equalityI simp: nth_enumerate_eq)

section \<open>Arrays of identities\<close>

locale identity_reader =
  fixes reader :: "json \<Rightarrow> string \<Rightarrow> string list option \<Rightarrow> string list res"
  assumes reader_sound:
      "reader v p vocabulary = Inr ss \<Longrightarrow>
       v = JArr (map JStr ss) \<and> [] \<notin> set ss \<and> distinct ss \<and>
       (\<forall>ws. vocabulary = Some ws \<longrightarrow> set ss \<subseteq> set ws)"
    and reader_complete:
      "[] \<notin> set ss \<Longrightarrow> distinct ss \<Longrightarrow> (\<And>ws. vocabulary = Some ws \<Longrightarrow> set ss \<subseteq> set ws) \<Longrightarrow>
       reader (JArr (map JStr ss)) p vocabulary = Inr ss"
begin

lemma accepts_iff:
  "reader v p vocabulary = Inr ss \<longleftrightarrow>
   v = JArr (map JStr ss) \<and> [] \<notin> set ss \<and> distinct ss \<and>
   (\<forall>ws. vocabulary = Some ws \<longrightarrow> set ss \<subseteq> set ws)"
  using reader_sound reader_complete by blast

lemma items: "reader v p vocabulary = Inr ss \<Longrightarrow> arr_of v = map JStr ss"
  using reader_sound by fastforce

lemma same_value: "reader v p a = Inr ss \<Longrightarrow> reader v q b = Inr ts \<Longrightarrow> ss = ts"
proof -
  assume "reader v p a = Inr ss" and "reader v q b = Inr ts"
  then show ?thesis by (simp add: accepts_iff)
qed

end

end
