(* ===== verification/Verification_Plan.thy ===== *)
theory Verification_Plan
  imports Contract_Tools
begin

text \<open>
  The transport contract of a verification plan (verification_plan.py): its shape, its
  vocabularies, its identity and what it may claim. A plan selects a verification level and
  says which evidence is enough to stop; the validator rejects a plan whose claim is wider than
  its selection.
\<close>

section \<open>Vocabulary and identity\<close>

definition PLAN_SCHEMA :: string where
  "PLAN_SCHEMA = ''mncs.verification-plan/1''"

definition NON_IDENTITY_PLAN_FIELDS :: "string list" where
  "NON_IDENTITY_PLAN_FIELDS = [''presentation_extension'', ''diagnostic_annotations'']"

definition VERIFICATION_LEVELS :: "string list" where
  "VERIFICATION_LEVELS =
     [''changed_item'', ''direct_dependents'', ''affected_subsystem'', ''repository_canonical'',
      ''family'']"

definition RISK_FLAGS :: "string list" where
  "RISK_FLAGS =
     [''abi_boundary'', ''effect_semantics'', ''high_connectivity'', ''public_contract'',
      ''shared_type'', ''truncated'', ''unknown_root'']"

definition GUARANTEE_DOMAINS :: "string list" where
  "GUARANTEE_DOMAINS =
     [''semantic'', ''parser_front_end'', ''type_system'', ''compiler'', ''runtime'',
      ''backend_portability'', ''integration'', ''family_contract'']"

definition IMPACT_CHANGE_KINDS :: "string list" where
  "IMPACT_CHANGE_KINDS =
     [''private_implementation'', ''public_contract'', ''shared_type'', ''parser_semantics'',
      ''type_system'', ''effect_capability'', ''abi'', ''runtime_semantics'', ''backend_lowering'',
      ''language_profile'', ''canonical_fixture'', ''cross_repository_contract'', ''unknown'']"

definition IMPACT_CLASSIFICATION_SCHEMA :: string where
  "IMPACT_CLASSIFICATION_SCHEMA = ''mncs.semantic-impact-classification/1''"

definition ESCALATION_REASONS :: "string list" where
  "ESCALATION_REASONS =
     [''abi_boundary_changed'', ''canonical_fixture_changed'', ''cross_repository_contract_changed'',
      ''cross_repository_graph_incomplete'', ''direct_dependents_affected'',
      ''dependent_targeted_test_failed'', ''effect_semantics_changed'',
      ''family_registry_coverage_incomplete'', ''high_connectivity_definition_changed'',
      ''impact_evidence_truncated'', ''language_profile_changed'', ''migration_broad_semantic_surface'',
      ''parser_semantics_changed'', ''public_contract_changed'', ''serialization_format_changed'',
      ''shared_type_changed'', ''test_selection_unresolved'', ''unknown_changed_identity'']"

definition REQUIRED_EVIDENCE :: "string list" where
  "REQUIRED_EVIDENCE =
     [''selected_test_cases_pass'', ''repository_canonical_suite_pass'',
      ''selected_consumer_proofs_pass'', ''family_verification_pass'']"

definition PROOF_BOUNDARIES :: "string list" where
  "PROOF_BOUNDARIES =
     [''changed_item'', ''direct_dependents'', ''affected_subsystem'', ''repository'',
      ''selected_repositories'', ''family'']"

definition ROUTING_SCOPES :: "string list" where
  "ROUTING_SCOPES = [''local'', ''selected_repositories'', ''family'']"

text \<open>The part of a plan that its identity is computed from.\<close>

definition plan_semantic_key :: "string \<Rightarrow> bool" where
  "plan_semantic_key k = (\<not> starts_with k ''_'' \<and> k \<notin> set NON_IDENTITY_PLAN_FIELDS)"

definition canonical_plan_bytes :: "dict \<Rightarrow> nat list" where
  "canonical_plan_bytes value =
     (let projection = filter (\<lambda>kv. plan_semantic_key (fst kv)) value
      in encode (JObj (AList.delete ''plan_id'' projection)))"

definition plan_identity :: "dict \<Rightarrow> string" where
  "plan_identity value = sha256_hexdigest (canonical_plan_bytes value)"

section \<open>Field readers\<close>

definition plan_reject :: "string \<Rightarrow> string \<Rightarrow> string \<Rightarrow> 'a res" where
  "plan_reject c p m = Inl (VerificationPlanError c p m)"

definition plan_guard :: "bool \<Rightarrow> string \<Rightarrow> string \<Rightarrow> string \<Rightarrow> unit res" where
  "plan_guard b c p m = guard b (VerificationPlanError c p m)"

definition plan_object :: "json \<Rightarrow> string \<Rightarrow> dict res" where
  "plan_object v p =
     (case v of JObj d \<Rightarrow> Inr d | _ \<Rightarrow> plan_reject ''TYPE_OBJECT'' p ''must be an object'')"

definition plan_string :: "json \<Rightarrow> string \<Rightarrow> bool \<Rightarrow> string res" where
  "plan_string v p sha256 =
     rbind (plan_guard (full_text v) ''TYPE_STRING'' p ''must be a non-empty string'') (\<lambda>_.
     rbind (plan_guard (sha256 \<longrightarrow> sha256_text (str_of v)) ''IDENTITY_INVALID'' p
              ''must be a lower-case SHA-256 hex identity'') (\<lambda>_.
       Inr (str_of v)))"

definition plan_strings :: "json \<Rightarrow> string \<Rightarrow> string list option \<Rightarrow> string list res" where
  "plan_strings v p vocabulary =
     (case text_items v of
        None \<Rightarrow> plan_reject ''TYPE_STRING_ARRAY'' p ''must be an array of non-empty strings''
      | Some result \<Rightarrow>
          rbind (plan_guard (distinct result) ''DUPLICATE_IDENTITY'' p ''must not contain duplicates'') (\<lambda>_.
            (case vocabulary of
               None \<Rightarrow> Inr result
             | Some ws \<Rightarrow>
                 let unknown = sorted_set (filter (\<lambda>s. s \<notin> set ws) result)
                 in if unknown \<noteq> [] then plan_reject ''VOCABULARY_UNKNOWN'' p (join '', '' unknown)
                    else Inr result)))"

definition plan_non_negative_int :: "json \<Rightarrow> string \<Rightarrow> int res" where
  "plan_non_negative_int v p =
     rbind (plan_guard (plain_int v \<and> int_of v \<ge> 0) ''INTEGER_INVALID'' p
              ''must be a non-negative integer'') (\<lambda>_. Inr (int_of v))"

definition plan_boolean :: "json \<Rightarrow> string \<Rightarrow> bool res" where
  "plan_boolean v p =
     rbind (plan_guard (is_bool v) ''TYPE_BOOLEAN'' p ''must be boolean'') (\<lambda>_. Inr (v = JBool True))"

section \<open>The cross-repository part\<close>

definition cross_edge :: "nat \<Rightarrow> json \<Rightarrow> string res" where
  "cross_edge index edge_value =
     (let p = ''impact.cross_repository.edges['' @ nat_str index @ '']''
      in rbind (plan_object edge_value p) (\<lambda>edge.
         rbind (rmapM (\<lambda>field. plan_string (dget edge field) (p @ ''.'' @ field) (field = ''fingerprint''))
                  [''producer_repository'', ''consumer_repository'', ''contract_identity'',
                   ''contract_revision'', ''provenance'', ''fingerprint'']) (\<lambda>_.
         rbind (plan_string (dget edge ''consuming_identity'') (p @ ''.consuming_identity'') False) (\<lambda>_.
           Inr (str_of (dget edge ''consumer_repository''))))))"

definition cross_status :: "dict \<Rightarrow> string \<Rightarrow> string list \<Rightarrow> unit res" where
  "cross_status coverage field ok =
     plan_guard (json_among (dget coverage field) ok) ''VOCABULARY_UNKNOWN''
       (''impact.cross_repository.coverage.'' @ field)
       (''unsupported coverage status '' @ py_repr (dget coverage field))"

definition cross_coverage :: "dict \<Rightarrow> unit res" where
  "cross_coverage coverage =
     rbind (plan_string (dget coverage ''registry_identity'')
              ''impact.cross_repository.coverage.registry_identity'' True) (\<lambda>_.
     rbind (rmapM (\<lambda>field. plan_non_negative_int (dget coverage field)
                             (''impact.cross_repository.coverage.'' @ field))
              [''registered_family_project_count'', ''classified_project_count'',
               ''semantic_graph_participant_count'', ''explicit_nonparticipant_count'',
               ''unclassified_project_count'']) (\<lambda>_.
     rbind (plan_strings (dget coverage ''unclassified_repositories'')
              ''impact.cross_repository.coverage.unclassified_repositories'' None) (\<lambda>_.
     rbind (cross_status coverage ''coverage_status'' [''complete'', ''incomplete'', ''not_requested'']) (\<lambda>_.
       cross_status coverage ''topology_status''
         [''complete'', ''complete_among_declared_participants'', ''incomplete'', ''unavailable'',
          ''not_requested'']))))"

text \<open>The result carries the one field of the part that is read later, \<open>complete\<close>.\<close>

definition cross_repository :: "json \<Rightarrow> bool res" where
  "cross_repository value =
     rbind (plan_object value ''impact.cross_repository'') (\<lambda>cross.
     rbind (plan_string (dget cross ''graph_identity'') ''impact.cross_repository.graph_identity'' True) (\<lambda>_.
     (case dget cross ''edges'' of
        JArr edges \<Rightarrow>
          rbind (each_entry cross_edge edges) (\<lambda>consumers.
          rbind (plan_strings (dget cross ''selected_repositories'')
                   ''impact.cross_repository.selected_repositories'' None) (\<lambda>selected.
          rbind (plan_boolean (dget cross ''complete'') ''impact.cross_repository.complete'') (\<lambda>complete.
          rbind (plan_strings (dget cross ''limitations'') ''impact.cross_repository.limitations'' None) (\<lambda>_.
          rbind (plan_guard (sorted_set consumers = sort selected) ''INVENTORY_MISMATCH''
                   ''impact.cross_repository.selected_repositories''
                   ''must equal the consumer repositories represented by edges'') (\<lambda>_.
          rbind (plan_object (dget cross ''coverage'') ''impact.cross_repository.coverage'') (\<lambda>coverage.
          rbind (cross_coverage coverage) (\<lambda>_.
            Inr complete)))))))
      | _ \<Rightarrow> plan_reject ''TYPE_ARRAY'' ''impact.cross_repository.edges'' ''must be an array'')))"

section \<open>The sections of a plan\<close>

definition check_source :: "json \<Rightarrow> dict res" where
  "check_source value =
     rbind (plan_object value ''source'') (\<lambda>source.
     rbind (plan_string (dget source ''path'') ''source.path'' False) (\<lambda>_.
     rbind (plan_string (dget source ''sha256'') ''source.sha256'' True) (\<lambda>_.
     rbind (rmapM (\<lambda>field. if has_key source field
                           then plan_string (dget source field) (''source.'' @ field)
                                  (field = ''subject_fingerprint'')
                           else Inr [])
              [''subject_identity'', ''subject_fingerprint'']) (\<lambda>_.
       Inr source))))"

text \<open>Whether the impact and its cross-repository part are complete.\<close>

definition check_impact :: "json \<Rightarrow> (bool \<times> bool) res" where
  "check_impact value =
     rbind (plan_object value ''impact'') (\<lambda>impact.
     rbind (plan_string (dget impact ''graph_identity'') ''impact.graph_identity'' True) (\<lambda>_.
     rbind (plan_strings (dget impact ''roots'') ''impact.roots'' None) (\<lambda>_.
     rbind (plan_non_negative_int (dget impact ''affected_count'') ''impact.affected_count'') (\<lambda>_.
     rbind (plan_strings (dget impact ''direct_dependents'') ''impact.direct_dependents'' None) (\<lambda>_.
     rbind (plan_strings (dget impact ''test_identities'') ''impact.test_identities'' None) (\<lambda>_.
     rbind (plan_strings (dget impact ''risk_flags'') ''impact.risk_flags'' (Some RISK_FLAGS)) (\<lambda>_.
     rbind (if has_key impact ''guarantee_domains''
            then plan_strings (dget impact ''guarantee_domains'') ''impact.guarantee_domains''
                   (Some GUARANTEE_DOMAINS)
            else Inr []) (\<lambda>_.
     rbind (if has_key impact ''change_kinds''
            then plan_strings (dget impact ''change_kinds'') ''impact.change_kinds''
                   (Some IMPACT_CHANGE_KINDS)
            else Inr []) (\<lambda>_.
     rbind (plan_guard
              (has_key impact ''classification_schema_version'' \<longrightarrow>
               dget impact ''classification_schema_version'' = JStr IMPACT_CLASSIFICATION_SCHEMA)
              ''SCHEMA_UNSUPPORTED'' ''impact.classification_schema_version''
              (''must be '' @ IMPACT_CLASSIFICATION_SCHEMA)) (\<lambda>_.
     rbind (plan_boolean (dget impact ''complete'') ''impact.complete'') (\<lambda>complete.
     rbind (plan_strings (dget impact ''limitations'') ''impact.limitations'' None) (\<lambda>_.
     rbind (cross_repository (dget impact ''cross_repository'')) (\<lambda>cross_complete.
       Inr (complete, cross_complete))))))))))))))"

record plan_selection =
  level :: string
  selected_tests :: "string list"
  available_tests :: int
  reasons :: "string list"
  selected_repos :: "string list"
  routing_scope :: string

text \<open>A plan that names no routing scope has the one its level and its repositories imply.\<close>

definition plan_routing_scope :: "json \<Rightarrow> string \<Rightarrow> string list \<Rightarrow> string res" where
  "plan_routing_scope value lvl repos =
     (if value = JNull
      then Inr (if lvl = ''family'' \<and> repos \<noteq> [] then ''selected_repositories''
                else if lvl = ''family'' then ''family'' else ''local'')
      else if json_among value ROUTING_SCOPES then Inr (str_of value)
      else plan_reject ''VOCABULARY_UNKNOWN'' ''selection.routing_scope'' ''unsupported routing scope'')"

definition check_selection :: "json \<Rightarrow> plan_selection res" where
  "check_selection value =
     rbind (plan_object value ''selection'') (\<lambda>selection.
     rbind (plan_guard (json_among (dget selection ''level'') VERIFICATION_LEVELS) ''VOCABULARY_UNKNOWN''
              ''selection.level'' ''unsupported verification level'') (\<lambda>_.
     let lvl = str_of (dget selection ''level'') in
     rbind (plan_strings (dget selection ''selected_test_identities'')
              ''selection.selected_test_identities'' None) (\<lambda>selected.
     rbind (plan_non_negative_int (dget selection ''available_test_count'')
              ''selection.available_test_count'') (\<lambda>available.
     rbind (plan_guard (int (length selected) \<le> available) ''INVENTORY_MISMATCH''
              ''selection.selected_test_identities'' ''selected count exceeds available test count'') (\<lambda>_.
     rbind (plan_strings (dget selection ''escalation_reasons'') ''selection.escalation_reasons''
              (Some ESCALATION_REASONS)) (\<lambda>why.
     rbind (plan_strings (dget selection ''selected_repositories'')
              ''selection.selected_repositories'' None) (\<lambda>repos.
     rbind (plan_non_negative_int (dget selection ''available_repository_count'')
              ''selection.available_repository_count'') (\<lambda>repository_count.
     rbind (plan_guard (int (length repos) \<le> repository_count) ''INVENTORY_MISMATCH''
              ''selection.selected_repositories'' ''selected count exceeds available repository count'') (\<lambda>_.
     rbind (plan_routing_scope (dget selection ''routing_scope'') lvl repos) (\<lambda>scope.
     rbind (plan_guard (scope = ''local'' \<longrightarrow> repos = []) ''ROUTING_SCOPE_INVALID''
              ''selection.routing_scope'' ''local routing cannot name selected repositories'') (\<lambda>_.
     rbind (plan_guard (scope = ''selected_repositories'' \<longrightarrow> repos \<noteq> []) ''ROUTING_SCOPE_INVALID''
              ''selection.selected_repositories''
              ''selected-repository routing requires at least one consumer'') (\<lambda>_.
     rbind (plan_guard (scope = ''family'' \<longrightarrow> lvl = ''family'') ''ROUTING_SCOPE_INVALID''
              ''selection.routing_scope'' ''family routing requires family verification level'') (\<lambda>_.
       Inr \<lparr>level = lvl, selected_tests = selected, available_tests = available, reasons = why,
            selected_repos = repos, routing_scope = scope\<rparr>)))))))))))))"

definition expected_scope :: "plan_selection \<Rightarrow> string" where
  "expected_scope sel =
     (if routing_scope sel = ''selected_repositories'' then ''selected_repositories''
      else if level sel = ''repository_canonical'' then ''repository'' else level sel)"

definition check_proof :: "json \<Rightarrow> plan_selection \<Rightarrow> unit res" where
  "check_proof value sel =
     rbind (plan_object value ''proof'') (\<lambda>pr.
     rbind (plan_boolean (dget pr ''sufficient_to_stop'') ''proof.sufficient_to_stop'') (\<lambda>sufficient.
     rbind (plan_strings (dget pr ''required_evidence'') ''proof.required_evidence''
              (Some REQUIRED_EVIDENCE)) (\<lambda>evidence.
     rbind (plan_object (dget pr ''boundary'') ''proof.boundary'') (\<lambda>boundary.
     rbind (plan_guard (json_among (dget boundary ''claimed_scope'') PROOF_BOUNDARIES) ''VOCABULARY_UNKNOWN''
              ''proof.boundary.claimed_scope'' ''unsupported proof boundary'') (\<lambda>_.
     rbind (plan_boolean (dget boundary ''established'') ''proof.boundary.established'') (\<lambda>established.
     rbind (plan_string (dget boundary ''executor'') ''proof.boundary.executor'' False) (\<lambda>_.
     rbind (plan_string (dget boundary ''stop_condition'') ''proof.boundary.stop_condition'' False) (\<lambda>stop_condition.
     rbind (plan_guard (stop_condition \<in> set evidence) ''PROOF_BOUNDARY_INVALID''
              ''proof.boundary.stop_condition'' ''must name one of proof.required_evidence'') (\<lambda>_.
     rbind (plan_guard (dget boundary ''claimed_scope'' = JStr (expected_scope sel)) ''PROOF_BOUNDARY_INVALID''
              ''proof.boundary.claimed_scope''
              (''must be '' @ expected_scope sel @ '' for selection level '' @ level sel)) (\<lambda>_.
     rbind (plan_guard (established = sufficient) ''PROOF_BOUNDARY_INVALID''
              ''proof.boundary.established'' ''must match proof.sufficient_to_stop'') (\<lambda>_.
     rbind (plan_guard (\<not> (level sel = ''family'' \<and> sufficient)) ''PROOF_BOUNDARY_INVALID''
              ''proof.sufficient_to_stop'' ''family routing evidence is not family proof'') (\<lambda>_.
     rbind (plan_guard (\<not> (level sel = ''family'' \<and> routing_scope sel = ''family'' \<and>
                             ''family_verification_pass'' \<notin> set evidence)) ''PROOF_BOUNDARY_INVALID''
              ''proof.required_evidence'' ''family plans require family_verification_pass'') (\<lambda>_.
       plan_guard (\<not> (routing_scope sel = ''selected_repositories'' \<and>
                       ''selected_consumer_proofs_pass'' \<notin> set evidence)) ''PROOF_BOUNDARY_INVALID''
         ''proof.required_evidence''
         ''selected-repository plans require selected_consumer_proofs_pass'')))))))))))))"

definition plan_provenance :: "json \<Rightarrow> unit res" where
  "plan_provenance value =
     rbind (plan_object value ''provenance'') (\<lambda>provenance.
     rbind (plan_string (dget provenance ''provider'') ''provenance.provider'' False) (\<lambda>_.
     rbind (plan_string (dget provenance ''policy'') ''provenance.policy'' False) (\<lambda>_. Inr ())))"

definition check_completeness :: "bool \<Rightarrow> bool \<Rightarrow> string list \<Rightarrow> unit res" where
  "check_completeness complete cross_complete why =
     rbind (plan_guard (complete \<or> ''impact_evidence_truncated'' \<in> set why \<or>
                        ''unknown_changed_identity'' \<in> set why)
              ''COMPLETENESS_REASON_MISSING'' ''selection.escalation_reasons''
              ''incomplete impact requires an explicit uncertainty reason'') (\<lambda>_.
       plan_guard (\<not> (\<not> cross_complete \<and> ''cross_repository_contract_changed'' \<in> set why \<and>
                       ''cross_repository_graph_incomplete'' \<notin> set why))
         ''COMPLETENESS_REASON_MISSING'' ''selection.escalation_reasons''
         ''incomplete cross-repository graph requires cross_repository_graph_incomplete'')"

text \<open>
  The source file a caller may bind the plan to: its bytes, and whether the path the plan
  declares resolves to it. The file system is not part of the program; \<open>None\<close> is a system
  error, whose text is left out.
\<close>

record current_source =
  source_bytes :: "nat list option"
  same_file :: "bool option"

definition check_binding :: "dict \<Rightarrow> current_source \<Rightarrow> unit res" where
  "check_binding source now =
     (case source_bytes now of
        None \<Rightarrow> plan_reject ''SOURCE_UNAVAILABLE'' ''source.path'' []
      | Some b \<Rightarrow>
          rbind (plan_guard (dget source ''sha256'' = JStr (sha256_hexdigest b)) ''SOURCE_STALE''
                   ''source.sha256'' ''does not match the current source'') (\<lambda>_.
            (case same_file now of
               None \<Rightarrow> plan_reject ''SOURCE_UNAVAILABLE'' ''source.path'' []
             | Some same \<Rightarrow> plan_guard same ''SOURCE_BINDING_MISMATCH'' ''source.path''
                              ''does not match the current source'')))"

definition check_inventory :: "plan_selection \<Rightarrow> string list \<Rightarrow> unit res" where
  "check_inventory sel inventory =
     (let missing = sorted_set (filter (\<lambda>t. t \<notin> set inventory) (selected_tests sel))
      in rbind (plan_guard (missing = []) ''INVENTORY_MISMATCH'' ''selection.selected_test_identities''
                  (join '', '' missing)) (\<lambda>_.
           plan_guard (available_tests sel = int (length (remdups inventory))) ''INVENTORY_MISMATCH''
             ''selection.available_test_count'' ''does not match the current inventory''))"

definition validate_plan ::
  "json \<Rightarrow> current_source option \<Rightarrow> string list option \<Rightarrow> dict res" where
  "validate_plan value now inventory =
     rbind (plan_object value ''<root>'') (\<lambda>pl.
     rbind (plan_guard (dget pl ''schema_version'' = JStr PLAN_SCHEMA) ''SCHEMA_UNSUPPORTED''
              ''schema_version'' (''must be '' @ PLAN_SCHEMA)) (\<lambda>_.
     rbind (plan_string (dget pl ''plan_id'') ''plan_id'' True) (\<lambda>plan_id.
     rbind (plan_guard (plan_id = plan_identity pl) ''IDENTITY_MISMATCH'' ''plan_id''
              ''does not match the canonical plan identity'') (\<lambda>_.
     rbind (check_source (dget pl ''source'')) (\<lambda>source.
     rbind (check_impact (dget pl ''impact'')) (\<lambda>(complete, cross_complete).
     rbind (check_selection (dget pl ''selection'')) (\<lambda>sel.
     rbind (check_proof (dget pl ''proof'') sel) (\<lambda>_.
     rbind (plan_provenance (dget pl ''provenance'')) (\<lambda>_.
     rbind (check_completeness complete cross_complete (reasons sel)) (\<lambda>_.
     rbind (case now of None \<Rightarrow> Inr () | Some s \<Rightarrow> check_binding source s) (\<lambda>_.
     rbind (case inventory of None \<Rightarrow> Inr () | Some i \<Rightarrow> check_inventory sel i) (\<lambda>_.
       Inr pl))))))))))))"

section \<open>What the readers accept\<close>

lemma plan_object_Inr [simp]: "plan_object v p = Inr d \<longleftrightarrow> v = JObj d"
  by (cases v) (auto simp: plan_object_def plan_reject_def)

lemma plan_guard_Inr [simp]: "plan_guard b c p m = Inr u \<longleftrightarrow> b"
  by (simp add: plan_guard_def)

lemma plan_reject_Inr [simp]: "plan_reject c p m \<noteq> Inr x"
  by (simp add: plan_reject_def)

lemma plan_string_Inr [simp]:
  "plan_string v p h = Inr s \<longleftrightarrow> v = JStr s \<and> s \<noteq> [] \<and> (h \<longrightarrow> sha256_text s)"
  by (auto simp: plan_string_def rbind_eq_Inr full_text_iff)

lemma plan_boolean_Inr [simp]: "plan_boolean v p = Inr b \<longleftrightarrow> v = JBool b"
  by (cases v) (auto simp: plan_boolean_def rbind_eq_Inr)

lemma plan_non_negative_int_Inr [simp]: "plan_non_negative_int v p = Inr n \<longleftrightarrow> v = JInt n \<and> n \<ge> 0"
  by (cases v) (auto simp: plan_non_negative_int_def rbind_eq_Inr)

lemma sorted_set_filter_Nil: "sorted_set (filter P xs) = [] \<longleftrightarrow> (\<forall>x \<in> set xs. \<not> P x)"
  by (metis (no_types, lifting) empty_filter_conv set_empty set_sorted_set)

lemma plan_strings_Inr:
  "plan_strings v p vocabulary = Inr ss \<longleftrightarrow>
   v = JArr (map JStr ss) \<and> [] \<notin> set ss \<and> distinct ss \<and>
   (\<forall>ws. vocabulary = Some ws \<longrightarrow> set ss \<subseteq> set ws)"
proof (cases "text_items v")
  case None
  then show ?thesis by (auto simp: plan_strings_def text_items_strs)
next
  case (Some ts)
  then have "v = JArr (map JStr ts)" "[] \<notin> set ts" by (auto simp: text_items_Some)
  then show ?thesis
    by (auto simp: plan_strings_def rbind_eq_Inr text_items_strs Let_def sorted_set_filter_Nil
             split: option.splits)
qed

interpretation plan_ids: identity_reader plan_strings
  by unfold_locales (simp_all add: plan_strings_Inr)

lemma check_selection_Inr:
  assumes "check_selection v = Inr sel"
  shows "at_path v [''level''] = JStr (level sel)"
    and "at_path v [''selected_test_identities''] = JArr (map JStr (selected_tests sel))"
    and "at_path v [''escalation_reasons''] = JArr (map JStr (reasons sel))"
    and "at_path v [''selected_repositories''] = JArr (map JStr (selected_repos sel))"
    and "routing_scope sel = ''local'' \<Longrightarrow> selected_repos sel = []"
    and "routing_scope sel = ''family'' \<Longrightarrow> level sel = ''family''"
    and "routing_scope sel \<in> set ROUTING_SCOPES"
  using assms
  by (auto simp: check_selection_def Let_def rbind_eq_Inr plan_ids.accepts_iff json_among_iff
      plan_routing_scope_def ROUTING_SCOPES_def split: if_splits)

lemma check_proof_Inr:
  assumes "check_proof v sel = Inr u"
  shows "at_path v [''boundary'', ''established''] = at_path v [''sufficient_to_stop'']"
    and "at_path v [''boundary'', ''claimed_scope''] = JStr (expected_scope sel)"
    and "at_path v [''boundary'', ''stop_condition''] \<in> set (arr_of (at_path v [''required_evidence'']))"
    and "level sel = ''family'' \<Longrightarrow> at_path v [''sufficient_to_stop''] = JBool False"
    and "routing_scope sel = ''selected_repositories'' \<Longrightarrow>
         JStr ''selected_consumer_proofs_pass'' \<in> set (arr_of (at_path v [''required_evidence'']))"
  using assms
  by (auto simp: check_proof_def rbind_eq_Inr plan_ids.accepts_iff json_among_iff)

lemma check_impact_Inr:
  "check_impact v = Inr (c, x) \<Longrightarrow> at_path v [''complete''] = JBool c"
  by (auto simp: check_impact_def rbind_eq_Inr)

lemma check_binding_Inr:
  "check_binding source now = Inr u \<Longrightarrow>
   \<exists>b. source_bytes now = Some b \<and> dget source ''sha256'' = JStr (sha256_hexdigest b) \<and>
       same_file now = Some True"
  by (auto simp: check_binding_def rbind_eq_Inr split: option.splits)

lemma check_inventory_Inr:
  "check_inventory sel inventory = Inr u \<Longrightarrow> set (selected_tests sel) \<subseteq> set inventory"
  by (auto simp: check_inventory_def Let_def rbind_eq_Inr sorted_set_filter_Nil)

lemma validate_plan_Inr:
  "validate_plan v now inventory = Inr p \<longleftrightarrow>
   v = JObj p \<and> dget p ''schema_version'' = JStr PLAN_SCHEMA \<and>
   dget p ''plan_id'' = JStr (plan_identity p) \<and>
   (\<exists>source c x sel.
      check_source (dget p ''source'') = Inr source \<and> check_impact (dget p ''impact'') = Inr (c, x) \<and>
      check_selection (dget p ''selection'') = Inr sel \<and> check_proof (dget p ''proof'') sel = Inr () \<and>
      plan_provenance (dget p ''provenance'') = Inr () \<and> check_completeness c x (reasons sel) = Inr () \<and>
      (\<forall>s. now = Some s \<longrightarrow> check_binding source s = Inr ()) \<and>
      (\<forall>i. inventory = Some i \<longrightarrow> check_inventory sel i = Inr ()))"
proof -
  have "sha256_text (plan_identity p)" by (simp add: plan_identity_def)
  moreover have "plan_identity p \<noteq> []"
    using calculation by (auto simp: sha256_text_def)
  ultimately show ?thesis
    unfolding validate_plan_def
    by (cases now; cases inventory) (auto simp: rbind_eq_Inr)
qed


text \<open>
  The fields the contract declares non-semantic do not matter: writing one into a plan changes neither the plan's identity nor whether validate_plan accepts it.
\<close>

theorem annotations_not_semantic:
  assumes "k \<in> set NON_IDENTITY_PLAN_FIELDS"
  shows "plan_identity (dset k note p) = plan_identity p \<and>
         (validate_plan (JObj (dset k note p)) now inventory = Inr (dset k note p) \<longleftrightarrow>
          validate_plan (JObj p) now inventory = Inr p)"
proof -
  have drop: "filter (\<lambda>kv. plan_semantic_key (fst kv)) (dset k note p) =
      filter (\<lambda>kv. plan_semantic_key (fst kv)) p"
    using assms by (induction p) (auto simp: plan_semantic_key_def)
  then have same: "plan_identity (dset k note p) = plan_identity p"
    by (simp add: plan_identity_def canonical_plan_bytes_def)
  have "dget (dset k note p) f = dget p f"
    if "f \<in> {''schema_version'', ''plan_id'', ''source'', ''impact'', ''selection'', ''proof'', ''provenance''}" for f
    using that assms by (auto simp: NON_IDENTITY_PLAN_FIELDS_def)
  with same show ?thesis by (simp add: validate_plan_Inr)
qed

section \<open>A plan that is accepted\<close>

lemma plan_identity_own_id: "plan_identity (dset ''plan_id'' v p) = plan_identity p"
proof -
  have "AList.delete ''plan_id'' (filter (\<lambda>kv. plan_semantic_key (fst kv)) (dset ''plan_id'' v p)) =
        AList.delete ''plan_id'' (filter (\<lambda>kv. plan_semantic_key (fst kv)) p)"
    by (induction p) (auto simp: AList.delete_eq)
  then show ?thesis by (simp add: plan_identity_def canonical_plan_bytes_def)
qed

definition sample_digest :: json where
  "sample_digest = JStr (replicate 64 CHR ''a'')"

definition sample_cross :: json where
  "sample_cross =
     JObj [(''graph_identity'', sample_digest),
           (''edges'', JArr [JObj
              [(''producer_repository'', JStr ''lib''), (''consumer_repository'', JStr ''app''),
               (''contract_identity'', JStr ''c''), (''contract_revision'', JStr ''1''),
               (''provenance'', JStr ''p''), (''fingerprint'', sample_digest),
               (''consuming_identity'', JStr ''main'')]]),
           (''selected_repositories'', JArr [JStr ''app'']), (''complete'', JBool True),
           (''limitations'', JArr []),
           (''coverage'', JObj
              [(''registry_identity'', sample_digest), (''registered_family_project_count'', JInt 2),
               (''classified_project_count'', JInt 2), (''semantic_graph_participant_count'', JInt 2),
               (''explicit_nonparticipant_count'', JInt 0), (''unclassified_project_count'', JInt 0),
               (''unclassified_repositories'', JArr []), (''coverage_status'', JStr ''complete''),
               (''topology_status'', JStr ''complete'')])]"

definition sample_impact :: json where
  "sample_impact =
     JObj [(''graph_identity'', sample_digest), (''roots'', JArr [JStr ''f'']), (''affected_count'', JInt 1),
           (''direct_dependents'', JArr []), (''test_identities'', JArr []), (''risk_flags'', JArr []),
           (''complete'', JBool False), (''limitations'', JArr []), (''cross_repository'', sample_cross)]"

definition sample_selection :: json where
  "sample_selection =
     JObj [(''level'', JStr ''affected_subsystem''), (''selected_test_identities'', JArr [JStr ''t'']),
           (''available_test_count'', JInt 1),
           (''escalation_reasons'', JArr [JStr ''unknown_changed_identity'']),
           (''selected_repositories'', JArr [JStr ''app'']), (''available_repository_count'', JInt 2),
           (''routing_scope'', JStr ''selected_repositories'')]"

definition sample_proof :: json where
  "sample_proof =
     JObj [(''sufficient_to_stop'', JBool True),
           (''required_evidence'', JArr [JStr ''selected_consumer_proofs_pass'']),
           (''boundary'', JObj
              [(''claimed_scope'', JStr ''selected_repositories''), (''established'', JBool True),
               (''executor'', JStr ''ravel''), (''stop_condition'', JStr ''selected_consumer_proofs_pass'')])]"

definition sample_plan_body :: dict where
  "sample_plan_body =
     [(''schema_version'', JStr PLAN_SCHEMA),
      (''source'', JObj [(''path'', JStr ''a.mncs''), (''sha256'', JStr (sha256_hexdigest []))]),
      (''impact'', sample_impact), (''selection'', sample_selection), (''proof'', sample_proof),
      (''provenance'', JObj [(''provider'', JStr ''ravel''), (''policy'', JStr ''p'')])]"

definition sample_plan :: dict where
  "sample_plan = dset ''plan_id'' (JStr (plan_identity sample_plan_body)) sample_plan_body"

definition sample_source :: current_source where
  "sample_source = \<lparr>source_bytes = Some [], same_file = Some True\<rparr>"

lemma sample_impact_ok: "check_impact sample_impact = Inr (False, True)"
  by code_simp

lemma sample_selection_ok:
  "check_selection sample_selection =
   Inr \<lparr>level = ''affected_subsystem'', selected_tests = [''t''], available_tests = 1,
        reasons = [''unknown_changed_identity''], selected_repos = [''app''],
        routing_scope = ''selected_repositories''\<rparr>"
  by code_simp

lemma sample_proof_ok:
  "check_proof sample_proof
     \<lparr>level = ''affected_subsystem'', selected_tests = [''t''], available_tests = 1,
      reasons = [''unknown_changed_identity''], selected_repos = [''app''],
      routing_scope = ''selected_repositories''\<rparr> = Inr ()"
  by code_simp

lemma sample_plan_accepted:
  "validate_plan (JObj sample_plan) (Some sample_source) (Some [''t'']) = Inr sample_plan"
proof -
  let ?sel = "\<lparr>level = ''affected_subsystem'', selected_tests = [''t''], available_tests = 1,
      reasons = [''unknown_changed_identity''], selected_repos = [''app''],
      routing_scope = ''selected_repositories''\<rparr>"
  let ?source = "[(''path'', JStr ''a.mncs''), (''sha256'', JStr (sha256_hexdigest []))]"
  have body: "dget sample_plan_body ''source'' = JObj ?source" "dget sample_plan_body ''impact'' = sample_impact"
    "dget sample_plan_body ''selection'' = sample_selection" "dget sample_plan_body ''proof'' = sample_proof"
    "dget sample_plan_body ''schema_version'' = JStr PLAN_SCHEMA"
    "dget sample_plan_body ''provenance'' = JObj [(''provider'', JStr ''ravel''), (''policy'', JStr ''p'')]"
    by (simp_all add: sample_plan_body_def)
  have source: "check_source (JObj ?source) = Inr ?source"
    using sha256_text_hexdigest [of "[]"]
    by (auto simp: check_source_def rbind_eq_Inr simp del: sha256_text_hexdigest) (auto simp: sha256_text_def)
  have "plan_provenance (JObj [(''provider'', JStr ''ravel''), (''policy'', JStr ''p'')]) = Inr ()"
    by (simp add: plan_provenance_def rbind_eq_Inr)
  moreover have "check_completeness False True (reasons ?sel) = Inr ()" by code_simp
  moreover have "check_binding ?source sample_source = Inr ()"
    by (simp add: check_binding_def sample_source_def rbind_eq_Inr)
  moreover have "check_inventory ?sel [''t''] = Inr ()" by code_simp
  ultimately show ?thesis
    unfolding validate_plan_Inr sample_plan_def
    using source sample_impact_ok sample_selection_ok sample_proof_ok
    by (simp add: body plan_identity_own_id) (rule exI [of _ False], simp, rule exI [of _ True], simp)
qed


theorem annotations_not_semantic_witness:
  "plan_identity (dset ''diagnostic_annotations'' JNull sample_plan) = plan_identity sample_plan \<and>
   validate_plan (JObj (dset ''diagnostic_annotations'' JNull sample_plan)) (Some sample_source) (Some [''t'']) =
     Inr (dset ''diagnostic_annotations'' JNull sample_plan)"
  using annotations_not_semantic [of "''diagnostic_annotations''" JNull sample_plan "Some sample_source" "Some [''t'']"]
    sample_plan_accepted
  by (simp add: NON_IDENTITY_PLAN_FIELDS_def)

end
