(* ===== verification/Obligation_Plan.thy ===== *)
theory Obligation_Plan
  imports Contract_Tools
begin

text \<open>
  The transport contract of obligations and their evidence (obligation_plan.py): the inventory
  of obligations a repository owns, the plan that selects some of them, and the evidence that
  lets a plan stop. The inventory is normalised field by field; a plan is checked against its
  own identity, and a plan that closes a whole repository against the evidence it carries.
\<close>

section \<open>Vocabulary\<close>

definition OBLIGATION_PLAN_SCHEMA :: string where
  "OBLIGATION_PLAN_SCHEMA = ''mncs.verification-obligation-plan/1''"

definition OBLIGATION_INVENTORY_SCHEMA :: string where
  "OBLIGATION_INVENTORY_SCHEMA = ''mncs-family.verification-obligation-inventory/v1''"

definition OBLIGATION_STATUSES :: "string list" where
  "OBLIGATION_STATUSES =
     [''required'', ''current'', ''new_execution_required'', ''stale'', ''contradictory'',
      ''selection_unresolved'', ''escalation_required'', ''not_selected'']"

definition LIFECYCLES :: "string list" where
  "LIFECYCLES = [''permanent'', ''transitional'', ''scheduled'', ''reference_only'', ''retired'']"

definition OBLIGATION_GUARANTEE_DOMAINS :: "string list" where
  "OBLIGATION_GUARANTEE_DOMAINS =
     [''semantic'', ''parser_front_end'', ''type_system'', ''compiler'', ''runtime'',
      ''backend_portability'', ''integration'', ''family_contract'']"

definition EVIDENCE_ROLES :: "string list" where
  "EVIDENCE_ROLES =
     [''canonical_regression'', ''conformance'', ''differential_oracle'', ''migration_parity'',
      ''pressure_reproducer'', ''historical_reference'']"

definition EXECUTOR_KINDS :: "string list" where
  "EXECUTOR_KINDS =
     [''native_first_class_test'', ''compile_experiment'', ''diagnostic_test'', ''backend_check'',
      ''differential_oracle'', ''migration_parity'', ''external_integration'']"

definition OBLIGATION_SCOPES :: "string list" where
  "OBLIGATION_SCOPES = [''local'', ''consumer'', ''family'', ''repository_canonical'']"

definition REPOSITORY_PLAN_SCOPES :: "string list" where
  "REPOSITORY_PLAN_SCOPES = [''source_module'', ''repository_canonical'']"

definition IDENTITY_LENGTH :: nat where
  "IDENTITY_LENGTH = 4096"

section \<open>Field readers\<close>

definition obl_reject :: "string \<Rightarrow> string \<Rightarrow> string \<Rightarrow> 'a res" where
  "obl_reject c p m = Inl (ObligationPlanError c p m)"

definition obl_guard :: "bool \<Rightarrow> string \<Rightarrow> string \<Rightarrow> string \<Rightarrow> unit res" where
  "obl_guard b c p m = guard b (ObligationPlanError c p m)"

definition obl_string :: "json \<Rightarrow> string \<Rightarrow> string res" where
  "obl_string v p =
     rbind (obl_guard (is_str v \<and> py_strip (str_of v) \<noteq> []) ''TYPE_STRING'' p
              ''must be a non-empty string'') (\<lambda>_.
     rbind (obl_guard (length (str_of v) \<le> IDENTITY_LENGTH) ''BOUND_EXCEEDED'' p
              ''string exceeds the contract bound'') (\<lambda>_.
       Inr (str_of v)))"

definition obl_strings :: "json \<Rightarrow> string \<Rightarrow> string list option \<Rightarrow> string list res" where
  "obl_strings v p vocabulary =
     (case text_items v of
        None \<Rightarrow> obl_reject ''TYPE_STRING_ARRAY'' p ''must be an array of non-empty strings''
      | Some result \<Rightarrow>
          rbind (obl_guard (distinct result) ''DUPLICATE_IDENTITY'' p ''must not contain duplicates'') (\<lambda>_.
            (case vocabulary of
               None \<Rightarrow> Inr result
             | Some ws \<Rightarrow>
                 let unknown = sorted_set (filter (\<lambda>s. s \<notin> set ws) result)
                 in if unknown \<noteq> [] then obl_reject ''VOCABULARY_UNKNOWN'' p (join '', '' unknown)
                    else Inr result)))"

definition obl_object :: "json \<Rightarrow> string \<Rightarrow> dict res" where
  "obl_object v p =
     (case v of JObj d \<Rightarrow> Inr d | _ \<Rightarrow> obl_reject ''TYPE_OBJECT'' p ''must be an object'')"

definition obl_positive_int :: "json \<Rightarrow> string \<Rightarrow> int res" where
  "obl_positive_int v p =
     rbind (obl_guard (plain_int v \<and> int_of v \<ge> 1) ''INTEGER_INVALID'' p
              ''must be a positive integer'') (\<lambda>_. Inr (int_of v))"

definition obl_optional_strings :: "json \<Rightarrow> string \<Rightarrow> string list res" where
  "obl_optional_strings v p = (if v = JNull then Inr [] else obl_strings v p None)"

definition obl_ordered_strings :: "json \<Rightarrow> string \<Rightarrow> string list res" where
  "obl_ordered_strings v p =
     (case text_items v of
        Some (s # ss) \<Rightarrow>
          rbind (obl_guard (length (s # ss) \<le> 16) ''BOUND_EXCEEDED'' p ''must contain at most 16 arguments'')
            (\<lambda>_. Inr (s # ss))
      | _ \<Rightarrow> obl_reject ''TYPE_ARRAY'' p ''must be a non-empty array of non-empty strings'')"

text \<open>\<open>value not in VOCABULARY\<close> with a message that quotes the value.\<close>

definition obl_vocabulary :: "json \<Rightarrow> string list \<Rightarrow> string \<Rightarrow> string \<Rightarrow> string res" where
  "obl_vocabulary v ws p what =
     rbind (obl_guard (json_among v ws) ''VOCABULARY_UNKNOWN'' p (''unsupported '' @ what @ '' '' @ py_repr v))
       (\<lambda>_. Inr (str_of v))"

abbreviation strs :: "string list \<Rightarrow> json" where
  "strs ss \<equiv> JArr (map JStr ss)"

text \<open>\<open>if field in document: result[field] = read(document[field], path.field)\<close>.\<close>

definition opt_fields ::
  "(json \<Rightarrow> string \<Rightarrow> json res) \<Rightarrow> dict \<Rightarrow> string \<Rightarrow> string list \<Rightarrow> dict res" where
  "opt_fields read d p keys =
     rmapM (\<lambda>field. rbind (read (dget d field) (p @ ''.'' @ field)) (\<lambda>v. Inr (field, v)))
       (filter (has_key d) keys)"

text \<open>\<open>if document.get(field) is not None: result[field] = read(document[field], path.field)\<close>.\<close>

definition set_fields ::
  "(json \<Rightarrow> string \<Rightarrow> json res) \<Rightarrow> dict \<Rightarrow> string \<Rightarrow> string list \<Rightarrow> dict res" where
  "set_fields read d p keys =
     rmapM (\<lambda>field. rbind (read (dget d field) (p @ ''.'' @ field)) (\<lambda>v. Inr (field, v)))
       (filter (\<lambda>field. dget d field \<noteq> JNull) keys)"

definition read_string :: "json \<Rightarrow> string \<Rightarrow> json res" where
  "read_string v p = rbind (obl_string v p) (\<lambda>s. Inr (JStr s))"

definition read_strings :: "json \<Rightarrow> string \<Rightarrow> json res" where
  "read_strings v p = rbind (obl_strings v p None) (\<lambda>ss. Inr (strs ss))"

section \<open>Executors\<close>

definition grant_byte :: "string \<Rightarrow> nat \<Rightarrow> json \<Rightarrow> json res" where
  "grant_byte item_path byte_index byte =
     rbind (obl_guard (plain_int byte \<and> 0 \<le> int_of byte \<and> int_of byte \<le> 255) ''INTEGER_INVALID''
              (item_path @ ''.bytes['' @ nat_str byte_index @ '']'') ''must be between 0 and 255'') (\<lambda>_.
       Inr byte)"

definition grant_item ::
  "string \<Rightarrow> (string \<times> string) list \<times> json list \<Rightarrow> nat \<times> json \<Rightarrow>
   ((string \<times> string) list \<times> json list) res" where
  "grant_item grant_path acc indexed =
     (let item_path = grant_path @ ''.grants['' @ nat_str (fst indexed) @ '']''
      in rbind (obl_object (snd indexed) item_path) (\<lambda>item.
         rbind (obl_guard (set (map fst item) \<subseteq> {''capability'', ''locator'', ''bytes''}) ''FIELD_INVALID''
                  item_path ''contains an unsupported grant field'') (\<lambda>_.
         rbind (obl_string (dget item ''capability'') (item_path @ ''.capability'')) (\<lambda>capability.
         let locator_value = dget_default item ''locator'' (JStr []) in
         rbind (obl_guard (is_str locator_value \<and> length (str_of locator_value) \<le> IDENTITY_LENGTH)
                  ''TYPE_STRING'' (item_path @ ''.locator'') ''must be a bounded string'') (\<lambda>_.
         let locator = str_of locator_value in
         (case dget_default item ''bytes'' (JArr []) of
            JArr raw_bytes \<Rightarrow>
              rbind (obl_guard (length raw_bytes \<le> 4096) ''TYPE_ARRAY'' (item_path @ ''.bytes'')
                       ''must be a bounded byte array'') (\<lambda>_.
              rbind (each_entry (grant_byte item_path) raw_bytes) (\<lambda>byte_values.
              rbind (obl_guard ((capability, locator) \<notin> set (fst acc)) ''DUPLICATE_IDENTITY'' item_path
                       ''duplicate capability and locator'') (\<lambda>_.
                Inr ((capability, locator) # fst acc,
                     snd acc @ [JObj [(''capability'', JStr capability), (''locator'', JStr locator),
                                      (''bytes'', JArr byte_values)]]))))
          | _ \<Rightarrow> obl_reject ''TYPE_ARRAY'' (item_path @ ''.bytes'') ''must be a bounded byte array''))))))"

definition grant_set ::
  "string \<Rightarrow> string list \<times> json list \<Rightarrow> nat \<times> json \<Rightarrow> (string list \<times> json list) res" where
  "grant_set path acc indexed =
     (let grant_path = path @ ''.host_grants['' @ nat_str (fst indexed) @ '']''
      in rbind (obl_object (snd indexed) grant_path) (\<lambda>gs.
         rbind (obl_guard (set (map fst gs) = {''test_case_identity'', ''grants''}) ''FIELD_INVALID'' grant_path
                  ''must contain only test_case_identity and grants'') (\<lambda>_.
         rbind (obl_string (dget gs ''test_case_identity'') (grant_path @ ''.test_case_identity'')) (\<lambda>test_identity.
         rbind (obl_guard (test_identity \<notin> set (fst acc)) ''DUPLICATE_IDENTITY''
                  (grant_path @ ''.test_case_identity'') ''must be unique'') (\<lambda>_.
         (case dget gs ''grants'' of
            JArr (g # raw_grants) \<Rightarrow>
              rbind (rfoldM (grant_item grant_path) ([], []) (enumerate 0 (g # raw_grants))) (\<lambda>grants.
                Inr (test_identity # fst acc,
                     snd acc @ [JObj [(''test_case_identity'', JStr test_identity),
                                      (''grants'', JArr (snd grants))]]))
          | _ \<Rightarrow> obl_reject ''TYPE_ARRAY'' (grant_path @ ''.grants'') ''must be a non-empty array''))))))"

definition executor_timeout :: "dict \<Rightarrow> string \<Rightarrow> dict res" where
  "executor_timeout executor path =
     (if has_key executor ''timeout_seconds'' then
        rbind (obl_guard (plain_int (dget executor ''timeout_seconds'') \<and>
                          1 \<le> int_of (dget executor ''timeout_seconds'') \<and>
                          int_of (dget executor ''timeout_seconds'') \<le> 3600) ''INTEGER_INVALID''
                 (path @ ''.timeout_seconds'') ''must be between 1 and 3600'') (\<lambda>_.
          Inr [(''timeout_seconds'', dget executor ''timeout_seconds'')])
      else Inr [])"

definition executor_grants :: "dict \<Rightarrow> string \<Rightarrow> dict res" where
  "executor_grants executor path =
     (if has_key executor ''host_grants'' then
        (case dget executor ''host_grants'' of
           JArr raw_grant_sets \<Rightarrow>
             rbind (rfoldM (grant_set path) ([], []) (enumerate 0 raw_grant_sets)) (\<lambda>sets.
               Inr [(''host_grants'', JArr (snd sets))])
         | _ \<Rightarrow> obl_reject ''TYPE_ARRAY'' (path @ ''.host_grants'') ''must be an array'')
      else Inr [])"

definition validate_executor :: "json \<Rightarrow> string \<Rightarrow> dict res" where
  "validate_executor value path =
     rbind (obl_object value path) (\<lambda>executor.
     rbind (obl_string (dget executor ''provider'') (path @ ''.provider'')) (\<lambda>provider.
     rbind (obl_vocabulary (dget executor ''kind'') EXECUTOR_KINDS (path @ ''.kind'') ''executor kind'') (\<lambda>kind.
     rbind (obl_string (dget executor ''entrypoint'') (path @ ''.entrypoint'')) (\<lambda>entrypoint.
     rbind (opt_fields read_strings executor path
              [''declaration_identities'', ''test_case_identities'', ''source_paths'', ''library_paths'']) (\<lambda>arrays.
     rbind (opt_fields read_string executor path
              [''verifier_identity'', ''target_identity'', ''working_directory'']) (\<lambda>texts.
     rbind (opt_fields (\<lambda>v p. rbind (obl_ordered_strings v p) (\<lambda>ss. Inr (strs ss))) executor path
              [''argv'']) (\<lambda>argv.
     rbind (executor_timeout executor path) (\<lambda>timeout.
     rbind (executor_grants executor path) (\<lambda>grants.
       Inr ([(''provider'', JStr provider), (''kind'', JStr kind), (''entrypoint'', JStr entrypoint)] @
            arrays @ texts @ argv @ timeout @ grants))))))))))"

section \<open>The inventory\<close>

definition validate_evidence_identity :: "json \<Rightarrow> string \<Rightarrow> dict res" where
  "validate_evidence_identity value path =
     rbind (obl_object value path) (\<lambda>evidence.
       rmapM (\<lambda>field. rbind (read_strings (dget evidence field) (path @ ''.'' @ field)) (\<lambda>v. Inr (field, v)))
         [''subject_fields'', ''definition_fields'', ''execution_fields''])"

definition inventory_backend :: "dict \<Rightarrow> string \<Rightarrow> dict res" where
  "inventory_backend item path =
     (if has_key item ''backend_requirements'' then
        rbind (obl_object (dget item ''backend_requirements'') (path @ ''.backend_requirements'')) (\<lambda>backend.
        rbind (opt_fields (\<lambda>v p. rbind (obl_optional_strings v p) (\<lambda>ss. Inr (strs ss))) backend
                 (path @ ''.backend_requirements'') [''profiles'', ''runtimes'', ''backends'']) (\<lambda>keys.
          Inr [(''backend_requirements'', JObj keys)]))
      else Inr [])"

definition inventory_retirement :: "dict \<Rightarrow> string \<Rightarrow> dict res" where
  "inventory_retirement item path =
     (if has_key item ''retirement'' then
        rbind (obl_object (dget item ''retirement'') (path @ ''.retirement'')) (\<lambda>retirement.
        let keep = dget retirement ''retain_as'' in
        rbind (in_set keep [''delete'', ''reference_only'', ''scheduled'']) (\<lambda>known.
        rbind (obl_guard known ''VOCABULARY_UNKNOWN'' (path @ ''.retirement.retain_as'')
                 (''unsupported disposition '' @ py_repr keep)) (\<lambda>_.
        rbind (obl_string (dget retirement ''trigger'') (path @ ''.retirement.trigger'')) (\<lambda>trigger.
        rbind (set_fields read_string retirement (path @ ''.retirement'') [''replacement'']) (\<lambda>replacement.
          Inr [(''retirement'', JObj ([(''trigger'', JStr trigger), (''retain_as'', keep)] @ replacement))])))))
      else Inr [])"

definition validate_inventory_obligation :: "nat \<Rightarrow> json \<Rightarrow> dict res" where
  "validate_inventory_obligation index value =
     (let path = ''obligations['' @ nat_str index @ '']'' in
     rbind (obl_object value path) (\<lambda>item.
     rbind (obl_string (dget item ''identity'') (path @ ''.identity'')) (\<lambda>identity.
     rbind (obl_vocabulary (dget item ''guarantee_domain'') OBLIGATION_GUARANTEE_DOMAINS
              (path @ ''.guarantee_domain'') ''domain'') (\<lambda>domain.
     rbind (obl_vocabulary (dget item ''evidence_role'') EVIDENCE_ROLES (path @ ''.evidence_role'')
              ''evidence role'') (\<lambda>role.
     rbind (obl_vocabulary (dget item ''lifecycle'') LIFECYCLES (path @ ''.lifecycle'') ''lifecycle'') (\<lambda>life.
     rbind (obl_vocabulary (dget item ''scope'') OBLIGATION_SCOPES (path @ ''.scope'') ''scope'') (\<lambda>scope.
     rbind (obl_string (dget_default item ''title'' (JStr identity)) (path @ ''.title'')) (\<lambda>title.
     rbind (obl_strings (dget item ''subjects'') (path @ ''.subjects'') None) (\<lambda>subjects.
     rbind (obl_strings (dget item ''invalidation_dependencies'') (path @ ''.invalidation_dependencies'')
              None) (\<lambda>invalidation.
     rbind (validate_executor (dget item ''executor'') (path @ ''.executor'')) (\<lambda>executor.
     rbind (validate_evidence_identity (dget item ''evidence_identity'') (path @ ''.evidence_identity'')) (\<lambda>evidence.
     rbind (inventory_backend item path) (\<lambda>backend.
     rbind (inventory_retirement item path) (\<lambda>retirement.
     rbind (set_fields read_string item path [''notes'']) (\<lambda>notes.
       Inr ([(''identity'', JStr identity), (''title'', JStr title), (''guarantee_domain'', JStr domain),
             (''evidence_role'', JStr role), (''lifecycle'', JStr life), (''scope'', JStr scope),
             (''subjects'', strs subjects), (''invalidation_dependencies'', strs invalidation),
             (''executor'', JObj executor), (''evidence_identity'', JObj evidence)] @
            backend @ retirement @ notes))))))))))))))))"

definition validate_inventory :: "json \<Rightarrow> string option \<Rightarrow> dict res" where
  "validate_inventory value repository =
     rbind (obl_object value ''<root>'') (\<lambda>root.
     rbind (obl_guard (dget root ''schema_version'' = JStr OBLIGATION_INVENTORY_SCHEMA) ''SCHEMA_UNSUPPORTED''
              ''schema_version'' (''must be '' @ OBLIGATION_INVENTORY_SCHEMA)) (\<lambda>_.
     rbind (obl_string (dget root ''repository'') ''repository'') (\<lambda>inventory_repository.
     rbind (case repository of
              None \<Rightarrow> Inr ()
            | Some r \<Rightarrow> obl_guard (inventory_repository = r) ''REPOSITORY_MISMATCH'' ''repository'' (''must be '' @ r)) (\<lambda>_.
     rbind (obl_positive_int (dget root ''revision'') ''revision'') (\<lambda>revision.
     (case dget root ''obligations'' of
        JArr raw_obligations \<Rightarrow>
          rbind (each_entry validate_inventory_obligation raw_obligations) (\<lambda>obligations.
          rbind (obl_guard (distinct (map (\<lambda>o'. dget o' ''identity'') obligations)) ''DUPLICATE_IDENTITY''
                   ''obligations'' ''obligation identities must be unique'') (\<lambda>_.
            Inr [(''schema_version'', JStr OBLIGATION_INVENTORY_SCHEMA),
                 (''repository'', JStr inventory_repository), (''revision'', JInt revision),
                 (''obligations'', JArr (map JObj obligations))]))
      | _ \<Rightarrow> obl_reject ''TYPE_ARRAY'' ''obligations'' ''must be an array''))))))"

definition inventory_identity :: "dict \<Rightarrow> string" where
  "inventory_identity value = sha256_hexdigest (encode (JObj value))"

section \<open>Plans\<close>

definition canonical_plan_projection :: "dict \<Rightarrow> dict" where
  "canonical_plan_projection value = AList.delete ''obligation_plan_id'' value"

definition obligation_plan_identity :: "dict \<Rightarrow> string" where
  "obligation_plan_identity value = sha256_hexdigest (encode (JObj (canonical_plan_projection value)))"

definition evidence_fields :: "string list" where
  "evidence_fields =
     [''obligation_identity'', ''repository_identity'', ''repository_revision'',
      ''repository_fingerprint'', ''subject_identity'', ''subject_fingerprint'', ''definition_identity'',
      ''executor_identity'', ''verifier_identity'', ''invalidation_identity'', ''reason'']"

definition validate_evidence :: "nat \<Rightarrow> json \<Rightarrow> dict res" where
  "validate_evidence index value =
     (let path = ''evidence['' @ nat_str index @ '']'' in
      rbind (obl_object value path) (\<lambda>evidence.
      rbind (in_set (dget evidence ''status'') [''PASS'', ''FAIL'', ''UNKNOWN'']) (\<lambda>known.
      rbind (obl_guard known ''VOCABULARY_UNKNOWN'' (path @ ''.status'')
               (''unsupported evidence status '' @ py_repr (dget evidence ''status''))) (\<lambda>_.
      rbind (obl_string (dget evidence ''evidence_identity'') (path @ ''.evidence_identity'')) (\<lambda>identity.
      rbind (set_fields read_string evidence path evidence_fields) (\<lambda>texts.
        Inr ([(''status'', dget evidence ''status''), (''evidence_identity'', JStr identity)] @ texts)))))))"

definition selected_fields :: "string list" where
  "selected_fields =
     [''definition_identity'', ''subject_identity'', ''subject_fingerprint'', ''executor_identity'',
      ''verifier_identity'', ''invalidation_identity'']"

definition validate_selected :: "nat \<Rightarrow> json \<Rightarrow> dict res" where
  "validate_selected index value =
     (let path = ''obligations['' @ nat_str index @ '']'' in
      rbind (obl_object value path) (\<lambda>item.
      rbind (obl_vocabulary (dget item ''status'') OBLIGATION_STATUSES (path @ ''.status'') ''status'') (\<lambda>status.
      rbind (obl_vocabulary (dget item ''lifecycle'') LIFECYCLES (path @ ''.lifecycle'') ''lifecycle'') (\<lambda>life.
      rbind (obl_vocabulary (dget item ''guarantee_domain'') OBLIGATION_GUARANTEE_DOMAINS
               (path @ ''.guarantee_domain'') ''domain'') (\<lambda>domain.
      rbind (obl_vocabulary (dget item ''evidence_role'') EVIDENCE_ROLES (path @ ''.evidence_role'')
               ''evidence role'') (\<lambda>role.
      rbind (obl_string (dget item ''identity'') (path @ ''.identity'')) (\<lambda>identity.
      rbind (obl_string (dget item ''reason'') (path @ ''.reason'')) (\<lambda>reason.
      rbind (obl_strings (dget_default item ''evidence_identities'' (JArr []))
               (path @ ''.evidence_identities'') None) (\<lambda>evidence.
      rbind (obl_strings (dget_default item ''test_case_identities'' (JArr []))
               (path @ ''.test_case_identities'') None) (\<lambda>tests.
      let scope = dget_default item ''scope'' (JStr ''local'') in
      rbind (obl_guard (json_among scope OBLIGATION_SCOPES) ''VOCABULARY_UNKNOWN'' (path @ ''.scope'')
               ''unsupported scope'') (\<lambda>_.
      rbind (set_fields read_string item path selected_fields) (\<lambda>texts.
      rbind (if dget item ''executor'' = JNull then Inr []
             else rbind (validate_executor (dget item ''executor'') (path @ ''.executor'')) (\<lambda>e.
                    Inr [(''executor'', JObj e)])) (\<lambda>executor.
        Inr ([(''identity'', JStr identity), (''scope'', scope), (''status'', JStr status),
              (''lifecycle'', JStr life), (''guarantee_domain'', JStr domain), (''evidence_role'', JStr role),
              (''reason'', JStr reason), (''evidence_identities'', strs evidence),
              (''test_case_identities'', strs tests)] @ texts @ executor))))))))))))))"

definition plan_impact :: "json \<Rightarrow> unit res" where
  "plan_impact value =
     (if value = JNull then Inr ()
      else
        rbind (obl_object value ''impact'') (\<lambda>impact.
        rbind (obl_strings (dget_default impact ''guarantee_domains'' (JArr [])) ''impact.guarantee_domains''
                 (Some OBLIGATION_GUARANTEE_DOMAINS)) (\<lambda>_.
        rbind (obl_strings (dget_default impact ''change_kinds'' (JArr [])) ''impact.change_kinds'' None) (\<lambda>_.
        rbind (obl_strings (dget_default impact ''roots'' (JArr [])) ''impact.roots'' None) (\<lambda>_.
          Inr ())))))"

definition plan_head :: "dict \<Rightarrow> unit res" where
  "plan_head root =
     rbind (obl_guard (dget root ''schema_version'' = JStr OBLIGATION_PLAN_SCHEMA) ''SCHEMA_UNSUPPORTED''
              ''schema_version'' (''must be '' @ OBLIGATION_PLAN_SCHEMA)) (\<lambda>_.
     rbind (obl_string (dget root ''obligation_plan_id'') ''obligation_plan_id'') (\<lambda>plan_id.
     rbind (obl_guard (plan_id = obligation_plan_identity root) ''IDENTITY_MISMATCH'' ''obligation_plan_id''
              ''does not match canonical identity'') (\<lambda>_.
     rbind (obl_string (dget root ''verification_plan_id'') ''verification_plan_id'') (\<lambda>_.
     rbind (obl_object (dget root ''source'') ''source'') (\<lambda>source.
     rbind (obl_string (dget source ''path'') ''source.path'') (\<lambda>_.
     rbind (obl_string (dget source ''sha256'') ''source.sha256'') (\<lambda>_.
     rbind (obl_string (dget root ''impact_identity'') ''impact_identity'') (\<lambda>_.
     rbind (plan_impact (dget root ''impact'')) (\<lambda>_.
     rbind (obl_object (dget root ''inventory'') ''inventory'') (\<lambda>inventory.
     rbind (obl_string (dget inventory ''repository'') ''inventory.repository'') (\<lambda>_.
     rbind (obl_string (dget inventory ''identity'') ''inventory.identity'') (\<lambda>_.
     rbind (obl_positive_int (dget inventory ''revision'') ''inventory.revision'') (\<lambda>_.
       Inr ())))))))))))))"

text \<open>What a plan says of the repository it closes over.\<close>

record repository_part =
  repo_fields :: dict
  repo_scope :: string
  repo_complete :: bool
  repo_required :: "string list"
  repo_selected :: "string list"
  repo_missing :: "string list"

definition source_inventory :: "nat \<Rightarrow> json \<Rightarrow> unit res" where
  "source_inventory index value =
     (let path = ''repository.compiler_test_inventories['' @ nat_str index @ '']'' in
      rbind (obl_object value path) (\<lambda>inventory.
      rbind (obl_string (dget inventory ''path'') (path @ ''.path'')) (\<lambda>_.
      rbind (obl_guard (dget inventory ''scope'' = JStr ''source_module'') ''PROOF_BOUNDARY_INVALID''
               (path @ ''.scope'') ''compiler test inventories remain source_module scoped'') (\<lambda>_.
      rbind (obl_string (dget inventory ''identity'') (path @ ''.identity'')) (\<lambda>_.
      rbind (obl_strings (dget inventory ''test_case_identities'') (path @ ''.test_case_identities'') None) (\<lambda>_.
        Inr ()))))))"

definition plan_repository :: "json \<Rightarrow> repository_part option res" where
  "plan_repository value =
     (if value = JNull then Inr None
      else
        rbind (obl_object value ''repository'') (\<lambda>repository.
        rbind (rmapM (\<lambda>field. obl_string (dget repository field) (''repository.'' @ field))
                 [''identity'', ''revision'', ''fingerprint'', ''inventory_identity'']) (\<lambda>_.
        rbind (obl_guard (json_among (dget repository ''scope'') REPOSITORY_PLAN_SCOPES) ''VOCABULARY_UNKNOWN''
                 ''repository.scope'' ''unsupported repository proof scope'') (\<lambda>_.
        rbind (obl_guard (is_bool (dget repository ''complete'')) ''TYPE_BOOLEAN'' ''repository.complete''
                 ''must be boolean'') (\<lambda>_.
        rbind (obl_strings (dget repository ''required_obligation_identities'')
                 ''repository.required_obligation_identities'' None) (\<lambda>required.
        rbind (obl_strings (dget repository ''selected_obligation_identities'')
                 ''repository.selected_obligation_identities'' None) (\<lambda>selected.
        rbind (obl_strings (dget repository ''missing_obligation_identities'')
                 ''repository.missing_obligation_identities'' None) (\<lambda>missing.
        (case dget_default repository ''compiler_test_inventories'' (JArr []) of
           JArr inventories \<Rightarrow>
             rbind (each_entry source_inventory inventories) (\<lambda>_.
             rbind (obl_guard (sorted_set (filter (\<lambda>r. r \<notin> set selected) required) = sort missing)
                      ''INVENTORY_MISMATCH'' ''repository.missing_obligation_identities''
                      ''must equal the declared required identities absent from the selected set'') (\<lambda>_.
             rbind (obl_guard (\<not> (dget repository ''complete'' = JBool True \<and>
                                   (missing \<noteq> [] \<or> required \<noteq> selected)))
                      ''PROOF_BOUNDARY_INVALID'' ''repository.complete''
                      ''complete closure must select every declared repository obligation'') (\<lambda>_.
               Inr (Some \<lparr>repo_fields = repository, repo_scope = str_of (dget repository ''scope''),
                          repo_complete = (dget repository ''complete'' = JBool True),
                          repo_required = required, repo_selected = selected, repo_missing = missing\<rparr>))))
         | _ \<Rightarrow> obl_reject ''TYPE_ARRAY'' ''repository.compiler_test_inventories'' ''must be an array'')))))))))"

definition plan_obligations :: "json \<Rightarrow> dict list res" where
  "plan_obligations value =
     (case value of
        JArr obligations \<Rightarrow>
          rbind (each_entry validate_selected obligations) (\<lambda>normalized.
          rbind (obl_guard (distinct (map (\<lambda>o'. dget o' ''identity'') normalized)) ''DUPLICATE_IDENTITY''
                   ''obligations'' ''selected identities must be unique'') (\<lambda>_.
            Inr normalized))
      | _ \<Rightarrow> obl_reject ''TYPE_ARRAY'' ''obligations'' ''must be an array'')"

definition excluded_entry :: "nat \<Rightarrow> json \<Rightarrow> unit res" where
  "excluded_entry index item =
     (let path = ''excluded['' @ nat_str index @ '']'' in
      rbind (obl_object item path) (\<lambda>entry.
      rbind (obl_string (dget entry ''identity'') (path @ ''.identity'')) (\<lambda>_.
      rbind (obl_guard (json_among (dget entry ''lifecycle'') LIFECYCLES) ''VOCABULARY_UNKNOWN''
               (path @ ''.lifecycle'') ''unsupported lifecycle'') (\<lambda>_.
      rbind (obl_string (dget entry ''reason'') (path @ ''.reason'')) (\<lambda>_. Inr ())))))"

definition plan_excluded :: "json \<Rightarrow> unit res" where
  "plan_excluded value =
     (case value of
        JNull \<Rightarrow> Inr ()
      | JArr excluded \<Rightarrow> rbind (each_entry excluded_entry excluded) (\<lambda>_. Inr ())
      | _ \<Rightarrow> obl_reject ''TYPE_ARRAY'' ''excluded'' ''must be an array'')"

definition plan_evidence :: "json \<Rightarrow> dict list res" where
  "plan_evidence value =
     (case value of
        JArr evidence \<Rightarrow> each_entry validate_evidence evidence
      | _ \<Rightarrow> obl_reject ''TYPE_ARRAY'' ''evidence'' ''must be an array'')"

definition plan_stop :: "json \<Rightarrow> (bool \<times> string list) res" where
  "plan_stop value =
     rbind (obl_object value ''stop'') (\<lambda>stop.
     rbind (obl_guard (is_bool (dget stop ''sufficient_to_stop'')) ''TYPE_BOOLEAN'' ''stop.sufficient_to_stop''
              ''must be boolean'') (\<lambda>_.
     rbind (obl_strings (dget stop ''required_obligation_identities'') ''stop.required_obligation_identities''
              None) (\<lambda>required.
     rbind (obl_strings (dget stop ''new_execution_required'') ''stop.new_execution_required'' None) (\<lambda>_.
     rbind (obl_strings (dget stop ''escalation_reasons'') ''stop.escalation_reasons'' None) (\<lambda>_.
     rbind (obl_string (dget stop ''boundary'') ''stop.boundary'') (\<lambda>_.
       Inr (dget stop ''sufficient_to_stop'' = JBool True, required)))))))"

section \<open>The closure of a repository\<close>

text \<open>\<open>{item["identity"]: item for item in normalized}\<close>, the identities being unique.\<close>

definition obligation_named :: "dict list \<Rightarrow> string \<Rightarrow> dict option" where
  "obligation_named obligations identity =
     List.find (\<lambda>o'. dget o' ''identity'' = JStr identity) obligations"

definition exact_evidence :: "dict \<Rightarrow> dict \<Rightarrow> string \<Rightarrow> dict list \<Rightarrow> dict list" where
  "exact_evidence repository selected identity evidence =
     filter (\<lambda>item.
         dget item ''obligation_identity'' = JStr identity \<and>
         dget item ''repository_identity'' = dget repository ''identity'' \<and>
         dget item ''repository_fingerprint'' = dget repository ''fingerprint'' \<and>
         (\<forall>field \<in> set [''subject_identity'', ''subject_fingerprint'', ''definition_identity'',
                        ''executor_identity'', ''verifier_identity'', ''invalidation_identity''].
            dget item field = dget selected field)) evidence"

definition closed_obligation ::
  "repository_part \<Rightarrow> dict list \<Rightarrow> dict list \<Rightarrow> string \<Rightarrow> unit res" where
  "closed_obligation repo obligations evidence identity =
     (let absent = ObligationPlanError ''INVENTORY_MISMATCH'' ''obligations''
                     (''repository obligation '' @ repr_str identity @ '' is absent or has source-local scope'')
      in case obligation_named obligations identity of
           None \<Rightarrow>
             if identity \<in> set (repo_missing repo) \<and> \<not> repo_complete repo then Inr () else Inl absent
         | Some selected \<Rightarrow>
             rbind (guard (dget selected ''scope'' = JStr ''repository_canonical'') absent) (\<lambda>_.
               if dget selected ''status'' = JStr ''current''
               then let exact = exact_evidence (repo_fields repo) selected identity evidence
                    in obl_guard (exact \<noteq> [] \<and> (\<forall>item \<in> set exact. dget item ''status'' = JStr ''PASS''))
                         ''EVIDENCE_STALE'' (''obligations.'' @ identity)
                         ''current status lacks complete, current identity-bound PASS evidence''
               else Inr ()))"

text \<open>\<open>any(by_identity[identity]["status"] != "current" for identity in required)\<close>.\<close>

fun some_not_current :: "dict list \<Rightarrow> string list \<Rightarrow> bool res" where
  "some_not_current obligations [] = Inr False"
| "some_not_current obligations (identity # rest) =
     (case obligation_named obligations identity of
        None \<Rightarrow> Inl (KeyError identity)
      | Some selected \<Rightarrow>
          if dget selected ''status'' \<noteq> JStr ''current'' then Inr True else some_not_current obligations rest)"

definition canonical_closure ::
  "repository_part \<Rightarrow> dict list \<Rightarrow> dict list \<Rightarrow> bool \<times> string list \<Rightarrow> unit res" where
  "canonical_closure repo obligations evidence stop =
     (let (sufficient, required_stop) = stop in
      rbind (obl_guard (repo_complete repo \<or> \<not> sufficient) ''PROOF_BOUNDARY_INVALID'' ''stop.sufficient_to_stop''
               ''incomplete repository closure cannot establish a proof'') (\<lambda>_.
      rbind (obl_guard (set (repo_required repo) = set required_stop) ''INVENTORY_MISMATCH''
               ''stop.required_obligation_identities'' ''must equal the repository-canonical obligation set'') (\<lambda>_.
      rbind (obl_guard (set (repo_selected repo) = set required_stop \<or> \<not> sufficient) ''PROOF_BOUNDARY_INVALID''
               ''stop.sufficient_to_stop'' ''repository closure requires every declared obligation'') (\<lambda>_.
      rbind (obl_guard
               ((\<lambda>o'. dget o' ''identity'') `
                  set (filter (\<lambda>o'. dget o' ''scope'' = JStr ''repository_canonical'') obligations) =
                JStr ` set (repo_selected repo)) ''INVENTORY_MISMATCH''
               ''repository.selected_obligation_identities''
               ''must match the selected repository-canonical obligations'') (\<lambda>_.
      rbind (rmapM (closed_obligation repo obligations evidence) required_stop) (\<lambda>_.
      if sufficient then
        rbind (some_not_current obligations required_stop) (\<lambda>open.
          obl_guard (\<not> open) ''PROOF_BOUNDARY_INVALID'' ''stop.sufficient_to_stop''
            ''all required repository obligations must be current PASS'')
      else Inr ()))))))"

definition plan_closure ::
  "repository_part option \<Rightarrow> dict list \<Rightarrow> dict list \<Rightarrow> bool \<times> string list \<Rightarrow> unit res" where
  "plan_closure repository obligations evidence stop =
     (if map_option repo_scope repository = Some ''repository_canonical''
      then canonical_closure (the repository) obligations evidence stop
      else if map_option repo_scope repository = Some ''source_module'' \<and> fst stop
      then obl_reject ''PROOF_BOUNDARY_INVALID'' ''stop.sufficient_to_stop''
             ''source-module inventory cannot establish repository closure''
      else if fst stop \<and> (\<exists>o' \<in> set obligations. dget o' ''scope'' = JStr ''repository_canonical'')
      then obl_reject ''PROOF_BOUNDARY_INVALID'' ''stop.sufficient_to_stop''
             ''repository-canonical obligations require an explicit repository closure object''
      else Inr ())"

definition validate_obligation_plan :: "json \<Rightarrow> dict res" where
  "validate_obligation_plan value =
     rbind (obl_object value ''<root>'') (\<lambda>root.
     rbind (plan_head root) (\<lambda>_.
     rbind (plan_repository (dget root ''repository'')) (\<lambda>repository.
     rbind (plan_obligations (dget root ''obligations'')) (\<lambda>obligations.
     rbind (plan_excluded (dget root ''excluded'')) (\<lambda>_.
     rbind (plan_evidence (dget_default root ''evidence'' (JArr []))) (\<lambda>evidence.
     rbind (plan_stop (dget root ''stop'')) (\<lambda>stop.
     rbind (plan_closure repository obligations evidence stop) (\<lambda>_.
       Inr root))))))))"

section \<open>What the readers accept\<close>

lemma obl_object_Inr [simp]: "obl_object v p = Inr d \<longleftrightarrow> v = JObj d"
  by (cases v) (auto simp: obl_object_def obl_reject_def)

lemma obl_guard_Inr [simp]: "obl_guard b c p m = Inr u \<longleftrightarrow> b"
  by (simp add: obl_guard_def)

lemma obl_reject_Inr [simp]: "obl_reject c p m \<noteq> Inr x"
  by (simp add: obl_reject_def)

lemma obl_string_Inr:
  "obl_string v p = Inr s \<longleftrightarrow> v = JStr s \<and> py_strip s \<noteq> [] \<and> length s \<le> IDENTITY_LENGTH"
  by (cases v) (auto simp: obl_string_def rbind_eq_Inr)

lemma obl_vocabulary_Inr [simp]: "obl_vocabulary v ws p what = Inr s \<longleftrightarrow> v = JStr s \<and> s \<in> set ws"
  by (auto simp: obl_vocabulary_def rbind_eq_Inr json_among_iff)

lemma read_string_Inr: "read_string v p = Inr w \<Longrightarrow> w = v"
  by (auto simp: read_string_def rbind_eq_Inr obl_string_Inr)

lemma filter_unknown_Nil: "sorted_set (filter (\<lambda>s. s \<notin> A) xs) = [] \<longleftrightarrow> set xs \<subseteq> A"
  by (metis (no_types, lifting) empty_filter_conv set_empty set_sorted_set subset_eq)

lemma obl_strings_Inr:
  "obl_strings v p vocabulary = Inr ss \<longleftrightarrow>
   v = JArr (map JStr ss) \<and> [] \<notin> set ss \<and> distinct ss \<and>
   (\<forall>ws. vocabulary = Some ws \<longrightarrow> set ss \<subseteq> set ws)"
proof (cases "text_items v")
  case None
  then show ?thesis by (auto simp: obl_strings_def text_items_strs)
next
  case (Some ts)
  then have "v = JArr (map JStr ts)" "[] \<notin> set ts" by (auto simp: text_items_Some)
  then show ?thesis
    by (auto simp: obl_strings_def rbind_eq_Inr text_items_strs Let_def filter_unknown_Nil
             split: option.splits)
qed

interpretation obl_ids: identity_reader obl_strings
  by unfold_locales (simp_all add: obl_strings_Inr)

lemma set_fields_Inr:
  assumes "set_fields read_string d p ks = Inr r"
  shows "dget r k = (if k \<in> set ks then dget d k else JNull)"
proof -
  have "rmapM (\<lambda>field. rbind (read_string (dget d field) (p @ ''.'' @ field)) (\<lambda>v. Inr (field, v))) fs = Inr r
        \<Longrightarrow> r = map (\<lambda>f. (f, dget d f)) fs" for fs
    by (induction fs arbitrary: r) (auto simp: rbind_eq_Inr dest!: read_string_Inr)
  with assms have "r = map (\<lambda>f. (f, dget d f)) (filter (\<lambda>f. dget d f \<noteq> JNull) ks)"
    by (simp add: set_fields_def)
  moreover have "dget (map (\<lambda>f. (f, dget d f)) (filter (\<lambda>f. dget d f \<noteq> JNull) ks)) k =
      (if k \<in> set ks then dget d k else JNull)"
    by (induction ks) auto
  ultimately show ?thesis by simp
qed

lemma set_fields_has_key:
  "set_fields read_string d p ks = Inr r \<Longrightarrow> has_key r k \<Longrightarrow> k \<in> set ks"
  by (auto simp: set_fields_def has_key_iff rbind_eq_Inr dest!: rmapM_Inr_set)

lemma validate_evidence_field:
  assumes "validate_evidence i v = Inr e" and "f = ''status'' \<or> f \<in> set evidence_fields"
  shows "dget e f = dget (obj_of v) f"
  using assms
  by (auto simp: validate_evidence_def Let_def rbind_eq_Inr evidence_fields_def
      dest!: set_fields_Inr [where k = f])

lemma validate_selected_shape:
  assumes "validate_selected i v = Inr o'"
  obtains d texts executor hd where
    "v = JObj d" and "set_fields read_string d (''obligations['' @ nat_str i @ '']'') selected_fields = Inr texts"
    and "executor = [] \<or> (\<exists>e. executor = [(''executor'', e)])" and "o' = hd @ texts @ executor"
    and "map fst hd = [''identity'', ''scope'', ''status'', ''lifecycle'', ''guarantee_domain'',
           ''evidence_role'', ''reason'', ''evidence_identities'', ''test_case_identities'']"
    and "dget hd ''identity'' = dget d ''identity''" and "dget hd ''status'' = dget d ''status''"
    and "dget hd ''scope'' = dget_default d ''scope'' (JStr ''local'')"
proof -
  from assms obtain d status life domain role identity reason evidence tests texts executor
    where "v = JObj d" "dget d ''status'' = JStr status" "dget d ''identity'' = JStr identity"
      and texts: "set_fields read_string d (''obligations['' @ nat_str i @ '']'') selected_fields = Inr texts"
      and ex: "(if dget d ''executor'' = JNull then Inr []
             else rbind (validate_executor (dget d ''executor'') ((''obligations['' @ nat_str i @ '']'') @ ''.executor'')) (\<lambda>e.
                    Inr [(''executor'', JObj e)])) = Inr executor"
      and o': "o' = [(''identity'', JStr identity), (''scope'', dget_default d ''scope'' (JStr ''local'')),
              (''status'', JStr status), (''lifecycle'', JStr life), (''guarantee_domain'', JStr domain),
              (''evidence_role'', JStr role), (''reason'', JStr reason), (''evidence_identities'', strs evidence),
              (''test_case_identities'', strs tests)] @ texts @ executor"
    unfolding validate_selected_def Let_def rbind_eq_Inr obl_object_Inr obl_vocabulary_Inr obl_string_Inr
    by (elim exE conjE) (simp only: sum.inject, blast)
  moreover have "executor = [] \<or> (\<exists>e. executor = [(''executor'', e)])"
    using ex by (auto simp: rbind_eq_Inr split: if_splits)
  ultimately show ?thesis
    by (intro that [OF _ texts _ o']) simp_all
qed

lemma validate_selected_field:
  assumes "validate_selected i v = Inr o'" and "f \<in> set ([''identity'', ''status''] @ selected_fields)"
  shows "dget o' f = dget (obj_of v) f"
proof -
  obtain d texts executor hd where v: "v = JObj d"
    and texts: "set_fields read_string d (''obligations['' @ nat_str i @ '']'') selected_fields = Inr texts"
    and ex: "executor = [] \<or> (\<exists>e. executor = [(''executor'', e)])" and o': "o' = hd @ texts @ executor"
    and hd: "map fst hd = [''identity'', ''scope'', ''status'', ''lifecycle'', ''guarantee_domain'',
           ''evidence_role'', ''reason'', ''evidence_identities'', ''test_case_identities'']"
    and ids: "dget hd ''identity'' = dget d ''identity''" "dget hd ''status'' = dget d ''status''"
    and "dget hd ''scope'' = dget_default d ''scope'' (JStr ''local'')"
    by (rule validate_selected_shape [OF assms(1)])
  have key: "has_key hd k \<longleftrightarrow> k \<in> set (map fst hd)" for k by (simp add: has_key_iff)
  show ?thesis
  proof (cases "f \<in> set selected_fields")
    case True
    then have "\<not> has_key hd f" "\<not> has_key executor f"
      unfolding key hd using ex by (auto simp: selected_fields_def)
    moreover have "dget executor f = JNull" using calculation(2) by (simp add: has_key_def dget_def)
    moreover have "\<not> has_key texts f \<Longrightarrow> dget texts f = JNull" by (simp add: has_key_def dget_def)
    ultimately show ?thesis
      using set_fields_Inr [OF texts, of f] True by (auto simp: o' v dget_append)
  next
    case False
    with assms(2) have "f = ''identity'' \<or> f = ''status''" by simp
    moreover have "has_key hd ''identity''" "has_key hd ''status''" unfolding key hd by simp_all
    ultimately show ?thesis using ids by (auto simp: o' v dget_append)
  qed
qed

lemma validate_selected_scope:
  assumes "validate_selected i v = Inr o'" and "dget o' ''scope'' = JStr ''repository_canonical''"
  shows "dget (obj_of v) ''scope'' = JStr ''repository_canonical''"
proof -
  obtain d texts executor hd where v: "v = JObj d"
    and "set_fields read_string d (''obligations['' @ nat_str i @ '']'') selected_fields = Inr texts"
    and "executor = [] \<or> (\<exists>e. executor = [(''executor'', e)])" and o': "o' = hd @ texts @ executor"
    and hd: "map fst hd = [''identity'', ''scope'', ''status'', ''lifecycle'', ''guarantee_domain'',
           ''evidence_role'', ''reason'', ''evidence_identities'', ''test_case_identities'']"
    and "dget hd ''identity'' = dget d ''identity''" "dget hd ''status'' = dget d ''status''"
    and scope: "dget hd ''scope'' = dget_default d ''scope'' (JStr ''local'')"
    by (rule validate_selected_shape [OF assms(1)])
  have "has_key hd ''scope''" unfolding has_key_iff set_map [symmetric] hd by simp
  with scope assms(2) have "dget_default d ''scope'' (JStr ''local'') = JStr ''repository_canonical''"
    by (simp add: o' dget_append)
  then show ?thesis by (auto simp: v dget_default_def dget_def split: option.splits)
qed

section \<open>A plan that closes a repository\<close>

text \<open>An entry of the evidence that speaks of exactly this obligation of exactly this repository.\<close>

definition evidence_binds :: "json \<Rightarrow> json \<Rightarrow> json \<Rightarrow> bool" where
  "evidence_binds repository obligation item \<longleftrightarrow>
     at_path item [''obligation_identity''] = at_path obligation [''identity''] \<and>
     at_path item [''repository_identity''] = at_path repository [''identity''] \<and>
     at_path item [''repository_fingerprint''] = at_path repository [''fingerprint''] \<and>
     (\<forall>field \<in> set [''subject_identity'', ''subject_fingerprint'', ''definition_identity'',
                    ''executor_identity'', ''verifier_identity'', ''invalidation_identity''].
        at_path item [field] = at_path obligation [field])"

lemma obligation_named_Some:
  "obligation_named obligations identity = Some o' \<Longrightarrow>
   o' \<in> set obligations \<and> dget o' ''identity'' = JStr identity"
  by (auto simp: obligation_named_def find_Some_iff)

lemma some_not_current_False:
  assumes "some_not_current obligations ids = Inr False" and "identity \<in> set ids"
  shows "\<exists>o'. obligation_named obligations identity = Some o' \<and> dget o' ''status'' = JStr ''current''"
  using assms by (induction ids) (auto split: option.splits if_splits)

lemma closed_obligation_current:
  assumes "closed_obligation repo obligations evidence identity = Inr ()"
    and "obligation_named obligations identity = Some o'" and "dget o' ''status'' = JStr ''current''"
  shows "dget o' ''scope'' = JStr ''repository_canonical''"
    and "exact_evidence (repo_fields repo) o' identity evidence \<noteq> []"
    and "e \<in> set (exact_evidence (repo_fields repo) o' identity evidence) \<Longrightarrow> dget e ''status'' = JStr ''PASS''"
  using assms by (auto simp: closed_obligation_def rbind_eq_Inr Let_def)

lemma canonical_closure_Inr:
  assumes "canonical_closure repo obligations evidence (True, required) = Inr ()"
  shows "repo_complete repo" and "set (repo_required repo) = set required"
    and "rmapM (closed_obligation repo obligations evidence) required \<noteq> Inl e"
    and "\<exists>us. rmapM (closed_obligation repo obligations evidence) required = Inr us"
    and "some_not_current obligations required = Inr False"
  using assms by (auto simp: canonical_closure_def rbind_eq_Inr)

lemma canonical_closure_evidence:
  assumes closure: "canonical_closure repo obligations evidence (True, required) = Inr ()"
    and required: "identity \<in> set (repo_required repo)"
  obtains o' where "o' \<in> set obligations" and "dget o' ''identity'' = JStr identity"
    and "dget o' ''scope'' = JStr ''repository_canonical''" and "dget o' ''status'' = JStr ''current''"
    and "exact_evidence (repo_fields repo) o' identity evidence \<noteq> []"
    and "\<forall>e \<in> set (exact_evidence (repo_fields repo) o' identity evidence). dget e ''status'' = JStr ''PASS''"
proof -
  note c = canonical_closure_Inr [OF closure]
  have stop: "identity \<in> set required" using required c(2) by simp
  obtain o' where named: "obligation_named obligations identity = Some o'"
    and current: "dget o' ''status'' = JStr ''current''"
    using some_not_current_False [OF c(5) stop] by blast
  obtain us where "rmapM (closed_obligation repo obligations evidence) required = Inr us" using c(4) by blast
  from rmapM_all [OF this stop] have ok: "closed_obligation repo obligations evidence identity = Inr ()" by auto
  from obligation_named_Some [OF named] closed_obligation_current [OF ok named current] current
  show ?thesis by (intro that [of o']) auto
qed

lemma plan_repository_Inr:
  assumes "plan_repository v = Inr (Some repo)"
  shows "v = JObj (repo_fields repo)" and "dget (repo_fields repo) ''scope'' = JStr (repo_scope repo)"
    and "dget (repo_fields repo) ''complete'' = JBool (repo_complete repo)"
    and "dget (repo_fields repo) ''required_obligation_identities'' = strs (repo_required repo)"
  using assms
  by (auto simp: plan_repository_def rbind_eq_Inr obl_ids.accepts_iff json_among_iff is_bool_iff
      case_arr_Inr split: if_splits)

lemma plan_repository_None: "plan_repository v = Inr None \<longleftrightarrow> v = JNull"
  by (auto simp: plan_repository_def rbind_eq_Inr case_arr_Inr)

lemma exact_evidence_source:
  assumes evidence: "each_entry validate_evidence raw = Inr evidence"
    and selected: "validate_selected i ob = Inr o'" and identity: "dget o' ''identity'' = JStr identity"
    and item: "validate_evidence j e = Inr e'"
  shows "e' \<in> set (exact_evidence repository o' identity [e']) \<longleftrightarrow> evidence_binds (JObj repository) ob e"
proof -
  have f: "dget e' f = dget (obj_of e) f" if "f \<in> set evidence_fields" for f
    using validate_evidence_field [OF item] that by blast
  have g: "dget o' f = dget (obj_of ob) f" if "f \<in> set ([''identity'', ''status''] @ selected_fields)" for f
    using validate_selected_field [OF selected that] .
  show ?thesis
    using identity g [of "''identity''"]
    by (simp add: exact_evidence_def evidence_binds_def f g evidence_fields_def selected_fields_def)
qed

lemma exact_evidence_mem:
  "e' \<in> set (exact_evidence repository o' identity evidence) \<longleftrightarrow>
   e' \<in> set evidence \<and> e' \<in> set (exact_evidence repository o' identity [e'])"
  by (auto simp: exact_evidence_def)

text \<open>
  C5. An accepted obligation plan that closes a repository and says it is sufficient to stop carries the evidence for it: the plan carries the identity of its content, the closure is complete, and every obligation the repository requires is among the plan's obligations with repository scope and current status, some entry of the plan's evidence speaks of exactly that obligation, repository, fingerprint, subject, definition, executor, verifier and invalidation identity, and every entry that does is a PASS.
\<close>

theorem sufficient_plan_has_evidence:
  assumes accepted: "validate_obligation_plan v = Inr p"
    and scope: "at_path v [''repository'', ''scope''] = JStr ''repository_canonical''"
    and sufficient: "at_path v [''stop'', ''sufficient_to_stop''] = JBool True"
    and required: "JStr identity \<in> set (arr_of (at_path v [''repository'', ''required_obligation_identities'']))"
  shows "dget p ''obligation_plan_id'' = JStr (obligation_plan_identity p) \<and>
    at_path v [''repository'', ''complete''] = JBool True \<and>
    (\<exists>obligation \<in> set (arr_of (at_path v [''obligations''])).
       at_path obligation [''identity''] = JStr identity \<and>
       at_path obligation [''scope''] = JStr ''repository_canonical'' \<and>
       at_path obligation [''status''] = JStr ''current'' \<and>
       (\<exists>item \<in> set (arr_of (at_path v [''evidence''])).
          evidence_binds (at_path v [''repository'']) obligation item) \<and>
       (\<forall>item \<in> set (arr_of (at_path v [''evidence''])).
          evidence_binds (at_path v [''repository'']) obligation item \<longrightarrow>
          at_path item [''status''] = JStr ''PASS''))"
proof -
  from accepted obtain repository obligations evidence stop where v: "v = JObj p"
    and head: "plan_head p = Inr ()"
    and repository: "plan_repository (dget p ''repository'') = Inr repository"
    and obligations: "plan_obligations (dget p ''obligations'') = Inr obligations"
    and evidence: "plan_evidence (dget_default p ''evidence'' (JArr [])) = Inr evidence"
    and stop: "plan_stop (dget p ''stop'') = Inr stop"
    and closure: "plan_closure repository obligations evidence stop = Inr ()"
    by (auto simp: validate_obligation_plan_def rbind_eq_Inr)
  obtain repo where repo: "repository = Some repo"
    using scope repository by (cases repository) (auto simp: v plan_repository_None)
  note r = plan_repository_Inr [OF repository [unfolded repo]]
  have canonical: "repo_scope repo = ''repository_canonical''" using scope r(1,2) by (simp add: v)
  obtain required_stop where st: "stop = (True, required_stop)"
    using stop sufficient by (auto simp: plan_stop_def rbind_eq_Inr v)
  have cc: "canonical_closure repo obligations evidence (True, required_stop) = Inr ()"
    using closure by (simp add: plan_closure_def repo st canonical)
  have "identity \<in> set (repo_required repo)" using required r(1,4) by (auto simp: v)
  then obtain o' where o': "o' \<in> set obligations" "dget o' ''identity'' = JStr identity"
      "dget o' ''scope'' = JStr ''repository_canonical''" "dget o' ''status'' = JStr ''current''"
    and some: "exact_evidence (repo_fields repo) o' identity evidence \<noteq> []"
    and pass: "\<forall>e \<in> set (exact_evidence (repo_fields repo) o' identity evidence). dget e ''status'' = JStr ''PASS''"
    by (rule canonical_closure_evidence [OF cc])
  obtain raw_o where raw_o: "dget p ''obligations'' = JArr raw_o" "each_entry validate_selected raw_o = Inr obligations"
    using obligations by (auto simp: plan_obligations_def rbind_eq_Inr split: json.split_asm)
  obtain i where i: "i < length raw_o" "validate_selected i (raw_o ! i) = Inr o'"
    using each_entry_source [OF raw_o(2) o'(1)] by blast
  obtain raw_e where raw_e: "dget_default p ''evidence'' (JArr []) = JArr raw_e"
      "each_entry validate_evidence raw_e = Inr evidence"
    using evidence by (auto simp: plan_evidence_def split: json.split_asm)
  have arr: "arr_of (at_path v [''evidence'']) = raw_e"
    using raw_e(1) by (auto simp: v dget_default_def dget_def split: option.splits)
  note src = exact_evidence_source [OF raw_e(2) i(2) o'(2), of _ _ _ "repo_fields repo"]
  have 1: "\<exists>item \<in> set raw_e. evidence_binds (JObj (repo_fields repo)) (raw_o ! i) item"
  proof -
    from some obtain e' where e': "e' \<in> set (exact_evidence (repo_fields repo) o' identity evidence)"
      by (meson list.set_sel(1))
    then obtain j where "j < length raw_e" "validate_evidence j (raw_e ! j) = Inr e'"
      using each_entry_source [OF raw_e(2)] by (meson exact_evidence_mem)
    then show ?thesis using src e' exact_evidence_mem nth_mem by metis
  qed
  have 2: "at_path item [''status''] = JStr ''PASS''"
    if item: "item \<in> set raw_e" and binds: "evidence_binds (JObj (repo_fields repo)) (raw_o ! i) item" for item
  proof -
    obtain j e' where e': "e' \<in> set evidence" "validate_evidence j item = Inr e'"
      using each_entry_result [OF raw_e(2) item] by blast
    then have "dget e' ''status'' = JStr ''PASS''" using pass src binds exact_evidence_mem by metis
    then show ?thesis using validate_evidence_field [OF e'(2), of "''status''"] by simp
  qed
  have "dget p ''obligation_plan_id'' = JStr (obligation_plan_identity p)"
    using head by (auto simp: plan_head_def rbind_eq_Inr obl_string_Inr)
  moreover have "raw_o ! i \<in> set (arr_of (at_path v [''obligations'']))" using i(1) raw_o(1) by (simp add: v)
  moreover have "at_path (raw_o ! i) [''identity''] = JStr identity" "at_path (raw_o ! i) [''status''] = JStr ''current''"
    using validate_selected_field [OF i(2), of "''identity''"] validate_selected_field [OF i(2), of "''status''"] o'
    by simp_all
  moreover have "at_path (raw_o ! i) [''scope''] = JStr ''repository_canonical''"
    using validate_selected_scope [OF i(2) o'(3)] by simp
  moreover have "at_path v [''repository''] = JObj (repo_fields repo)" using r(1) by (simp add: v)
  moreover have "at_path v [''repository'', ''complete''] = JBool True"
    using r(1,3) canonical_closure_Inr(1) [OF cc] by (simp add: v)
  ultimately show ?thesis using 1 2 unfolding arr by metis
qed

definition sample_obligation :: dict where
  "sample_obligation =
     [(''identity'', JStr ''x''), (''scope'', JStr ''repository_canonical''), (''status'', JStr ''current''),
      (''lifecycle'', JStr ''permanent''), (''guarantee_domain'', JStr ''semantic''),
      (''evidence_role'', JStr ''conformance''), (''reason'', JStr ''x''),
      (''evidence_identities'', strs []), (''test_case_identities'', strs [])]"

definition sample_evidence :: dict where
  "sample_evidence =
     [(''status'', JStr ''PASS''), (''evidence_identity'', JStr ''x''), (''obligation_identity'', JStr ''x''),
      (''repository_identity'', JStr ''x''), (''repository_fingerprint'', JStr ''x'')]"

definition sample_repository :: dict where
  "sample_repository =
     [(''identity'', JStr ''x''), (''revision'', JStr ''x''), (''fingerprint'', JStr ''x''),
      (''inventory_identity'', JStr ''x''), (''scope'', JStr ''repository_canonical''),
      (''complete'', JBool True), (''required_obligation_identities'', strs [''x'']),
      (''selected_obligation_identities'', strs [''x'']), (''missing_obligation_identities'', strs [])]"

definition sample_stop :: dict where
  "sample_stop =
     [(''sufficient_to_stop'', JBool True), (''required_obligation_identities'', strs [''x'']),
      (''new_execution_required'', strs []), (''escalation_reasons'', strs []), (''boundary'', JStr ''x'')]"

definition sample_obligation_body :: dict where
  "sample_obligation_body =
     [(''schema_version'', JStr OBLIGATION_PLAN_SCHEMA), (''verification_plan_id'', JStr ''x''),
      (''source'', JObj [(''path'', JStr ''x''), (''sha256'', JStr ''x'')]), (''impact_identity'', JStr ''x''),
      (''inventory'', JObj [(''repository'', JStr ''x''), (''identity'', JStr ''x''), (''revision'', JInt 1)]),
      (''repository'', JObj sample_repository), (''obligations'', JArr [JObj sample_obligation]),
      (''evidence'', JArr [JObj sample_evidence]), (''stop'', JObj sample_stop)]"

definition sample_obligation_plan :: dict where
  "sample_obligation_plan =
     dset ''obligation_plan_id'' (JStr (obligation_plan_identity sample_obligation_body)) sample_obligation_body"

lemma obl_string_x: "obl_string (JStr ''x'') p = Inr ''x''"
proof -
  have "py_strip ''x'' \<noteq> []" by code_simp
  then show ?thesis by (simp add: obl_string_Inr IDENTITY_LENGTH_def)
qed

lemma obl_string_digest: "obl_string (JStr (sha256_hexdigest b)) p = Inr (sha256_hexdigest b)"
proof -
  have "\<not> is_space c" if "c \<in> set (sha256_hexdigest b)" for c
  proof -
    have "\<forall>c \<in> set ''0123456789abcdef''. \<not> is_space c" by code_simp
    then show ?thesis using set_sha256_hexdigest [OF that] by blast
  qed
  then have "dropWhile is_space (sha256_hexdigest b) = sha256_hexdigest b"
    "dropWhile is_space (rev (sha256_hexdigest b)) = rev (sha256_hexdigest b)"
    by (metis dropWhile_eq_self_iff hd_in_set) (metis \<open>\<And>c. c \<in> set (sha256_hexdigest b) \<Longrightarrow> \<not> is_space c\<close> dropWhile_eq_self_iff hd_in_set set_rev)
  then have "py_strip (sha256_hexdigest b) = sha256_hexdigest b" by (simp add: py_strip_def)
  then show ?thesis
    using length_sha256_hexdigest [of b] by (auto simp: obl_string_Inr IDENTITY_LENGTH_def)
qed

lemma obl_strings_small:
  "obl_strings (strs []) p None = Inr []" "obl_strings (strs [''x'']) p None = Inr [''x'']"
  by (simp_all add: obl_ids.accepts_iff)

lemma sample_selected_ok: "validate_selected 0 (JObj sample_obligation) = Inr sample_obligation"
proof -
  have vocab: "obl_vocabulary (JStr ''current'') OBLIGATION_STATUSES p w = Inr ''current''"
    "obl_vocabulary (JStr ''permanent'') LIFECYCLES p w = Inr ''permanent''"
    "obl_vocabulary (JStr ''semantic'') OBLIGATION_GUARANTEE_DOMAINS p w = Inr ''semantic''"
    "obl_vocabulary (JStr ''conformance'') EVIDENCE_ROLES p w = Inr ''conformance''"
    "json_among (JStr ''repository_canonical'') OBLIGATION_SCOPES" for p w
    by (simp_all add: OBLIGATION_STATUSES_def LIFECYCLES_def OBLIGATION_GUARANTEE_DOMAINS_def EVIDENCE_ROLES_def
        OBLIGATION_SCOPES_def json_among_def)
  show ?thesis
    by (simp add: vocab validate_selected_def sample_obligation_def obl_string_x obl_strings_small [simplified]
        obl_guard_def guard_def set_fields_def selected_fields_def obl_object_def)
qed

lemma sample_evidence_ok: "validate_evidence 0 (JObj sample_evidence) = Inr sample_evidence"
  by (simp add: validate_evidence_def sample_evidence_def obl_object_def obl_string_x obl_guard_def guard_def
      set_fields_def evidence_fields_def read_string_def)

lemma sample_repository_ok:
  "plan_repository (JObj sample_repository) =
   Inr (Some \<lparr>repo_fields = sample_repository, repo_scope = ''repository_canonical'', repo_complete = True,
              repo_required = [''x''], repo_selected = [''x''], repo_missing = []\<rparr>)"
  by (simp add: plan_repository_def sample_repository_def obl_object_def obl_string_x obl_guard_def guard_def
      obl_strings_small [simplified] json_among_def REPOSITORY_PLAN_SCOPES_def each_entry_def sorted_set_def)

lemma sample_stop_ok: "plan_stop (JObj sample_stop) = Inr (True, [''x''])"
  by (simp add: plan_stop_def sample_stop_def obl_object_def obl_string_x obl_guard_def guard_def
      obl_strings_small [simplified])

lemma sample_closure_ok:
  "plan_closure (Some \<lparr>repo_fields = sample_repository, repo_scope = ''repository_canonical'', repo_complete = True,
              repo_required = [''x''], repo_selected = [''x''], repo_missing = []\<rparr>)
     [sample_obligation] [sample_evidence] (True, [''x'']) = Inr ()"
  by code_simp

lemma sample_obligation_plan_accepted:
  "validate_obligation_plan (JObj sample_obligation_plan) = Inr sample_obligation_plan"
proof -
  have "plan_head sample_obligation_plan = Inr ()"
  proof -
    have "obligation_plan_identity sample_obligation_plan = obligation_plan_identity sample_obligation_body"
      by (simp add: sample_obligation_plan_def obligation_plan_identity_def canonical_plan_projection_def
          delete_update_same)
    then show ?thesis
      using obl_string_digest [of "encode (JObj (canonical_plan_projection sample_obligation_body))"]
      by (simp add: plan_head_def sample_obligation_plan_def sample_obligation_body_def obl_object_def
          obl_string_x obl_guard_def guard_def plan_impact_def obl_positive_int_def
          flip: obligation_plan_identity_def)
  qed
  then show ?thesis
    using sample_repository_ok sample_selected_ok sample_evidence_ok sample_stop_ok sample_closure_ok
    by (simp add: validate_obligation_plan_def obl_object_def plan_obligations_def plan_evidence_def
        plan_excluded_def each_entry_def obl_guard_def guard_def sample_obligation_plan_def
        sample_obligation_body_def)
qed

theorem sufficient_plan_has_evidence_witness:
  "at_path (JObj sample_obligation_plan) [''repository'', ''complete''] = JBool True"
proof -
  have "JStr ''x'' \<in> set (arr_of (at_path (JObj sample_obligation_plan)
          [''repository'', ''required_obligation_identities'']))"
    "at_path (JObj sample_obligation_plan) [''repository'', ''scope''] = JStr ''repository_canonical''"
    "at_path (JObj sample_obligation_plan) [''stop'', ''sufficient_to_stop''] = JBool True"
    by (simp_all add: sample_obligation_plan_def sample_obligation_body_def sample_repository_def sample_stop_def)
  then show ?thesis
    using sufficient_plan_has_evidence [OF sample_obligation_plan_accepted] by blast
qed

end
