(* ===== verification/Family_Graph.thy ===== *)
theory Family_Graph
  imports Contract_Tools Text_Tools
begin

text \<open>
  The semantic-edge overlay of the family (family_graph.py): repositories declare the contracts
  they provide and consume, \<open>generate_graph\<close> joins the declarations into edges, and
  \<open>validate_graph\<close> is what every reader of a graph applies. The names of files, the bytes of the
  evidence they hold and the manifests read from them are arguments of \<open>bind_declaration_evidence\<close>.
\<close>

section \<open>Vocabulary\<close>

definition GRAPH_SCHEMA :: string where
  "GRAPH_SCHEMA = ''commons.mncs.dev/family-semantic-edges/v1''"

definition DECLARATION_SCHEMA :: string where
  "DECLARATION_SCHEMA = ''commons.mncs.semantic-contract-declarations/v1''"

definition VERIFICATION_MANIFEST_SCHEMA :: string where
  "VERIFICATION_MANIFEST_SCHEMA = ''commons.mncs.family-verification-checks/v1''"

definition PROVIDER_METADATA_SCHEMA :: string where
  "PROVIDER_METADATA_SCHEMA = ''commons.mncs.generated-provider-metadata/v1''"

definition PROVIDER_AUTHORITY_KINDS :: "string list" where
  "PROVIDER_AUTHORITY_KINDS =
     [''language-owned-abi'', ''language-owned-export-manifest'', ''native-mncs-semantic-provider'']"

definition VERIFICATION_RUNNERS :: "string list" where
  "VERIFICATION_RUNNERS = [''declaration'', ''mncs-test'']"

definition MAX_CHECK_TEST_IDENTITIES :: nat where
  "MAX_CHECK_TEST_IDENTITIES = 256"

definition MAX_CHECK_SELECTOR_LENGTH :: nat where
  "MAX_CHECK_SELECTOR_LENGTH = 4096"

definition MAX_CHECK_TEST_IDENTITY_LENGTH :: nat where
  "MAX_CHECK_TEST_IDENTITY_LENGTH = 512"

definition UNAVAILABLE_REGISTRY_IDENTITY :: string where
  "UNAVAILABLE_REGISTRY_IDENTITY = sha256_hexdigest (utf8 ''mncs-family-registry-unavailable/v1'')"

definition forbidden_fields :: "string list" where
  "forbidden_fields = [''command'', ''commands'', ''shell'', ''script'', ''argv'', ''executable'']"

section \<open>Identities\<close>

definition graph_reject :: "string \<Rightarrow> 'a res" where
  "graph_reject m = Inl (FamilyGraphError m)"

definition graph_guard :: "bool \<Rightarrow> string \<Rightarrow> unit res" where
  "graph_guard b m = guard b (FamilyGraphError m)"

definition graph_object :: "json \<Rightarrow> string \<Rightarrow> dict res" where
  "graph_object v m = (case v of JObj d \<Rightarrow> Inr d | _ \<Rightarrow> graph_reject m)"

definition graph_array :: "json \<Rightarrow> string \<Rightarrow> json list res" where
  "graph_array v m = (case v of JArr xs \<Rightarrow> Inr xs | _ \<Rightarrow> graph_reject m)"

definition edge_fingerprint :: "dict \<Rightarrow> string" where
  "edge_fingerprint edge = sha256_hexdigest (encode (JObj (AList.delete ''fingerprint'' edge)))"

fun without_fingerprint :: "json \<Rightarrow> json" where
  "without_fingerprint (JObj e) = JObj (AList.delete ''fingerprint'' e)"
| "without_fingerprint v = v"

text \<open>
  \<open>for edge in projection.get("edges", [])\<close>: the edges of an array lose their fingerprint; the
  items of a text and the keys of an object are no dictionaries and stay; a number raises.
\<close>

definition graph_projection :: "dict \<Rightarrow> dict res" where
  "graph_projection value =
     (let projection = AList.delete ''graph_identity'' value in
      (case dget_default projection ''edges'' (JArr []) of
         JArr edges \<Rightarrow>
           Inr (if has_key projection ''edges''
                then dset ''edges'' (JArr (map without_fingerprint edges)) projection else projection)
       | JStr s \<Rightarrow> Inr projection
       | JObj d \<Rightarrow> Inr projection
       | _ \<Rightarrow> Inl TypeError))"

definition graph_identity :: "dict \<Rightarrow> string res" where
  "graph_identity value =
     rbind (graph_projection value) (\<lambda>projection. Inr (sha256_hexdigest (encode (JObj projection))))"

definition declaration_identity :: "dict \<Rightarrow> string" where
  "declaration_identity value =
     sha256_hexdigest (encode (JObj (AList.delete ''_path'' (AList.delete ''declaration_identity'' value))))"

section \<open>Verification manifests\<close>

text \<open>
  \<open>Path(p).is_absolute()\<close> and \<open>".." in Path(p).parts\<close> on a POSIX system: the parts are the
  pieces between slashes.
\<close>

definition path_pieces :: "string \<Rightarrow> string list" where
  "path_pieces p = split_char (CHR ''/'') p"

definition absolute_path :: "string \<Rightarrow> bool" where
  "absolute_path p = starts_with p ''/''"

definition relative_path :: "string \<Rightarrow> bool" where
  "relative_path p = (\<not> absolute_path p \<and> ''..'' \<notin> set (path_pieces p))"

definition bounded_tests :: "json \<Rightarrow> string list option" where
  "bounded_tests v =
     (case text_items v of
        Some tests \<Rightarrow>
          if tests \<noteq> [] \<and> length tests \<le> MAX_CHECK_TEST_IDENTITIES \<and>
             list_all (\<lambda>t. length t \<le> MAX_CHECK_TEST_IDENTITY_LENGTH) tests \<and> distinct tests
          then Some tests else None
      | None \<Rightarrow> None)"

definition validate_mncs_test_selector :: "json \<Rightarrow> string \<Rightarrow> dict res" where
  "validate_mncs_test_selector value ctx =
     rbind (graph_object value (ctx @ ''.selector is required for mncs-test'')) (\<lambda>selector.
     let unknown = filter (\<lambda>k. k \<notin> {''manifest'', ''inventory_identity'', ''test_identities''}) (map fst selector) in
     rbind (graph_guard (unknown = []) (ctx @ ''.selector contains unsupported fields: '' @
              join '', '' (sorted_set unknown))) (\<lambda>_.
     let manifest = dget selector ''manifest'' in
     rbind (graph_guard (full_text manifest \<and> length (str_of manifest) \<le> MAX_CHECK_SELECTOR_LENGTH \<and>
                         \<not> absolute_path (str_of manifest) \<and> CHR 0x5C \<notin> set (str_of manifest) \<and>
                         ''..'' \<notin> set (path_pieces (str_of manifest)))
              (ctx @ ''.selector.manifest must be a bounded relative path'')) (\<lambda>_.
     let inventory_identity = dget selector ''inventory_identity'' in
     rbind (graph_guard (is_str inventory_identity \<and> sha256_text (str_of inventory_identity))
              (ctx @ ''.selector.inventory_identity must be a lowercase digest'')) (\<lambda>_.
     (case bounded_tests (dget selector ''test_identities'') of
        None \<Rightarrow> graph_reject (ctx @ ''.selector.test_identities must be a bounded unique non-empty array'')
      | Some tests \<Rightarrow>
          Inr [(''manifest'', manifest), (''inventory_identity'', inventory_identity),
               (''test_identities'', JArr (map JStr (sort tests)))])))))"

text \<open>\<open>for forbidden in (...): if forbidden in check or forbidden in selector: raise\<close>.\<close>

definition no_forbidden :: "dict \<Rightarrow> json \<Rightarrow> string \<Rightarrow> unit res" where
  "no_forbidden check selector ctx =
     (case List.find (\<lambda>f. has_key check f \<or> (is_obj selector \<and> has_key (obj_of selector) f)) forbidden_fields of
        None \<Rightarrow> Inr ()
      | Some f \<Rightarrow> graph_reject (ctx @ '' cannot carry executable field '' @ repr_str f))"

definition non_empty_fields :: "dict \<Rightarrow> string \<Rightarrow> string list \<Rightarrow> unit res" where
  "non_empty_fields d prefix ks =
     rbind (rmapM (\<lambda>field. graph_guard (full_text (dget d field)) (prefix @ field @ '' must be non-empty'')) ks)
       (\<lambda>_. Inr ())"

definition manifest_check :: "string list \<times> dict list \<Rightarrow> nat \<times> json \<Rightarrow> (string list \<times> dict list) res" where
  "manifest_check acc indexed =
     (let ctx = ''verification manifest checks['' @ nat_str (fst indexed) @ '']'' in
      rbind (graph_object (snd indexed) (ctx @ '' must be an object'')) (\<lambda>check.
      rbind (non_empty_fields check (ctx @ ''.'') [''identity'', ''contract_identity'', ''runner'', ''surface'']) (\<lambda>_.
      let runner = str_of (dget check ''runner''); selector = dget check ''selector'' in
      rbind (graph_guard (runner \<in> set VERIFICATION_RUNNERS) (ctx @ ''.runner is unknown: '' @ runner)) (\<lambda>_.
      rbind (if runner = ''mncs-test''
             then rbind (validate_mncs_test_selector selector ctx) (\<lambda>s. Inr (dset ''selector'' (JObj s) check))
             else rbind (graph_guard (selector = JNull) (ctx @ ''.selector is only valid for mncs-test'')) (\<lambda>_.
                    Inr check)) (\<lambda>checked.
      rbind (no_forbidden checked selector ctx) (\<lambda>_.
      let identity = str_of (dget checked ''identity'') in
      rbind (graph_guard (identity \<notin> set (fst acc)) (''verification manifest repeats check identity '' @ identity)) (\<lambda>_.
        Inr (identity # fst acc, snd acc @ [checked]))))))))"

definition validate_verification_manifest :: "json \<Rightarrow> string \<Rightarrow> dict res" where
  "validate_verification_manifest value repository_id =
     rbind (graph_object value (''verification manifest must be '' @ VERIFICATION_MANIFEST_SCHEMA)) (\<lambda>manifest.
     rbind (graph_guard (dget manifest ''schema_version'' = JStr VERIFICATION_MANIFEST_SCHEMA)
              (''verification manifest must be '' @ VERIFICATION_MANIFEST_SCHEMA)) (\<lambda>_.
     rbind (graph_guard (dget manifest ''repository_id'' = JStr repository_id)
              ''verification manifest repository_id does not match its declaration'') (\<lambda>_.
     (case dget manifest ''checks'' of
        JArr (c # checks) \<Rightarrow>
          rbind (rfoldM manifest_check ([], []) (enumerate 0 (c # checks))) (\<lambda>acc.
            Inr (dset ''checks'' (JArr (map JObj (snd acc))) manifest))
      | _ \<Rightarrow> graph_reject ''verification manifest checks must be a non-empty array''))))"

section \<open>Declarations\<close>

definition provides_fields :: "string list" where
  "provides_fields = [''contract_identity'', ''contract_revision'', ''exported_identity'', ''evidence'']"

definition consumes_fields :: "string list" where
  "consumes_fields = [''contract_identity'', ''contract_revision'', ''consumer_identity'', ''evidence'']"

definition verification_fields :: "string list" where
  "verification_fields = [''check_identity'', ''executor'', ''surface'', ''evidence'']"

definition entry_verification :: "string \<Rightarrow> string \<Rightarrow> string \<Rightarrow> json \<Rightarrow> unit res" where
  "entry_verification repository_id kind ctx verification =
     (if verification = JNull then Inr ()
      else
        rbind (graph_guard (kind = ''consumes'' \<and> is_obj verification) (ctx @ ''.verification is invalid'')) (\<lambda>_.
        rbind (non_empty_fields (obj_of verification) (ctx @ ''.verification.'') verification_fields) (\<lambda>_.
          graph_guard (dget (obj_of verification) ''executor'' = JStr repository_id)
            (ctx @ ''.verification.executor must match repository_id''))))"

definition declaration_entry ::
  "string \<Rightarrow> string \<Rightarrow> string list \<Rightarrow> string list \<times> dict list \<Rightarrow> nat \<times> json \<Rightarrow> (string list \<times> dict list) res" where
  "declaration_entry repository_id kind required acc indexed =
     (let ctx = ''contract declaration '' @ kind @ ''['' @ nat_str (fst indexed) @ '']'' in
      rbind (graph_object (snd indexed) (ctx @ '' must be an object'')) (\<lambda>entry.
      rbind (non_empty_fields entry (ctx @ ''.'') required) (\<lambda>_.
      rbind (entry_verification repository_id kind ctx (dget entry ''verification'')) (\<lambda>_.
      let identity = str_of (dget entry ''contract_identity'') in
      rbind (graph_guard (identity \<notin> set (fst acc))
               (''contract declaration '' @ kind @ '' repeats '' @ identity)) (\<lambda>_.
        Inr (identity # fst acc, snd acc @ [entry]))))))"

definition declaration_entries ::
  "string \<Rightarrow> string \<Rightarrow> string list \<Rightarrow> json \<Rightarrow> dict list res" where
  "declaration_entries repository_id kind required value =
     rbind (graph_array value (''contract declaration '' @ kind @ '' must be an array'')) (\<lambda>entries.
     rbind (rfoldM (declaration_entry repository_id kind required) ([], []) (enumerate 0 entries)) (\<lambda>acc.
       Inr (snd acc)))"

definition validate_declaration :: "json \<Rightarrow> dict res" where
  "validate_declaration value =
     rbind (graph_object value (''contract declaration must be '' @ DECLARATION_SCHEMA)) (\<lambda>d.
     rbind (graph_guard (dget d ''schema_version'' = JStr DECLARATION_SCHEMA)
              (''contract declaration must be '' @ DECLARATION_SCHEMA)) (\<lambda>_.
     rbind (graph_guard (full_text (dget d ''repository_id''))
              ''contract declaration repository_id must be non-empty'') (\<lambda>_.
     rbind (graph_guard (full_text (dget d ''revision'')) ''contract declaration revision must be non-empty'') (\<lambda>_.
     let repository_id = str_of (dget d ''repository_id'') in
     rbind (declaration_entries repository_id ''provides'' provides_fields (dget d ''provides'')) (\<lambda>provides.
     rbind (declaration_entries repository_id ''consumes'' consumes_fields (dget d ''consumes'')) (\<lambda>consumes.
       Inr (dset ''consumes'' (JArr (map JObj consumes))
             (dset ''provides'' (JArr (map JObj provides)) d))))))))"

definition entries_of :: "dict \<Rightarrow> string \<Rightarrow> dict list" where
  "entries_of declaration kind = map obj_of (arr_of (dget declaration kind))"

section \<open>Evidence of a declaration\<close>

text \<open>
  A checkout: its path as it is printed, and for a relative name the bytes of the file, \<open>None\<close>
  when it is no file and \<open>Some None\<close> when reading it fails.
\<close>

record checkout =
  root_text :: string
  file_bytes :: "string \<Rightarrow> nat list option option"

definition evidence_file :: "checkout \<Rightarrow> string \<Rightarrow> nat list option option" where
  "evidence_file c evidence = (if absolute_path evidence then None else file_bytes c evidence)"

definition declared_digest :: "checkout \<Rightarrow> string \<Rightarrow> nat \<Rightarrow> dict \<Rightarrow> (string \<times> json) res" where
  "declared_digest c kind index entry =
     (let evidence = str_of (dget entry ''evidence'') in
      (case evidence_file c evidence of
         None \<Rightarrow> graph_reject (root_text c @ ''/family-semantic-contracts-v1.json '' @ kind @ ''['' @ nat_str index @
                   ''] evidence does not exist: '' @ evidence)
       | Some None \<Rightarrow> graph_reject (''cannot read declared evidence '' @ root_text c @ ''/'' @ evidence @ '': '')
       | Some (Some b) \<Rightarrow> Inr (evidence, JStr (''sha256:'' @ sha256_hexdigest b))))"

definition declared_digests :: "checkout \<Rightarrow> string \<Rightarrow> dict list \<Rightarrow> dict res" where
  "declared_digests c kind entries =
     rbind (each_entry (declared_digest c kind) entries) (\<lambda>kvs.
       Inr (foldl (\<lambda>d kv. dset (fst kv) (snd kv) d) [] kvs))"

definition verification_manifest :: "checkout \<Rightarrow> string \<Rightarrow> string \<Rightarrow> string \<Rightarrow> (dict \<times> nat list) res" where
  "verification_manifest c repository_id kind evidence =
     (case evidence_file c evidence of
        None \<Rightarrow> graph_reject (root_text c @ ''/family-semantic-contracts-v1.json '' @ kind @
                  '' verification evidence does not exist: '' @ evidence)
      | Some None \<Rightarrow> graph_reject (''cannot read verification manifest '' @ root_text c @ ''/'' @ evidence @ '': '')
      | Some (Some b) \<Rightarrow>
          (case loads_bytes b of
             None \<Rightarrow> graph_reject (''cannot read verification manifest '' @ root_text c @ ''/'' @ evidence @ '': '')
           | Some v \<Rightarrow> rbind (validate_verification_manifest v repository_id) (\<lambda>m. Inr (m, b))))"

text \<open>The entry with its verification bound to the check of the manifest, and the manifest's digest.\<close>

definition bind_entry :: "checkout \<Rightarrow> string \<Rightarrow> string \<Rightarrow> dict \<Rightarrow> (dict \<times> dict) res" where
  "bind_entry c repository_id kind entry =
     (case dget entry ''verification'' of
        JObj verification \<Rightarrow>
          (let evidence = str_of (dget verification ''evidence'') in
           rbind (verification_manifest c repository_id kind evidence) (\<lambda>(manifest, b).
           (case List.find (\<lambda>check. py_eq (dget check ''identity'') (dget verification ''check_identity'') \<and>
                                    py_eq (dget check ''contract_identity'') (dget entry ''contract_identity''))
                   (entries_of manifest ''checks'') of
              None \<Rightarrow> graph_reject (''verification manifest '' @ root_text c @ ''/'' @ evidence @ '' does not declare '' @
                        py_str (dget verification ''check_identity'') @ '' for '' @
                        py_str (dget entry ''contract_identity''))
            | Some check \<Rightarrow>
                let bound = dset ''runner'' (dget check ''runner'') verification;
                    bound' = (if dget check ''runner'' = JStr ''mncs-test''
                              then dset ''selector'' (dget check ''selector'') bound else bound)
                in Inr (dset ''verification'' (JObj bound') entry,
                        [(evidence, JStr (''sha256:'' @ sha256_hexdigest b))]))))
      | _ \<Rightarrow> Inr (entry, []))"

definition bind_declaration_evidence :: "checkout \<Rightarrow> json \<Rightarrow> dict res" where
  "bind_declaration_evidence c value =
     rbind (validate_declaration value) (\<lambda>declaration.
     let repository_id = str_of (dget declaration ''repository_id'') in
     rbind (declared_digests c ''provides'' (entries_of declaration ''provides'')) (\<lambda>provided.
     rbind (declared_digests c ''consumes'' (entries_of declaration ''consumes'')) (\<lambda>consumed.
     rbind (rmapM (bind_entry c repository_id ''provides'') (entries_of declaration ''provides'')) (\<lambda>ps.
     rbind (rmapM (bind_entry c repository_id ''consumes'') (entries_of declaration ''consumes'')) (\<lambda>cs.
     let verified = foldl (\<lambda>d kv. dset (fst kv) (snd kv) d) [] (concat (map snd ps) @ concat (map snd cs))
     in Inr (dset ''_evidence_digests''
               (JObj [(''provides'', JObj provided), (''consumes'', JObj consumed), (''verification'', JObj verified)])
               (dset ''consumes'' (JArr (map (JObj \<circ> fst) cs))
                 (dset ''provides'' (JArr (map (JObj \<circ> fst) ps)) declaration))))))))"

definition evidence_digest :: "dict \<Rightarrow> string \<Rightarrow> string \<Rightarrow> string option" where
  "evidence_digest declaration kind evidence =
     (case dget declaration ''_evidence_digests'' of
        JObj vs \<Rightarrow>
          (case dget vs kind of
             JObj kind_values \<Rightarrow>
               (case dget kind_values evidence of JStr digest \<Rightarrow> Some digest | _ \<Rightarrow> None)
           | _ \<Rightarrow> None)
      | _ \<Rightarrow> None)"

section \<open>Validation of a graph\<close>

definition graph_repository :: "string list \<Rightarrow> nat \<times> json \<Rightarrow> string list res" where
  "graph_repository ids indexed =
     (let ctx = ''repositories['' @ nat_str (fst indexed) @ '']'' in
      rbind (graph_object (snd indexed) (ctx @ '' must be an object'')) (\<lambda>repository.
      rbind (graph_guard (full_text (dget repository ''id'') \<and> str_of (dget repository ''id'') \<notin> set ids)
               (ctx @ ''.id must be unique'')) (\<lambda>_.
      rbind (non_empty_fields repository (ctx @ ''.'') [''repository'', ''revision'', ''manifest_identity'']) (\<lambda>_.
        Inr (str_of (dget repository ''id'') # ids)))))"

definition prefixed_digest :: "json \<Rightarrow> bool" where
  "prefixed_digest v = (is_str v \<and> starts_with (str_of v) ''sha256:'' \<and> length (str_of v) = length ''sha256:'' + 64)"

definition digest_table :: "string \<times> json \<Rightarrow> bool" where
  "digest_table kv =
     (fst kv \<in> set [''provides'', ''consumes'', ''verification''] \<and> is_obj (snd kv) \<and>
      list_all (\<lambda>ed. fst ed \<noteq> [] \<and> prefixed_digest (snd ed)) (obj_of (snd kv)))"

definition source_declaration :: "string list \<Rightarrow> nat \<times> json \<Rightarrow> string list res" where
  "source_declaration ids indexed =
     (let ctx = ''source.declarations['' @ nat_str (fst indexed) @ '']'' in
      rbind (graph_object (snd indexed) (ctx @ '' must be an object'')) (\<lambda>declaration.
      rbind (graph_guard (full_text (dget declaration ''repository_id'') \<and>
                          str_of (dget declaration ''repository_id'') \<notin> set ids \<and>
                          full_text (dget declaration ''identity'') \<and> full_text (dget declaration ''path''))
               (ctx @ '' is invalid'')) (\<lambda>_.
      let evidence_digests = dget_default declaration ''evidence_digests'' (JObj []) in
      rbind (graph_guard (is_obj evidence_digests) (ctx @ ''.evidence_digests must be an object'')) (\<lambda>_.
      rbind (graph_guard (list_all digest_table (obj_of evidence_digests)) (ctx @ ''.evidence_digests is invalid'')) (\<lambda>_.
        Inr (str_of (dget declaration ''repository_id'') # ids))))))"

definition edge_verification :: "string \<Rightarrow> dict \<Rightarrow> dict res" where
  "edge_verification ctx edge =
     rbind (graph_object (dget edge ''verification'') (ctx @ ''.verification is required'')) (\<lambda>verification.
     rbind (non_empty_fields verification (ctx @ ''.verification.'') verification_fields) (\<lambda>_.
     rbind (in_set (dget verification ''runner'') VERIFICATION_RUNNERS) (\<lambda>known.
     rbind (graph_guard known (ctx @ ''.verification.runner is unknown: '' @ py_str (dget verification ''runner''))) (\<lambda>_.
     rbind (graph_guard (dget verification ''contract_identity'' \<in> {JNull, dget edge ''contract_identity''})
              (ctx @ ''.verification.contract_identity does not match the edge'')) (\<lambda>_.
     let selector = dget verification ''selector'' in
     rbind (if dget verification ''runner'' = JStr ''mncs-test''
            then rbind (validate_mncs_test_selector selector (ctx @ ''.verification'')) (\<lambda>s.
                   Inr (dset ''selector'' (JObj s) verification))
            else rbind (graph_guard (selector = JNull) (ctx @ ''.verification.selector is only valid for mncs-test'')) (\<lambda>_.
                   Inr verification)) (\<lambda>checked.
     rbind (no_forbidden checked selector (ctx @ ''.verification'')) (\<lambda>_.
       Inr (if dget verification ''runner'' = JStr ''mncs-test''
            then dset ''verification'' (JObj checked) edge else edge))))))))"

definition checked_edge :: "string list \<Rightarrow> nat \<Rightarrow> json \<Rightarrow> dict res" where
  "checked_edge repository_ids index raw =
     (let ctx = ''edges['' @ nat_str index @ '']'' in
      rbind (graph_object raw (ctx @ '' must be an object'')) (\<lambda>edge0.
      rbind (non_empty_fields edge0 (ctx @ ''.'')
               [''producer_repository'', ''consumer_repository'', ''contract_identity'', ''contract_revision'',
                ''consuming_identity'', ''provenance'']) (\<lambda>_.
      rbind (graph_guard (str_of (dget edge0 ''producer_repository'') \<in> set repository_ids \<and>
                          str_of (dget edge0 ''consumer_repository'') \<in> set repository_ids)
               (ctx @ '' references an unknown repository'')) (\<lambda>_.
      rbind (non_empty_fields edge0 (ctx @ ''.'')
               [''producer_manifest_identity'', ''consumer_manifest_identity'', ''provider_identity'']) (\<lambda>_.
      rbind (edge_verification ctx edge0) (\<lambda>edge.
      rbind (graph_guard (prefixed_digest (dget edge ''verification_evidence_sha256''))
               (ctx @ ''.verification_evidence_sha256 is invalid'')) (\<lambda>_.
      rbind (rmapM (\<lambda>field. graph_guard (has_key edge field \<longrightarrow> prefixed_digest (dget edge field))
                              (ctx @ ''.'' @ field @ '' is invalid''))
               [''provider_evidence_sha256'', ''consumer_evidence_sha256'']) (\<lambda>_.
      rbind (graph_guard (dget edge ''fingerprint'' = JStr (edge_fingerprint edge))
               (ctx @ ''.fingerprint does not match the edge'')) (\<lambda>_.
        Inr edge)))))))))"

definition count_fields :: "string list" where
  "count_fields =
     [''registered_family_project_count'', ''classified_project_count'', ''semantic_graph_participant_count'',
      ''explicit_nonparticipant_count'', ''unclassified_project_count'']"

definition coverage_names :: "dict \<Rightarrow> string \<Rightarrow> string list res" where
  "coverage_names coverage field =
     (case text_items (dget coverage field) of
        Some ss \<Rightarrow>
          rbind (graph_guard (distinct ss) (''family graph coverage.'' @ field @ '' must be a unique string array''))
            (\<lambda>_. Inr ss)
      | None \<Rightarrow> graph_reject (''family graph coverage.'' @ field @ '' must be a unique string array''))"

definition graph_coverage :: "string list \<Rightarrow> dict \<Rightarrow> unit res" where
  "graph_coverage repository_ids coverage =
     (let count = (\<lambda>field. int_of (dget coverage field)) in
     rbind (graph_guard (is_str (dget coverage ''registry_identity'') \<and>
                         sha256_text (str_of (dget coverage ''registry_identity'')))
              ''family graph coverage.registry_identity must be a lower-case SHA-256 identity'') (\<lambda>_.
     rbind (rmapM (\<lambda>field. graph_guard (plain_int (dget coverage field) \<and> count field \<ge> 0)
                             (''family graph coverage.'' @ field @ '' must be a non-negative integer''))
              count_fields) (\<lambda>_.
     rbind (graph_guard (count ''semantic_graph_participant_count'' = int (length repository_ids))
              ''family graph coverage participant count does not match repositories'') (\<lambda>_.
     rbind (graph_guard (count ''registered_family_project_count'' =
                         count ''classified_project_count'' + count ''unclassified_project_count'')
              ''family graph coverage registered count must equal classified plus unclassified'') (\<lambda>_.
     rbind (coverage_names coverage ''semantic_graph_participants'') (\<lambda>participants.
     rbind (graph_guard (set participants = set repository_ids)
              ''family graph coverage.semantic_graph_participants does not match repositories'') (\<lambda>_.
     rbind (coverage_names coverage ''explicit_nonparticipants'') (\<lambda>nonparticipants.
     rbind (coverage_names coverage ''unclassified_repositories'') (\<lambda>unclassified.
     rbind (graph_guard (int (length nonparticipants) = count ''explicit_nonparticipant_count'')
              ''family graph coverage nonparticipant count is inconsistent'') (\<lambda>_.
     rbind (graph_guard (int (length unclassified) = count ''unclassified_project_count'')
              ''family graph coverage unclassified count is inconsistent'') (\<lambda>_.
     rbind (in_set (dget coverage ''coverage_status'') [''complete'', ''incomplete'']) (\<lambda>known.
     rbind (graph_guard known ''family graph coverage.coverage_status is invalid'') (\<lambda>_.
       graph_guard (dget coverage ''topology_status'' = JStr ''complete_among_declared_participants'')
         ''family graph coverage.topology_status is invalid'')))))))))))))"

definition graph_source :: "string list \<Rightarrow> json \<Rightarrow> unit res" where
  "graph_source repository_ids value =
     rbind (graph_object value ''family graph source must be an object'') (\<lambda>source.
     rbind (graph_guard (dget source ''kind'' = JStr ''repository_contract_declarations'')
              ''family graph source kind is invalid'') (\<lambda>_.
     rbind (graph_array (dget source ''declarations'') ''family graph source declarations must be an array'') (\<lambda>ds.
     rbind (rfoldM source_declaration [] (enumerate 0 ds)) (\<lambda>source_ids.
       graph_guard (set source_ids = set repository_ids)
         ''family graph source declarations must cover repositories''))))"

definition validate_graph :: "json \<Rightarrow> dict res" where
  "validate_graph value =
     rbind (graph_object value (''family graph must be '' @ GRAPH_SCHEMA)) (\<lambda>graph.
     rbind (graph_guard (dget graph ''schema_version'' = JStr GRAPH_SCHEMA)
              (''family graph must be '' @ GRAPH_SCHEMA)) (\<lambda>_.
     rbind (graph_array (dget graph ''repositories'') ''family graph repositories must be non-empty'') (\<lambda>repositories.
     rbind (graph_guard (repositories \<noteq> []) ''family graph repositories must be non-empty'') (\<lambda>_.
     rbind (rfoldM graph_repository [] (enumerate 0 repositories)) (\<lambda>repository_ids.
     rbind (graph_source repository_ids (dget graph ''source'')) (\<lambda>_.
     rbind (graph_array (dget graph ''edges'') ''family graph edges must be an array'') (\<lambda>edges.
     rbind (each_entry (checked_edge repository_ids) edges) (\<lambda>normalized.
     rbind (graph_guard (is_bool (dget graph ''complete'')) ''family graph complete must be boolean'') (\<lambda>_.
     rbind (graph_guard (text_items (dget graph ''limitations'') \<noteq> None)
              ''family graph limitations must be non-empty strings'') (\<lambda>_.
     rbind (graph_object (dget graph ''coverage'') ''family graph coverage must be an object'') (\<lambda>coverage.
     rbind (graph_coverage repository_ids coverage) (\<lambda>_.
     rbind (graph_identity graph) (\<lambda>expected_identity.
     rbind (graph_guard (dget graph ''graph_identity'' = JStr expected_identity)
              ''family graph graph_identity does not match its content'') (\<lambda>_.
       Inr (dset ''edges'' (JArr (map JObj normalized)) graph)))))))))))))))"

section \<open>Generation of a graph\<close>

definition set_default :: "string \<Rightarrow> json \<Rightarrow> dict \<Rightarrow> dict" where
  "set_default k v d = (if has_key d k then d else dset k v d)"

definition repository_row :: "dict list \<Rightarrow> dict \<Rightarrow> dict res" where
  "repository_row checked item =
     rbind (graph_guard (full_text (dget item ''id'') \<and> full_text (dget item ''repository''))
              ''generated repository metadata requires id and repository'') (\<lambda>_.
     (case List.find (\<lambda>d. dget d ''repository_id'' = dget item ''id'') checked of
        None \<Rightarrow> Inl (KeyError (str_of (dget item ''id'')))
      | Some declaration \<Rightarrow>
          Inr (set_default ''declaration_path''
                 (dget_default declaration ''_path'' (JStr ''family-semantic-contracts-v1.json''))
                 (dset ''manifest_identity'' (JStr (declaration_identity declaration))
                   (set_default ''revision'' (dget declaration ''revision'') item)))))"

type_synonym providers = "(string \<times> string \<times> dict) list"

definition add_provider :: "string \<Rightarrow> providers \<Rightarrow> dict \<Rightarrow> providers res" where
  "add_provider repository_id providers provided =
     (let identity = str_of (dget provided ''contract_identity'') in
      rbind (graph_guard (map_of providers identity = None) (''multiple producers declare '' @ identity)) (\<lambda>_.
        Inr ((identity, repository_id, provided) # providers)))"

definition add_providers :: "providers \<Rightarrow> dict \<Rightarrow> providers res" where
  "add_providers providers declaration =
     rfoldM (add_provider (str_of (dget declaration ''repository_id''))) providers
       (entries_of declaration ''provides'')"

text \<open>\<open>if digest is not None: edge[key] = digest\<close>.\<close>

definition add_digest :: "string \<Rightarrow> string option \<Rightarrow> dict \<Rightarrow> dict" where
  "add_digest key digest edge = (case digest of None \<Rightarrow> edge | Some s \<Rightarrow> dset key (JStr s) edge)"

definition make_edge :: "dict \<Rightarrow> dict \<Rightarrow> string \<Rightarrow> dict \<Rightarrow> dict \<Rightarrow> dict" where
  "make_edge declaration consumed producer_id producer provided =
     (let repository_id = str_of (dget declaration ''repository_id'');
          base = [(''producer_repository'', JStr producer_id), (''consumer_repository'', JStr repository_id),
                  (''contract_identity'', dget consumed ''contract_identity''),
                  (''contract_revision'', dget provided ''contract_revision''),
                  (''consuming_identity'', dget consumed ''consumer_identity''),
                  (''provenance'', JStr (repository_id @ '':'' @ str_of (dget consumed ''evidence''))),
                  (''producer_manifest_identity'', JStr (declaration_identity producer)),
                  (''consumer_manifest_identity'', JStr (declaration_identity declaration)),
                  (''provider_identity'', dget provided ''exported_identity'')];
          verified = (case dget consumed ''verification'' of
                        JObj verification \<Rightarrow>
                          add_digest ''verification_evidence_sha256''
                            (evidence_digest declaration ''verification'' (str_of (dget verification ''evidence'')))
                            (base @ [(''verification'', JObj verification)])
                      | _ \<Rightarrow> base);
          digested = add_digest ''consumer_evidence_sha256''
                       (evidence_digest declaration ''consumes'' (str_of (dget consumed ''evidence'')))
                       (add_digest ''provider_evidence_sha256''
                         (evidence_digest producer ''provides'' (str_of (dget provided ''evidence''))) verified)
      in dset ''fingerprint'' (JStr (edge_fingerprint digested)) digested)"

definition join_edge :: "dict list \<Rightarrow> providers \<Rightarrow> dict \<Rightarrow> dict \<Rightarrow> dict res" where
  "join_edge checked providers declaration consumed =
     (let identity = str_of (dget consumed ''contract_identity'') in
      (case map_of providers identity of
         None \<Rightarrow> graph_reject (''no producer declares consumed contract '' @ identity)
       | Some (producer_id, provided) \<Rightarrow>
           rbind (graph_guard (dget consumed ''contract_revision'' = dget provided ''contract_revision'')
                    (''consumer '' @ str_of (dget declaration ''repository_id'') @ '' requests '' @ identity @
                     '' revision '' @ str_of (dget consumed ''contract_revision'') @ '', producer declares '' @
                     str_of (dget provided ''contract_revision''))) (\<lambda>_.
           (case List.find (\<lambda>d. dget d ''repository_id'' = JStr producer_id) checked of
              None \<Rightarrow> Inl (KeyError producer_id)
            | Some producer \<Rightarrow> Inr (make_edge declaration consumed producer_id producer provided)))))"

definition join_edges :: "dict list \<Rightarrow> providers \<Rightarrow> dict \<Rightarrow> dict list res" where
  "join_edges checked providers declaration =
     rmapM (join_edge checked providers declaration) (entries_of declaration ''consumes'')"

definition edge_key :: "dict \<Rightarrow> string list" where
  "edge_key edge =
     map (\<lambda>k. str_of (dget edge k)) [''producer_repository'', ''consumer_repository'', ''contract_identity'']"

definition source_row :: "dict \<Rightarrow> json" where
  "source_row declaration =
     JObj [(''repository_id'', dget declaration ''repository_id''),
           (''path'', dget_default declaration ''_path'' (JStr ''family-semantic-contracts-v1.json'')),
           (''identity'', JStr (declaration_identity declaration)),
           (''evidence_digests'', dget_default declaration ''_evidence_digests'' (JObj []))]"

definition default_coverage :: "string list \<Rightarrow> dict" where
  "default_coverage participant_ids =
     (let n = JInt (int (length participant_ids)) in
      [(''registry_identity'', JStr UNAVAILABLE_REGISTRY_IDENTITY), (''registered_family_project_count'', n),
       (''classified_project_count'', n), (''semantic_graph_participant_count'', n),
       (''explicit_nonparticipant_count'', JInt 0), (''unclassified_project_count'', JInt 0),
       (''semantic_graph_participants'', JArr (map JStr participant_ids)),
       (''explicit_nonparticipants'', JArr []), (''unclassified_repositories'', JArr []),
       (''coverage_status'', JStr ''incomplete''),
       (''topology_status'', JStr ''complete_among_declared_participants'')])"

definition generated_limitations :: json where
  "generated_limitations =
     JArr [JStr ''Edges are generated from repository-owned declarations joined by Commons; they do not replace compiler semantic graph truth.'',
           JStr ''Undeclared or profile-wide contracts must escalate to a wider family boundary.'']"

definition graph_document ::
  "dict list \<Rightarrow> dict list \<Rightarrow> dict list \<Rightarrow> string \<Rightarrow> dict \<Rightarrow> dict" where
  "graph_document checked repository_rows edges revision coverage =
     [(''schema_version'', JStr GRAPH_SCHEMA), (''revision'', JStr revision), (''complete'', JBool True),
      (''limitations'', generated_limitations),
      (''source'', JObj [(''kind'', JStr ''repository_contract_declarations''),
                         (''schema_version'', JStr DECLARATION_SCHEMA),
                         (''declarations'', JArr (map source_row
                            (sort_key (\<lambda>d. str_of (dget d ''repository_id'')) checked)))]),
      (''repositories'', JArr (map JObj (sort_key (\<lambda>r. str_of (dget r ''id'')) repository_rows))),
      (''edges'', JArr (map JObj (sort_key edge_key edges))),
      (''coverage'', JObj coverage)]"

text \<open>The declarations joined: the checked declarations, the repository rows and the edges.\<close>

definition join_declarations ::
  "json list \<Rightarrow> dict list \<Rightarrow> (dict list \<times> dict list \<times> dict list) res" where
  "join_declarations declarations repositories =
     rbind (rmapM validate_declaration declarations) (\<lambda>checked.
     let ids = map (\<lambda>d. str_of (dget d ''repository_id'')) checked in
     rbind (graph_guard (distinct ids) ''contract declarations must have unique repositories'') (\<lambda>_.
     rbind (guard (list_all (\<lambda>r. hashable (dget r ''id'')) repositories) TypeError) (\<lambda>_.
     rbind (graph_guard (set (map (\<lambda>r. dget r ''id'') repositories) = JStr ` set ids)
              ''repository metadata and contract declarations must cover the same repositories'') (\<lambda>_.
     rbind (rmapM (repository_row checked) repositories) (\<lambda>repository_rows.
     rbind (rfoldM add_providers [] checked) (\<lambda>providers.
     rbind (rmapM (join_edges checked providers) checked) (\<lambda>edges.
       Inr (checked, repository_rows, concat edges))))))))"

definition generate_graph ::
  "json list \<Rightarrow> dict list \<Rightarrow> string \<Rightarrow> dict option \<Rightarrow> dict res" where
  "generate_graph declarations repositories revision coverage =
     rbind (join_declarations declarations repositories) (\<lambda>(checked, repository_rows, edges).
     let ids = sorted_set (map (\<lambda>d. str_of (dget d ''repository_id'')) checked);
         graph = graph_document checked repository_rows edges revision
                   (case coverage of None \<Rightarrow> default_coverage ids | Some c \<Rightarrow> c) in
     rbind (graph_identity graph) (\<lambda>identity.
       validate_graph (JObj (dset ''graph_identity'' (JStr identity) graph))))"

section \<open>Reading a graph\<close>

definition consumer_key :: "dict \<Rightarrow> string list res" where
  "consumer_key edge =
     rmapM (\<lambda>k. if has_key edge k then Inr (py_str (dget edge k)) else Inl (KeyError k))
       [''consumer_repository'', ''consuming_identity'']"

definition consumers_for :: "dict \<Rightarrow> string \<Rightarrow> string option \<Rightarrow> dict list res" where
  "consumers_for graph producer_repository contract_identity =
     rbind (py_iter (dget_default graph ''edges'' (JArr []))) (\<lambda>items.
     let edges = map obj_of (filter (\<lambda>edge. is_obj edge \<and>
             dget (obj_of edge) ''producer_repository'' = JStr producer_repository \<and>
             (case contract_identity of
                None \<Rightarrow> True | Some c \<Rightarrow> dget (obj_of edge) ''contract_identity'' = JStr c)) items) in
     rbind (rmapM consumer_key edges) (\<lambda>keys.
       Inr (map snd (sort_key fst (zip keys edges)))))"

section \<open>Generated provider facts\<close>

definition authority_fields :: "string list" where
  "authority_fields =
     [''kind'', ''module_identity'', ''interface_identity'', ''generator_version'',
      ''binding_content_identity'', ''provider_fact_identity'']"

definition evidence_identity_ok :: "string \<times> json \<Rightarrow> bool" where
  "evidence_identity_ok ev =
     (fst ev \<noteq> [] \<and> relative_path (fst ev) \<and> is_str (snd ev) \<and> sha256_text (str_of (snd ev)))"

definition provider_authority :: "json \<Rightarrow> dict res" where
  "provider_authority value =
     rbind (graph_object value ''generated provider metadata authority must be an object'') (\<lambda>authority.
     rbind (non_empty_fields authority ''generated provider metadata authority.'' authority_fields) (\<lambda>_.
     rbind (graph_guard (json_among (dget authority ''kind'') PROVIDER_AUTHORITY_KINDS)
              (''generated provider metadata authority.kind is unknown: '' @ str_of (dget authority ''kind''))) (\<lambda>_.
     rbind (graph_guard (dget authority ''typed_call_schema_version'' \<in> {JNull, JStr ''mncs.typed-call/1''})
              ''generated provider metadata authority.typed_call_schema_version is unsupported'') (\<lambda>_.
     rbind (case dget authority ''evidence_digests'' of
              JNull \<Rightarrow> Inr ()
            | JObj digests \<Rightarrow>
                graph_guard (list_all evidence_identity_ok digests)
                  ''generated provider metadata authority.evidence_digests contains an invalid identity''
            | _ \<Rightarrow> graph_reject ''generated provider metadata authority.evidence_digests must be an object'') (\<lambda>_.
     rbind (rmapM (\<lambda>field. graph_guard (sha256_text (str_of (dget authority field)))
                             (''generated provider metadata authority.'' @ field @ '' must be a lowercase digest''))
              [''interface_identity'', ''binding_content_identity'']) (\<lambda>_.
       Inr authority))))))"

definition provider_fact :: "string list \<times> dict list \<Rightarrow> nat \<times> json \<Rightarrow> (string list \<times> dict list) res" where
  "provider_fact acc indexed =
     (let ctx = ''generated provider metadata providers['' @ nat_str (fst indexed) @ '']'' in
      rbind (graph_object (snd indexed) (ctx @ '' must be an object'')) (\<lambda>raw.
      rbind (graph_guard (list_all (\<lambda>field. full_text (dget raw field)) provides_fields) (ctx @ '' is incomplete'')) (\<lambda>_.
      let identity = str_of (dget raw ''contract_identity'') in
      rbind (graph_guard (identity \<notin> set (fst acc)) (''generated provider metadata repeats '' @ identity)) (\<lambda>_.
        Inr (identity # fst acc, snd acc @ [map (\<lambda>field. (field, dget raw field)) provides_fields])))))"

definition declared_fact :: "dict \<Rightarrow> dict res" where
  "declared_fact entry =
     rmapM (\<lambda>field. if has_key entry field then Inr (field, JStr (py_str (dget entry field))) else Inl (KeyError field))
       provides_fields"

definition by_contract :: "dict list \<Rightarrow> dict list" where
  "by_contract facts = sort_key (\<lambda>d. str_of (dget d ''contract_identity'')) facts"

definition current_evidence :: "string \<Rightarrow> checkout \<Rightarrow> string \<times> json \<Rightarrow> unit res" where
  "current_evidence repository_id c ev =
     (case file_bytes c (fst ev) of
        None \<Rightarrow> graph_reject (''generated provider metadata evidence does not exist for '' @ repository_id @ '': '' @ fst ev)
      | Some None \<Rightarrow> Inl OSError
      | Some (Some b) \<Rightarrow>
          graph_guard (snd ev = JStr (sha256_hexdigest b))
            (''generated provider metadata evidence is stale for '' @ repository_id @ '': '' @ fst ev))"

definition validate_generated_provider_metadata ::
  "json \<Rightarrow> string \<Rightarrow> dict \<Rightarrow> checkout option \<Rightarrow> dict res" where
  "validate_generated_provider_metadata value repository_id declaration at =
     rbind (graph_object value (''generated provider metadata must be '' @ PROVIDER_METADATA_SCHEMA)) (\<lambda>d.
     rbind (graph_guard (dget d ''schema_version'' = JStr PROVIDER_METADATA_SCHEMA)
              (''generated provider metadata must be '' @ PROVIDER_METADATA_SCHEMA)) (\<lambda>_.
     rbind (graph_guard (dget d ''repository_id'' = JStr repository_id)
              ''generated provider metadata repository_id does not match its checkout'') (\<lambda>_.
     rbind (provider_authority (dget d ''authority'')) (\<lambda>authority.
     rbind (graph_array (dget d ''providers'') ''generated provider metadata providers must be an array'') (\<lambda>raw.
     rbind (rfoldM provider_fact ([], []) (enumerate 0 raw)) (\<lambda>acc.
     rbind (py_iter (dget_default declaration ''provides'' (JArr []))) (\<lambda>entries.
     rbind (rmapM declared_fact (map obj_of (filter is_obj entries))) (\<lambda>declared.
     rbind (graph_guard (by_contract (snd acc) = by_contract declared)
              (''generated provider metadata is stale for '' @ repository_id @ ''; regenerate provider facts'')) (\<lambda>_.
     rbind (case dget authority ''evidence_digests'' of
              JObj digests \<Rightarrow>
                rbind (graph_guard (set (map fst digests) = set (map (\<lambda>f. str_of (dget f ''evidence'')) declared))
                         (''generated provider metadata evidence paths are stale for '' @ repository_id @
                          ''; regenerate provider facts'')) (\<lambda>_.
                (case at of
                   None \<Rightarrow> Inr ()
                 | Some c \<Rightarrow> rbind (rmapM (current_evidence repository_id c) digests) (\<lambda>_. Inr ())))
            | _ \<Rightarrow> Inr ()) (\<lambda>_.
       Inr (dset ''providers'' (JArr (map JObj (by_contract (snd acc)))) d)))))))))))"

section \<open>What the readers accept\<close>

lemma graph_guard_Inr [simp]: "graph_guard b m = Inr u \<longleftrightarrow> b"
  by (simp add: graph_guard_def)

lemma graph_reject_Inr [simp]: "graph_reject m \<noteq> Inr x"
  by (simp add: graph_reject_def)

lemma graph_object_Inr [simp]: "graph_object v m = Inr d \<longleftrightarrow> v = JObj d"
  by (simp add: graph_object_def case_obj_Inr)

lemma graph_array_Inr [simp]: "graph_array v m = Inr xs \<longleftrightarrow> v = JArr xs"
  by (simp add: graph_array_def case_arr_Inr)

lemma non_empty_fields_Inr: "non_empty_fields d prefix ks = Inr u \<longleftrightarrow> (\<forall>k \<in> set ks. full_text (dget d k))"
proof -
  have "rmapM (\<lambda>field. graph_guard (full_text (dget d field)) (prefix @ field @ '' must be non-empty'')) ks = Inr us \<longleftrightarrow>
      us = map (\<lambda>_. ()) ks \<and> (\<forall>k \<in> set ks. full_text (dget d k))" for us
    by (induction ks arbitrary: us) (auto simp: rbind_eq_Inr)
  then show ?thesis by (simp add: non_empty_fields_def rbind_eq_Inr)
qed

section \<open>Declarations\<close>

lemma declaration_entries_full:
  assumes "declaration_entries r kind required v = Inr es" and "e \<in> set es" and "k \<in> set required"
  shows "full_text (dget e k)"
proof -
  obtain xs acc where acc: "rfoldM (declaration_entry r kind required) ([], []) (enumerate 0 xs) = Inr acc"
    and es: "es = snd acc"
    using assms(1) by (auto simp: declaration_entries_def rbind_eq_Inr)
  have "\<forall>e \<in> set (snd acc). \<forall>k \<in> set required. full_text (dget e k)"
  proof (rule rfoldM_invariant [OF acc, where I = "\<lambda>acc. \<forall>e \<in> set (snd acc). \<forall>k \<in> set required. full_text (dget e k)"])
    show "\<forall>e \<in> set (snd s'). \<forall>k \<in> set required. full_text (dget e k)"
      if "\<forall>e \<in> set (snd s). \<forall>k \<in> set required. full_text (dget e k)"
        and "declaration_entry r kind required s x = Inr s'" for s x s'
      using that by (auto simp: declaration_entry_def Let_def rbind_eq_Inr non_empty_fields_Inr)
  qed simp
  with assms(2,3) es show ?thesis by blast
qed

lemma validate_declaration_Inr:
  assumes "validate_declaration v = Inr d"
  shows "full_text (dget d ''repository_id'')"
    and "e \<in> set (entries_of d ''provides'') \<Longrightarrow> k \<in> set provides_fields \<Longrightarrow> full_text (dget e k)"
    and "e \<in> set (entries_of d ''consumes'') \<Longrightarrow> k \<in> set consumes_fields \<Longrightarrow> full_text (dget e k)"
proof -
  from assms obtain d0 ps cs where v: "full_text (dget d0 ''repository_id'')"
    and ps: "declaration_entries (str_of (dget d0 ''repository_id'')) ''provides'' provides_fields (dget d0 ''provides'') = Inr ps"
    and cs: "declaration_entries (str_of (dget d0 ''repository_id'')) ''consumes'' consumes_fields (dget d0 ''consumes'') = Inr cs"
    and d: "d = dset ''consumes'' (JArr (map JObj cs)) (dset ''provides'' (JArr (map JObj ps)) d0)"
    by (auto simp: validate_declaration_def Let_def rbind_eq_Inr)
  show "full_text (dget d ''repository_id'')" using v by (simp add: d)
  have [simp]: "entries_of d ''provides'' = ps" "entries_of d ''consumes'' = cs" by (simp_all add: d entries_of_def comp_def)
  show "e \<in> set (entries_of d ''provides'') \<Longrightarrow> k \<in> set provides_fields \<Longrightarrow> full_text (dget e k)"
    using declaration_entries_full [OF ps] by simp
  show "e \<in> set (entries_of d ''consumes'') \<Longrightarrow> k \<in> set consumes_fields \<Longrightarrow> full_text (dget e k)"
    using declaration_entries_full [OF cs] by simp
qed

section \<open>The join of declarations\<close>

definition contract_of :: "dict \<Rightarrow> string" where
  "contract_of entry = str_of (dget entry ''contract_identity'')"

definition id_of :: "dict \<Rightarrow> string" where
  "id_of declaration = str_of (dget declaration ''repository_id'')"

lemma add_provider_Inr:
  "add_provider r P e = Inr Q \<longleftrightarrow> contract_of e \<notin> fst ` set P \<and> Q = (contract_of e, r, e) # P"
  by (auto simp: add_provider_def contract_of_def Let_def rbind_eq_Inr map_of_eq_None_iff)

lemma add_provider_fold:
  assumes "rfoldM (add_provider r) P es = Inr Q"
  shows "set Q = set P \<union> (\<lambda>p. (contract_of p, r, p)) ` set es \<and>
    (distinct (map fst P) \<longrightarrow> distinct (map fst Q))"
  using assms
proof (induction es arbitrary: P)
  case (Cons e es)
  then have new: "contract_of e \<notin> fst ` set P"
    and rest: "rfoldM (add_provider r) ((contract_of e, r, e) # P) es = Inr Q"
    by (auto simp: add_provider_Inr rbind_eq_Inr)
  from Cons.IH [OF rest] new show ?case by auto
qed simp

lemma add_providers_fold:
  assumes "rfoldM add_providers P ds = Inr Q"
  shows "set Q = set P \<union> (\<Union>d \<in> set ds. (\<lambda>p. (contract_of p, id_of d, p)) ` set (entries_of d ''provides'')) \<and>
    (distinct (map fst P) \<longrightarrow> distinct (map fst Q))"
  using assms
proof (induction ds arbitrary: P)
  case (Cons d ds)
  then obtain P' where one: "add_providers P d = Inr P'" and rest: "rfoldM add_providers P' ds = Inr Q"
    by (auto simp: rbind_eq_Inr)
  have P': "rfoldM (add_provider (id_of d)) P (entries_of d ''provides'') = Inr P'"
    using one by (simp add: add_providers_def id_of_def)
  from Cons.IH [OF rest] add_provider_fold [OF P'] show ?case by (simp only: set_simps UN_insert) blast
qed simp

lemma dget_add_digest: "f \<noteq> k \<Longrightarrow> dget (add_digest k s e) f = dget e f"
  by (simp add: add_digest_def split: option.split)

text \<open>What an edge says of the two declarations it joins.\<close>

definition edge_joins :: "dict \<Rightarrow> dict \<Rightarrow> dict \<Rightarrow> dict \<Rightarrow> dict \<Rightarrow> bool" where
  "edge_joins edge consumer consumed producer provided \<longleftrightarrow>
     dget edge ''consumer_repository'' = dget consumer ''repository_id'' \<and>
     dget edge ''producer_repository'' = dget producer ''repository_id'' \<and>
     dget edge ''contract_identity'' = dget consumed ''contract_identity'' \<and>
     dget edge ''contract_identity'' = dget provided ''contract_identity'' \<and>
     dget edge ''contract_revision'' = dget consumed ''contract_revision'' \<and>
     dget edge ''contract_revision'' = dget provided ''contract_revision'' \<and>
     dget edge ''consuming_identity'' = dget consumed ''consumer_identity'' \<and>
     dget edge ''provider_identity'' = dget provided ''exported_identity'' \<and>
     dget edge ''producer_manifest_identity'' = JStr (declaration_identity producer) \<and>
     dget edge ''consumer_manifest_identity'' = JStr (declaration_identity consumer)"

lemma make_edge_fields:
  "dget (make_edge d c r p v) ''producer_repository'' = JStr r"
  "dget (make_edge d c r p v) ''consumer_repository'' = JStr (id_of d)"
  "dget (make_edge d c r p v) ''contract_identity'' = dget c ''contract_identity''"
  "dget (make_edge d c r p v) ''contract_revision'' = dget v ''contract_revision''"
  "dget (make_edge d c r p v) ''consuming_identity'' = dget c ''consumer_identity''"
  "dget (make_edge d c r p v) ''provider_identity'' = dget v ''exported_identity''"
  "dget (make_edge d c r p v) ''producer_manifest_identity'' = JStr (declaration_identity p)"
  "dget (make_edge d c r p v) ''consumer_manifest_identity'' = JStr (declaration_identity d)"
  "is_obj (dget (make_edge d c r p v) ''verification'') \<Longrightarrow> is_obj (dget c ''verification'')"
  by (simp_all add: make_edge_def Let_def dget_add_digest id_of_def split: json.splits)

text \<open>The join: what \<open>join_declarations\<close> accepts, and the edges it makes.\<close>

lemma distinct_ids: "distinct (map id_of ds) \<Longrightarrow> p \<in> set ds \<Longrightarrow> q \<in> set ds \<Longrightarrow> id_of p = id_of q \<Longrightarrow> p = q"
  by (auto simp: distinct_map dest: inj_onD)

lemma join_declarations_Inr:
  assumes "join_declarations declarations repositories = Inr (checked, repository_rows, edges)"
  obtains providers where "rmapM validate_declaration declarations = Inr checked" and "distinct (map id_of checked)"
    and "rfoldM add_providers [] checked = Inr providers"
    and "\<forall>e. e \<in> set edges \<longleftrightarrow>
          (\<exists>d \<in> set checked. \<exists>c \<in> set (entries_of d ''consumes''). join_edge checked providers d c = Inr e)"
    and "\<forall>d \<in> set checked. \<forall>c \<in> set (entries_of d ''consumes'').
          \<exists>e. join_edge checked providers d c = Inr e"
proof -
  from assms obtain providers ess where checked: "rmapM validate_declaration declarations = Inr checked"
    and ids: "distinct (map id_of checked)" and prov: "rfoldM add_providers [] checked = Inr providers"
    and ess: "rmapM (join_edges checked providers) checked = Inr ess" and edges: "edges = concat ess"
    by (auto simp: join_declarations_def Let_def rbind_eq_Inr id_of_def [abs_def])
  have each: "\<exists>es \<in> set ess. rmapM (join_edge checked providers d) (entries_of d ''consumes'') = Inr es"
    if "d \<in> set checked" for d
    using rmapM_all [OF ess that] by (simp add: join_edges_def)
  have source: "\<exists>d \<in> set checked. rmapM (join_edge checked providers d) (entries_of d ''consumes'') = Inr es"
    if "es \<in> set ess" for es
    using rmapM_Inr_set [OF ess that] by (simp add: join_edges_def)
  show ?thesis
  proof (rule that [OF checked ids prov]; intro allI ballI)
    show "e \<in> set edges \<longleftrightarrow>
        (\<exists>d \<in> set checked. \<exists>c \<in> set (entries_of d ''consumes''). join_edge checked providers d c = Inr e)" for e
    proof
      assume "e \<in> set edges"
      then obtain es where "es \<in> set ess" "e \<in> set es" by (auto simp: edges)
      then show "\<exists>d \<in> set checked. \<exists>c \<in> set (entries_of d ''consumes''). join_edge checked providers d c = Inr e"
        using source rmapM_Inr_set by meson
    next
      assume "\<exists>d \<in> set checked. \<exists>c \<in> set (entries_of d ''consumes''). join_edge checked providers d c = Inr e"
      then obtain d c es where "c \<in> set (entries_of d ''consumes'')" "join_edge checked providers d c = Inr e"
        "es \<in> set ess" "rmapM (join_edge checked providers d) (entries_of d ''consumes'') = Inr es"
        using each by blast
      then have "e \<in> set es" using rmapM_all by fastforce
      then show "e \<in> set edges" using \<open>es \<in> set ess\<close> by (auto simp: edges)
    qed
    show "\<exists>e. join_edge checked providers d c = Inr e"
      if "d \<in> set checked" and "c \<in> set (entries_of d ''consumes'')" for d c
      using each [OF that(1)] rmapM_all that(2) by fast
  qed
qed

lemma join_edge_joins:
  assumes checked: "rmapM validate_declaration declarations = Inr checked"
    and ids: "distinct (map id_of checked)" and prov: "rfoldM add_providers [] checked = Inr providers"
    and d: "d \<in> set checked" and c: "c \<in> set (entries_of d ''consumes'')"
    and e: "join_edge checked providers d c = Inr e"
  shows "\<exists>p \<in> set checked. \<exists>v \<in> set (entries_of p ''provides''). edge_joins e d c p v \<and>
           (is_obj (dget e ''verification'') \<longrightarrow> is_obj (dget c ''verification''))"
proof -
  from e obtain r v p where v: "map_of providers (contract_of c) = Some (r, v)"
    and rev: "dget c ''contract_revision'' = dget v ''contract_revision''"
    and p: "List.find (\<lambda>d. dget d ''repository_id'' = JStr r) checked = Some p"
    and e': "e = make_edge d c r p v"
    by (auto simp: join_edge_def Let_def rbind_eq_Inr contract_of_def split: option.splits)
  have set: "set providers =
      (\<Union>d \<in> set checked. (\<lambda>p. (contract_of p, id_of d, p)) ` set (entries_of d ''provides''))"
    using add_providers_fold [OF prov] by simp
  obtain q where q: "q \<in> set checked" "v \<in> set (entries_of q ''provides'')" "r = id_of q" "contract_of c = contract_of v"
    using map_of_SomeD [OF v] by (auto simp: set)
  have p': "p \<in> set checked" "dget p ''repository_id'' = JStr r"
    using p by (auto simp: find_Some_iff)
  then have "p = q" using distinct_ids [OF ids] q by (simp add: id_of_def)
  have full: "full_text (dget c ''contract_identity'')" "full_text (dget v ''contract_identity'')"
    "full_text (dget d ''repository_id'')"
    using rmapM_Inr_set [OF checked d] rmapM_Inr_set [OF checked q(1)]
      validate_declaration_Inr(1) validate_declaration_Inr(3) [OF _ c, of _ "''contract_identity''"]
      validate_declaration_Inr(2) [OF _ q(2), of _ "''contract_identity''"]
    by (auto simp: provides_fields_def consumes_fields_def)
  have "edge_joins e d c p v"
    unfolding edge_joins_def e' make_edge_fields
    using full q(4) p'(2) rev by (auto simp: full_text_iff contract_of_def id_of_def)
  moreover have "is_obj (dget e ''verification'') \<longrightarrow> is_obj (dget c ''verification'')"
    using make_edge_fields(9) unfolding e' by blast
  ultimately show ?thesis using p'(1) q(2) \<open>p = q\<close> by blast
qed

lemma single_producer:
  assumes "distinct (map id_of checked)" and prov: "rfoldM add_providers [] checked = Inr providers"
    and "p \<in> set checked" "q \<in> set checked" "x \<in> set (entries_of p ''provides'')" "y \<in> set (entries_of q ''provides'')"
    and "dget x ''contract_identity'' = dget y ''contract_identity''"
  shows "p = q \<and> x = y"
proof -
  have dist: "distinct (map fst providers)" and set: "set providers =
      (\<Union>d \<in> set checked. (\<lambda>p. (contract_of p, id_of d, p)) ` set (entries_of d ''provides''))"
    using add_providers_fold [OF prov] by simp_all
  have same: "contract_of x = contract_of y" using assms(7) by (simp add: contract_of_def)
  have "(contract_of x, id_of p, x) \<in> set providers" "(contract_of x, id_of q, y) \<in> set providers"
    unfolding set using assms(3-6) same by blast+
  then have "map_of providers (contract_of x) = Some (id_of p, x)" "map_of providers (contract_of x) = Some (id_of q, y)"
    using map_of_is_SomeI [OF dist] by blast+
  then have "id_of p = id_of q" "x = y" by simp_all
  then show ?thesis using distinct_ids [OF assms(1,3,4)] by simp
qed

section \<open>Validated graphs\<close>

lemma edge_verification_Inr:
  assumes "edge_verification ctx d = Inr e"
  shows "f \<noteq> ''verification'' \<Longrightarrow> dget e f = dget d f" and "is_obj (dget d ''verification'')"
    and "f \<in> set forbidden_fields \<Longrightarrow> \<not> has_key (obj_of (dget e ''verification'')) f"
  using assms
  by (auto simp: edge_verification_def Let_def rbind_eq_Inr no_forbidden_def find_None_iff
      split: if_splits option.split_asm)

lemma checked_edge_Inr:
  assumes "checked_edge ids i raw = Inr e"
  shows "f \<noteq> ''verification'' \<Longrightarrow> dget e f = dget (obj_of raw) f"
    and "is_obj (dget (obj_of raw) ''verification'')"
    and "dget e ''fingerprint'' = JStr (edge_fingerprint e)"
    and "str_of (dget e ''producer_repository'') \<in> set ids \<and> str_of (dget e ''consumer_repository'') \<in> set ids"
    and "f \<in> set forbidden_fields \<Longrightarrow> \<not> has_key (obj_of (dget e ''verification'')) f"
proof -
  from assms obtain d where raw: "raw = JObj d" and ver: "edge_verification (''edges['' @ nat_str i @ '']'') d = Inr e"
    and fp: "dget e ''fingerprint'' = JStr (edge_fingerprint e)"
    and ends: "str_of (dget d ''producer_repository'') \<in> set ids" "str_of (dget d ''consumer_repository'') \<in> set ids"
    by (auto simp: checked_edge_def Let_def rbind_eq_Inr)
  note ev = edge_verification_Inr [OF ver]
  show "dget e f = dget (obj_of raw) f" if "f \<noteq> ''verification''" using ev(1) that by (simp add: raw)
  show "is_obj (dget (obj_of raw) ''verification'')" using ev(2) by (simp add: raw)
  show "dget e ''fingerprint'' = JStr (edge_fingerprint e)" by (fact fp)
  show "str_of (dget e ''producer_repository'') \<in> set ids \<and> str_of (dget e ''consumer_repository'') \<in> set ids"
    using ends ev(1) by simp
  show "\<not> has_key (obj_of (dget e ''verification'')) f" if "f \<in> set forbidden_fields" using ev(3) that .
qed

lemma validate_graph_Inr:
  assumes "validate_graph v = Inr g"
  obtains d repositories ids edges normalized where "v = JObj d" and "dget d ''repositories'' = JArr repositories"
    and "rfoldM graph_repository [] (enumerate 0 repositories) = Inr ids" and "dget d ''edges'' = JArr edges"
    and "each_entry (checked_edge ids) edges = Inr normalized" and "g = dset ''edges'' (JArr (map JObj normalized)) d"
    and "graph_identity d = Inr (str_of (dget d ''graph_identity''))" and "is_str (dget d ''graph_identity'')"
    and "graph_coverage ids (obj_of (dget d ''coverage'')) = Inr ()"
proof -
  from assms obtain d repositories ids edges normalized coverage identity where "v = JObj d"
    "dget d ''repositories'' = JArr repositories"
    "rfoldM graph_repository [] (enumerate 0 repositories) = Inr ids" "dget d ''edges'' = JArr edges"
    "each_entry (checked_edge ids) edges = Inr normalized" "g = dset ''edges'' (JArr (map JObj normalized)) d"
    "graph_identity d = Inr identity" "dget d ''graph_identity'' = JStr identity"
    "dget d ''coverage'' = JObj coverage" "graph_coverage ids coverage = Inr ()"
    by (auto simp: validate_graph_def rbind_eq_Inr)
  then show ?thesis by (intro that [of d repositories ids edges normalized]) simp_all
qed

lemma repository_ids:
  assumes "rfoldM graph_repository acc xs = Inr ids"
  shows "set ids = set acc \<union> (\<lambda>x. str_of (at_path (snd x) [''id''])) ` set xs"
  using assms
proof (induction xs arbitrary: acc)
  case (Cons x xs)
  then obtain s where s: "graph_repository acc x = Inr s" "rfoldM graph_repository s xs = Inr ids"
    by (auto simp: rbind_eq_Inr)
  have "s = str_of (at_path (snd x) [''id'']) # acc"
    using s(1) by (auto simp: graph_repository_def Let_def rbind_eq_Inr)
  with Cons.IH [OF s(2)] show ?case by auto
qed simp

lemma repository_id_texts:
  assumes "rfoldM graph_repository acc xs = Inr ids" and "x \<in> set xs"
  shows "full_text (at_path (snd x) [''id''])"
  using assms
proof (induction xs arbitrary: acc)
  case (Cons y ys)
  then obtain s where s: "graph_repository acc y = Inr s" "rfoldM graph_repository s ys = Inr ids"
    by (auto simp: rbind_eq_Inr)
  have "full_text (at_path (snd y) [''id''])"
    using s(1) by (auto simp: graph_repository_def Let_def rbind_eq_Inr)
  with Cons.IH [OF s(2)] Cons.prems(2) show ?case by auto
qed simp



section \<open>A family of one repository\<close>

definition sample_digest_text :: json where
  "sample_digest_text = JStr (''sha256:'' @ replicate 64 CHR ''a'')"

definition sample_provided :: dict where
  "sample_provided =
     [(''contract_identity'', JStr ''c''), (''contract_revision'', JStr ''1''),
      (''exported_identity'', JStr ''x''), (''evidence'', JStr ''p'')]"

definition sample_consumed :: dict where
  "sample_consumed =
     [(''contract_identity'', JStr ''c''), (''contract_revision'', JStr ''1''),
      (''consumer_identity'', JStr ''m''), (''evidence'', JStr ''q''),
      (''verification'', JObj [(''check_identity'', JStr ''k''), (''executor'', JStr ''app''),
         (''surface'', JStr ''s''), (''evidence'', JStr ''v''), (''runner'', JStr ''declaration'')])]"

definition sample_declaration :: dict where
  "sample_declaration =
     [(''schema_version'', JStr DECLARATION_SCHEMA), (''repository_id'', JStr ''app''), (''revision'', JStr ''1''),
      (''provides'', JArr [JObj sample_provided]), (''consumes'', JArr [JObj sample_consumed]),
      (''_evidence_digests'', JObj [(''verification'', JObj [(''v'', sample_digest_text)])])]"

definition sample_repository_row :: dict where
  "sample_repository_row = [(''id'', JStr ''app''), (''repository'', JStr ''o/app'')]"

lemma digest_nonempty [simp]: "sha256_hexdigest b \<noteq> []"
  using length_sha256_hexdigest [of b] by auto

lemma full_text_JStr [simp]: "full_text (JStr s) \<longleftrightarrow> s \<noteq> []"
  by (simp add: full_text_def)

lemma non_empty_fields_Nil [simp]: "non_empty_fields d p [] = Inr ()"
  by (simp add: non_empty_fields_def)

lemma non_empty_fields_Cons [simp]:
  "full_text (dget d k) \<Longrightarrow> non_empty_fields d p (k # ks) = non_empty_fields d p ks"
  by (simp add: non_empty_fields_def graph_guard_def guard_def rbind_def split: sum.split)

lemmas graph_evals = graph_guard_def guard_def graph_object_def graph_array_def Let_def

lemma sample_declaration_ok: "validate_declaration (JObj sample_declaration) = Inr sample_declaration"
  by (simp add: validate_declaration_def sample_declaration_def graph_evals declaration_entries_def
      declaration_entry_def sample_provided_def sample_consumed_def provides_fields_def consumes_fields_def
      entry_verification_def verification_fields_def)

definition sample_edge :: dict where
  "sample_edge = make_edge sample_declaration sample_consumed ''app'' sample_declaration sample_provided"

definition sample_row :: dict where
  "sample_row =
     [(''id'', JStr ''app''), (''repository'', JStr ''o/app''), (''revision'', JStr ''1''),
      (''manifest_identity'', JStr (declaration_identity sample_declaration)),
      (''declaration_path'', JStr ''family-semantic-contracts-v1.json'')]"

lemma sample_edge_fields:
  "dget sample_declaration ''repository_id'' = JStr ''app''" "dget sample_declaration ''revision'' = JStr ''1''"
  "entries_of sample_declaration ''provides'' = [sample_provided]"
  "entries_of sample_declaration ''consumes'' = [sample_consumed]"
  "dget_default sample_declaration ''_path'' d = d"
  by (simp_all add: sample_declaration_def entries_of_def)

lemma sample_join:
  "join_declarations [JObj sample_declaration] [sample_repository_row] =
   Inr ([sample_declaration], [sample_row], [sample_edge])"
proof -
  have "repository_row [sample_declaration] sample_repository_row = Inr sample_row"
    by (simp add: repository_row_def sample_repository_row_def sample_row_def graph_evals sample_edge_fields set_default_def)
  moreover have "dget sample_repository_row ''id'' = JStr ''app''" by (simp add: sample_repository_row_def)
  moreover have "join_edge [sample_declaration] [(''c'', ''app'', sample_provided)] sample_declaration sample_consumed =
      Inr sample_edge"
    by (simp add: join_edge_def sample_edge_def sample_edge_fields graph_evals)
       (simp add: sample_consumed_def sample_provided_def)
  moreover have "str_of (dget sample_provided ''contract_identity'') = ''c''" by (simp add: sample_provided_def)
  ultimately show ?thesis
    by (simp add: join_declarations_def sample_declaration_ok graph_evals sample_edge_fields add_providers_def
        add_provider_def join_edges_def)
qed

lemma fingerprint_own: "edge_fingerprint (dset ''fingerprint'' v e) = edge_fingerprint e"
  by (simp add: edge_fingerprint_def delete_update_same)

lemma graph_identity_own: "graph_identity (dset ''graph_identity'' v d) = graph_identity d"
  by (simp add: graph_identity_def graph_projection_def delete_update_same)

lemma sample_edge_unfold:
  "\<exists>f. sample_edge =
     [(''producer_repository'', JStr ''app''), (''consumer_repository'', JStr ''app''), (''contract_identity'', JStr ''c''),
      (''contract_revision'', JStr ''1''), (''consuming_identity'', JStr ''m''), (''provenance'', JStr ''app:q''),
      (''producer_manifest_identity'', JStr (declaration_identity sample_declaration)),
      (''consumer_manifest_identity'', JStr (declaration_identity sample_declaration)),
      (''provider_identity'', JStr ''x''), (''verification'', dget sample_consumed ''verification''),
      (''verification_evidence_sha256'', sample_digest_text), (''fingerprint'', JStr f)] \<and>
     f = edge_fingerprint sample_edge"
proof -
  let ?e = "[(''producer_repository'', JStr ''app''), (''consumer_repository'', JStr ''app''), (''contract_identity'', JStr ''c''),
      (''contract_revision'', JStr ''1''), (''consuming_identity'', JStr ''m''), (''provenance'', JStr ''app:q''),
      (''producer_manifest_identity'', JStr (declaration_identity sample_declaration)),
      (''consumer_manifest_identity'', JStr (declaration_identity sample_declaration)),
      (''provider_identity'', JStr ''x''), (''verification'', dget sample_consumed ''verification''),
      (''verification_evidence_sha256'', sample_digest_text)]"
  have d: "evidence_digest sample_declaration ''verification'' ''v'' = Some (str_of sample_digest_text)"
    "evidence_digest sample_declaration ''provides'' k = None" "evidence_digest sample_declaration ''consumes'' k = None" for k
    by (simp_all add: evidence_digest_def sample_declaration_def sample_digest_text_def)
  have eq: "sample_edge = dset ''fingerprint'' (JStr (edge_fingerprint ?e)) ?e"
    by (simp add: sample_edge_def make_edge_def sample_edge_fields sample_consumed_def sample_provided_def Let_def
        d add_digest_def) (simp add: sample_digest_text_def)
  have "edge_fingerprint sample_edge = edge_fingerprint ?e" by (simp only: eq fingerprint_own)
  with eq show ?thesis by (intro exI [of _ "edge_fingerprint ?e"]) simp
qed

lemma sample_edge_ok: "checked_edge [''app''] 0 (JObj sample_edge) = Inr sample_edge"
proof -
  obtain f where e: "sample_edge =
     [(''producer_repository'', JStr ''app''), (''consumer_repository'', JStr ''app''), (''contract_identity'', JStr ''c''),
      (''contract_revision'', JStr ''1''), (''consuming_identity'', JStr ''m''), (''provenance'', JStr ''app:q''),
      (''producer_manifest_identity'', JStr (declaration_identity sample_declaration)),
      (''consumer_manifest_identity'', JStr (declaration_identity sample_declaration)),
      (''provider_identity'', JStr ''x''), (''verification'', dget sample_consumed ''verification''),
      (''verification_evidence_sha256'', sample_digest_text), (''fingerprint'', JStr f)]"
    and f: "f = edge_fingerprint sample_edge"
    using sample_edge_unfold by blast
  have get: "dget sample_edge ''producer_repository'' = JStr ''app''" "dget sample_edge ''consumer_repository'' = JStr ''app''"
    "dget sample_edge ''contract_identity'' = JStr ''c''" "dget sample_edge ''contract_revision'' = JStr ''1''"
    "dget sample_edge ''consuming_identity'' = JStr ''m''" "dget sample_edge ''provenance'' = JStr ''app:q''"
    "dget sample_edge ''producer_manifest_identity'' = JStr (declaration_identity sample_declaration)"
    "dget sample_edge ''consumer_manifest_identity'' = JStr (declaration_identity sample_declaration)"
    "dget sample_edge ''provider_identity'' = JStr ''x''"
    "dget sample_edge ''verification'' = dget sample_consumed ''verification''"
    "dget sample_edge ''verification_evidence_sha256'' = sample_digest_text"
    "\<not> has_key sample_edge ''provider_evidence_sha256''" "\<not> has_key sample_edge ''consumer_evidence_sha256''"
    unfolding e by simp_all
  have "dget sample_edge ''fingerprint'' = JStr f" unfolding e by simp
  then have fp: "dget sample_edge ''fingerprint'' = JStr (edge_fingerprint sample_edge)" by (simp only: f)
  have "prefixed_digest sample_digest_text"
    by (simp add: prefixed_digest_def sample_digest_text_def starts_with_def)
  moreover have "edge_verification (''edges['' @ nat_str 0 @ '']'') sample_edge = Inr sample_edge"
    by (simp add: edge_verification_def get sample_consumed_def graph_evals verification_fields_def
        VERIFICATION_RUNNERS_def no_forbidden_def forbidden_fields_def)
  moreover have "declaration_identity sample_declaration \<noteq> []" by (simp add: declaration_identity_def)
  ultimately show ?thesis by (simp add: checked_edge_def get fp graph_evals)
qed

definition sample_family_graph :: dict where
  "sample_family_graph = graph_document [sample_declaration] [sample_row] [sample_edge] ''1'' (default_coverage [''app''])"

lemma sample_family_graph_ok:
  "\<exists>g. validate_graph (JObj (dset ''graph_identity'' (JStr i) sample_family_graph)) = Inr g"
  if "graph_identity sample_family_graph = Inr i"
proof -
  have fields: "dget sample_family_graph ''schema_version'' = JStr GRAPH_SCHEMA" "dget sample_family_graph ''complete'' = JBool True"
    "dget sample_family_graph ''limitations'' = generated_limitations"
    "dget sample_family_graph ''source'' = JObj [(''kind'', JStr ''repository_contract_declarations''),
       (''schema_version'', JStr DECLARATION_SCHEMA), (''declarations'', JArr [source_row sample_declaration])]"
    "dget sample_family_graph ''repositories'' = JArr [JObj sample_row]" "dget sample_family_graph ''edges'' = JArr [JObj sample_edge]"
    "dget sample_family_graph ''coverage'' = JObj (default_coverage [''app''])"
    by (simp_all add: sample_family_graph_def graph_document_def)
  have "declaration_identity sample_declaration \<noteq> []" by (simp add: declaration_identity_def)
  then have row: "graph_repository [] (0, JObj sample_row) = Inr [''app'']"
    by (simp add: graph_repository_def sample_row_def graph_evals)
  have src: "source_declaration [] (0, source_row sample_declaration) = Inr [''app'']"
    by (simp add: source_declaration_def source_row_def sample_edge_fields graph_evals declaration_identity_def)
       (simp add: sample_declaration_def digest_table_def prefixed_digest_def sample_digest_text_def starts_with_def)
  have cov: "graph_coverage [''app''] (default_coverage [''app'']) = Inr ()"
    by (simp add: graph_coverage_def default_coverage_def graph_evals UNAVAILABLE_REGISTRY_IDENTITY_def
        count_fields_def coverage_names_def text_items_def)
  show ?thesis
    unfolding validate_graph_def
    using that sample_edge_ok
    by (simp add: fields graph_evals row src cov graph_source_def each_entry_def graph_identity_own
        generated_limitations_def text_items_def)
qed

lemma sample_generates: "\<exists>g. generate_graph [JObj sample_declaration] [sample_repository_row] ''1'' None = Inr g"
proof -
  have "dget sample_family_graph ''edges'' = JArr [JObj sample_edge]" "has_key sample_family_graph ''edges''"
    by (simp_all add: sample_family_graph_def graph_document_def)
  then obtain i where i: "graph_identity sample_family_graph = Inr i"
    by (simp add: graph_identity_def graph_projection_def sample_family_graph_def graph_document_def)
  have "sorted_set [''app''] = [''app'']" by (simp add: sorted_set_def)
  then show ?thesis
    using i sample_family_graph_ok [OF i]
    by (simp add: generate_graph_def sample_join sample_edge_fields Let_def flip: sample_family_graph_def)
qed



end
