(* ===== verification/Work_Service.thy ===== *)
theory Work_Service
  imports Query Work_Lineage Mesh_Node Health Crash
begin

text \<open>
  The work operations of application/services.py: submission, transition, proposal, claim and the
  health sweep, each composed of the store and the pure functions of work.py. One operation runs
  against one store; the instant, the identifier and the name of the transaction directory that a
  write draws from the system are a parameter (record \<open>moment\<close>).
\<close>

record moment =
  m_now :: string
  m_uuid :: string
  m_name :: string

section \<open>Reading\<close>

definition work_status :: "string \<Rightarrow> store \<Rightarrow> work_view res" where
  "work_status work_id s = rbind (records s) (\<lambda>rs. project_work_history rs work_id)"

text \<open>\<open>max(1, min(limit, 1000))\<close>.\<close>

definition bounded_limit :: "int \<Rightarrow> nat" where
  "bounded_limit limit = nat (max 1 (min limit 1000))"

definition work_list ::
  "string list \<Rightarrow> string list \<Rightarrow> string list \<Rightarrow> int \<Rightarrow> store \<Rightarrow> (work_view list \<times> bool) res" where
  "work_list states lanes coordination_states limit s =
     rbind (records s) (\<lambda>rs.
     rbind (list_work rs states lanes coordination_states) (\<lambda>vs.
       Inr (take (bounded_limit limit) vs, length vs > bounded_limit limit)))"

definition work_next ::
  "string option \<Rightarrow> string option \<Rightarrow> string list \<Rightarrow> int \<Rightarrow> store \<Rightarrow> (work_view list \<times> bool) res" where
  "work_next lane repository capabilities limit s =
     rbind (records s) (\<lambda>rs.
     rbind (next_work rs lane repository capabilities limit) (\<lambda>vs.
       Inr (vs, length vs \<ge> bounded_limit limit)))"

definition work_policy :: "string option \<Rightarrow> dict list res" where
  "work_policy lane =
     (let selected = (case lane of None \<Rightarrow> sorted_set LANES | Some l \<Rightarrow> [l])
      in rmapM (\<lambda>item. rbind (lane_policy item) (\<lambda>p. Inr (policy_as_dict p))) selected)"

definition work_queue :: "int \<Rightarrow> datetime option \<Rightarrow> string option \<Rightarrow> store \<Rightarrow> (dict list \<times> bool) res" where
  "work_queue limit now domain s =
     rbind (query (any_record\<lparr>q_open_work := True, q_now := now, q_domain := domain\<rparr>) s) (\<lambda>rs.
       let vs = take (bounded_limit limit) rs in Inr (vs, length vs \<ge> bounded_limit limit))"

section \<open>Submission\<close>

text \<open>\<open>next((item for item in items if test(item)), None)\<close> with a test that may raise.\<close>

fun first_match :: "('a \<Rightarrow> bool res) \<Rightarrow> 'a list \<Rightarrow> 'a option res" where
  "first_match p [] = Inr None"
| "first_match p (x # xs) = rbind (p x) (\<lambda>b. if b then Inr (Some x) else first_match p xs)"

definition is_submission :: "string \<Rightarrow> dict \<Rightarrow> bool res" where
  "is_submission work_id item =
     rbind (attr_get (dget_default item ''metadata'' (JObj [])) ''revision'' JNull) (\<lambda>r.
       if \<not> py_eq r (JInt 1) then Inr False
       else rbind (attr_get (dget_default item ''details'' (JObj [])) ''workId'' JNull) (\<lambda>w.
              Inr (w = JStr work_id)))"

definition prior_submission :: "string \<Rightarrow> store \<Rightarrow> dict option res" where
  "prior_submission work_id s = rbind (records s) (first_match (is_submission work_id))"

definition bound_fields :: "string list" where
  "bound_fields =
     [''workId'', ''objective'', ''submittingConsumer'', ''project'', ''repository'', ''constraints'',
      ''parentWorkId'', ''attempt'', ''routing'']"

definition same_submission :: "dict \<Rightarrow> dict \<Rightarrow> bool" where
  "same_submission rec prior =
     (let details = dget_default prior ''details'' (JObj []) in
      is_obj details \<and>
      list_all (\<lambda>field. py_eq (dget (obj_of details) field) (dget (details_of rec) field)) bound_fields)"

definition work_ack :: "bool \<Rightarrow> string \<Rightarrow> json \<Rightarrow> string \<Rightarrow> bool \<Rightarrow> dict" where
  "work_ack duplicate work_id state digest execution_accepted =
     [(''persisted'', JBool True), (''duplicate'', JBool duplicate), (''workId'', JStr work_id),
      (''state'', state), (''currentDigest'', JStr digest), (''executionAccepted'', JBool execution_accepted),
      (''contentTrust'', JStr ''UNTRUSTED''), (''executionAuthority'', JStr ''none'')]"

definition duplicate_ack :: "dict \<Rightarrow> string \<Rightarrow> dict \<Rightarrow> store \<Rightarrow> dict res" where
  "duplicate_ack rec work_id prior s =
     rbind (guard (same_submission rec prior)
              (WorkProtocolError ''WORK_CONFLICT'' ''workId is already bound to a different submission'')) (\<lambda>_.
     rbind (work_status work_id s) (\<lambda>status.
       Inr (work_ack True work_id (JStr (v_state status)) (v_digest status)
              (list_ex (\<lambda>h. he_state h = ''accepted'') (v_history status)))))"

definition submit_work :: "moment \<Rightarrow> dict \<Rightarrow> store \<Rightarrow> dict op" where
  "submit_work m request s =
     sbind (sread s (new_work_record (m_now m) (m_uuid m) request)) (\<lambda>s rec.
     let work_id = py_str (dget (details_of rec) ''workId'') in
     sbind (sread s (prior_submission work_id s)) (\<lambda>s prior.
     case prior of
       Some p \<Rightarrow> sread s (duplicate_ack rec work_id p s)
     | None \<Rightarrow>
         (case add_record (m_name m) rec s of
            (s', Inr (data, digest)) \<Rightarrow>
              (s', Inr (work_ack False (str_of (dget (details_of data) ''workId'')) (dget (details_of data) ''state'')
                          digest False))
          | (s', Inl (StoreError e)) \<Rightarrow>
              sbind (sread s' (prior_submission work_id s')) (\<lambda>s' prior.
              case prior of
                Some p \<Rightarrow> sread s' (duplicate_ack rec work_id p s')
              | None \<Rightarrow> (s', Inl (StoreError e)))
          | (s', Inl e) \<Rightarrow> (s', Inl e))))"

section \<open>Transition\<close>

definition stale_message :: string where
  "stale_message = ''next revision and previousDigest''"

definition conflict_of :: "exn \<Rightarrow> exn" where
  "conflict_of e =
     (case e of
        StoreError text \<Rightarrow>
          if text_in stale_message text
          then WorkProtocolError ''WORK_CONFLICT'' ''work changed before the transition was persisted'' else e
      | _ \<Rightarrow> e)"

definition transition_ack :: "string \<Rightarrow> dict \<Rightarrow> string \<Rightarrow> dict" where
  "transition_ack work_id data digest =
     [(''persisted'', JBool True), (''workId'', JStr work_id), (''state'', dget (details_of data) ''state''),
      (''currentDigest'', JStr digest), (''executionAuthority'', JStr ''none'')]"

definition transition_work :: "moment \<Rightarrow> string \<Rightarrow> dict \<Rightarrow> store \<Rightarrow> dict op" where
  "transition_work m work_id transition s =
     sbind (sread s (work_status work_id s)) (\<lambda>s status.
     sbind (sread s (revised_work_record (m_now m) (v_current status) transition)) (\<lambda>s revised.
     case add_record (m_name m) revised s of
       (s', Inr (data, digest)) \<Rightarrow> (s', Inr (transition_ack work_id data digest))
     | (s', Inl e) \<Rightarrow> (s', Inl (conflict_of e))))"

section \<open>Claims\<close>

definition active_states :: "string list" where
  "active_states = [''CLAIMED'', ''IN_PROGRESS'', ''VERIFYING'']"

definition claim_actor :: "json \<Rightarrow> dict res" where
  "claim_actor actor =
     (let field = (\<lambda>k. if is_obj actor then dget (obj_of actor) k else JNull);
          named = (\<lambda>v. is_str v \<and> py_strip (str_of v) \<noteq> []) in
      rbind (guard (named (field ''type'') \<and> named (field ''id''))
               (WorkProtocolError ''WORK_ACTOR_REQUIRED'' ''claim actor type and id are required'')) (\<lambda>_.
        Inr [(''type'', JStr (py_strip (str_of (field ''type'')))),
             (''id'', JStr (py_strip (str_of (field ''id''))))]))"

definition owned_by_actor :: "string \<Rightarrow> dict \<Rightarrow> work_view \<Rightarrow> bool" where
  "owned_by_actor work_id actor item =
     (let claim = dget (details_of (v_current item)) ''claim'' in
      v_workId item \<noteq> work_id \<and> is_obj claim \<and> py_eq (dget (obj_of claim) ''actor'') (JObj actor))"

text \<open>The checks of \<open>claim_work\<close> and the transition they admit.\<close>

definition claim_transition ::
  "string \<Rightarrow> string \<Rightarrow> json \<Rightarrow> string \<Rightarrow> string option \<Rightarrow> string option \<Rightarrow> dict list \<Rightarrow> dict res" where
  "claim_transition claimed_at work_id actor expected session_id lane rs =
     rbind (project_work_history rs work_id) (\<lambda>status.
     rbind (guard (is_obj (dget (v_current status) ''details''))
              (history_invalid ''current work details are malformed'')) (\<lambda>_.
     let details = details_of (v_current status) in
     rbind (guard (case lane of None \<Rightarrow> True | Some l \<Rightarrow> dget details ''lane'' = JStr l)
              (WorkProtocolError ''WORK_LANE_MISMATCH'' ''task is outside the requested lane'')) (\<lambda>_.
     rbind (coordination_state details) (\<lambda>coordination.
     rbind (guard (coordination \<in> {''AVAILABLE'', ''BLOCKED''})
              (WorkProtocolError ''WORK_NOT_AVAILABLE'' ''task is not claimable'')) (\<lambda>_.
     rbind (claim_actor actor) (\<lambda>actor_value.
     rbind (list_work rs [] [] active_states) (\<lambda>active.
     rbind (guard (\<not> (dget details ''lane'' = JStr ''SHARED_CORE'' \<and>
                      list_ex (\<lambda>item. dget (details_of (v_current item)) ''lane'' = JStr ''SHARED_CORE'') active))
              (WorkProtocolError ''WORK_SHARED_CORE_BUSY''
                 ''SHARED_CORE is single-writer while another core task is active'')) (\<lambda>_.
     rbind (guard (\<not> list_ex (owned_by_actor work_id actor_value) active)
              (WorkProtocolError ''WORK_ACTIVE_CLAIM_LIMIT'' ''worker already holds an active substantive claim'')) (\<lambda>_.
     let claim = [(''actor'', JObj actor_value), (''claimedAt'', JStr claimed_at)] @
                 (case session_id of None \<Rightarrow> [] | Some i \<Rightarrow> [(''sessionId'', JStr i)]) in
       Inr [(''state'', JStr ''assigned''), (''coordinationState'', JStr ''CLAIMED''), (''claim'', JObj claim),
            (''actor'', JObj actor_value), (''expectedPreviousDigest'', JStr expected),
            (''reason'', JStr ''worker claimed a lane-scoped Commons opportunity'')])))))))))"

definition claim_work ::
  "string \<Rightarrow> moment \<Rightarrow> string \<Rightarrow> json \<Rightarrow> string \<Rightarrow> string option \<Rightarrow> string option \<Rightarrow> store \<Rightarrow> dict op" where
  "claim_work claimed_at m work_id actor expected session_id lane s =
     sbind (sread s (rbind (records s) (claim_transition claimed_at work_id actor expected session_id lane))) (\<lambda>s t.
       transition_work m work_id t s)"


section \<open>Proposals\<close>

definition classified_fields :: "string list" where
  "classified_fields =
     [''proposalStatus'', ''coordinationState'', ''proposalReason'', ''canonicalRepository'',
      ''canonicalAffectedRepositories'', ''deduplication'']"

definition pop_fields :: "string list \<Rightarrow> dict \<Rightarrow> dict" where
  "pop_fields ks d = fold AList.delete ks d"

definition named_text :: "json \<Rightarrow> bool" where
  "named_text v = (is_str v \<and> py_strip (str_of v) \<noteq> [])"

text \<open>The canonical identity of a value; a value that is no text has none.\<close>

definition project_identity_of :: "json \<Rightarrow> project_identity option res" where
  "project_identity_of v = (if is_str v then canonical_project_identity (str_of v) else Inr None)"

text \<open>
  The proposal with the fields stripped that classification owns and its source filled in, and
  whether the source was given.
\<close>

definition proposal_candidate :: "dict \<Rightarrow> dict \<times> bool" where
  "proposal_candidate proposal =
     (let stripped = pop_fields classified_fields proposal;
          popped = AList.delete ''source'' stripped;
          source = (if truthy (dget stripped ''source'') then dget stripped ''source''
                    else dget popped ''proposalSource'') in
      (dset ''proposalSource'' (if named_text source then source else JStr ''worker-discovery'') popped,
       named_text source))"

definition affected_name :: "json \<Rightarrow> string list res" where
  "affected_name item =
     rbind (project_identity_of item) (\<lambda>ident.
       Inr (case ident of
              Some i \<Rightarrow> [repository_of i]
            | None \<Rightarrow> if named_text item then [py_strip (str_of item)] else []))"

definition canonical_affected :: "string \<Rightarrow> json \<Rightarrow> string list res" where
  "canonical_affected repository affected =
     (case affected of
        JArr xs \<Rightarrow>
          rbind (rmapM affected_name xs) (\<lambda>names.
            let normalized = concat names in
            Inr (if repository \<in> set normalized then normalized else normalized @ [repository]))
      | _ \<Rightarrow> Inr [repository])"

text \<open>The candidate with its canonical repositories, and the reasons its repository gives.\<close>

definition resolve_repository :: "dict \<Rightarrow> (dict \<times> string list) res" where
  "resolve_repository candidate =
     (let repository = dget candidate ''repository'' in
      if \<not> named_text repository then Inr (candidate, [''repository is unresolved''])
      else
        rbind (project_identity_of repository) (\<lambda>ident.
        case ident of
          None \<Rightarrow> Inr (candidate, [''repository is outside the canonical family''])
        | Some i \<Rightarrow>
            rbind (canonical_affected (repository_of i)
                     (dget_default candidate ''affectedRepositories'' (JArr []))) (\<lambda>affected.
              Inr (dset ''canonicalAffectedRepositories'' (JArr (map JStr affected))
                     (dset ''canonicalRepository'' (JStr (repository_of i)) candidate), []))))"

definition unknown_dependency :: "string list \<Rightarrow> json \<Rightarrow> bool" where
  "unknown_dependency known dependencies =
     (case dependencies of
        JArr xs \<Rightarrow> list_ex (\<lambda>x. starts_with (py_str x) ''work:'' \<and> py_str x \<notin> set known) xs
      | _ \<Rightarrow> False)"

definition hygiene_reason :: string where
  "hygiene_reason =
     ''REPO_HYGIENE work must be scoped to exactly one canonical repository equal to the primary '' @
     ''repository (WORK_HYGIENE_REPOSITORY_SCOPE_INVALID)''"

definition proposal_probe :: "dict \<Rightarrow> dict" where
  "proposal_probe candidate =
     [(''lane'', dget candidate ''lane''), (''repository'', dget candidate ''repository''),
      (''affectedRepositories'', dget_default candidate ''affectedRepositories'' (JArr [])),
      (''coordinationState'', JStr ''AVAILABLE'')] @
     (if has_key candidate ''canonicalRepository''
      then [(''canonicalRepository'', dget candidate ''canonicalRepository'')] else []) @
     (if has_key candidate ''canonicalAffectedRepositories''
      then [(''canonicalAffectedRepositories'', dget candidate ''canonicalAffectedRepositories'')] else [])"

text \<open>The check that is made when the probe raises.\<close>

definition hygiene_fallback :: "dict \<Rightarrow> bool" where
  "hygiene_fallback candidate =
     (let primary = dget candidate ''canonicalRepository'' in
      case dget candidate ''canonicalAffectedRepositories'' of
        JArr xs \<Rightarrow> \<not> is_str primary \<or> length (remdups (filter is_str xs)) \<noteq> 1 \<or> primary \<notin> set xs
      | _ \<Rightarrow> True)"

definition hygiene_reasons :: "dict \<Rightarrow> string list" where
  "hygiene_reasons candidate =
     (if dget candidate ''lane'' \<noteq> JStr ''REPO_HYGIENE'' then []
      else
        (case hygiene_scope_invalid (proposal_probe candidate) of
           Inr bad \<Rightarrow> if bad then [hygiene_reason] else []
         | Inl _ \<Rightarrow> if hygiene_fallback candidate then [hygiene_reason] else []))"

definition proposal_reasons :: "dict \<Rightarrow> bool \<Rightarrow> string list \<Rightarrow> (dict \<times> string list) res" where
  "proposal_reasons candidate0 source_resolved known =
     rbind (in_set (dget candidate0 ''lane'') LANES) (\<lambda>lane_known.
     rbind (resolve_repository candidate0) (\<lambda>(candidate, repository_reasons).
       Inr (candidate,
         (if lane_known then [] else [''lane is unresolved'']) @ repository_reasons @
         (if source_resolved then [] else [''proposal source is unresolved'']) @
         (if truthy (dget candidate ''evidenceLinks'') then [] else [''proposal requires an evidence/source link'']) @
         (if unknown_dependency known (dget_default candidate ''dependencies'' (JArr []))
          then [''one or more work dependencies are unresolved''] else []) @
         (if dget candidate ''lane'' = JStr ''SHARED_CORE'' \<and> \<not> truthy (dget candidate ''capability'')
          then [''shared-core proposals require a capability identity''] else []) @
         hygiene_reasons candidate)))"

text \<open>The canonical surface of an item: its canonical repositories, or its spellings resolved.\<close>

definition resolved_name :: "json \<Rightarrow> string list res" where
  "resolved_name v =
     (if \<not> named_text v then Inr []
      else rbind (project_identity_of v) (\<lambda>ident.
             Inr [case ident of Some i \<Rightarrow> repository_of i | None \<Rightarrow> py_strip (str_of v)]))"

definition repo_set :: "dict \<Rightarrow> string list res" where
  "repo_set details =
     (let stripped = (\<lambda>v. if named_text v then [py_strip (str_of v)] else []);
          canonical = stripped (dget details ''canonicalRepository'') @
            (case dget details ''canonicalAffectedRepositories'' of
               JArr xs \<Rightarrow> concat (map stripped xs) | _ \<Rightarrow> []);
          affected = dget_default details ''affectedRepositories'' (JArr []) in
      if canonical \<noteq> [] then Inr canonical
      else
        rbind (resolved_name (dget details ''repository'')) (\<lambda>primary.
        rbind (py_iter (if truthy affected then affected else JArr [])) (\<lambda>xs.
        rbind (rmapM resolved_name xs) (\<lambda>names. Inr (primary @ concat names)))))"

definition overlaps :: "string list \<Rightarrow> string list \<Rightarrow> bool" where
  "overlaps xs ys = list_ex (\<lambda>x. x \<in> set ys) xs"

text \<open>The work a proposal repeats, and the items it may overlap with.\<close>

datatype comparison = Same | Plausible | Different

definition compare_item :: "dict \<Rightarrow> string list \<Rightarrow> work_view \<Rightarrow> comparison res" where
  "compare_item candidate surface item =
     (let details = details_of (v_current item);
          lane = dget candidate ''lane'';
          capability = dget candidate ''capability'';
          finding = dget candidate ''findingIdentity'';
          existing_capability = dget details ''capability'' in
      if \<not> is_obj (dget_default (v_current item) ''details'' (JObj [])) then Inr Different
      else
        rbind (repo_set details) (\<lambda>existing.
        let same_repo = overlaps surface existing;
            same_finding = (truthy finding \<and> py_eq (dget details ''findingIdentity'') finding);
            same_core = (lane = JStr ''SHARED_CORE'' \<and> dget details ''lane'' = JStr ''SHARED_CORE'') in
        if same_finding \<and> same_repo \<and> py_eq (dget details ''lane'') lane then Inr Same
        else if truthy capability \<and> truthy existing_capability \<and> (same_core \<or> same_repo)
        then rbind (capability_overlap capability existing_capability) (\<lambda>c.
               Inr (if c = ''exact'' then Same
                    else if c = ''ambiguous'' \<and> v_coordination item = ''AVAILABLE'' then Plausible else Different))
        else Inr Different))"

fun find_duplicate :: "dict \<Rightarrow> string list \<Rightarrow> work_view list \<Rightarrow> (work_view option \<times> string list) res" where
  "find_duplicate candidate surface [] = Inr (None, [])"
| "find_duplicate candidate surface (item # items) =
     rbind (compare_item candidate surface item) (\<lambda>c.
     case c of
       Same \<Rightarrow> Inr (Some item, [])
     | Plausible \<Rightarrow> rbind (find_duplicate candidate surface items) (\<lambda>(d, ws). Inr (d, v_workId item # ws))
     | Different \<Rightarrow> find_duplicate candidate surface items)"

definition open_states :: "string list" where
  "open_states = [''AVAILABLE'', ''CLAIMED'', ''IN_PROGRESS'', ''BLOCKED'', ''VERIFYING'', ''NEEDS_RECONCILIATION'']"

definition attachment_of :: "dict \<Rightarrow> json res" where
  "attachment_of candidate =
     rbind (if truthy (dget candidate ''capability'')
            then rbind (normalize_capability (dget candidate ''capability'')) (\<lambda>c. Inr (JStr c)) else Inr JNull) (\<lambda>capability.
       Inr (JObj [(''type'', JStr ''proposal-attachment''), (''consumer'', dget candidate ''submittingConsumer''),
                  (''evidenceLinks'', dget_default candidate ''evidenceLinks'' (JArr [])),
                  (''dependencies'', dget_default candidate ''dependencies'' (JArr [])),
                  (''capability'', capability), (''source'', dget candidate ''proposalSource'')]))"

definition attach_transition :: "dict \<Rightarrow> work_view \<Rightarrow> dict res" where
  "attach_transition candidate duplicate =
     rbind (py_iter (dget_default (details_of (v_current duplicate)) ''attachments'' (JArr []))) (\<lambda>existing.
     rbind (attachment_of candidate) (\<lambda>attachment.
       Inr [(''actor'', dget candidate ''submittingConsumer''),
            (''expectedPreviousDigest'', JStr (v_digest duplicate)),
            (''attachments'', JArr (existing @ [attachment])),
            (''reason'', JStr ''proposal attached to an existing bounded opportunity'')]))"

text \<open>What classification decides: attach to an item, or submit the candidate under a status.\<close>

datatype decision = Attach work_view dict | Reconcile dict | Accept dict

definition classify_proposal :: "dict \<Rightarrow> dict list \<Rightarrow> decision res" where
  "classify_proposal proposal rs =
     (let (candidate0, source_resolved) = proposal_candidate proposal in
      rbind (list_work rs [] [] []) (\<lambda>all_work.
      rbind (proposal_reasons candidate0 source_resolved (map v_workId all_work)) (\<lambda>(candidate, reasons).
      rbind (repo_set candidate) (\<lambda>surface.
      rbind (find_duplicate candidate surface
               (filter (\<lambda>item. v_coordination item \<in> set open_states) all_work)) (\<lambda>(duplicate, ambiguous).
      let reasons' = reasons @ (if ambiguous = [] then [] else [''capability overlap is plausible but not proven'']);
          reconciled = dset ''deduplication''
            (JObj [(''status'', JStr ''NEEDS_RECONCILIATION''), (''candidateWorkIds'', JArr (map JStr ambiguous))])
            (dset ''proposalReason'' (JStr (join ''; '' reasons'))
              (dset ''coordinationState'' (JStr ''NEEDS_RECONCILIATION'')
                (dset ''proposalStatus'' (JStr ''NEEDS_RECONCILIATION'') candidate))) in
      if reasons' \<noteq> [] then Inr (Reconcile reconciled)
      else
        (case duplicate of
           Some item \<Rightarrow> rbind (attach_transition candidate item) (\<lambda>t. Inr (Attach item t))
         | None \<Rightarrow>
             Inr (Accept (dset ''coordinationState'' (JStr ''AVAILABLE'')
                            (dset ''proposalStatus'' (JStr ''ACCEPTED'') candidate)))))))))"

definition propose_work :: "moment \<Rightarrow> dict \<Rightarrow> store \<Rightarrow> dict op" where
  "propose_work m proposal s =
     sbind (sread s (rbind (records s) (classify_proposal proposal))) (\<lambda>s decision.
     case decision of
       Attach item t \<Rightarrow>
         sbind (transition_work m (v_workId item) t s) (\<lambda>s attached.
           (s, Inr [(''persisted'', JBool True), (''proposal'', JStr ''ATTACHED''), (''workId'', JStr (v_workId item)),
                    (''currentDigest'', dget attached ''currentDigest''),
                    (''deduplication'', JStr ''exact capability or finding identity''),
                    (''executionAuthority'', JStr ''none'')]))
     | Reconcile candidate \<Rightarrow>
         sbind (submit_work m candidate s) (\<lambda>s result.
           (s, Inr (dset ''executionAuthority'' (JStr ''none'')
                      (dset ''deduplication'' (dget candidate ''deduplication'')
                        (dset ''proposal'' (JStr ''NEEDS_RECONCILIATION'') result)))))
     | Accept candidate \<Rightarrow>
         sbind (submit_work m candidate s) (\<lambda>s result.
           (s, Inr (dset ''executionAuthority'' (JStr ''none'') (dset ''proposal'' (JStr ''ACCEPTED'') result)))))"


section \<open>Publication and synchronisation\<close>

definition add :: "string \<Rightarrow> dict \<Rightarrow> store \<Rightarrow> (string \<times> string) op" where
  "add name value s =
     (if dget value ''kind'' = JStr EVENT_KIND
      then sbind (add_event name value s) (\<lambda>s (data, digest). (s, Inr (digest, EVENT_KIND)))
      else sbind (add_record name value s) (\<lambda>s (data, digest). (s, Inr (digest, py_str (dget data ''kind'')))))"

record ingestion_receipt =
  i_status :: string
  i_digest :: string
  i_logical_id :: string
  i_domain :: string
  i_cursor :: dict
  i_participant :: "participant option"

definition publish_record ::
  "(string \<Rightarrow> dict option res) \<Rightarrow> moment \<Rightarrow> dict \<Rightarrow> participant option \<Rightarrow> exchange_policy \<Rightarrow> string \<Rightarrow> store \<Rightarrow>
   ingestion_receipt op" where
  "publish_record archived m value participant policy domain s =
     sbind (sread s
       (rbind (guard (e_allow_write policy)
                 (ExchangeError ''PUBLIC_POLICY_REJECTED'' ''this exchange profile is read-only'')) (\<lambda>_.
        rbind (validate_participant participant) (\<lambda>_.
        rbind (validate_for_exchange value policy) (\<lambda>_.
          store_get archived
            (py_str (dget_default value ''contentDigest'' (JStr (canonical_digest value)))) s))))) (\<lambda>s present.
     sbind (add (m_name m) value s) (\<lambda>s (digest, kind).
     sbind (current_cursor s) (\<lambda>s cursor.
     sread s
       (rbind (attr_get (dget_default value ''metadata'' (JObj [])) ''recordId'' (JStr digest)) (\<lambda>logical.
         Inr \<lparr>i_status = (if present = None then ''INGESTED'' else ''DUPLICATE''), i_digest = digest,
              i_logical_id = py_str logical, i_domain = domain, i_cursor = cursor,
              i_participant = participant\<rparr>)))))"

definition app_sync :: "dict option \<Rightarrow> int \<Rightarrow> string option \<Rightarrow> store \<Rightarrow> sync_page res" where
  "app_sync cursor limit kind s =
     (case sync_since cursor limit kind s of
        Inl (StoreError text) \<Rightarrow>
          Inl (ExchangeError (if starts_with text ''STALE_CURSOR'' then ''STALE_CURSOR'' else ''INVALID_CURSOR'') text)
      | r \<Rightarrow> r)"

section \<open>The health sweep\<close>

definition sweep_invalid :: "string \<Rightarrow> exn" where
  "sweep_invalid text = WorkProtocolError ''HEALTH_SWEEP_INVALID'' text"

text \<open>\<open>except ValueError: continue\<close>.\<close>

fun skip_value_error :: "'a res \<Rightarrow> 'a option res" where
  "skip_value_error (Inl (ValueError t)) = Inr None"
| "skip_value_error (Inl e) = Inl e"
| "skip_value_error (Inr x) = Inr (Some x)"

text \<open>The observation record with the canonical repository of its subject.\<close>

definition enrich_record :: "string \<Rightarrow> dict \<Rightarrow> dict" where
  "enrich_record repository rec =
     (let details = obj_of (dget rec ''details''); subject = obj_of (dget rec ''subject'');
          scope = obj_of (dget rec ''scope''); context = obj_of (dget scope ''context'') in
      dset ''scope'' (JObj (dset ''context'' (JObj (dset ''repository'' (JStr repository) context)) scope))
        (dset ''subject'' (JObj (dset ''identity'' (JStr repository) subject))
          (dset ''details'' (JObj (dset ''canonicalHealthRepository'' (JStr repository) details)) rec)))"

definition fail_proposal :: "dict \<Rightarrow> string \<Rightarrow> health_observation \<Rightarrow> dict" where
  "fail_proposal writer observation_id h =
     [(''submittingConsumer'', JObj writer),
      (''project'', JObj [(''id'', JStr ''mncs-family''), (''revision'', JStr ''2026-08'')]),
      (''repository'', JStr (h_repository h)), (''affectedRepositories'', JArr [JStr (h_repository h)]),
      (''task'', JStr (case h_finding h of
                         Some f \<Rightarrow> f | None \<Rightarrow> ''Repair the observed health failure in '' @ h_repository h)),
      (''lane'', JStr ''REPO_HYGIENE''), (''priority'', JInt 20),
      (''evidenceLinks'', JArr [JStr observation_id, JStr (h_sourceIdentity h)]),
      (''proposalSource'', JStr (h_source h)), (''observationTimestamp'', JStr (h_observedAt h)),
      (''findingIdentity'', JStr (h_findingIdentity h)), (''healthStatus'', JStr (h_outcome h))]"

text \<open>The instant at which a stored observation saw the finding fail on one of the repositories.\<close>

definition fail_instant :: "json \<Rightarrow> string list \<Rightarrow> dict \<Rightarrow> datetime option res" where
  "fail_instant finding repos rec =
     (let details = dget_default rec ''details'' (JObj []); d = obj_of details;
          canonical = dget d ''canonicalHealthRepository'' in
      if dget rec ''kind'' \<noteq> JStr ''Observation'' \<or> \<not> is_obj details \<or>
         dget d ''observationType'' \<noteq> JStr ''family-health'' \<or> dget d ''outcome'' \<noteq> JStr ''FAIL'' \<or>
         \<not> py_eq (dget d ''findingIdentity'') finding
      then Inr None
      else
        rbind (if named_text canonical then Inr [py_strip (str_of canonical)]
               else resolved_name (dget d ''healthRepository'')) (\<lambda>names.
        if \<not> overlaps names repos \<or> \<not> is_str (dget d ''observedAt'') then Inr None
        else skip_value_error (parse_health_instant (str_of (dget d ''observedAt'')))))"

definition later_of :: "datetime option \<Rightarrow> datetime option \<Rightarrow> datetime option" where
  "later_of latest failed =
     (case failed of
        None \<Rightarrow> latest
      | Some t \<Rightarrow> (case latest of None \<Rightarrow> Some t | Some l \<Rightarrow> if instant t > instant l then Some t else latest))"

definition latest_fail :: "json \<Rightarrow> string list \<Rightarrow> dict list \<Rightarrow> datetime option res" where
  "latest_fail finding repos rs =
     rfoldM (\<lambda>latest rec. rbind (fail_instant finding repos rec) (\<lambda>failed. Inr (later_of latest failed))) None rs"

text \<open>The last recorded failure, or the instant the item itself was observed.\<close>

definition failed_at :: "datetime option \<Rightarrow> dict \<Rightarrow> datetime option res" where
  "failed_at latest details =
     (case latest of
        Some t \<Rightarrow> Inr (Some t)
      | None \<Rightarrow>
          if is_str (dget details ''observationTimestamp'')
          then skip_value_error (parse_health_instant (str_of (dget details ''observationTimestamp'')))
          else Inr None)"

text \<open>Whether a PASS of a repository at an instant closes an open item.\<close>

definition closes :: "string \<Rightarrow> string \<Rightarrow> datetime \<Rightarrow> work_view \<Rightarrow> dict list \<Rightarrow> bool res" where
  "closes repository finding passed item rs =
     (let details = details_of (v_current item) in
      if dget details ''lane'' \<noteq> JStr ''REPO_HYGIENE'' \<or> dget details ''findingIdentity'' \<noteq> JStr finding
      then Inr False
      else
        rbind (repo_set details) (\<lambda>repos.
        if repository \<notin> set repos then Inr False
        else
          rbind (latest_fail (JStr finding) repos rs) (\<lambda>latest.
          rbind (failed_at latest details) (\<lambda>failed.
            Inr (case failed of None \<Rightarrow> False | Some t \<Rightarrow> instant t < instant passed)))))"

definition supersede_transition :: "dict \<Rightarrow> string \<Rightarrow> work_view \<Rightarrow> dict" where
  "supersede_transition writer observation_id item =
     [(''state'', JStr ''cancelled''), (''coordinationState'', JStr ''SUPERSEDED''), (''actor'', JObj writer),
      (''expectedPreviousDigest'', JStr (v_digest item)),
      (''reason'', JStr ''fresh PASS health observation superseded the hygiene opportunity''),
      (''result'', JObj [(''terminalOutcome'', JStr ''SUPERSEDED''),
                         (''evidence'', JArr [JObj [(''id'', JStr observation_id), (''status'', JStr ''PASS'')]])])]"

fun supersede_items ::
  "(nat \<Rightarrow> moment) \<Rightarrow> dict \<Rightarrow> string \<Rightarrow> string \<Rightarrow> string \<Rightarrow> datetime \<Rightarrow> nat \<Rightarrow> work_view list \<Rightarrow> store \<Rightarrow>
   dict list op" where
  "supersede_items ms writer observation_id repository finding passed k [] s = (s, Inr [])"
| "supersede_items ms writer observation_id repository finding passed k (item # items) s =
     sbind (sread s (rbind (records s) (closes repository finding passed item))) (\<lambda>s closed.
     if \<not> closed then supersede_items ms writer observation_id repository finding passed (Suc k) items s
     else
       sbind (transition_work (ms k) (v_workId item) (supersede_transition writer observation_id item) s) (\<lambda>s ack.
       sbind (supersede_items ms writer observation_id repository finding passed (Suc k) items s) (\<lambda>s acks.
         (s, Inr (ack # acks)))))"

record sweep_state =
  sw_observed :: "(string \<times> string \<times> health_observation) list"
  sw_proposals :: "dict list"
  sw_superseded :: "dict list"
  sw_seen :: "(string \<times> string) list"

definition pass_outcome ::
  "(nat \<Rightarrow> moment) \<Rightarrow> dict \<Rightarrow> string \<Rightarrow> string \<Rightarrow> health_observation \<Rightarrow> store \<Rightarrow> dict list op" where
  "pass_outcome ms writer observation_id repository h s =
     sbind (sread s (skip_value_error (parse_health_instant (h_observedAt h)))) (\<lambda>s passed.
     case passed of
       None \<Rightarrow> (s, Inr [])
     | Some t \<Rightarrow>
         sbind (sread s (rbind (records s) (\<lambda>rs. list_work rs [] [] [''AVAILABLE'']))) (\<lambda>s items.
           supersede_items ms writer observation_id repository (h_findingIdentity h) t 0 items s))"

definition sweep_observation ::
  "(string \<Rightarrow> dict option res) \<Rightarrow> (nat \<Rightarrow> moment) \<Rightarrow> moment \<Rightarrow> dict \<Rightarrow> dict \<Rightarrow> sweep_state \<Rightarrow> store \<Rightarrow> sweep_state op" where
  "sweep_observation archived ms m writer raw acc s =
     sbind (sread s
       (rbind (health_observation_record raw) (\<lambda>(rec, h).
        rbind (canonical_project_identity (h_repository h)) (\<lambda>canonical.
        case canonical of
          None \<Rightarrow> Inl (sweep_invalid ''observation repository is outside the canonical family'')
        | Some i \<Rightarrow>
            rbind (guard ((repository_of i, h_findingIdentity h) \<notin> set (sw_seen acc))
                     (sweep_invalid ''health sweep accepts at most one observation per (repository, findingIdentity)'')) (\<lambda>_.
              Inr (enrich_record (repository_of i) rec, h, repository_of i)))))) (\<lambda>s (rec, h, repository).
     sbind (publish_record archived m rec None default_exchange ''local'' s) (\<lambda>s receipt.
     let acc' = acc\<lparr>sw_seen := (repository, h_findingIdentity h) # sw_seen acc,
                    sw_observed := sw_observed acc @ [(i_logical_id receipt, repository, h)]\<rparr> in
     if h_outcome h = ''FAIL''
     then sbind (propose_work (ms 0) (fail_proposal writer (i_logical_id receipt) h) s) (\<lambda>s p.
            (s, Inr (acc'\<lparr>sw_proposals := sw_proposals acc @ [p]\<rparr>)))
     else if h_outcome h = ''PASS''
     then sbind (pass_outcome ms writer (i_logical_id receipt) repository h s) (\<lambda>s acks.
            (s, Inr (acc'\<lparr>sw_superseded := sw_superseded acc @ acks\<rparr>)))
     else (s, Inr acc')))"

fun sweep_loop ::
  "(string \<Rightarrow> dict option res) \<Rightarrow> (nat \<Rightarrow> nat \<Rightarrow> moment) \<Rightarrow> (nat \<Rightarrow> moment) \<Rightarrow> dict \<Rightarrow> nat \<Rightarrow> dict list \<Rightarrow> sweep_state \<Rightarrow> store \<Rightarrow>
   sweep_state op" where
  "sweep_loop archived ms m writer k [] acc s = (s, Inr acc)"
| "sweep_loop archived ms m writer k (raw # raws) acc s =
     sbind (sweep_observation archived (ms k) (m k) writer raw acc s) (\<lambda>s acc.
       sweep_loop archived ms m writer (Suc k) raws acc s)"

definition default_writer :: dict where
  "default_writer = [(''type'', JStr ''operator''), (''id'', JStr ''urn:mncs:commons:family-health'')]"

definition family_health_sweep ::
  "(string \<Rightarrow> dict option res) \<Rightarrow> (nat \<Rightarrow> nat \<Rightarrow> moment) \<Rightarrow> (nat \<Rightarrow> moment) \<Rightarrow> json \<Rightarrow> dict \<Rightarrow> store \<Rightarrow> sweep_state op" where
  "family_health_sweep archived ms m observations actor s =
     (case observations of
        JArr xs \<Rightarrow>
          if length xs > 64 then (s, Inl (sweep_invalid ''observations must contain at most 64 entries''))
          else if \<not> list_all is_obj xs then (s, Inl (sweep_invalid ''each observation must be an object''))
          else sweep_loop archived ms m (if actor = [] then default_writer else actor) 0 (map obj_of xs)
                 \<lparr>sw_observed = [], sw_proposals = [], sw_superseded = [], sw_seen = []\<rparr> s
      | _ \<Rightarrow> (s, Inl (sweep_invalid ''observations must contain at most 64 entries'')))"

section \<open>Facts\<close>

lemma project_current:
  assumes "project_work_history rs work_id = Inr v"
  shows "v_workId v = work_id" "is_obj (dget (v_current v) ''details'')"
    "v_lane v = dget (details_of (v_current v)) ''lane''"
    "coordination_state (details_of (v_current v)) = Inr (v_coordination v)"
    "v_digest v = own_digest (v_current v)" "v_current v \<in> set rs"
proof -
  obtain ordered where o: "mset ordered = mset (filter (is_work_of work_id) rs)" "ordered \<noteq> []"
    "by_revision (filter (is_work_of work_id) rs) = Inr ordered"
    "history_loop 1 None ordered = Inr (v_history v)" "v_history v \<noteq> []"
    "v_digest v = he_digest (last (v_history v))"
    "v_current v = last ordered" "coordination_state (details_of (last ordered)) = Inr (v_coordination v)"
    using project_Inr [OF assms] by metis
  have cur: "v_current v \<in> set (filter (is_work_of work_id) rs)"
    using o(1,2,7) by (metis last_in_set set_mset_mset)
  then show "is_obj (dget (v_current v) ''details'')" "v_current v \<in> set rs" by (auto simp: is_work_of_def)
  show "v_workId v = work_id" "v_lane v = dget (details_of (v_current v)) ''lane''"
    using assms by (auto simp: project_work_history_def Let_def rbind_eq_Inr split: if_splits)
  show "coordination_state (details_of (v_current v)) = Inr (v_coordination v)" using o(7,8) by simp
  have "length ordered = length (v_history v)" using history_loop_length [OF o(4)] by simp
  then have "history_step (1 + int (length ordered - 1)) (link_of None (take (length ordered - 1) (v_history v)))
      (last ordered) = Inr (last (v_history v))"
    using history_loop_nth [OF o(4), of "length ordered - 1"] o(2) by (simp add: last_conv_nth o(5))
  then show "v_digest v = own_digest (v_current v)" using history_step_Inr o(6,7) by metis
qed

definition claim_refusals :: "string list" where
  "claim_refusals =
     [''WORK_LANE_MISMATCH'', ''WORK_NOT_AVAILABLE'', ''WORK_ACTOR_REQUIRED'', ''WORK_SHARED_CORE_BUSY'',
      ''WORK_ACTIVE_CLAIM_LIMIT'', ''WORK_CONFLICT'']"

definition refused :: "'a res \<Rightarrow> bool" where
  "refused r = (\<exists>c t. r = Inl (WorkProtocolError c t) \<and> c \<in> set claim_refusals)"

text \<open>A value that is a result or a refusal.\<close>

definition decided :: "'a res \<Rightarrow> bool" where
  "decided r = (refused r \<or> (\<exists>x. r = Inr x))"

lemma decided_Inr [simp]: "decided (Inr x)"
  by (simp add: decided_def)

lemma decided_rbind: "decided r \<Longrightarrow> (\<And>x. r = Inr x \<Longrightarrow> decided (f x)) \<Longrightarrow> decided (rbind r f)"
  by (auto simp: decided_def refused_def)

lemma decided_guard: "c \<in> set claim_refusals \<Longrightarrow> decided (guard b (WorkProtocolError c t))"
  by (simp add: decided_def refused_def guard_def)

lemma decided_actor: "decided (claim_actor actor)"
  by (simp add: claim_actor_def claim_refusals_def Let_def decided_rbind decided_guard)

lemma claim_transition_decided:
  assumes "project_work_history rs work_id = Inr v" and "list_work rs [] [] active_states = Inr active"
  shows "decided (claim_transition claimed_at work_id actor expected session_id lane rs)"
  unfolding claim_transition_def assms(1) Let_def
  by (simp add: project_current [OF assms(1)] assms(2) guard_def [of True])
     (intro decided_rbind decided_guard decided_actor decided_Inr; simp add: claim_refusals_def)

lemma claim_transition_Inr:
  assumes "claim_transition claimed_at work_id actor expected session_id lane rs = Inr t"
    and "project_work_history rs work_id = Inr v" and "list_work rs [] [] active_states = Inr active"
  shows "(case lane of None \<Rightarrow> True | Some l \<Rightarrow> v_lane v = JStr l)" "v_coordination v \<in> {''AVAILABLE'', ''BLOCKED''}"
    "v_lane v = JStr ''SHARED_CORE'' \<Longrightarrow> i \<in> set active \<Longrightarrow> v_lane i \<noteq> JStr ''SHARED_CORE''"
    "claim_actor actor = Inr a \<Longrightarrow> i \<in> set active \<Longrightarrow> \<not> owned_by_actor work_id a i"
    "dget t ''expectedPreviousDigest'' = JStr expected"
proof -
  note cur = project_current [OF assms(2)]
  have lanes: "v_lane i = dget (details_of (v_current i)) ''lane''" if "i \<in> set active"
    using list_work_Inr [OF assms(3) that] project_current(3) by blast
  from assms(1) cur show "(case lane of None \<Rightarrow> True | Some l \<Rightarrow> v_lane v = JStr l)"
    "v_coordination v \<in> {''AVAILABLE'', ''BLOCKED''}"
    "dget t ''expectedPreviousDigest'' = JStr expected"
    by (auto simp: claim_transition_def Let_def rbind_eq_Inr guard_eq_Inr assms(2,3) dget_def split: option.splits)
  from assms(1) cur lanes
  show "v_lane v = JStr ''SHARED_CORE'' \<Longrightarrow> i \<in> set active \<Longrightarrow> v_lane i \<noteq> JStr ''SHARED_CORE''"
    "claim_actor actor = Inr a \<Longrightarrow> i \<in> set active \<Longrightarrow> \<not> owned_by_actor work_id a i"
    by (auto simp: claim_transition_def Let_def rbind_eq_Inr guard_eq_Inr assms(2,3) list_ex_iff)
qed

lemma stale_revision_refused:
  assumes "project_work_history rs work_id = Inr v" and "dget t ''expectedPreviousDigest'' \<noteq> JStr (v_digest v)"
    and "set (map fst t) \<subseteq> set transition_fields" and "is_obj (dget (v_current v) ''metadata'')"
  shows "refused (revised_work_record now (v_current v) t)"
  using project_current(2,5) [OF assms(1)] assms(2-)
  by (cases "dget (v_current v) ''details''"; cases "dget (v_current v) ''metadata''")
     (auto simp: revised_work_record_def guard_def Let_def refused_def claim_refusals_def)


lemma project_metadata:
  assumes "project_work_history rs work_id = Inr v"
  shows "is_obj (dget (v_current v) ''metadata'')"
proof -
  obtain ordered where o: "ordered \<noteq> []" "history_loop 1 None ordered = Inr (v_history v)" "v_current v = last ordered"
    using project_Inr [OF assms] by metis
  have "history_step (1 + int (length ordered - 1)) (link_of None (take (length ordered - 1) (v_history v)))
      (ordered ! (length ordered - 1)) = Inr (v_history v ! (length ordered - 1))"
    using history_loop_nth [OF o(2), of "length ordered - 1"] o(1) by simp
  from history_step_Inr [OF this] obtain md k where
    "dget_default (v_current v) ''metadata'' (JObj []) = JObj md" "py_eq (dget md ''revision'') (JInt k)"
    using o(1,3) by (auto simp: last_conv_nth)
  then show ?thesis by (auto simp: dget_default_def dget_def split: option.splits)
qed

lemma claim_fields:
  assumes "claim_transition claimed_at work_id actor expected session_id lane rs = Inr t"
  shows "set (map fst t) \<subseteq> set transition_fields"
  using assms by (auto simp: claim_transition_def Let_def rbind_eq_Inr transition_fields_def)

text \<open>
  C6. A claim that conflicts is refused and leaves the store as it was. When the task is not in the lane asked for, is neither available nor blocked, is a shared-core task while another shared-core task is active, when the worker already holds another active task, or when the digest the worker expects is not that of the task's current revision, claim_work ends in one of its refusals and the store is unchanged.
\<close>

theorem claim_conflict_refused:
  assumes "records s = Inr rs" and "project_work_history rs work_id = Inr v"
    and "list_work rs [] [] active_states = Inr active"
    and "(\<exists>l. lane = Some l \<and> v_lane v \<noteq> JStr l) \<or> v_coordination v \<notin> {''AVAILABLE'', ''BLOCKED''} \<or>
      (v_lane v = JStr ''SHARED_CORE'' \<and> (\<exists>i \<in> set active. v_lane i = JStr ''SHARED_CORE'')) \<or>
      (\<exists>a. claim_actor actor = Inr a \<and> (\<exists>i \<in> set active. owned_by_actor work_id a i)) \<or>
      expected \<noteq> v_digest v"
  shows "\<exists>c t. claim_work claimed_at m work_id actor expected session_id lane s =
      (s, Inl (WorkProtocolError c t)) \<and> c \<in> set claim_refusals"
proof (cases "claim_transition claimed_at work_id actor expected session_id lane rs")
  case (Inl e)
  with claim_transition_decided [OF assms(2,3), of claimed_at actor expected session_id lane]
  show ?thesis by (auto simp: claim_work_def assms(1) sbind_def sread_def decided_def refused_def)
next
  case (Inr t)
  note ok = claim_transition_Inr [OF Inr assms(2,3)]
  have "expected \<noteq> v_digest v" using assms(4) ok(1-4) by (auto split: option.splits)
  with ok(5) have "refused (revised_work_record (m_now m) (v_current v) t)"
    using stale_revision_refused [OF assms(2) _ claim_fields [OF Inr] project_metadata [OF assms(2)]] by simp
  with Inr assms(2) show ?thesis
    by (auto simp: claim_work_def transition_work_def work_status_def assms(1) sbind_def sread_def refused_def)
qed


section \<open>Instances\<close>

definition plain_row :: "dict \<Rightarrow> dict" where
  "plain_row p = [(''entryType'', JStr ''record''), (''payload'', JObj p)]"

definition ledger_store :: "dict list \<Rightarrow> store" where
  "ledger_store ps = empty_store\<lparr>s_ledger := encoded_rows (map plain_row ps)\<rparr>"

definition small_row :: "dict \<Rightarrow> bool" where
  "small_row p = (json_wf (JObj (plain_row p)) \<and> norm (plain_row p) = plain_row p \<and>
     canonicalize [] (JObj (plain_row p)) = JObj (plain_row p) \<and> text_bound (JObj (plain_row p)) \<le> 100000)"

lemma small_row_length:
  assumes "small_row p" shows "length (encoded_row (plain_row p)) \<le> 200001"
  using length_encode [of "JObj (plain_row p)"] assms
  by (simp add: small_row_def encoded_row_def canonical_json_def del: text_bound.simps canonicalize.simps)

lemma records_ledger_store:
  assumes "list_all small_row ps" and "length ps \<le> 8"
  shows "records (ledger_store ps) = Inr ps"
proof -
  have "row_ok (plain_row p)" if "p \<in> set ps" for p
    using assms(1) that small_row_length [of p]
    by (auto simp: list_all_iff row_ok_def small_row_def MAX_LEDGER_LINE_BYTES_def)
  then have ok: "list_all row_ok (map plain_row ps)" by (auto simp: list_all_iff)
  have "length (encoded_rows (map plain_row ps)) \<le> 200001 * length ps"
    using assms(1) small_row_length by (induction ps) (fastforce simp: encoded_rows_def)+
  then have "length (encoded_rows (map plain_row ps)) \<le> MAX_LEDGER_BYTES"
    using assms(2) by (simp add: MAX_LEDGER_BYTES_def)
  moreover have "length (map plain_row ps) \<le> MAX_LEDGER_ROWS" using assms(2) by (simp add: MAX_LEDGER_ROWS_def)
  ultimately have "rows (ledger_store ps) = Inr (map plain_row ps)"
    using ledger_rows_encoded [OF ok]
    by (simp add: rows_def ledger_store_def empty_store_def require_initialized_def guard_def)
  moreover have "payloads (map plain_row ps) ''record'' = ps"
    by (induction ps) (simp_all add: payloads_def plain_row_def)
  ultimately show ?thesis by (simp add: records_def)
qed

definition core_item :: "string \<Rightarrow> string \<Rightarrow> int \<Rightarrow> json \<Rightarrow> json \<Rightarrow> string \<Rightarrow> string \<Rightarrow> string \<Rightarrow> dict" where
  "core_item work_id digest revision previous claim coordination previous_state state =
     [(''contentDigest'', JStr digest),
      (''details'', JObj
         [(''blockers'', JArr [JStr ''b'']), (''claim'', claim), (''coordinationState'', JStr coordination),
          (''lane'', JStr ''SHARED_CORE''),
          (''state'', JStr state), (''stateEvent'', JObj [(''from'', JStr previous_state)]),
          (''workId'', JStr work_id), (''workProtocol'', JStr WORK_PROTOCOL)]),
      (''kind'', JStr ''WorkRequest''),
      (''metadata'', JObj [(''previousDigest'', previous), (''revision'', JInt revision)])]"

definition claim_of :: "string \<Rightarrow> json" where
  "claim_of who = JObj [(''actor'', JObj [(''id'', JStr who), (''type'', JStr ''agent'')])]"

definition core_records :: "dict list" where
  "core_records =
     [core_item ''work:a'' ''a1'' 1 JNull JNull ''AVAILABLE'' [] ''submitted'',
      core_item ''work:a'' ''a2'' 2 (JStr ''a1'') (claim_of ''w1'') ''CLAIMED'' ''submitted'' ''assigned'',
      core_item ''work:b'' ''b1'' 1 JNull JNull ''AVAILABLE'' [] ''submitted'']"

lemma core_small: "list_all small_row core_records"
  by (simp add: core_records_def core_item_def claim_of_def small_row_def plain_row_def norm_def WORK_PROTOCOL_def dict_wf_def int_str_def nat_str.simps)


lemmas history_eval =
  project_work_history_def is_work_of_def details_of_def by_revision_def record_revision_def
  history_step_def guard_def coordination_state_def in_set_def WORK_COORDINATION_STATES_def own_digest_def
  allowed_work_transitions_def table_next_def work_transitions_def Let_def

lemma core_b: "\<exists>v. project_work_history core_records ''work:b'' = Inr v \<and> v_lane v = JStr ''SHARED_CORE''"
  by (simp add: history_eval core_records_def core_item_def)

lemma core_a: "\<exists>v. project_work_history core_records ''work:a'' = Inr v \<and> v_lane v = JStr ''SHARED_CORE'' \<and>
    v_coordination v = ''CLAIMED'' \<and> v_digest v = ''a2''"
  by (simp add: history_eval core_records_def core_item_def claim_of_def)

lemma core_ids: "work_ids core_records = [''work:a'', ''work:b'']"
  by (simp add: work_ids_def core_records_def core_item_def details_of_def sorted_set_def)

lemma core_active: "\<exists>vs. list_work core_records [] [] active_states = Inr vs \<and> (\<exists>i \<in> set vs. v_lane i = JStr ''SHARED_CORE'')"
proof -
  obtain a b where a: "project_work_history core_records ''work:a'' = Inr a" "v_lane a = JStr ''SHARED_CORE''"
      "v_coordination a = ''CLAIMED''"
    and b: "project_work_history core_records ''work:b'' = Inr b"
    using core_a core_b by blast
  show ?thesis
    using project_current(4) [OF a(1)] project_current(4) [OF b] a
    by (simp add: list_work_def core_ids a(1) b active_states_def)
qed

theorem claim_conflict_refused_witness:
  "\<exists>c t. claim_work ''now'' \<lparr>m_now = ''now'', m_uuid = ''u'', m_name = ''txn''\<rparr> ''work:b''
       (JObj [(''type'', JStr ''agent''), (''id'', JStr ''w2'')]) ''b1'' None (Some ''SHARED_CORE'') (ledger_store core_records) =
     (ledger_store core_records, Inl (WorkProtocolError c t)) \<and> c \<in> set claim_refusals"
proof -
  obtain v where v: "project_work_history core_records ''work:b'' = Inr v" "v_lane v = JStr ''SHARED_CORE''"
    using core_b by blast
  obtain vs where vs: "list_work core_records [] [] active_states = Inr vs" "\<exists>i \<in> set vs. v_lane i = JStr ''SHARED_CORE''"
    using core_active by blast
  have "records (ledger_store core_records) = Inr core_records"
    by (rule records_ledger_store [OF core_small]) (simp add: core_records_def)
  from claim_conflict_refused [OF this v(1) vs(1)] v(2) vs(2) show ?thesis by blast
qed


definition blocked_records :: "dict list" where
  "blocked_records =
     take 2 core_records @
     [core_item ''work:a'' ''a3'' 3 (JStr ''a2'') (claim_of ''w1'') ''BLOCKED'' ''assigned'' ''blocked''] @
     drop 2 core_records"

definition resume_transition :: dict where
  "resume_transition =
     [(''state'', JStr ''running''), (''coordinationState'', JStr ''IN_PROGRESS''),
      (''expectedPreviousDigest'', JStr ''a3''),
      (''actor'', JObj [(''type'', JStr ''agent''), (''id'', JStr ''w1'')])]"

lemma blocked_views:
  "\<exists>v. project_work_history blocked_records ''work:b'' = Inr v \<and> v_lane v = JStr ''SHARED_CORE'' \<and>
     v_coordination v = ''AVAILABLE''"
  "\<exists>v. project_work_history blocked_records ''work:a'' = Inr v \<and> v_lane v = JStr ''SHARED_CORE'' \<and>
     v_coordination v = ''BLOCKED''"
  by (simp_all add: history_eval blocked_records_def core_records_def core_item_def claim_of_def)

lemma blocked_ids: "work_ids blocked_records = [''work:a'', ''work:b'']"
  by (simp add: work_ids_def blocked_records_def core_records_def core_item_def details_of_def sorted_set_def)

lemma blocked_active: "list_work blocked_records [] [] active_states = Inr []"
proof -
  obtain a b where a: "project_work_history blocked_records ''work:a'' = Inr a" "v_coordination a = ''BLOCKED''"
    and b: "project_work_history blocked_records ''work:b'' = Inr b" "v_coordination b = ''AVAILABLE''"
    using blocked_views by blast
  show ?thesis
    using project_current(4) [OF a(1)] project_current(4) [OF b(1)] a b
    by (simp add: list_work_def blocked_ids active_states_def)
qed

abbreviation worker :: "string \<Rightarrow> json" where
  "worker who \<equiv> JObj [(''type'', JStr ''agent''), (''id'', JStr who)]"

definition second_claim :: dict where
  "second_claim =
     [(''state'', JStr ''assigned''), (''coordinationState'', JStr ''CLAIMED''),
      (''claim'', JObj [(''actor'', worker ''w2''), (''claimedAt'', JStr ''now'')]),
      (''actor'', worker ''w2''), (''expectedPreviousDigest'', JStr ''b1''),
      (''reason'', JStr ''worker claimed a lane-scoped Commons opportunity'')]"

lemma blocked_claim:
  "claim_transition ''now'' ''work:b'' (worker ''w2'') ''b1'' None (Some ''SHARED_CORE'') blocked_records = Inr second_claim"
proof -
  obtain b where b: "project_work_history blocked_records ''work:b'' = Inr b" "v_lane b = JStr ''SHARED_CORE''"
      "v_coordination b = ''AVAILABLE''"
    using blocked_views by blast
  with project_current [OF b(1)] show ?thesis
    by (simp add: claim_transition_def blocked_active guard_def claim_actor_def py_strip_def is_space_def of_char_def
        Let_def second_claim_def)
qed

definition claimed_b :: dict where
  "claimed_b =
     [(''details'', JObj
         [(''blockers'', JArr [JStr ''b'']), (''claim'', JObj [(''actor'', worker ''w2''), (''claimedAt'', JStr ''now'')]),
          (''coordinationState'', JStr ''CLAIMED''), (''lane'', JStr ''SHARED_CORE''), (''state'', JStr ''assigned''),
          (''stateEvent'', JObj [(''from'', JStr ''submitted''), (''to'', JStr ''assigned''), (''actor'', worker ''w2''),
             (''reason'', JStr ''worker claimed a lane-scoped Commons opportunity'')]),
          (''workId'', JStr ''work:b''), (''workProtocol'', JStr WORK_PROTOCOL),
          (''requestState'', JStr (request_state ''assigned'')), (''routing'', JObj [])]),
      (''kind'', JStr ''WorkRequest''),
      (''metadata'', JObj [(''previousDigest'', JStr ''b1''), (''revision'', JInt 2), (''createdAt'', JStr ''now''),
         (''author'', worker ''w2'')])]"

definition resumed_a :: dict where
  "resumed_a =
     [(''details'', JObj
         [(''blockers'', JArr [JStr ''b'']), (''claim'', claim_of ''w1''), (''coordinationState'', JStr ''IN_PROGRESS''),
          (''lane'', JStr ''SHARED_CORE''), (''state'', JStr ''running''),
          (''stateEvent'', JObj [(''from'', JStr ''blocked''), (''to'', JStr ''running''), (''actor'', worker ''w1'')]),
          (''workId'', JStr ''work:a''), (''workProtocol'', JStr WORK_PROTOCOL),
          (''requestState'', JStr (request_state ''running'')), (''routing'', JObj [])]),
      (''kind'', JStr ''WorkRequest''),
      (''metadata'', JObj [(''previousDigest'', JStr ''a3''), (''revision'', JInt 4), (''createdAt'', JStr ''now''),
         (''author'', worker ''w1'')])]"

lemmas blocked_eval =
  blocked_records_def core_records_def core_item_def claim_of_def resumed_a_def claimed_b_def

lemma claim_reason:
  "work_text (JStr ''worker claimed a lane-scoped Commons opportunity'') ''reason'' max_text =
     Inr ''worker claimed a lane-scoped Commons opportunity''"
  by (simp add: work_text_def max_text_def py_strip_def is_space_def of_char_def)

lemma rbind_weak_cong: "m = m' \<Longrightarrow> rbind m f = rbind m' f"
  by simp

lemma claimed_b_revised: "revised_work_record ''now'' (blocked_records ! 3) second_claim = Inr claimed_b"
  supply claim_reason [simp]
  by (simp add: blocked_eval revision_eval second_claim_def WORK_COORDINATION_STATES_def
      allowed_coordination_transitions_def coordination_transitions_def cong: rbind_weak_cong)

lemma resumed_a_revised: "revised_work_record ''now'' (blocked_records ! 2) resume_transition = Inr resumed_a"
  by (simp add: blocked_eval revision_eval resume_transition_def WORK_COORDINATION_STATES_def
      allowed_coordination_transitions_def coordination_transitions_def cong: rbind_weak_cong)

definition later_records :: "dict list" where
  "later_records = blocked_records @ [(''contentDigest'', JStr ''b2'') # claimed_b, (''contentDigest'', JStr ''a4'') # resumed_a]"

lemma later_views:
  "\<exists>v. project_work_history later_records ''work:b'' = Inr v \<and> v_lane v = JStr ''SHARED_CORE'' \<and>
     v_coordination v = ''CLAIMED''"
  "\<exists>v. project_work_history later_records ''work:a'' = Inr v \<and> v_lane v = JStr ''SHARED_CORE'' \<and>
     v_coordination v = ''IN_PROGRESS''"
  by (simp_all add: history_eval later_records_def blocked_eval)

lemma later_ids: "work_ids later_records = [''work:a'', ''work:b'']"
  by (simp add: work_ids_def later_records_def blocked_eval details_of_def sorted_set_def)


section \<open>What classification decides\<close>

lemma delete_twice: "AList.delete k (AList.delete k' d) = AList.delete k' (AList.delete k d)"
  by (simp add: AList.delete_eq) (metis (no_types, lifting) filter_filter conj_commute)

lemma pop_fields_filter: "pop_fields ks d = filter (\<lambda>kv. fst kv \<notin> set ks) d"
  by (induction ks arbitrary: d) (auto simp: pop_fields_def AList.delete_eq intro!: filter_cong)

lemma pop_fields_dset: "k \<in> set ks \<Longrightarrow> pop_fields ks (dset k v d) = pop_fields ks d"
  unfolding pop_fields_filter by (induction d) auto


lemma find_duplicate_none:
  assumes "find_duplicate c surface items = Inr (None, [])" and "i \<in> set items"
  shows "compare_item c surface i = Inr Different"
  using assms
proof (induction items)
  case (Cons x items)
  then obtain k where k: "compare_item c surface x = Inr k" by (auto simp: rbind_eq_Inr)
  with Cons show ?case by (cases k) (auto simp: rbind_eq_Inr)
qed simp

lemma resolve_repository_Inr:
  assumes "resolve_repository c0 = Inr (c, [])"
  shows "\<exists>r i xs. dget c0 ''repository'' = JStr r \<and> canonical_project_identity r = Inr (Some i) \<and>
    c = dset ''canonicalAffectedRepositories'' xs (dset ''canonicalRepository'' (JStr (repository_of i)) c0)"
  using assms
  by (cases "dget c0 ''repository''")
     (auto simp: resolve_repository_def Let_def named_text_def project_identity_of_def rbind_eq_Inr
       split: if_splits option.splits)

lemma proposal_reasons_Nil:
  assumes "proposal_reasons c0 resolved known = Inr (c, [])"
  shows "\<exists>l \<in> set LANES. dget c ''lane'' = JStr l"
    "\<exists>r i. dget c ''repository'' = JStr r \<and> canonical_project_identity r = Inr (Some i) \<and>
       dget c ''canonicalRepository'' = JStr (repository_of i)"
    "resolved" "truthy (dget c ''evidenceLinks'')"
    "\<not> unknown_dependency known (dget_default c ''dependencies'' (JArr []))"
    "dget c ''lane'' = JStr ''SHARED_CORE'' \<Longrightarrow> truthy (dget c ''capability'')" "hygiene_reasons c = []"
proof -
  have l: "in_set (dget c0 ''lane'') LANES = Inr True" and r: "resolve_repository c0 = Inr (c, [])"
    and "resolved" "truthy (dget c ''evidenceLinks'')"
    "\<not> unknown_dependency known (dget_default c ''dependencies'' (JArr []))"
    "dget c ''lane'' = JStr ''SHARED_CORE'' \<longrightarrow> truthy (dget c ''capability'')" "hygiene_reasons c = []"
    using assms by (auto simp: proposal_reasons_def rbind_eq_Inr split: if_splits)
  then show "resolved" "truthy (dget c ''evidenceLinks'')"
    "\<not> unknown_dependency known (dget_default c ''dependencies'' (JArr []))"
    "dget c ''lane'' = JStr ''SHARED_CORE'' \<Longrightarrow> truthy (dget c ''capability'')" "hygiene_reasons c = []" by auto
  obtain rp i xs where c: "dget c0 ''repository'' = JStr rp" "canonical_project_identity rp = Inr (Some i)"
    "c = dset ''canonicalAffectedRepositories'' xs (dset ''canonicalRepository'' (JStr (repository_of i)) c0)"
    using resolve_repository_Inr [OF r] by blast
  show "\<exists>l \<in> set LANES. dget c ''lane'' = JStr l"
    using l by (cases "dget c0 ''lane''") (auto simp: c(3) in_set_def split: if_splits)
  show "\<exists>r i. dget c ''repository'' = JStr r \<and> canonical_project_identity r = Inr (Some i) \<and>
       dget c ''canonicalRepository'' = JStr (repository_of i)"
    using c by simp
qed

lemma classify_Accept:
  assumes "classify_proposal p rs = Inr (Accept c)"
  obtains work c1 surface where "list_work rs [] [] [] = Inr work"
    "proposal_reasons (fst (proposal_candidate p)) (snd (proposal_candidate p)) (map v_workId work) = Inr (c1, [])"
    "repo_set c1 = Inr surface"
    "find_duplicate c1 surface (filter (\<lambda>item. v_coordination item \<in> set open_states) work) = Inr (None, [])"
    "c = dset ''coordinationState'' (JStr ''AVAILABLE'') (dset ''proposalStatus'' (JStr ''ACCEPTED'') c1)"
  using assms
  by (auto simp: classify_proposal_def Let_def rbind_eq_Inr split: prod.splits if_splits option.splits)


abbreviation sample_moment :: moment where
  "sample_moment \<equiv> \<lparr>m_now = ''now'', m_uuid = ''u'', m_name = ''txn''\<rparr>"


definition sample_proposal :: dict where
  "sample_proposal =
     [(''lane'', JStr ''REPO_LOCAL''), (''repository'', JStr ''EPI13/Forge''), (''source'', JStr ''w''),
      (''evidenceLinks'', JArr [JStr ''e''])]"

definition sample_candidate :: dict where
  "sample_candidate =
     [(''lane'', JStr ''REPO_LOCAL''), (''repository'', JStr ''EPI13/Forge''),
      (''evidenceLinks'', JArr [JStr ''e'']), (''proposalSource'', JStr ''w'')]"

lemma sample_proposal_candidate: "proposal_candidate sample_proposal = (sample_candidate, True)"
  by (simp add: proposal_candidate_def sample_proposal_def sample_candidate_def pop_fields_filter classified_fields_def
      named_text_def py_strip_def is_space_def of_char_def Let_def)

definition sample_resolved :: dict where
  "sample_resolved =
     sample_candidate @ [(''canonicalRepository'', JStr ''epi13/mncs-forge''),
       (''canonicalAffectedRepositories'', JArr [JStr ''epi13/mncs-forge''])]"

lemma forge_named: "named_text (JStr ''EPI13/Forge'')" "named_text (JStr ''epi13/mncs-forge'')"
  by (simp_all add: named_text_def py_strip_def is_space_def of_char_def)

lemma sample_resolution: "resolve_repository sample_candidate = Inr (sample_resolved, [])"
  by (simp add: resolve_repository_def sample_candidate_def sample_resolved_def forge_named project_identity_of_def
      spelling_resolves_witness canonical_affected_def Let_def)

lemma sample_reasons: "proposal_reasons sample_candidate True [] = Inr (sample_resolved, [])"
  unfolding proposal_reasons_def sample_resolution
  by (simp add: sample_candidate_def sample_resolved_def in_set_def LANES_def work_lanes_def
      unknown_dependency_def hygiene_reasons_def)

lemma sample_surface: "\<exists>surface. repo_set sample_resolved = Inr surface"
  by (simp add: repo_set_def sample_resolved_def sample_candidate_def forge_named Let_def)

lemma sample_proposal_accepted: "\<exists>c. classify_proposal sample_proposal [] = Inr (Accept c)"
  using sample_surface
  by (auto simp: classify_proposal_def sample_proposal_candidate list_work_def work_ids_def sorted_set_def sample_reasons)


section \<open>Health\<close>

lemma later_of_ge:
  "later_of latest failed = None \<Longrightarrow> latest = None \<and> failed = None"
  "later_of latest failed = Some t \<Longrightarrow> latest = Some l \<Longrightarrow> instant l \<le> instant t"
  "later_of latest failed = Some t \<Longrightarrow> failed = Some f \<Longrightarrow> instant f \<le> instant t"
  by (auto simp: later_of_def split: option.splits if_splits)

lemma latest_fold:
  assumes "rfoldM (\<lambda>latest rec. rbind (fail_instant finding repos rec) (\<lambda>failed. Inr (later_of latest failed))) l0 rs = Inr l"
  shows "(\<forall>t0. l0 = Some t0 \<longrightarrow> (\<exists>t. l = Some t \<and> instant t0 \<le> instant t)) \<and>
    (\<forall>rec \<in> set rs. \<forall>f. fail_instant finding repos rec = Inr (Some f) \<longrightarrow> (\<exists>t. l = Some t \<and> instant f \<le> instant t))"
  using assms
proof (induction rs arbitrary: l0)
  case (Cons rec rs)
  obtain failed where f: "fail_instant finding repos rec = Inr failed"
    and run: "rfoldM (\<lambda>latest rec. rbind (fail_instant finding repos rec) (\<lambda>failed. Inr (later_of latest failed)))
       (later_of l0 failed) rs = Inr l"
    using Cons.prems by (auto simp: rbind_eq_Inr)
  note ih = Cons.IH [OF run]
  have reach: "\<exists>t. l = Some t \<and> instant x \<le> instant t" if x: "l0 = Some x \<or> failed = Some x" for x
  proof -
    obtain y where y: "later_of l0 failed = Some y" using x later_of_ge(1) [of l0 failed] by fastforce
    then have "instant x \<le> instant y" using x later_of_ge(2,3) [OF y] by blast
    moreover obtain t where "l = Some t" "instant y \<le> instant t" using ih y by blast
    ultimately show ?thesis by auto
  qed
  show ?case using ih reach f by auto
qed simp

lemma closes_True:
  assumes "closes repository finding passed item rs = Inr True"
  obtains repos latest t where "dget (details_of (v_current item)) ''lane'' = JStr ''REPO_HYGIENE''"
    "dget (details_of (v_current item)) ''findingIdentity'' = JStr finding"
    "repo_set (details_of (v_current item)) = Inr repos" "repository \<in> set repos"
    "latest_fail (JStr finding) repos rs = Inr latest"
    "failed_at latest (details_of (v_current item)) = Inr (Some t)" "instant t < instant passed"
proof -
  let ?d = "details_of (v_current item)"
  have g: "\<not> (dget ?d ''lane'' \<noteq> JStr ''REPO_HYGIENE'' \<or> dget ?d ''findingIdentity'' \<noteq> JStr finding)"
    using assms by (auto simp: closes_def Let_def split: if_split_asm)
  then obtain repos where r: "repo_set ?d = Inr repos"
    "(if repository \<notin> set repos then Inr False
      else rbind (latest_fail (JStr finding) repos rs) (\<lambda>latest. rbind (failed_at latest ?d) (\<lambda>failed.
            Inr (case failed of None \<Rightarrow> False | Some t \<Rightarrow> instant t < instant passed)))) = Inr True"
    using assms by (auto simp: closes_def Let_def rbind_eq_Inr simp del: if_split)
  then have m: "repository \<in> set repos" by (cases "repository \<in> set repos") auto
  with r(2) obtain latest failed where l: "latest_fail (JStr finding) repos rs = Inr latest"
    "failed_at latest ?d = Inr failed" "case failed of None \<Rightarrow> False | Some t \<Rightarrow> instant t < instant passed"
    by (auto simp: rbind_eq_Inr)
  then obtain t where "failed = Some t" "instant t < instant passed" by (cases failed) auto
  with that g r(1) m l show thesis by blast
qed

text \<open>
  C35. A passing health observation closes only what it is newer than: an item it closes is a hygiene item of the same finding whose repositories include the observed one, and every failure of that finding recorded for one of the item's repositories is strictly older than the pass.
\<close>

theorem pass_closes_only_older:
  assumes "closes repository finding passed item rs = Inr True"
  shows "dget (details_of (v_current item)) ''lane'' = JStr ''REPO_HYGIENE'' \<and>
    dget (details_of (v_current item)) ''findingIdentity'' = JStr finding \<and>
    (\<exists>repos. repo_set (details_of (v_current item)) = Inr repos \<and> repository \<in> set repos \<and>
       (\<forall>rec \<in> set rs. \<forall>t. fail_instant (JStr finding) repos rec = Inr (Some t) \<longrightarrow> instant t < instant passed))"
proof -
  obtain repos latest t where r: "dget (details_of (v_current item)) ''lane'' = JStr ''REPO_HYGIENE''"
      "dget (details_of (v_current item)) ''findingIdentity'' = JStr finding"
      "repo_set (details_of (v_current item)) = Inr repos" "repository \<in> set repos"
    and l: "latest_fail (JStr finding) repos rs = Inr latest"
    and f: "failed_at latest (details_of (v_current item)) = Inr (Some t)" "instant t < instant passed"
    by (rule closes_True [OF assms])
  have "instant u < instant passed" if u: "rec \<in> set rs" "fail_instant (JStr finding) repos rec = Inr (Some u)" for rec u
  proof -
    obtain y where "latest = Some y" "instant u \<le> instant y"
      using latest_fold [OF l [unfolded latest_fail_def]] u by blast
    with f show ?thesis by (simp add: failed_at_def)
  qed
  with r show ?thesis by blast
qed

definition hygiene_view :: work_view where
  "hygiene_view = \<lparr>v_workId = ''work:1'', v_state = ''submitted'', v_coordination = ''AVAILABLE'', v_lane = JStr ''REPO_HYGIENE'',
     v_digest = ''d'', v_current = [(''details'', JObj [(''lane'', JStr ''REPO_HYGIENE''), (''findingIdentity'', JStr ''f''),
        (''canonicalRepository'', JStr ''epi13/mncs-forge'')])], v_history = []\<rparr>"

definition failed_observation :: dict where
  "failed_observation =
     [(''kind'', JStr ''Observation''),
      (''details'', JObj [(''observationType'', JStr ''family-health''), (''outcome'', JStr ''FAIL''),
         (''findingIdentity'', JStr ''f''), (''canonicalHealthRepository'', JStr ''epi13/mncs-forge''),
         (''observedAt'', JStr ''2026-01-02T03:04:05Z'')])]"

lemma sample_parse: "parse_health_instant ''2026-01-02T03:04:05Z'' = Inr sample_time"
  using parse_normal_form [OF sample_time_valid] by (simp add: sample_time_text) (simp add: sample_time_def)

lemma forge_strip: "py_strip ''epi13/mncs-forge'' = ''epi13/mncs-forge''"
  by (simp add: py_strip_def is_space_def of_char_def)

lemma sample_surface_view: "repo_set (details_of (v_current hygiene_view)) = Inr [''epi13/mncs-forge'']"
  by (simp add: repo_set_def details_of_def hygiene_view_def forge_named forge_strip Let_def named_text_def)

lemma sample_fail: "fail_instant (JStr ''f'') [''epi13/mncs-forge''] failed_observation = Inr (Some sample_time)"
  by (simp add: fail_instant_def failed_observation_def forge_named forge_strip overlaps_def sample_parse Let_def)

lemma sample_later: "instant sample_time < instant (sample_time\<lparr>dt_second := 6\<rparr>)"
  by (simp add: instant_def sample_time_def)

lemma sample_closes:
  "closes ''epi13/mncs-forge'' ''f'' (sample_time\<lparr>dt_second := 6\<rparr>) hygiene_view [failed_observation] = Inr True"
  using sample_later
  by (simp add: closes_def Let_def sample_surface_view latest_fail_def sample_fail later_of_def failed_at_def)
     (simp add: hygiene_view_def details_of_def)

theorem pass_closes_only_older_witness:
  "closes ''epi13/mncs-forge'' ''f'' (sample_time\<lparr>dt_second := 6\<rparr>) hygiene_view [failed_observation] = Inr True \<and>
   (\<exists>repos. repo_set (details_of (v_current hygiene_view)) = Inr repos \<and> ''epi13/mncs-forge'' \<in> set repos)"
  using sample_closes pass_closes_only_older [OF sample_closes] by blast

end
