(* ===== verification/Spec2Isabelle.thy ===== *)
theory Spec2Isabelle
  imports Lifecycle Health Work_Lineage Semantic Validation Graph_Query Sync Verified Retention Mesh_Relay
    Verification_Plan Obligation_Plan Family_Graph Work_Service
begin

text \<open>
  MNCS-Commons keeps untrusted records of a family of projects: claims, observations, work
  requests and events, each a JSON document identified by the digest of its content, in a ledger
  of hash-linked rows. This is its verification library. The theories follow the modules of
  src/src/mncs_commons; a definition has the name of the function it models where that name is free.

  \<^bold>\<open>Parts and theories.\<close>

  \<^item> \<open>Commons_Prelude\<close> holds documents, dictionaries, exceptions as values and diagnostics
    (models.py, diagnostics.py); \<open>Text_Tools\<close>, \<open>Json_Text\<close>, \<open>Json_Reading\<close>, \<open>Sha256\<close> and \<open>Iso_Time\<close>
    hold what the modules use of Python: text methods, shell patterns, the JSON reader and printer,
    the digest, and timestamps.
  \<^item> \<open>Canonical\<close> (canonical.py) is the canonical form of a document and its content identity: reading
    the bytes back gives the form, the identity ignores key order and the stored digest, and equal
    identities mean equal content unless SHA-256 collides on the two encodings.
  \<^item> \<open>Validation\<close> (validation.py, protocol.py) is the structural check of records and events, with the
    exceptions it may raise; \<open>Semantic\<close> (semantic.py) is the check against the records already stored:
    next revision, stable producer identity, acyclic precedence, with the depth-first search proved
    equivalent to acyclicity of the relation.
  \<^item> \<open>Store\<close> (store.py) has the ledger, the content files, the cached tail and the open transactions as
    its state (record \<open>store\<close>), and every operation of \<open>CommonsStore\<close>; what the archives hold is a parameter of its lookup.
    \<open>Ledger\<close> says which rows the bytes represent; \<open>Recovery\<close> models recovery, verification and the
    replacement of a generation; \<open>Crash\<close> runs the writes of a commit one at a time and shows that an
    uninterrupted commit refines appending one linked row, and that recovery completes one that was
    interrupted after its journal; \<open>Verified\<close> shows what a clean verification means and that the last
    digest commits to the whole history; \<open>Sync\<close> shows that the pages of \<open>sync_since\<close> cover the ledger.
  \<^item> \<open>Query\<close> and \<open>Graph_Query\<close> (query.py) select records and walk their relationships within bounds;
    \<open>Retention\<close> (retention.py) classifies, protects, plans and compacts: what is protected is exactly
    what canonical records reach, nothing protected or pinned is dropped, and compaction is all or
    nothing.
  \<^item> \<open>Machines\<close> states the interface of the state tables and of the loops that replay a history over
    them, as the locales \<open>transition_machine\<close> and \<open>guarded_replay\<close>; \<open>Lifecycle\<close> (lifecycle.py) and
    \<open>Work_Protocol\<close> (work.py) interpret them on the program's tables, and \<open>Family_Record\<close> interprets
    its own locale \<open>entry_loop\<close> on the two loops of family.py that collect references.
  \<^item> \<open>Lifecycle\<close> projects a history of events into the disposition of a record within one trust domain
    or across all of them. \<open>Work_Protocol\<close>, \<open>Work_History\<close> and \<open>Work_Lineage\<close> (work.py) validate, submit,
    revise, project and offer work items; \<open>Lane_Policy\<close> (lane_policy.py) decides which paths a lane
    may write.
  \<^item> \<open>Family_Identity\<close> (family_registry.py, the first half) resolves spellings of projects;
    \<open>Family_Record\<close> (family.py) builds the records that refer to other producers; \<open>Health\<close> (health.py)
    takes in health observations.
  \<^item> \<open>Interest\<close> (mesh/interest.py) is the subscription of a mesh node and the matching law;
    \<open>Availability\<close> (mesh/availability.py) is the merge of what nodes know of copies of evidence;
    \<open>Exchange\<close> (exchange.py) is the check of a record at the boundary; \<open>Mesh_Node\<close> (mesh/node.py) is a
    node with its store, its evidence blobs and its mesh state: what it takes in is possession only,
    and the two lanes of a synchronisation select the same records; \<open>Mesh_Relay\<close> (mesh/relay.py,
    mesh/capsule.py) has the envelopes around records and the relay, with its calls as a step relation
    whose reachable states stay within their bounds.
  \<^item> \<open>Contract_Tools\<close> holds what the contract documents share, with the locale \<open>identity_reader\<close> of a
    reader that takes unique names, interpreted on both plan modules. \<open>Family_Graph\<close> (family_graph.py)
    reads declarations and manifests, joins them into the family graph and validates graphs: an accepted
    graph is sound, and a generated one has exactly the edges the declarations name.
    \<open>Verification_Plan\<close> (verification_plan.py) and \<open>Obligation_Plan\<close> (obligation_plan.py) validate
    plans: what an accepted plan may claim, and that one which is sufficient to stop carries the evidence.
  \<^item> \<open>Work_Service\<close> (application/services.py) composes the store with the work protocol: submission,
    transition, claim, proposal, publication and the health sweep. A conflicting claim is refused and
    leaves the store alone, only resolved proposals become available, a pass closes only older failures;
    a concrete history shows that the claim check does not keep the shared core to one writer.

  \<^bold>\<open>How the program is read.\<close> A Python exception is the left side of \<open>res\<close>, and every raise and early
  return is a branch. A dictionary is an association list, because Python keeps insertion order. A set
  whose order does not show is a list. A loop that follows references has a termination proof
  (the depth-first search, the bounded walk, the search for protected records); the JSON reader has
  fuel one more than the length of the text, which is enough because every step consumes a character
  (this is part of the round trip). Characters are code points below 256, and the text of a float is
  kept as it is written. An operation of the store that holds the lock is one step; a crash leaves a
  prefix of the writes of a commit, each write being atomic, as \<open>_atomic_write\<close> provides.

  \<^bold>\<open>Files and clocks.\<close> A checkout is a function from paths to what reading them gives, and the instant,
  the identifier and the directory name that a write draws from the system are arguments; no theorem
  assumes anything of them.

  \<^bold>\<open>Not modelled.\<close> The archive bundles (archive.py: a compression library; compaction takes what it
  reports as a parameter), the lookup of archived records, the rest of the family registry (coverage
  and source drift), the exchange descriptors and bundles, the rest of the mesh (budgets
  and views; transport and executor are network and process input and output, and the
  kernel that an executor runs is a parameter), epochs and evidence views, the scan of checkouts for
  undeclared imports, family changes and projections, pressures, the compatibility table and the
  adapters (they read files of sibling repositories), the command line, HTTP and MCP servers and the
  local socket service.
\<close>

end
